(* ===== verification/Prelude.thy ===== *)
theory Prelude
  imports Main "HOL-Library.Sublist"
begin

text \<open>
  Shared vocabulary of the development: the collections that drive its automation, and the
  generic facts on lists, association lists and truncating slices that every component uses.
\<close>

named_theorems handler_defs \<open>definitions of event handlers and continuations\<close>
named_theorems view_defs \<open>definitions of rendered views\<close>
named_theorems js_simps \<open>evaluation rules for the JavaScript library functions\<close>

subsection \<open>Search in lists\<close>

lemma find_Some_mem: "List.find P xs = Some x \<Longrightarrow> x \<in> set xs \<and> P x"
  by (induction xs) (auto split: if_splits)

lemma find_None_all: "List.find P xs = None \<longleftrightarrow> (\<forall>x\<in>set xs. \<not> P x)"
  by (induction xs) auto

lemma find_cong_key:
  "(\<And>x. x \<in> set xs \<Longrightarrow> P x = Q x) \<Longrightarrow> List.find P xs = List.find Q xs"
  by (induction xs) auto

subsection \<open>Association lists as insertion-ordered dictionaries\<close>

text \<open>
  A JavaScript object, \<open>Map\<close>, header list or query string is an association list: the keys
  keep their insertion order and \<open>al_set\<close> overwrites a key where it stands.
\<close>

fun al_get :: "'k \<Rightarrow> ('k \<times> 'v) list \<Rightarrow> 'v option" where
  "al_get k [] = None"
| "al_get k ((k', v) # m) = (if k' = k then Some v else al_get k m)"

fun al_delete :: "'k \<Rightarrow> ('k \<times> 'v) list \<Rightarrow> ('k \<times> 'v) list" where
  "al_delete k [] = []"
| "al_delete k ((k', v) # m) = (if k' = k then al_delete k m else (k', v) # al_delete k m)"

fun al_set :: "'k \<Rightarrow> 'v \<Rightarrow> ('k \<times> 'v) list \<Rightarrow> ('k \<times> 'v) list" where
  "al_set k v [] = [(k, v)]"
| "al_set k v ((k', v') # m) =
     (if k' = k then (k, v) # al_delete k m else (k', v') # al_set k v m)"

lemma al_get_map_of: "al_get k m = map_of m k"
  by (induction m rule: al_get.induct) auto

lemma al_get_delete [simp]: "al_get k (al_delete k' m) = (if k = k' then None else al_get k m)"
  by (induction k' m rule: al_delete.induct) auto

lemma al_get_set [simp]: "al_get k (al_set k' v m) = (if k = k' then Some v else al_get k m)"
  by (induction k' v m rule: al_set.induct) auto

lemma al_keys_delete [simp]: "fst ` set (al_delete k m) = fst ` set m - {k}"
  by (induction k m rule: al_delete.induct) auto

lemma al_keys_set [simp]: "fst ` set (al_set k v m) = insert k (fst ` set m)"
  by (induction k v m rule: al_set.induct) auto

lemma al_get_None_keys: "al_get k m = None \<longleftrightarrow> k \<notin> fst ` set m"
  by (induction k m rule: al_get.induct) auto

lemma al_delete_idem: "al_get k m = None \<Longrightarrow> al_delete k m = m"
  by (induction k m rule: al_delete.induct) (auto split: if_splits)

lemma al_delete_set [simp]: "al_delete k (al_set k v m) = al_delete k m"
  by (induction k v m rule: al_set.induct) (auto simp: al_delete_idem)

subsection \<open>Slices\<close>

text \<open>\<open>Array.prototype.slice(i, j)\<close> for the non-negative bounds the code passes.\<close>

definition slice :: "nat \<Rightarrow> nat \<Rightarrow> 'a list \<Rightarrow> 'a list" where
  "slice i j xs = drop i (take j xs)"

lemma set_slice: "set (slice i j xs) \<subseteq> set xs"
  by (metis slice_def set_drop_subset set_take_subset subset_trans)

lemma length_slice [simp]: "length (slice i j xs) = min j (length xs) - i"
  by (simp add: slice_def)

lemma slice_append_slice:
  assumes "i \<le> j" "j \<le> k"
  shows "slice i j xs @ slice j k xs = slice i k xs"
proof -
  have t: "take k xs = take j xs @ drop j (take k xs)"
    using assms(2) append_take_drop_id [of j "take k xs"] by (simp add: min_def)
  have d: "drop (i - length (take j xs)) (drop j (take k xs)) = drop j (take k xs)"
    using assms(1) by (cases "j \<le> length xs") (simp_all add: min_def)
  show ?thesis
    unfolding slice_def by (subst (2) t) (simp only: drop_append d)
qed

lemma slice_0_all [simp]: "length xs \<le> n \<Longrightarrow> slice 0 n xs = xs"
  by (simp add: slice_def)

subsection \<open>Filtering and counting\<close>

lemma filter_remove1_count:
  "k \<in> set q \<Longrightarrow> P k \<Longrightarrow> length (filter P q) = Suc (length (filter P (remove1 k q)))"
  by (induction q) auto

lemma filter_remove1_other: "\<not> P k \<Longrightarrow> filter P (remove1 k q) = filter P q"
  by (induction q) auto

lemma filter_in_nonempty: "k \<in> set q \<Longrightarrow> P k \<Longrightarrow> filter P q \<noteq> []"
  by (induction q) auto

end
