(* ===== verification/Js_Strings.thy ===== *)
theory Js_Strings
  imports Complex_Main Prelude "HOL-Library.Char_ord"
begin

text \<open>
  The JavaScript string and number library, as far as the console uses it. A string is a
  \<open>char list\<close> whose characters are UTF-16 code units below 256; code points beyond Latin-1
  are not represented. \<open>trim\<close> strips the white space and line terminators of that range,
  \<open>toLowerCase\<close> maps its two upper-case blocks.
\<close>

definition code :: "char \<Rightarrow> nat" where
  "code c = of_char c"

definition is_js_space :: "char \<Rightarrow> bool" where
  "is_js_space c \<longleftrightarrow> code c \<in> {9, 10, 11, 12, 13, 32, 160}"

definition js_trim :: "string \<Rightarrow> string" where
  "js_trim s = rev (dropWhile is_js_space (rev (dropWhile is_js_space s)))"

definition lower_char :: "char \<Rightarrow> char" where
  "lower_char c = (if 65 \<le> code c \<and> code c \<le> 90 \<or> 192 \<le> code c \<and> code c \<le> 222 \<and> code c \<noteq> 215
     then char_of (code c + 32) else c)"

definition toLowerCase :: "string \<Rightarrow> string" where
  "toLowerCase s = map lower_char s"

fun js_includes :: "string \<Rightarrow> string \<Rightarrow> bool" where
  "js_includes s t = (prefix t s \<or> (case s of [] \<Rightarrow> False | _ # s' \<Rightarrow> js_includes s' t))"

declare js_includes.simps [simp del]

text \<open>\<open>split\<close> on a one-character class, \<open>join\<close> with a separator string.\<close>

fun split_on :: "(char \<Rightarrow> bool) \<Rightarrow> string \<Rightarrow> string list" where
  "split_on p [] = [[]]"
| "split_on p (c # s) =
     (if p c then [] # split_on p s
      else (case split_on p s of [] \<Rightarrow> [[c]] | w # ws \<Rightarrow> (c # w) # ws))"

fun js_join :: "string \<Rightarrow> string list \<Rightarrow> string" where
  "js_join sep [] = []"
| "js_join sep [w] = w"
| "js_join sep (w # v # ws) = w @ sep @ js_join sep (v # ws)"

text \<open>\<open>s.replace(pattern, with)\<close> with a string pattern: the first occurrence only.\<close>

fun replace_first :: "string \<Rightarrow> string \<Rightarrow> string \<Rightarrow> string" where
  "replace_first pat r s =
     (if prefix pat s then r @ drop (length pat) s
      else (case s of [] \<Rightarrow> [] | c # s' \<Rightarrow> c # replace_first pat r s'))"

declare replace_first.simps [simp del]

subsection \<open>Numbers as decimal text\<close>

fun nat_digits :: "nat \<Rightarrow> string" where
  "nat_digits n = (if n < 10 then [char_of (48 + n)] else nat_digits (n div 10) @ [char_of (48 + n mod 10)])"

declare nat_digits.simps [simp del]

definition int_string :: "int \<Rightarrow> string" where
  "int_string i = (if i < 0 then CHR ''-'' # nat_digits (nat (- i)) else nat_digits (nat i))"

definition is_digit :: "char \<Rightarrow> bool" where
  "is_digit c \<longleftrightarrow> 48 \<le> code c \<and> code c \<le> 57"

fun digits_value :: "nat \<Rightarrow> string \<Rightarrow> nat" where
  "digits_value acc [] = acc"
| "digits_value acc (c # s) = digits_value (10 * acc + (code c - 48)) s"

text \<open>
  \<open>Number(text)\<close>: white space is trimmed, the empty text is 0, otherwise a signed decimal
  literal with an optional fraction and exponent; \<open>None\<close> is \<open>NaN\<close>. The hexadecimal, octal,
  binary and \<open>Infinity\<close> spellings, which a number input cannot hold, are read as \<open>NaN\<close> too.
\<close>

definition unsigned_decimal :: "string \<Rightarrow> rat option" where
  "unsigned_decimal s =
     (let whole = takeWhile is_digit s; s1 = dropWhile is_digit s;
          dotted = (case s1 of c # _ \<Rightarrow> c = CHR ''.'' | [] \<Rightarrow> False);
          frac = (if dotted then takeWhile is_digit (tl s1) else []);
          s2 = (if dotted then dropWhile is_digit (tl s1) else s1);
          mantissa = of_nat (digits_value 0 (whole @ frac)) / 10 ^ length frac
      in if whole = [] \<and> frac = [] then None
         else (case s2 of
             [] \<Rightarrow> Some mantissa
           | e # x \<Rightarrow>
               (let neg = (case x of c # _ \<Rightarrow> c = CHR ''-'' | [] \<Rightarrow> False);
                    signed = (case x of c # _ \<Rightarrow> c = CHR ''-'' \<or> c = CHR ''+'' | [] \<Rightarrow> False);
                    ds = (if signed then tl x else x)
                in if (e = CHR ''e'' \<or> e = CHR ''E'') \<and> ds \<noteq> [] \<and> list_all is_digit ds
                   then Some (if neg then mantissa / 10 ^ digits_value 0 ds
                              else mantissa * 10 ^ digits_value 0 ds)
                   else None)))"

definition js_number :: "string \<Rightarrow> rat option" where
  "js_number text =
     (let s = js_trim text
      in case s of
           [] \<Rightarrow> Some 0
         | c # r \<Rightarrow>
             if c = CHR ''-'' then map_option uminus (unsigned_decimal r)
             else if c = CHR ''+'' then unsigned_decimal r
             else unsigned_decimal s)"

text \<open>\<open>Number(key)\<close> for the keys of list boxes that are strings of digits.\<close>

definition key_number :: "string \<Rightarrow> nat" where
  "key_number s = digits_value 0 s"

lemma digits_value_append: "digits_value acc (s @ t) = digits_value (digits_value acc s) t"
  by (induction s arbitrary: acc) auto

lemma key_number_digits [simp]: "key_number (nat_digits n) = n"
proof (induction n rule: nat_digits.induct)
  case (1 n)
  show ?case
  proof (cases "n < 10")
    case True
    then show ?thesis by (simp add: key_number_def nat_digits.simps [of n] code_def of_char_of)
  next
    case False
    then have "digits_value 0 (nat_digits (n div 10)) = n div 10"
      using 1 by (simp add: key_number_def)
    with False show ?thesis
      by (simp add: key_number_def nat_digits.simps [of n] digits_value_append code_def of_char_of)
  qed
qed

lemma nat_digits_inject [simp]: "nat_digits m = nat_digits n \<longleftrightarrow> m = n"
  by (metis key_number_digits)

subsection \<open>Facts about trimming and case\<close>

lemma js_trim_Nil [simp]: "js_trim [] = []"
  by (simp add: js_trim_def)

lemma js_trim_not_space_hd: "js_trim s = c # r \<Longrightarrow> \<not> is_js_space c"
proof -
  assume a: "js_trim s = c # r"
  let ?d = "dropWhile is_js_space s"
  have "prefix (js_trim s) ?d"
    unfolding js_trim_def by (metis rev_rev_ident suffix_dropWhile suffix_to_prefix)
  with a obtain r' where "?d = c # r'"
    by (auto simp: prefix_def)
  then show ?thesis by (metis dropWhile_eq_Cons_conv)
qed

lemma js_trim_last: "js_trim s \<noteq> [] \<Longrightarrow> \<not> is_js_space (last (js_trim s))"
  unfolding js_trim_def
  by (metis hd_dropWhile last_rev rev_is_Nil_conv)

lemma js_trim_fixed:
  "s = [] \<or> (\<not> is_js_space (hd s) \<and> \<not> is_js_space (last s)) \<Longrightarrow> js_trim s = s"
  unfolding js_trim_def
  by (metis dropWhile_eq_self_iff hd_rev rev_is_Nil_conv rev_rev_ident)

lemma js_trim_idem [simp]: "js_trim (js_trim s) = js_trim s"
proof (cases "js_trim s")
  case Nil
  then show ?thesis by simp
next
  case (Cons c r)
  then show ?thesis
    by (metis js_trim_fixed js_trim_last js_trim_not_space_hd list.sel(1) list.discI)
qed

lemma js_trim_set: "set (js_trim s) \<subseteq> set s"
  by (auto simp: js_trim_def dest!: set_dropWhileD)

lemma code_char_of [simp]: "n < 256 \<Longrightarrow> code (char_of n) = n"
  by (simp add: code_def of_char_of)

lemma code_less [simp]: "code c < 256"
  by (simp add: code_def)

lemma code_inject: "code c = code d \<longleftrightarrow> c = d"
  by (simp add: code_def of_char_eq_iff)

lemma lower_char_idem [simp]: "lower_char (lower_char c) = lower_char c"
  by (auto simp: lower_char_def)

lemma toLowerCase_idem [simp]: "toLowerCase (toLowerCase s) = toLowerCase s"
  by (simp add: toLowerCase_def)

lemma length_toLowerCase [simp]: "length (toLowerCase s) = length s"
  by (simp add: toLowerCase_def)

lemma toLowerCase_Nil [simp]: "toLowerCase s = [] \<longleftrightarrow> s = []"
  by (simp add: toLowerCase_def)

lemma is_js_space_lower [simp]: "is_js_space (lower_char c) = is_js_space c"
proof (cases "65 \<le> code c \<and> code c \<le> 90 \<or> 192 \<le> code c \<and> code c \<le> 222 \<and> code c \<noteq> 215")
  case True
  then have "code (lower_char c) = code c + 32"
    by (auto simp: lower_char_def)
  with True show ?thesis by (auto simp: is_js_space_def)
next
  case False
  then have "lower_char c = c" by (simp only: lower_char_def if_False)
  then show ?thesis by simp
qed

lemma dropWhile_lower: "dropWhile is_js_space (map lower_char s) = map lower_char (dropWhile is_js_space s)"
  by (induction s) auto

lemma js_trim_toLowerCase: "js_trim (toLowerCase s) = toLowerCase (js_trim s)"
  by (simp add: js_trim_def toLowerCase_def dropWhile_lower rev_map)

subsection \<open>Facts about splitting, joining and searching\<close>

lemma js_includes_sublist: "js_includes s t \<longleftrightarrow> sublist t s"
proof (induction s)
  case Nil
  then show ?case by (simp add: js_includes.simps)
next
  case (Cons c s)
  then show ?case by (simp add: js_includes.simps sublist_Cons_right)
qed

lemma js_includes_Nil [simp]: "js_includes s []"
  by (simp add: js_includes_sublist)

lemma split_on_not_Nil [simp]: "split_on p s \<noteq> []"
  by (induction s) (auto split: list.splits)

lemma split_on_no_sep: "\<forall>w\<in>set (split_on p s). \<forall>c\<in>set w. \<not> p c"
proof (induction s)
  case Nil
  then show ?case by simp
next
  case (Cons a s)
  then show ?case by (cases "split_on p s") auto
qed

lemma split_on_append:
  "\<forall>c\<in>set w. \<not> p c \<Longrightarrow> p sep \<Longrightarrow> split_on p (w @ sep # s) = w # split_on p s"
  by (induction w) auto

lemma split_on_single: "\<forall>c\<in>set w. \<not> p c \<Longrightarrow> split_on p w = [w]"
  by (induction w) auto

lemma split_on_join:
  "ws \<noteq> [] \<Longrightarrow> \<forall>w\<in>set ws. \<forall>c\<in>set w. \<not> p c \<Longrightarrow> p sep \<Longrightarrow> split_on p (js_join [sep] ws) = ws"
proof (induction "[sep]" ws rule: js_join.induct)
  case 1
  then show ?case by simp
next
  case (2 w)
  then show ?case by (simp add: split_on_single)
next
  case (3 w v ws)
  then show ?case by (simp add: split_on_append)
qed

lemma join_split_on: "js_join [sep] (split_on (\<lambda>c. c = sep) s) = s"
proof (induction s)
  case Nil
  then show ?case by simp
next
  case (Cons c s)
  show ?case
  proof (cases "split_on (\<lambda>c. c = sep) s")
    case Nil
    then show ?thesis by simp
  next
    case (Cons w ws)
    then show ?thesis using Cons.IH by (cases ws) auto
  qed
qed

lemma js_join_Cons: "ws \<noteq> [] \<Longrightarrow> js_join sep (w # ws) = w @ sep @ js_join sep ws"
  by (cases ws) auto

end
