(* ===== verification/Texts.thy ===== *)
theory Texts
  imports Js_Strings
begin

text \<open>
  Texts shown to the user: the translation function of
  \<^verbatim>\<open>components/providers/locale-provider.tsx\<close>, the locale cookie, the date texts of
  \<^verbatim>\<open>lib/presentation.ts\<close>, the error codes of \<^verbatim>\<open>lib/error-message.ts\<close> and the labels
  of \<^verbatim>\<open>components/ui/status-tag.tsx\<close>.

  A \<open>label\<close> keeps how the source produced a string: \<open>Raw\<close> is a string value or an ASCII
  literal, \<open>Tr key values\<close> a call \<open>t(key, values)\<close>, \<open>Zh gloss\<close> a hard-coded Chinese literal
  named by its English meaning, \<open>DateOf\<close> and \<open>DateTimeOf\<close> an \<open>Intl\<close> rendering of a time
  stamp, \<open>Cat\<close> a template literal, \<open>Fill\<close> a text in which another one replaces a place
  holder. The dictionary (it is \<open>message_text\<close> of \<open>Messages\<close>), the Chinese literals and the date formatter are
  the fields of a \<open>reading\<close>; the interpolation is modelled in full.
\<close>

datatype locale_id = ZhCN | En

datatype label =
    Raw string
  | Tr string "(string \<times> string) list"
  | Zh string
  | DateOf locale_id string
  | DateTimeOf locale_id string
  | Cat "label list"
  | Fill label string label

abbreviation no_text :: label where
  "no_text \<equiv> Raw []"

text \<open>The truth value of a string: a label is falsy when it is the empty string.\<close>

abbreviation shown :: "label \<Rightarrow> bool" where
  "shown x \<equiv> x \<noteq> no_text"

subsection \<open>Interpolation\<close>

definition is_word_char :: "char \<Rightarrow> bool" where
  "is_word_char c \<longleftrightarrow> 48 \<le> code c \<and> code c \<le> 57 \<or> 65 \<le> code c \<and> code c \<le> 90 \<or>
     97 \<le> code c \<and> code c \<le> 122 \<or> code c = 95"

text \<open>
  \<^verbatim>\<open>message.replace(/\{(\w+)\}/g, ...)\<close>: every brace-enclosed word is replaced by the value
  of that name, or kept when there is none.
\<close>

function interpolate :: "(string \<times> string) list \<Rightarrow> string \<Rightarrow> string" where
  "interpolate vs [] = []"
| "interpolate vs (c # s) =
     (let name = takeWhile is_word_char s; rest = dropWhile is_word_char s
      in if c = CHR ''{'' \<and> name \<noteq> [] \<and> rest \<noteq> [] \<and> hd rest = CHR ''}''
         then (case al_get name vs of
                 None \<Rightarrow> c # name @ [CHR ''}'']
               | Some v \<Rightarrow> v) @ interpolate vs (tl rest)
         else c # interpolate vs s)"
  by pat_completeness auto
termination
  by (relation "measure (\<lambda>(_, s). length s)")
    (auto simp: less_Suc_eq_le intro: order_trans [OF diff_le_self length_dropWhile_le])

definition translate :: "(string \<Rightarrow> locale_id \<Rightarrow> string) \<Rightarrow> locale_id \<Rightarrow> string \<Rightarrow>
    (string \<times> string) list option \<Rightarrow> string" where
  "translate messages loc key values =
     (let message = messages key loc
      in case values of None \<Rightarrow> message | Some vs \<Rightarrow> interpolate vs message)"

text \<open>How a label reads as a string in a locale.\<close>

record reading =
  messages :: "string \<Rightarrow> locale_id \<Rightarrow> string"
  zh_literal :: "string \<Rightarrow> string"
  format_date :: "locale_id \<Rightarrow> string \<Rightarrow> string"
  format_date_time :: "locale_id \<Rightarrow> string \<Rightarrow> string"

fun show_text :: "reading \<Rightarrow> locale_id \<Rightarrow> label \<Rightarrow> string" where
  "show_text rd loc (Raw s) = s"
| "show_text rd loc (Tr key values) =
     translate (messages rd) loc key (if values = [] then None else Some values)"
| "show_text rd loc (Zh gloss) = zh_literal rd gloss"
| "show_text rd loc (DateOf l v) = format_date rd l v"
| "show_text rd loc (DateTimeOf l v) = format_date_time rd l v"
| "show_text rd loc (Cat xs) = concat (map (show_text rd loc) xs)"
| "show_text rd loc (Fill t place x) = replace_first place (show_text rd loc x) (show_text rd loc t)"

subsection \<open>Locale state and cookie\<close>

definition locale_name :: "locale_id \<Rightarrow> string" where
  "locale_name l = (case l of ZhCN \<Rightarrow> ''zh-CN'' | En \<Rightarrow> ''en'')"

record locale_state =
  cur_locale :: locale_id
  document_cookie :: "string option"
  locale_refreshes :: nat

definition setLocale :: "locale_id \<Rightarrow> locale_state \<Rightarrow> locale_state" where
  "setLocale next s =
     (if next = cur_locale s then s
      else s\<lparr>cur_locale := next,
             document_cookie := Some (''certflow_locale='' @ locale_name next
               @ ''; Path=/; Max-Age=31536000; SameSite=Lax''),
             locale_refreshes := locale_refreshes s + 1\<rparr>)"

text \<open>The locale of a server-side render, from the value of the locale cookie.\<close>

definition initial_locale :: "string option \<Rightarrow> locale_id" where
  "initial_locale cookie = (if cookie = Some ''en'' then En else ZhCN)"

lemma initial_locale_name [simp]: "initial_locale (Some (locale_name l)) = l"
  by (cases l) (simp_all add: initial_locale_def locale_name_def)

subsection \<open>Dates, error codes, status labels\<close>

definition formatDate :: "string option \<Rightarrow> locale_id \<Rightarrow> label" where
  "formatDate value loc =
     (case value of None \<Rightarrow> Raw ''-'' | Some v \<Rightarrow> if v = [] then Raw ''-'' else DateOf loc v)"

definition formatDateTime_or :: "string option \<Rightarrow> locale_id \<Rightarrow> label \<Rightarrow> label" where
  "formatDateTime_or value loc absent =
     (case value of None \<Rightarrow> absent | Some v \<Rightarrow> if v = [] then absent else DateTimeOf loc v)"

text \<open>The same with the default of its last parameter.\<close>

definition formatDateTime :: "string option \<Rightarrow> locale_id \<Rightarrow> label" where
  "formatDateTime value loc = formatDateTime_or value loc (Zh ''not started'')"

definition errorCodeKeys :: "(string \<times> string) list" where
  "errorCodeKeys =
    [(''worker_lease_expired'', ''error.workerLeaseExpired''),
     (''certificate_issue_failed'', ''error.certificateIssueFailed''),
     (''certificate_renew_failed'', ''error.certificateRenewFailed''),
     (''automation_run_in_progress'', ''error.automationRunInProgress''),
     (''cloud_credential_invalid'', ''error.cloudCredentialInvalid''),
     (''cloud_credential_unavailable'', ''error.cloudCredentialUnavailable''),
     (''dns_provider_unavailable'', ''error.dnsProviderUnavailable''),
     (''aliyun_unavailable'', ''error.aliyunUnavailable''),
     (''aliyun_name_duplicate'', ''error.aliyunNameDuplicate'')]"

definition translateErrorCode :: "string \<Rightarrow> string \<Rightarrow> label" where
  "translateErrorCode error_code fallback =
     (case al_get error_code errorCodeKeys of Some key \<Rightarrow> Tr key [] | None \<Rightarrow> Raw fallback)"

definition labelKeys :: "(string \<times> string) list" where
  "labelKeys =
    [(''draft'', ''status.draft''), (''pending'', ''status.pending''), (''issuing'', ''status.issuing''),
     (''issued'', ''status.issued''), (''renewing'', ''status.renewing''), (''failed'', ''status.failed''),
     (''partial_failed'', ''status.partial_failed''), (''expiring'', ''status.expiring''),
     (''expired'', ''status.expired''), (''revoked'', ''status.revoked''), (''disabled'', ''status.disabled''),
     (''queued'', ''status.queued''), (''running'', ''status.running''),
     (''waiting_user'', ''status.waiting_user''), (''succeeded'', ''status.succeeded''),
     (''cancelled'', ''status.cancelled''), (''active'', ''status.active''), (''invalid'', ''status.invalid'')]"

definition status_label :: "string \<Rightarrow> label" where
  "status_label status =
     Tr (case al_get status labelKeys of Some key \<Rightarrow> key | None \<Rightarrow> ''status.unknown'') []"

subsection \<open>Facts about interpolation\<close>

lemma interpolate_no_brace: "CHR ''{'' \<notin> set s \<Longrightarrow> interpolate vs s = s"
  by (induction vs s rule: interpolate.induct) (auto simp: Let_def)

lemma interpolate_append_plain:
  "CHR ''{'' \<notin> set p \<Longrightarrow> interpolate vs (p @ s) = p @ interpolate vs s"
  by (induction p) (auto simp: Let_def)

lemma interpolate_token:
  assumes "name \<noteq> []" "\<forall>c\<in>set name. is_word_char c"
  shows "interpolate vs (CHR ''{'' # name @ CHR ''}'' # s) =
    (case al_get name vs of None \<Rightarrow> CHR ''{'' # name @ ''}'' | Some v \<Rightarrow> v) @ interpolate vs s"
proof -
  have close: "\<not> is_word_char (CHR ''}'')"
    by (simp add: is_word_char_def code_def)
  have t: "takeWhile is_word_char (name @ CHR ''}'' # s) = name"
    using assms(2) close by (simp add: takeWhile_append2)
  have d: "dropWhile is_word_char (name @ CHR ''}'' # s) = CHR ''}'' # s"
    using assms(2) close by (simp add: dropWhile_append2)
  show ?thesis
    using assms(1) by (simp add: t d Let_def del: append_Cons append_Nil split: option.splits)
qed

lemma interpolate_no_values: "interpolate [] s = s"
proof (induction "[] :: (string \<times> string) list" s rule: interpolate.induct)
  case 1
  then show ?case by simp
next
  case (2 c s)
  show ?case
  proof (cases "c = CHR ''{'' \<and> takeWhile is_word_char s \<noteq> [] \<and> dropWhile is_word_char s \<noteq> []
      \<and> hd (dropWhile is_word_char s) = CHR ''}''")
    case True
    then obtain r where r: "dropWhile is_word_char s = CHR ''}'' # r"
      by (cases "dropWhile is_word_char s") auto
    have s: "s = takeWhile is_word_char s @ CHR ''}'' # r"
      using r takeWhile_dropWhile_id [of is_word_char s] by simp
    have "interpolate [] r = r"
      using 2(1) [OF refl refl] True r by simp
    with True r show ?thesis
      by (simp add: Let_def) (metis s)
  next
    case False
    then show ?thesis using 2(2) [OF refl refl] by (auto simp: Let_def)
  qed
qed

end
