(* ===== verification/Resources.thy ===== *)
theory Resources
  imports Texts
begin

text \<open>
  The resource types of \<^verbatim>\<open>lib/api.ts\<close>: what the control plane sends to the console. A nullable
  string is a \<open>string option\<close>; a time stamp stays the ISO text it is; the two string unions are
  datatypes.
\<close>

datatype action_type = RenewCertificate | UploadSsl | DeployAlb

definition action_id :: "action_type \<Rightarrow> string" where
  "action_id a = (case a of RenewCertificate \<Rightarrow> ''renew_certificate''
     | UploadSsl \<Rightarrow> ''upload_ssl'' | DeployAlb \<Rightarrow> ''deploy_alb'')"

datatype trigger_type = Manual | Scheduler | CertificateIssued

record dashboard =
  activeCertificates :: nat
  expiringSoon :: nat
  runningJobs :: nat
  failedExecutions :: nat

datatype role = Admin | User

record current_user =
  user_id :: string
  user_email :: string
  user_role :: role
  user_status :: string

record admin_metrics =
  activeUsers :: nat
  newUsers30d :: nat
  certificatesTotal :: nat
  certificatesIssued :: nat
  certificatesExpiring7d :: nat
  certificatesExpiring30d :: nat
  jobsQueued :: nat
  jobsRunning :: nat
  failedExecutions24h :: nat
  executionFailureRate30d :: rat
  invalidCloudCredentials :: nat
  invalidDNSAccounts :: nat
  invalidACMEAccounts :: nat
  smtpConfigured :: bool

record trend_point =
  trend_date :: string
  trend_succeeded :: nat
  trend_failed :: nat
  trend_active :: nat

record expiry_bucket =
  bucket :: string
  bucket_count :: nat

record automation_health =
  healthy :: nat
  paused :: nat
  attention :: nat

record risk_certificate =
  risk_id :: string
  risk_name :: string
  risk_ownerEmail :: string
  risk_status :: string
  risk_notAfter :: "string option"
  risk_lastError :: string

record failed_execution =
  fail_id :: string
  fail_kind :: string
  fail_certificate :: string
  fail_ownerEmail :: string
  fail_startedAt :: "string option"
  fail_errorCode :: string
  fail_error :: string

record resource_owner =
  owner_userId :: string
  owner_email :: string
  owner_certificateCount :: nat
  owner_automationCount :: nat
  owner_failedExecutions30d :: nat
  owner_lastActiveAt :: "string option"

record admin_dashboard =
  admin_metrics_of :: admin_metrics
  executionTrend :: "trend_point list"
  expiryDistribution :: "expiry_bucket list"
  automationHealth :: automation_health
  riskCertificates :: "risk_certificate list"
  admin_failedExecutions :: "failed_execution list"
  resourceOwners :: "resource_owner list"

record certificate =
  cert_id :: string
  cert_name :: string
  cert_domains :: "string list"
  cert_status :: string
  keyAlgorithm :: string
  validationMode :: string
  notAfter :: "string option"
  fingerprint :: string
  lastIssuedAt :: "string option"
  cert_lastError :: string
  cert_createdAt :: string

record certificate_version =
  version_id :: string
  serialNumber :: string
  version_fingerprint :: string
  version_notBefore :: string
  version_notAfter :: string
  issuedAt :: string
  revokedAt :: "string option"
  revocationReason :: string
  isCurrent :: bool

record resource_reference =
  ref_id :: string
  ref_name :: string
  ref_status :: string

record automation_reference =
  aref_id :: string
  aref_name :: string
  aref_actionType :: action_type
  aref_enabled :: bool
  aref_lastStatus :: string

record deployment_reference =
  dref_id :: string
  dref_targetId :: string
  dref_targetName :: string
  dref_enabled :: bool
  dref_autoDeploy :: bool
  dref_lastDeployedAt :: "string option"
  dref_lastError :: string

record certificate_relations =
  rel_acmeAccount :: "resource_reference option"
  rel_dnsAccount :: "resource_reference option"
  rel_automations :: "automation_reference list"
  rel_deployments :: "deployment_reference list"

record execution =
  exec_id :: string
  exec_kind :: string
  exec_status :: string
  exec_trigger :: string
  exec_certificate :: string
  exec_target :: string
  startedAt :: "string option"
  finishedAt :: "string option"
  errorCode :: string
  exec_error :: string

record cloud_credential =
  cred_id :: string
  cred_name :: string
  cred_description :: string
  cred_provider :: string
  accessKeyId :: string
  credentialHint :: string
  cred_status :: string
  cred_lastVerifiedAt :: "string option"
  cred_lastError :: string
  cred_createdAt :: string

record acme_account =
  acme_id :: string
  acme_name :: string
  directoryUrl :: string
  accountUrl :: string
  acme_email :: string
  privateKeyAlgorithm :: string
  acme_status :: string
  acme_lastVerifiedAt :: "string option"
  acme_lastError :: string
  certificateCount :: nat
  automationCount :: nat
  acme_createdAt :: string

record dns_account =
  dns_id :: string
  dns_name :: string
  dns_description :: string
  dns_provider :: string
  dns_cloudCredentialId :: string
  allowedZones :: "string list"
  dns_status :: string
  dns_lastVerifiedAt :: "string option"
  dns_lastError :: string
  verifiedCredentialVersionId :: string
  dns_createdAt :: string

record deployment_target =
  target_id :: string
  target_name :: string
  target_cloudCredentialId :: string
  target_regionId :: string
  target_loadBalancerId :: string
  target_listenerId :: string
  listenerProtocol :: string
  target_status :: string
  target_createdAt :: string

record certificate_deployment =
  dep_id :: string
  dep_certificateId :: string
  dep_targetId :: string
  dep_targetName :: string
  dep_autoDeploy :: bool
  dep_enabled :: bool
  dep_lastDeployedAt :: "string option"
  dep_lastError :: string

record automation_task =
  task_id :: string
  task_name :: string
  task_certificateId :: string
  certificateName :: string
  actionType :: action_type
  intervalMinutes :: int
  enabled :: bool
  nextRunAt :: "string option"
  lastRunAt :: "string option"
  lastStatus :: string
  task_lastError :: string
  targetCount :: nat
  task_cloudCredentialId :: string
  targetIds :: "string list"
  task_createdAt :: string

record automation_run =
  run_id :: string
  automationTaskId :: string
  run_certificateId :: string
  run_certificateVersionId :: string
  triggerType :: trigger_type
  run_status :: string
  totalJobs :: nat
  succeededJobs :: nat
  failedJobs :: nat
  run_startedAt :: "string option"
  run_finishedAt :: "string option"
  run_lastError :: string
  run_createdAt :: string

record alb_region =
  region_id :: string
  region_name :: string

record alb_load_balancer =
  lb_id :: string
  lb_name :: string
  lb_status :: string
  lb_dnsName :: string

record alb_listener =
  listener_id :: string
  listener_port :: nat
  listener_protocol :: string
  listener_description :: string
  listener_status :: string

end
