(* ===== verification/Http.thy ===== *)
theory Http
  imports Resources
begin

text \<open>
  The browser's HTTP client: \<^verbatim>\<open>lib/api-client.ts\<close> and \<^verbatim>\<open>lib/api-error.ts\<close>. \<open>fetch\<close> is a
  parameter: given a request and the state of the outside world it rejects or replies, and moves
  the world on. A body is \<open>None\<close> when reading it as JSON rejects. Numbers of the JSON
  values are integers.
\<close>

datatype json =
    JNull
  | JBool bool
  | JNum int
  | JStr string
  | JArr "json list"
  | JObj "(string \<times> json) list"

record response =
  status :: nat
  body :: "json option"

definition resp_ok :: "response \<Rightarrow> bool" where
  "resp_ok r \<longleftrightarrow> 200 \<le> status r \<and> status r \<le> 299"

datatype outcome = Rejected string | Replied response

record 'b request =
  req_method :: "string option"
  req_path :: string
  req_headers :: "(string \<times> string) list"
  req_body :: "'b option"

type_synonym ('b, 'w) fetch = "'b request \<Rightarrow> 'w \<Rightarrow> outcome \<times> 'w"

subsection \<open>Errors\<close>

record api_error =
  err_status :: nat
  err_code :: json
  err_message :: string
  err_details :: "(string \<times> json) list"

text \<open>
  What a request can throw: the \<open>ApiError\<close> of a failed response, another \<open>Error\<close> with its
  message (a rejected fetch, a body that is not JSON), or a thrown value that is no \<open>Error\<close>.
\<close>

datatype failure = ApiFailure api_error | ErrorFailure string | OpaqueFailure

definition failure_message :: "failure \<Rightarrow> label \<Rightarrow> label" where
  "failure_message f fallback =
     (case f of ApiFailure e \<Rightarrow> Raw (err_message e) | ErrorFailure m \<Rightarrow> Raw m | OpaqueFailure \<Rightarrow> fallback)"

definition failure_is_conflict :: "failure \<Rightarrow> bool" where
  "failure_is_conflict f = (case f of ApiFailure e \<Rightarrow> err_status e = 409 | _ \<Rightarrow> False)"

fun js_string :: "json \<Rightarrow> string" where
  "js_string JNull = ''null''"
| "js_string (JBool b) = (if b then ''true'' else ''false'')"
| "js_string (JNum n) = int_string n"
| "js_string (JStr s) = s"
| "js_string (JArr xs) = js_join '','' (map (\<lambda>x. case x of JNull \<Rightarrow> [] | _ \<Rightarrow> js_string x) xs)"
| "js_string (JObj fs) = ''[object Object]''"

text \<open>The own enumerable properties that a destructuring of a parsed body sees.\<close>

definition index_entries :: "json list \<Rightarrow> (string \<times> json) list" where
  "index_entries xs = zip (map nat_digits [0..<length xs]) xs"

definition own_entries :: "json \<Rightarrow> (string \<times> json) list" where
  "own_entries j = (case j of
      JObj fs \<Rightarrow> fs
    | JArr xs \<Rightarrow> index_entries xs
    | JStr s \<Rightarrow> index_entries (map (\<lambda>c. JStr [c]) s)
    | _ \<Rightarrow> [])"

text \<open>A field of a parsed value that is not \<open>null\<close>; a text compares only with a text.\<close>

definition js_field :: "string \<Rightarrow> json \<Rightarrow> json option" where
  "js_field name j = al_get name (own_entries j)"

definition text_field :: "string \<Rightarrow> json \<Rightarrow> string option" where
  "text_field name j = (case js_field name j of Some (JStr v) \<Rightarrow> Some v | _ \<Rightarrow> None)"

text \<open>\<open>value ?? fallback\<close> on a possibly missing field.\<close>

definition nullish :: "json option \<Rightarrow> json \<Rightarrow> json" where
  "nullish v d = (case v of None \<Rightarrow> d | Some JNull \<Rightarrow> d | Some j \<Rightarrow> j)"

definition readApiError :: "response \<Rightarrow> string \<Rightarrow> api_error" where
  "readApiError r fallback =
     (let payload = (case body r of None \<Rightarrow> [] | Some j \<Rightarrow> own_entries j)
      in \<lparr>err_status = status r,
          err_code = nullish (al_get ''code'' payload) (JStr ''request_failed''),
          err_message = js_string (nullish (al_get ''message'' payload) (JStr fallback)),
          err_details = al_delete ''message'' (al_delete ''code'' payload)\<rparr>)"

text \<open>The truth value of a value.\<close>

definition truthy :: "json option \<Rightarrow> bool" where
  "truthy j = (case j of
      None \<Rightarrow> False | Some JNull \<Rightarrow> False | Some (JBool b) \<Rightarrow> b | Some (JNum n) \<Rightarrow> n \<noteq> 0
    | Some (JStr s) \<Rightarrow> s \<noteq> [] | _ \<Rightarrow> True)"

text \<open>\<open>body?.name\<close> of a parsed body; a body that is not JSON counts as \<open>null\<close>.\<close>

definition body_field :: "string \<Rightarrow> response \<Rightarrow> json option" where
  "body_field name r = (case body r of Some (JObj fs) \<Rightarrow> al_get name fs | _ \<Rightarrow> None)"

definition body_message :: "response \<Rightarrow> label \<Rightarrow> label" where
  "body_message r fallback =
     (case body_field ''message'' r of
        None \<Rightarrow> fallback
      | Some JNull \<Rightarrow> fallback
      | Some j \<Rightarrow> Raw (js_string j))"

subsection \<open>The API client\<close>

record 'b request_options =
  opt_method :: "string option"
  opt_headers :: "(string \<times> string) list"
  opt_body :: "'b option"

definition client_request :: "string \<Rightarrow> 'b request_options \<Rightarrow> 'b request" where
  "client_request path options =
     \<lparr>req_method = opt_method options, req_path = path,
      req_headers = fold (\<lambda>(k, v). al_set k v) (opt_headers options)
        [(''Content-Type'', ''application/json'')],
      req_body = opt_body options\<rparr>"

definition refresh_request :: "'b request" where
  "refresh_request = \<lparr>req_method = Some ''POST'', req_path = ''/api/auth/refresh'',
     req_headers = [], req_body = None\<rparr>"

text \<open>
  The end of \<open>apiRequest\<close>: a failed response throws, 204 is \<open>undefined\<close> (\<open>None\<close>), otherwise the
  body is parsed, which throws a \<open>SyntaxError\<close> when it is not JSON. \<open>fallback\<close> stands for the
  Chinese literal of the source.
\<close>

definition settle :: "string \<Rightarrow> response \<Rightarrow> failure + json option" where
  "settle fallback r =
     (if \<not> resp_ok r then Inl (ApiFailure (readApiError r fallback))
      else if status r = 204 then Inr None
      else (case body r of None \<Rightarrow> Inl (ErrorFailure ''SyntaxError'') | Some j \<Rightarrow> Inr (Some j)))"

definition apiRequest ::
    "string \<Rightarrow> ('b, 'w) fetch \<Rightarrow> string \<Rightarrow> 'b request_options \<Rightarrow> 'w \<Rightarrow> (failure + json option) \<times> 'w" where
  "apiRequest fallback fetch path options w =
     (case fetch (client_request path options) w of
        (Rejected m, w1) \<Rightarrow> (Inl (ErrorFailure m), w1)
      | (Replied r, w1) \<Rightarrow>
          if status r = 401 \<and> \<not> prefix ''/api/auth/'' path then
            (case fetch refresh_request w1 of
               (Rejected m, w2) \<Rightarrow> (Inl (ErrorFailure m), w2)
             | (Replied refreshed, w2) \<Rightarrow>
                 if resp_ok refreshed then
                   (case fetch (client_request path options) w2 of
                      (Rejected m, w3) \<Rightarrow> (Inl (ErrorFailure m), w3)
                    | (Replied r', w3) \<Rightarrow> (settle fallback r', w3))
                 else (settle fallback r, w2))
          else (settle fallback r, w1))"

subsection \<open>What the client sends\<close>

text \<open>A world that records every request before passing it on.\<close>

definition recorded :: "('b, 'w) fetch \<Rightarrow> ('b, 'b request list \<times> 'w) fetch" where
  "recorded fetch r lw =
     (let (out, w') = fetch r (snd lw) in (out, (fst lw @ [r], w')))"

lemma recorded_simps [simp]:
  "fst (recorded fetch r (l, w)) = fst (fetch r w)"
  "snd (recorded fetch r (l, w)) = (l @ [r], snd (fetch r w))"
  by (simp_all add: recorded_def split: prod.splits)

lemma recorded_eq: "recorded fetch r (l, w) = (fst (fetch r w), (l @ [r], snd (fetch r w)))"
  by (simp add: recorded_def split: prod.splits)

definition first_status :: "outcome \<Rightarrow> nat option" where
  "first_status out = (case out of Rejected _ \<Rightarrow> None | Replied r \<Rightarrow> Some (status r))"

definition wants_refresh :: "string \<Rightarrow> outcome \<Rightarrow> bool" where
  "wants_refresh path out \<longleftrightarrow> first_status out = Some 401 \<and> \<not> prefix ''/api/auth/'' path"

definition outcome_ok :: "outcome \<Rightarrow> bool" where
  "outcome_ok out = (case out of Rejected _ \<Rightarrow> False | Replied r \<Rightarrow> resp_ok r)"

lemmas request_tests = wants_refresh_def first_status_def outcome_ok_def

text \<open>
  C8. The requests that one call of \<open>apiRequest\<close> sends: the call itself, then, exactly when it was
  answered 401 outside \<open>/api/auth/\<close>, one refresh, and, exactly when the refresh succeeded, the
  same call once more. So there are at most three requests, the call is repeated at most once,
  and no refresh of a refresh is possible.
\<close>

theorem apiRequest_requests:
  "fst (snd (apiRequest fb (recorded fetch) path options ([], w))) =
     (let call = client_request path options; first = fetch call w; second = fetch refresh_request (snd first)
      in if wants_refresh path (fst first) then
           if outcome_ok (fst second) then [call, refresh_request, call] else [call, refresh_request]
         else [call])"
proof -
  let ?call = "client_request path options"
  let ?first = "fetch ?call w" and ?second = "fetch refresh_request (snd (fetch ?call w))"
  show ?thesis
    by (cases "fst ?first"; cases "fst ?second"; cases "fst (fetch ?call (snd ?second))")
      (simp_all add: apiRequest_def recorded_eq case_prod_beta Let_def request_tests)
qed

lemma settle_status:
  "settle fb r = Inl (ApiFailure e) \<Longrightarrow> err_status e = status r \<and> \<not> resp_ok r"
  by (auto simp: settle_def readApiError_def Let_def split: if_splits option.splits)

lemma settle_ok_iff: "(\<exists>v. settle fb r = Inr v) \<longleftrightarrow> resp_ok r \<and> (status r = 204 \<or> body r \<noteq> None)"
  by (auto simp: settle_def split: option.splits)

subsection \<open>A session that has expired\<close>

text \<open>
  What \<open>apiRequest\<close> relies on, for one call: \<open>authorised w\<close> says that the access token held in \<open>w\<close> is
  accepted, \<open>renewable w\<close> that the refresh token is, and \<open>renew w\<close> is the world after a refresh. An
  authorised call may fail in any way but 401; one that is not is answered 401 and has no effect; a
  refresh succeeds exactly with a good refresh token, and then calls are authorised.
\<close>

definition session_contract ::
    "('b, 'w) fetch \<Rightarrow> 'b request \<Rightarrow> ('w \<Rightarrow> bool) \<Rightarrow> ('w \<Rightarrow> bool) \<Rightarrow> ('w \<Rightarrow> 'w) \<Rightarrow> bool" where
  "session_contract fetch call authorised renewable renew \<longleftrightarrow>
     (\<forall>w. authorised w \<longrightarrow> first_status (fst (fetch call w)) \<noteq> Some 401) \<and>
     (\<forall>w. \<not> authorised w \<longrightarrow> first_status (fst (fetch call w)) = Some 401 \<and> snd (fetch call w) = w) \<and>
     (\<forall>w. renewable w \<longrightarrow> outcome_ok (fst (fetch refresh_request w)) \<and> snd (fetch refresh_request w) = renew w \<and>
        authorised (renew w)) \<and>
     (\<forall>w. \<not> renewable w \<longrightarrow> first_status (fst (fetch refresh_request w)) \<noteq> None \<and>
        \<not> outcome_ok (fst (fetch refresh_request w)))"

lemma first_status_replied: "first_status out = Some n \<Longrightarrow> \<exists>r. out = Replied r \<and> status r = n"
  by (cases out) (simp_all add: first_status_def)

lemma apiRequest_authorised:
  assumes "first_status (fst (fetch (client_request path options) w)) \<noteq> Some 401"
  shows "apiRequest fb fetch path options w =
    (case fst (fetch (client_request path options) w) of
       Rejected m \<Rightarrow> Inl (ErrorFailure m) | Replied r \<Rightarrow> settle fb r, snd (fetch (client_request path options) w))"
  using assms by (cases "fetch (client_request path options) w"; cases "fst (fetch (client_request path options) w)")
    (auto simp: apiRequest_def first_status_def)

lemma apiRequest_renewed:
  assumes "fetch (client_request path options) w = (Replied r, w)" "status r = 401" "\<not> prefix ''/api/auth/'' path"
    and "fetch refresh_request w = (Replied r2, w2)"
  shows "apiRequest fb fetch path options w =
    (if resp_ok r2
     then (case fst (fetch (client_request path options) w2) of
         Rejected m \<Rightarrow> Inl (ErrorFailure m) | Replied r \<Rightarrow> settle fb r, snd (fetch (client_request path options) w2))
     else (Inl (ApiFailure (readApiError r fb)), w2))"
  using assms by (simp add: apiRequest_def settle_def resp_ok_def case_prod_beta split: outcome.split)

text \<open>
  C9. An expired session is invisible as long as it can be refreshed. Against a server that answers
  every unauthorised call 401 without an effect and renews a session with a good refresh token, a call
  outside \<open>/api/auth/\<close> made with an expired access token has the result, and leaves the world in the
  state, of the same call made in the renewed session, so it takes effect once; and the caller sees an
  error of status 401 exactly when neither token is good.
\<close>

theorem apiRequest_result:
  assumes "session_contract fetch (client_request path options) authorised renewable renew"
    and "\<not> prefix ''/api/auth/'' path"
  shows "(\<not> authorised w \<and> renewable w \<longrightarrow>
      apiRequest fb fetch path options w = apiRequest fb fetch path options (renew w)) \<and>
    ((\<exists>e. fst (apiRequest fb fetch path options w) = Inl (ApiFailure e) \<and> err_status e = 401) \<longleftrightarrow>
      \<not> authorised w \<and> \<not> renewable w)"
proof -
  let ?call = "client_request path options" and ?api = "apiRequest fb fetch path options"
  note contract = assms(1) [unfolded session_contract_def]
  have no_401: "\<not> (\<exists>e. fst (?api w) = Inl (ApiFailure e) \<and> err_status e = 401)" if "authorised w" for w
  proof -
    have n: "first_status (fst (fetch ?call w)) \<noteq> Some 401" using contract that by blast
    then show ?thesis unfolding apiRequest_authorised [of fetch path options w, OF n]
      by (cases "fst (fetch ?call w)") (auto simp: first_status_def dest: settle_status)
  qed
  have expired: "(if renewable w then ?api w = ?api (renew w) \<and> authorised (renew w)
      else \<exists>e. fst (?api w) = Inl (ApiFailure e) \<and> err_status e = 401)" if un: "\<not> authorised w" for w
  proof -
    obtain r where r: "fetch ?call w = (Replied r, w)" "status r = 401"
      using contract un first_status_replied [of "fst (fetch ?call w)" 401] by (metis prod.collapse)
    have good: "outcome_ok (fst (fetch refresh_request w)) \<and> snd (fetch refresh_request w) = renew w \<and> authorised (renew w)"
      if "renewable w" using contract that by blast
    have bad: "first_status (fst (fetch refresh_request w)) \<noteq> None \<and> \<not> outcome_ok (fst (fetch refresh_request w))"
      if "\<not> renewable w" using contract that by blast
    obtain r2 w2 where r2: "fetch refresh_request w = (Replied r2, w2)"
      using good bad by (cases "fetch refresh_request w"; cases "fst (fetch refresh_request w)"; cases "renewable w")
        (simp_all add: first_status_def outcome_ok_def)
    note run = apiRequest_renewed [of fetch path options w, OF r assms(2) r2]
    show ?thesis
    proof (cases "renewable w")
      case True
      then have "resp_ok r2" "w2 = renew w" "authorised (renew w)"
        using good r2 by (simp_all add: outcome_ok_def)
      moreover have "first_status (fst (fetch ?call (renew w))) \<noteq> Some 401" using contract \<open>authorised (renew w)\<close> by blast
      ultimately show ?thesis using True by (simp add: run apiRequest_authorised)
    next
      case False
      then have "\<not> resp_ok r2" using bad r2 by (simp add: outcome_ok_def)
      with False r show ?thesis by (simp add: run readApiError_def Let_def)
    qed
  qed
  show ?thesis using expired [of w] no_401 [of w] no_401 [of "renew w"] by (cases "authorised w") (auto split: if_splits)
qed

text \<open>A server with the two tokens as its state, and a page list it gives to authorised calls only.\<close>

definition token_server :: "(unit, bool \<times> bool) fetch" where
  "token_server r w =
     (let (access, refresh) = w; reply = (\<lambda>n b. Replied \<lparr>status = n, body = b\<rparr>)
      in if req_path r = ''/api/auth/refresh''
         then if refresh then (reply 200 None, (True, True)) else (reply 401 None, w)
         else if access then (reply 200 (Some (JArr [])), w) else (reply 401 None, w))"

lemma token_server_contract:
  "session_contract token_server
     (client_request ''/api/tasks'' \<lparr>opt_method = None, opt_headers = [], opt_body = None\<rparr>) fst snd (\<lambda>w. (True, True))"
  by (simp add: session_contract_def token_server_def client_request_def refresh_request_def request_tests resp_ok_def
      case_prod_beta)

lemma apiRequest_result_witness:
  "apiRequest [] token_server ''/api/tasks'' \<lparr>opt_method = None, opt_headers = [], opt_body = None\<rparr> (False, True) =
     apiRequest [] token_server ''/api/tasks'' \<lparr>opt_method = None, opt_headers = [], opt_body = None\<rparr> (True, True)"
  using apiRequest_result [OF token_server_contract, of "(False, True)"] by simp

text \<open>
  \<open>readApiError\<close> keeps every field of an error object: \<open>code\<close> and \<open>message\<close> become the
  code and message of the error unless missing or null, and every other field is found in
  \<open>details\<close> under its own name, where \<open>code\<close> and \<open>message\<close> are not.
\<close>

theorem readApiError_fields:
  "let e = readApiError (r\<lparr>body := Some (JObj fs)\<rparr>) fb
   in err_status e = status r \<and>
      err_code e = nullish (al_get ''code'' fs) (JStr ''request_failed'') \<and>
      err_message e = js_string (nullish (al_get ''message'' fs) (JStr fb)) \<and>
      (\<forall>k. al_get k (err_details e) = (if k = ''code'' \<or> k = ''message'' then None else al_get k fs))"
  by (simp add: readApiError_def own_entries_def Let_def)

end
