(* ===== verification/Bff.thy ===== *)
theory Bff
  imports Http
begin

text \<open>
  The same-origin proxy of the console: \<^verbatim>\<open>lib/api-proxy.ts\<close>, the route handlers under
  \<^verbatim>\<open>app/api\<close> and their dispatch. The upstream control plane, its base URL and the random request
  id are parameters. A header list is an association list over lower-case names.
\<close>

datatype http_method = GET | POST | PATCH | PUT | DELETE

definition method_name :: "http_method \<Rightarrow> string" where
  "method_name m = (case m of GET \<Rightarrow> ''GET'' | POST \<Rightarrow> ''POST'' | PATCH \<Rightarrow> ''PATCH''
     | PUT \<Rightarrow> ''PUT'' | DELETE \<Rightarrow> ''DELETE'')"

type_synonym headers = "(string \<times> string) list"

abbreviation hdr_get :: "string \<Rightarrow> headers \<Rightarrow> string option" where
  "hdr_get name h \<equiv> al_get (toLowerCase name) h"

abbreviation hdr_set :: "string \<Rightarrow> string \<Rightarrow> headers \<Rightarrow> headers" where
  "hdr_set name v h \<equiv> al_set (toLowerCase name) v h"

record bff_request =
  in_method :: http_method
  in_segments :: "string list"
  in_query :: "(string \<times> string) list"
  in_headers :: headers
  in_text :: string

record proxy_init =
  init_method :: "http_method option"
  init_headers :: "(string \<times> string) list"
  init_body :: "string option"

record upstream_request =
  up_url :: string
  up_method :: "http_method option"
  up_headers :: headers
  up_body :: "string option"

record upstream_response =
  ur_status :: nat
  ur_headers :: headers
  ur_set_cookie :: "string list"
  ur_body :: string

type_synonym 'w upstream = "upstream_request \<Rightarrow> 'w \<Rightarrow> (string + upstream_response) \<times> 'w"

subsection \<open>The locale of a request\<close>

definition cookie_value :: "string \<Rightarrow> string \<Rightarrow> string option" where
  "cookie_value name cookies =
     map_option (\<lambda>item. split_on (\<lambda>c. c = CHR ''='') item ! 1)
       (List.find (prefix (name @ ''='')) (map js_trim (split_on (\<lambda>c. c = CHR '';'') cookies)))"

definition requestLocale :: "headers \<Rightarrow> string" where
  "requestLocale h =
     (let requested = (case hdr_get ''X-CertFlow-Locale'' h of Some v \<Rightarrow> v
          | None \<Rightarrow> (case hdr_get ''Accept-Language'' h of Some v \<Rightarrow> v | None \<Rightarrow> []))
      in if prefix ''zh'' (toLowerCase requested) then ''zh-CN''
         else
           (let localeCookie = Option.bind (hdr_get ''cookie'' h) (cookie_value ''certflow_locale'')
            in if localeCookie = Some ''en'' then ''en'' else ''zh-CN''))"

subsection \<open>The proxy\<close>

definition proxy_headers :: "string \<Rightarrow> headers \<Rightarrow> proxy_init \<Rightarrow> headers" where
  "proxy_headers uuid incoming init =
     (let h0 = fold (\<lambda>(k, v). hdr_set k v) (init_headers init) [];
          h1 = (case hdr_get ''cookie'' incoming of
                  Some c \<Rightarrow> if c \<noteq> [] then hdr_set ''cookie'' c h0 else h0
                | None \<Rightarrow> h0);
          h2 = hdr_set ''X-CertFlow-Locale'' (requestLocale incoming) h1;
          h3 = (if init_body init \<notin> {None, Some []} \<and> hdr_get ''Content-Type'' h2 = None
                then hdr_set ''Content-Type'' ''application/json'' h2 else h2)
      in if hdr_get ''X-Request-ID'' h3 = None then hdr_set ''X-Request-ID'' uuid h3 else h3)"

definition copy_header :: "headers \<Rightarrow> string \<Rightarrow> headers \<Rightarrow> headers" where
  "copy_header from name h =
     (case hdr_get name from of
        Some v \<Rightarrow> if v \<noteq> [] then hdr_set name v h else h
      | None \<Rightarrow> h)"

definition proxy_response :: "upstream_response \<Rightarrow> upstream_response" where
  "proxy_response up =
     (let h0 = hdr_set ''Content-Type''
            (case hdr_get ''Content-Type'' (ur_headers up) of Some v \<Rightarrow> v | None \<Rightarrow> ''application/json'') []
      in \<lparr>ur_status = ur_status up,
          ur_headers = fold (copy_header (ur_headers up)) [''Cache-Control'', ''X-Accel-Buffering''] h0,
          ur_set_cookie = ur_set_cookie up,
          ur_body = ur_body up\<rparr>)"

definition proxyAPI ::
    "string \<Rightarrow> string \<Rightarrow> 'w upstream \<Rightarrow> bff_request \<Rightarrow> string \<Rightarrow> proxy_init \<Rightarrow> 'w \<Rightarrow>
       (string + upstream_response) \<times> 'w" where
  "proxyAPI apiBaseUrl uuid fetch r path init w =
     (let call = \<lparr>up_url = apiBaseUrl @ ''/api/v1'' @ path, up_method = init_method init,
            up_headers = proxy_headers uuid (in_headers r) init, up_body = init_body init\<rparr>
      in case fetch call w of
           (Inl e, w') \<Rightarrow> (Inl e, w')
         | (Inr up, w') \<Rightarrow> (Inr (proxy_response up), w'))"

subsection \<open>Route handlers\<close>

text \<open>
  A handler either forwards to a path of the control plane, or answers 404 itself; \<open>None\<close> is a
  method the route file does not export.
\<close>

datatype route_result = Forward string proxy_init | NotFoundJson string

definition plain :: proxy_init where
  "plain = \<lparr>init_method = None, init_headers = [], init_body = None\<rparr>"

definition sending :: "http_method \<Rightarrow> proxy_init" where
  "sending m = \<lparr>init_method = Some m, init_headers = [], init_body = None\<rparr>"

definition sending_text :: "http_method \<Rightarrow> string \<Rightarrow> proxy_init" where
  "sending_text m text_body = \<lparr>init_method = Some m, init_headers = [], init_body = Some text_body\<rparr>"

lemmas init_defs = plain_def sending_def sending_text_def

definition certificates_route :: "http_method \<Rightarrow> string \<Rightarrow> route_result option" where
  "certificates_route m t =
     (case m of POST \<Rightarrow> Some (Forward ''/certificates'' (sending_text POST t)) | _ \<Rightarrow> None)"

definition certificate_route :: "http_method \<Rightarrow> string \<Rightarrow> string \<Rightarrow> route_result option" where
  "certificate_route m certificateId t =
     (let path = ''/certificates/'' @ certificateId
      in case m of
           GET \<Rightarrow> Some (Forward path plain)
         | PATCH \<Rightarrow> Some (Forward path (sending_text PATCH t))
         | DELETE \<Rightarrow> Some (Forward path (sending DELETE))
         | _ \<Rightarrow> None)"

definition certificate_relations_route :: "http_method \<Rightarrow> string \<Rightarrow> route_result option" where
  "certificate_relations_route m certificateId =
     (case m of GET \<Rightarrow> Some (Forward (''/certificates/'' @ certificateId @ ''/relations'') plain) | _ \<Rightarrow> None)"

definition certificate_issue_route :: "http_method \<Rightarrow> string \<Rightarrow> route_result option" where
  "certificate_issue_route m certificateId =
     (case m of POST \<Rightarrow> Some (Forward (''/certificates/'' @ certificateId @ ''/issue'') (sending POST)) | _ \<Rightarrow> None)"

definition certificate_versions_route :: "http_method \<Rightarrow> string \<Rightarrow> route_result option" where
  "certificate_versions_route m certificateId =
     (case m of GET \<Rightarrow> Some (Forward (''/certificates/'' @ certificateId @ ''/versions'') plain) | _ \<Rightarrow> None)"

definition manual_challenge_route :: "http_method \<Rightarrow> string \<Rightarrow> route_result option" where
  "manual_challenge_route m certificateId =
     (case m of GET \<Rightarrow> Some (Forward (''/certificates/'' @ certificateId @ ''/manual-challenge'') plain)
      | _ \<Rightarrow> None)"

definition manual_challenge_check_route :: "http_method \<Rightarrow> string \<Rightarrow> route_result option" where
  "manual_challenge_check_route m certificateId =
     (case m of
        GET \<Rightarrow> Some (Forward (''/certificates/'' @ certificateId @ ''/manual-challenge/check'') plain)
      | _ \<Rightarrow> None)"

definition manual_challenge_continue_route :: "http_method \<Rightarrow> string \<Rightarrow> route_result option" where
  "manual_challenge_continue_route m certificateId =
     (case m of
        POST \<Rightarrow> Some (Forward (''/certificates/'' @ certificateId @ ''/manual-challenge/continue'') (sending POST))
      | _ \<Rightarrow> None)"

definition auth_route :: "http_method \<Rightarrow> string list \<Rightarrow> string \<Rightarrow> route_result option" where
  "auth_route m path t =
     (case m of
        GET \<Rightarrow> Some (Forward (''/auth/'' @ js_join ''/'' path) plain)
      | POST \<Rightarrow> Some (Forward (''/auth/'' @ js_join ''/'' path) (sending_text POST t))
      | _ \<Rightarrow> None)"

definition deployment_targets_route :: "http_method \<Rightarrow> string \<Rightarrow> route_result option" where
  "deployment_targets_route m t =
     (case m of
        GET \<Rightarrow> Some (Forward ''/deployment-targets'' plain)
      | POST \<Rightarrow> Some (Forward ''/deployment-targets'' (sending_text POST t))
      | _ \<Rightarrow> None)"

definition dns_account_actions :: "string list" where
  "dns_account_actions = [''verify'', ''enable'', ''disable'']"

definition dns_account_action_route :: "http_method \<Rightarrow> string \<Rightarrow> string \<Rightarrow> route_result option" where
  "dns_account_action_route m accountId act =
     (case m of
        POST \<Rightarrow> if act \<notin> set dns_account_actions then Some (NotFoundJson ''action not found'')
          else Some (Forward (''/dns-accounts/'' @ accountId @ ''/'' @ act) (sending POST))
      | _ \<Rightarrow> None)"

definition acme_verify_route :: "http_method \<Rightarrow> string \<Rightarrow> route_result option" where
  "acme_verify_route m accountId =
     (case m of POST \<Rightarrow> Some (Forward (''/acme-accounts/'' @ accountId @ ''/verify'') (sending POST)) | _ \<Rightarrow> None)"

definition webhook_route :: "http_method \<Rightarrow> string \<Rightarrow> route_result option" where
  "webhook_route m t =
     (case m of
        GET \<Rightarrow> Some (Forward ''/profile/webhook'' plain)
      | PUT \<Rightarrow> Some (Forward ''/profile/webhook'' (sending_text PUT t))
      | _ \<Rightarrow> None)"

definition webhook_test_route :: "http_method \<Rightarrow> string \<Rightarrow> route_result option" where
  "webhook_test_route m t =
     (case m of POST \<Rightarrow> Some (Forward ''/profile/webhook/test'' (sending_text POST t)) | _ \<Rightarrow> None)"

definition sessions_route :: "http_method \<Rightarrow> route_result option" where
  "sessions_route m = (case m of GET \<Rightarrow> Some (Forward ''/profile/sessions'' plain) | _ \<Rightarrow> None)"

definition revoke_others_route :: "http_method \<Rightarrow> route_result option" where
  "revoke_others_route m =
     (case m of POST \<Rightarrow> Some (Forward ''/profile/sessions/revoke-others'' (sending POST)) | _ \<Rightarrow> None)"

definition deployment_run_route :: "http_method \<Rightarrow> string \<Rightarrow> route_result option" where
  "deployment_run_route m deploymentId =
     (case m of POST \<Rightarrow> Some (Forward (''/certificate-deployments/'' @ deploymentId @ ''/run'') (sending POST))
      | _ \<Rightarrow> None)"

definition deployments_route :: "http_method \<Rightarrow> string \<Rightarrow> route_result option" where
  "deployments_route m t =
     (case m of
        GET \<Rightarrow> Some (Forward ''/certificate-deployments'' plain)
      | POST \<Rightarrow> Some (Forward ''/certificate-deployments'' (sending_text POST t))
      | _ \<Rightarrow> None)"

text \<open>
  \<open>encodeURIComponent\<close> on characters below 256: the unreserved characters stay, the others are
  percent-encoded in UTF-8.
\<close>

definition hex_digit :: "nat \<Rightarrow> char" where
  "hex_digit n = (if n < 10 then char_of (48 + n) else char_of (55 + n))"

definition percent :: "nat \<Rightarrow> string" where
  "percent n = [CHR 0x25, hex_digit (n div 16), hex_digit (n mod 16)]"

definition encode_char :: "char \<Rightarrow> string" where
  "encode_char c =
     (if is_word_char c \<or> c \<in> set ''-.!~*()'' \<or> code c = 39 then [c]
      else if code c < 128 then percent (code c)
      else percent (192 + code c div 64) @ percent (128 + code c mod 64))"

definition encodeURIComponent :: "string \<Rightarrow> string" where
  "encodeURIComponent s = concat (map encode_char s)"

definition query_or_empty :: "string \<Rightarrow> (string \<times> string) list \<Rightarrow> string" where
  "query_or_empty name q = (case al_get name q of Some v \<Rightarrow> v | None \<Rightarrow> [])"

definition load_balancers_route :: "http_method \<Rightarrow> string \<Rightarrow> (string \<times> string) list \<Rightarrow> route_result option" where
  "load_balancers_route m credentialId q =
     (case m of
        GET \<Rightarrow> Some (Forward (''/cloud-credentials/'' @ credentialId @ ''/alb/load-balancers?regionId=''
          @ encodeURIComponent (query_or_empty ''regionId'' q)) plain)
      | _ \<Rightarrow> None)"

definition listeners_route ::
    "http_method \<Rightarrow> string \<Rightarrow> string \<Rightarrow> (string \<times> string) list \<Rightarrow> route_result option" where
  "listeners_route m credentialId loadBalancerId q =
     (case m of
        GET \<Rightarrow> Some (Forward (''/cloud-credentials/'' @ credentialId @ ''/alb/load-balancers/'' @ loadBalancerId
          @ ''/listeners?regionId='' @ encodeURIComponent (query_or_empty ''regionId'' q)) plain)
      | _ \<Rightarrow> None)"

definition alb_regions_route :: "http_method \<Rightarrow> string \<Rightarrow> route_result option" where
  "alb_regions_route m credentialId =
     (case m of GET \<Rightarrow> Some (Forward (''/cloud-credentials/'' @ credentialId @ ''/alb/regions'') plain) | _ \<Rightarrow> None)"

definition dns_zones_route :: "http_method \<Rightarrow> string \<Rightarrow> route_result option" where
  "dns_zones_route m credentialId =
     (case m of GET \<Rightarrow> Some (Forward (''/cloud-credentials/'' @ credentialId @ ''/dns/zones'') plain) | _ \<Rightarrow> None)"

definition credential_actions :: "string list" where
  "credential_actions = [''verify'', ''enable'', ''disable'']"

definition credential_action_route :: "http_method \<Rightarrow> string \<Rightarrow> string \<Rightarrow> route_result option" where
  "credential_action_route m credentialId act =
     (case m of
        POST \<Rightarrow> if act \<notin> set credential_actions then Some (NotFoundJson ''action not found'')
          else Some (Forward (''/cloud-credentials/'' @ credentialId @ ''/'' @ act) (sending POST))
      | _ \<Rightarrow> None)"

definition notifications_route :: "http_method \<Rightarrow> route_result option" where
  "notifications_route m = (case m of GET \<Rightarrow> Some (Forward ''/notifications'' plain) | _ \<Rightarrow> None)"

definition notifications_read_route :: "http_method \<Rightarrow> string \<Rightarrow> route_result option" where
  "notifications_read_route m t =
     (case m of POST \<Rightarrow> Some (Forward ''/notifications/read'' (sending_text POST t)) | _ \<Rightarrow> None)"

definition events_route :: "http_method \<Rightarrow> (string \<times> string) list \<Rightarrow> headers \<Rightarrow> route_result option" where
  "events_route m q h =
     (case m of
        GET \<Rightarrow>
          (let query = (case al_get ''after'' q of
                 Some a \<Rightarrow> if a \<noteq> [] then ''?after='' @ encodeURIComponent a else []
               | None \<Rightarrow> []);
               lastEventID = (case hdr_get ''last-event-id'' h of
                 Some l \<Rightarrow> if l \<noteq> [] then [(''Last-Event-ID'', l)] else []
               | None \<Rightarrow> [])
           in Some (Forward (''/events'' @ query) (plain\<lparr>init_headers := lastEventID\<rparr>)))
      | _ \<Rightarrow> None)"

definition resources :: "string list" where
  "resources = [''cloud-credentials'', ''acme-accounts'', ''dns-accounts'', ''deployment-targets'']"

definition resource_route :: "http_method \<Rightarrow> string \<Rightarrow> string \<Rightarrow> route_result option" where
  "resource_route m resource t =
     (case m of
        GET \<Rightarrow> if resource \<notin> set resources then Some (NotFoundJson ''resource not found'')
          else Some (Forward (CHR ''/'' # resource) plain)
      | POST \<Rightarrow> if resource \<notin> set resources then Some (NotFoundJson ''resource not found'')
          else Some (Forward (CHR ''/'' # resource) (sending_text POST t))
      | _ \<Rightarrow> None)"

definition resolveResource :: "string \<Rightarrow> string \<Rightarrow> (string \<times> string) option" where
  "resolveResource resource resourceId =
     (if resource \<notin> set resources then None else Some (resource, resourceId))"

definition resource_item_route :: "http_method \<Rightarrow> string \<Rightarrow> string \<Rightarrow> string \<Rightarrow> route_result option" where
  "resource_item_route m resource resourceId t =
     (if m \<notin> {GET, PATCH, DELETE} then None
      else (case resolveResource resource resourceId of
              None \<Rightarrow> Some (NotFoundJson ''resource not found'')
            | Some (r, i) \<Rightarrow>
                (let path = CHR ''/'' # r @ CHR ''/'' # i
                 in Some (Forward path
                      (if m = GET then plain else if m = PATCH then sending_text PATCH t else sending DELETE)))))"

definition smtp_route :: "http_method \<Rightarrow> string \<Rightarrow> route_result option" where
  "smtp_route m t =
     (case m of
        GET \<Rightarrow> Some (Forward ''/settings/smtp'' plain)
      | PUT \<Rightarrow> Some (Forward ''/settings/smtp'' (sending_text PUT t))
      | _ \<Rightarrow> None)"

definition smtp_test_route :: "http_method \<Rightarrow> route_result option" where
  "smtp_test_route m = (case m of POST \<Rightarrow> Some (Forward ''/settings/smtp/test'' (sending POST)) | _ \<Rightarrow> None)"

definition automations_route :: "http_method \<Rightarrow> string \<Rightarrow> route_result option" where
  "automations_route m t =
     (case m of
        GET \<Rightarrow> Some (Forward ''/automations'' plain)
      | POST \<Rightarrow> Some (Forward ''/automations'' (sending_text POST t))
      | _ \<Rightarrow> None)"

definition automation_route :: "http_method \<Rightarrow> string \<Rightarrow> string \<Rightarrow> route_result option" where
  "automation_route m automationId t =
     (let path = ''/automations/'' @ automationId
      in case m of
           GET \<Rightarrow> Some (Forward path plain)
         | PATCH \<Rightarrow> Some (Forward path (sending_text PATCH t))
         | DELETE \<Rightarrow> Some (Forward path (sending DELETE))
         | _ \<Rightarrow> None)"

definition automation_run_route :: "http_method \<Rightarrow> string \<Rightarrow> route_result option" where
  "automation_run_route m automationId =
     (case m of POST \<Rightarrow> Some (Forward (''/automations/'' @ automationId @ ''/run'') (sending POST)) | _ \<Rightarrow> None)"

definition automation_runs_route :: "http_method \<Rightarrow> string \<Rightarrow> route_result option" where
  "automation_runs_route m automationId =
     (case m of GET \<Rightarrow> Some (Forward (''/automations/'' @ automationId @ ''/runs'') plain) | _ \<Rightarrow> None)"

lemmas route_defs =
  certificates_route_def certificate_route_def certificate_relations_route_def certificate_issue_route_def
  certificate_versions_route_def manual_challenge_route_def manual_challenge_check_route_def
  manual_challenge_continue_route_def auth_route_def deployment_targets_route_def
  dns_account_action_route_def acme_verify_route_def webhook_route_def webhook_test_route_def
  sessions_route_def revoke_others_route_def deployment_run_route_def deployments_route_def
  load_balancers_route_def listeners_route_def alb_regions_route_def dns_zones_route_def
  credential_action_route_def notifications_route_def notifications_read_route_def events_route_def
  resource_route_def resource_item_route_def smtp_route_def smtp_test_route_def automations_route_def
  automation_route_def automation_run_route_def automation_runs_route_def resolveResource_def


subsection \<open>All route files\<close>

text \<open>
  One constructor per route file of \<^verbatim>\<open>app/api\<close>, with the dynamic segments the framework hands
  to its handlers; which route file a URL selects is the framework's business.
\<close>

datatype api_route =
    RCertificates | RCertificate string | RCertificateRelations string | RCertificateIssue string
  | RCertificateVersions string | RManualChallenge string | RManualChallengeCheck string
  | RManualChallengeContinue string | RAuth "string list" | RDeploymentTargets
  | RDnsAccountAction string string | RAcmeVerify string | RWebhook | RWebhookTest | RSessions
  | RRevokeOthers | RDeploymentRun string | RDeployments | RLoadBalancers string
  | RListeners string string | RAlbRegions string | RDnsZones string | RCredentialAction string string
  | RNotifications | RNotificationsRead | REvents | RResource string | RResourceItem string string
  | RSmtp | RSmtpTest | RAutomations | RAutomation string | RAutomationRun string | RAutomationRuns string

definition serve_route :: "api_route \<Rightarrow> bff_request \<Rightarrow> route_result option" where
  "serve_route rt r =
     (let m = in_method r; t = in_text r; q = in_query r
      in case rt of
           RCertificates \<Rightarrow> certificates_route m t
         | RCertificate i \<Rightarrow> certificate_route m i t
         | RCertificateRelations i \<Rightarrow> certificate_relations_route m i
         | RCertificateIssue i \<Rightarrow> certificate_issue_route m i
         | RCertificateVersions i \<Rightarrow> certificate_versions_route m i
         | RManualChallenge i \<Rightarrow> manual_challenge_route m i
         | RManualChallengeCheck i \<Rightarrow> manual_challenge_check_route m i
         | RManualChallengeContinue i \<Rightarrow> manual_challenge_continue_route m i
         | RAuth path \<Rightarrow> auth_route m path t
         | RDeploymentTargets \<Rightarrow> deployment_targets_route m t
         | RDnsAccountAction i act \<Rightarrow> dns_account_action_route m i act
         | RAcmeVerify i \<Rightarrow> acme_verify_route m i
         | RWebhook \<Rightarrow> webhook_route m t
         | RWebhookTest \<Rightarrow> webhook_test_route m t
         | RSessions \<Rightarrow> sessions_route m
         | RRevokeOthers \<Rightarrow> revoke_others_route m
         | RDeploymentRun i \<Rightarrow> deployment_run_route m i
         | RDeployments \<Rightarrow> deployments_route m t
         | RLoadBalancers i \<Rightarrow> load_balancers_route m i q
         | RListeners i lb \<Rightarrow> listeners_route m i lb q
         | RAlbRegions i \<Rightarrow> alb_regions_route m i
         | RDnsZones i \<Rightarrow> dns_zones_route m i
         | RCredentialAction i act \<Rightarrow> credential_action_route m i act
         | RNotifications \<Rightarrow> notifications_route m
         | RNotificationsRead \<Rightarrow> notifications_read_route m t
         | REvents \<Rightarrow> events_route m q (in_headers r)
         | RResource res \<Rightarrow> resource_route m res t
         | RResourceItem res i \<Rightarrow> resource_item_route m res i t
         | RSmtp \<Rightarrow> smtp_route m t
         | RSmtpTest \<Rightarrow> smtp_test_route m
         | RAutomations \<Rightarrow> automations_route m t
         | RAutomation i \<Rightarrow> automation_route m i t
         | RAutomationRun i \<Rightarrow> automation_run_route m i
         | RAutomationRuns i \<Rightarrow> automation_runs_route m i)"

lemma init_selectors [simp]:
  "init_method plain = None" "init_body plain = None" "init_headers plain = []"
  "init_method (sending m) = Some m" "init_body (sending m) = None" "init_headers (sending m) = []"
  "init_method (sending_text m t) = Some m" "init_body (sending_text m t) = Some t"
  "init_headers (sending_text m t) = []"
  by (simp_all add: init_defs)

subsection \<open>What crosses the proxy\<close>

lemma al_get_copy_header:
  "al_get k (copy_header from name h) =
     (if k = toLowerCase name \<and> al_get k from \<notin> {None, Some []} then al_get k from else al_get k h)"
  by (auto simp: copy_header_def split: option.splits)

lemma header_names:
  "toLowerCase ''cookie'' = ''cookie''" "toLowerCase ''Cookie'' = ''cookie''"
  "toLowerCase ''X-CertFlow-Locale'' = ''x-certflow-locale''"
  "toLowerCase ''Content-Type'' = ''content-type''"
  "toLowerCase ''X-Request-ID'' = ''x-request-id''"
  "toLowerCase ''Cache-Control'' = ''cache-control''"
  "toLowerCase ''X-Accel-Buffering'' = ''x-accel-buffering''"
  "toLowerCase ''Accept-Language'' = ''accept-language''"
  by code_simp+

text \<open>
  Only the session cookie crosses to the control plane: of a request forwarded without
  headers of its own, the upstream sees the incoming cookie header unchanged, the locale, a
  JSON content type exactly when there is a body, a request id, and nothing else of the
  browser's headers (such as a forged forwarding or authorization header).
\<close>

theorem proxy_headers_exact:
  "al_get name (proxy_headers uuid incoming (init\<lparr>init_headers := []\<rparr>)) =
     (if name = ''cookie'' then (if al_get ''cookie'' incoming = Some [] then None else al_get ''cookie'' incoming)
      else if name = ''x-certflow-locale'' then Some (requestLocale incoming)
      else if name = ''content-type''
        then (if init_body init = None \<or> init_body init = Some [] then None else Some ''application/json'')
      else if name = ''x-request-id'' then Some uuid
      else None)"
  by (auto simp: proxy_headers_def header_names Let_def split: option.splits)

text \<open>
  The answer of the control plane crosses back with its status, its body and its cookies
  unchanged, and with no header but the content type and the two that control buffering.
\<close>

theorem proxy_response_exact:
  "proxy_response up =
     \<lparr>ur_status = ur_status up, ur_headers = ur_headers (proxy_response up),
      ur_set_cookie = ur_set_cookie up, ur_body = ur_body up\<rparr> \<and>
   al_get name (ur_headers (proxy_response up)) =
     (if name = ''content-type''
        then Some (case al_get ''content-type'' (ur_headers up) of None \<Rightarrow> ''application/json'' | Some v \<Rightarrow> v)
      else if name \<in> {''cache-control'', ''x-accel-buffering''} \<and> al_get name (ur_headers up) \<noteq> Some []
        then al_get name (ur_headers up)
      else None)"
proof (rule conjI)
  let ?up = "ur_headers up"
  have h: "al_get name (ur_headers (proxy_response up)) =
      (if name = ''x-accel-buffering'' \<and> al_get name ?up \<notin> {None, Some []} then al_get name ?up
       else if name = ''cache-control'' \<and> al_get name ?up \<notin> {None, Some []} then al_get name ?up
       else if name = ''content-type''
         then Some (case al_get ''content-type'' ?up of None \<Rightarrow> ''application/json'' | Some v \<Rightarrow> v)
       else None)"
    by (simp only: proxy_response_def Let_def header_names fold_simps upstream_response.simps
        al_get_copy_header al_get_set al_get.simps)
  show "al_get name (ur_headers (proxy_response up)) =
     (if name = ''content-type''
        then Some (case al_get ''content-type'' ?up of None \<Rightarrow> ''application/json'' | Some v \<Rightarrow> v)
      else if name \<in> {''cache-control'', ''x-accel-buffering''} \<and> al_get name ?up \<noteq> Some []
        then al_get name ?up else None)"
    unfolding h by (cases "name = ''content-type''"; cases "name = ''cache-control''";
        cases "name = ''x-accel-buffering''"; cases "al_get name ?up") simp_all
qed (simp add: proxy_response_def)

subsection \<open>The locale cookie\<close>

definition cookie_pair :: "string \<times> string \<Rightarrow> string" where
  "cookie_pair kv = fst kv @ CHR ''='' # snd kv"

definition cookie_token :: "string \<Rightarrow> bool" where
  "cookie_token s \<longleftrightarrow> list_all (\<lambda>c. c \<noteq> CHR '';'' \<and> c \<noteq> CHR ''='' \<and> \<not> is_js_space c) s"

text \<open>A cookie header as browsers write it.\<close>

definition cookie_header :: "(string \<times> string) list \<Rightarrow> string" where
  "cookie_header cookies = js_join [CHR '';'', CHR '' ''] (map cookie_pair cookies)"

lemma cookie_token_pair:
  assumes "cookie_token k" "cookie_token v"
  shows "js_trim (cookie_pair (k, v)) = cookie_pair (k, v)"
    and "js_trim (CHR '' '' # cookie_pair (k, v)) = cookie_pair (k, v)"
    and "\<forall>c\<in>set (cookie_pair (k, v)). c \<noteq> CHR '';''"
proof -
  have eq: "\<not> is_js_space (CHR ''='')" by code_simp
  have hd: "\<not> is_js_space (hd (cookie_pair (k, v)))"
    using assms(1) eq by (cases k) (auto simp: cookie_pair_def cookie_token_def)
  have "list_all (\<lambda>c. \<not> is_js_space c) (cookie_pair (k, v))"
    using assms eq by (auto simp: cookie_pair_def cookie_token_def list_all_iff)
  then have lst: "\<not> is_js_space (last (cookie_pair (k, v)))"
    by (metis list_all_iff cookie_pair_def last_in_set append_is_Nil_conv list.discI)
  show t: "js_trim (cookie_pair (k, v)) = cookie_pair (k, v)"
    by (rule js_trim_fixed) (use hd lst in simp)
  have "is_js_space (CHR '' '')" by code_simp
  then have "js_trim (CHR '' '' # cookie_pair (k, v)) = js_trim (cookie_pair (k, v))"
    by (simp add: js_trim_def)
  with t show "js_trim (CHR '' '' # cookie_pair (k, v)) = cookie_pair (k, v)" by simp
  show "\<forall>c\<in>set (cookie_pair (k, v)). c \<noteq> CHR '';''"
    using assms by (auto simp: cookie_pair_def cookie_token_def list_all_iff)
qed

lemma cookie_items:
  assumes "cookies \<noteq> []" "\<forall>(k, v)\<in>set cookies. cookie_token k \<and> cookie_token v"
  shows "map js_trim (split_on (\<lambda>c. c = CHR '';'') (cookie_header cookies)) = map cookie_pair cookies
    \<and> map js_trim (split_on (\<lambda>c. c = CHR '';'') (CHR '' '' # cookie_header cookies)) = map cookie_pair cookies"
  using assms
proof (induction cookies)
  case Nil
  then show ?case by simp
next
  case (Cons kv cookies)
  obtain k v where kv: "kv = (k, v)" by (cases kv)
  have tok: "cookie_token k" "cookie_token v" using Cons.prems kv by auto
  note facts = cookie_token_pair [OF tok]
  show ?case
  proof (cases "cookies = []")
    case True
    then show ?thesis
      using facts kv by (simp add: cookie_header_def split_on_single)
  next
    case False
    have head: "cookie_header (kv # cookies) = cookie_pair kv @ CHR '';'' # CHR '' '' # cookie_header cookies"
      using False by (simp add: cookie_header_def js_join_Cons)
    have sp: "split_on (\<lambda>c. c = CHR '';'') (cookie_pair kv @ CHR '';'' # s)
        = cookie_pair kv # split_on (\<lambda>c. c = CHR '';'') s"
      "split_on (\<lambda>c. c = CHR '';'') (CHR '' '' # cookie_pair kv @ CHR '';'' # s)
        = (CHR '' '' # cookie_pair kv) # split_on (\<lambda>c. c = CHR '';'') s" for s
      using facts(3) kv split_on_append [of "cookie_pair kv"] split_on_append [of "CHR '' '' # cookie_pair kv"]
      by simp_all
    show ?thesis
      unfolding head sp using Cons False facts kv by auto
  qed
qed

lemma cookie_pair_prefix:
  assumes "cookie_token name" "cookie_token k"
  shows "prefix (name @ ''='') (cookie_pair (k, v)) \<longleftrightarrow> k = name"
proof
  assume "prefix (name @ ''='') (cookie_pair (k, v))"
  then obtain z where "name @ CHR ''='' # z = k @ CHR ''='' # v"
    by (auto simp: prefix_def cookie_pair_def)
  then have "takeWhile (\<lambda>c. c \<noteq> CHR ''='') (name @ CHR ''='' # z)
      = takeWhile (\<lambda>c. c \<noteq> CHR ''='') (k @ CHR ''='' # v)" by simp
  moreover have "takeWhile (\<lambda>c. c \<noteq> CHR ''='') (x @ CHR ''='' # y) = x" if "cookie_token x" for x y
    using that by (simp add: cookie_token_def list_all_iff takeWhile_append2)
  ultimately show "k = name" using assms by simp
next
  assume "k = name"
  then show "prefix (name @ ''='') (cookie_pair (k, v))" by (simp add: cookie_pair_def)
qed

lemma cookie_value_of_header:
  assumes "cookie_token name" "\<forall>(k, v)\<in>set cookies. cookie_token k \<and> cookie_token v" "name \<noteq> []"
  shows "cookie_value name (cookie_header cookies) = al_get name cookies"
proof (cases "cookies = []")
  case True
  have "\<not> prefix (name @ ''='') (js_trim [])" by simp
  with True show ?thesis by (simp add: cookie_value_def cookie_header_def)
next
  case False
  have find: "List.find (prefix (name @ ''='')) (map cookie_pair cookies)
      = map_option (\<lambda>v. cookie_pair (name, v)) (al_get name cookies)"
    using assms(2)
    by (induction cookies) (auto simp: cookie_pair_prefix [OF assms(1)])
  have part: "split_on (\<lambda>c. c = CHR ''='') (cookie_pair (name, v)) ! 1 = v" if "al_get name cookies = Some v" for v
  proof -
    from that have "(name, v) \<in> set cookies"
      by (induction cookies) (auto split: if_splits)
    then have "cookie_token v" using assms(2) by auto
    then have "split_on (\<lambda>c. c = CHR ''='') v = [v]"
      by (intro split_on_single) (auto simp: cookie_token_def list_all_iff)
    then show ?thesis
      using assms(1) split_on_append [of name "\<lambda>c. c = CHR ''=''" "CHR ''=''" v]
      by (simp add: cookie_pair_def cookie_token_def list_all_iff)
  qed
  show ?thesis
    using cookie_items [OF False assms(2)] find part
    by (cases "al_get name cookies") (simp_all add: cookie_value_def)
qed

text \<open>
  The hand-written cookie parser of the proxy reads back what a browser writes: from a
  header of cookies whose names and values are tokens it returns the value of the first
  cookie of that name, wherever it stands, and nothing when there is none (a longer name that
  ends or starts with it does not confuse the parser).
\<close>

theorem cookie_value_header:
  assumes "cookie_token name" "\<forall>(k, v)\<in>set cookies. cookie_token k \<and> cookie_token v" "name \<noteq> []"
  shows "cookie_value name (cookie_header cookies) = al_get name cookies"
  by (rule cookie_value_of_header [OF assms])

lemma cookie_value_header_witness:
  "cookie_value ''certflow_locale'' (cookie_header [(''certflow_session'', ''x''), (''certflow_locale'', ''en'')]) = Some ''en''"
proof -
  have n: "cookie_token ''certflow_locale''" by code_simp
  have c: "\<forall>(k, v)\<in>set [(''certflow_session'', ''x''), (''certflow_locale'', ''en'')]. cookie_token k \<and> cookie_token v"
    by code_simp
  show ?thesis by (subst cookie_value_header [OF n c]) simp_all
qed

text \<open>
  The locale a user picks is the locale of the API texts, as long as the browser asks for
  no Chinese page itself: after \<open>setLocale\<close> has switched to \<open>l\<close>, a request that carries the
  written cookie among others is forwarded with \<open>l\<close>. A locale header or an accept-language
  header starting with zh wins over the cookie.
\<close>

theorem setLocale_requestLocale:
  assumes "cur_locale s \<noteq> l"
    and "document_cookie (setLocale l s) = Some (''certflow_locale='' @ value @ ''; Path=/; Max-Age=31536000; SameSite=Lax'')"
    and "cookie_token value" "\<forall>(k, v)\<in>set pre. cookie_token k \<and> cookie_token v \<and> k \<noteq> ''certflow_locale''"
  shows "requestLocale [(''accept-language'', lang), (''cookie'', cookie_header (pre @ [(''certflow_locale'', value)]))]
    = (if prefix ''zh'' (toLowerCase lang) then ''zh-CN'' else locale_name l)"
proof -
  have v: "value = locale_name l"
    using assms(1,2) by (simp add: setLocale_def)
  have n: "cookie_token ''certflow_locale''" by code_simp
  have c: "cookie_value ''certflow_locale'' (cookie_header (pre @ [(''certflow_locale'', value)]))
      = al_get ''certflow_locale'' (pre @ [(''certflow_locale'', value)])"
    using assms(3,4) n by (intro cookie_value_of_header) auto
  have "al_get ''certflow_locale'' (pre @ [(''certflow_locale'', value)]) = Some value"
    using assms(4) by (induction pre) auto
  with c v show ?thesis
    by (cases l) (simp_all add: requestLocale_def header_names locale_name_def Let_def)
qed

lemma setLocale_requestLocale_witness:
  "requestLocale [(''accept-language'', ''fr''),
     (''cookie'', cookie_header [(''certflow_session'', ''x''), (''certflow_locale'', ''en'')])] = ''en''"
proof -
  let ?s = "\<lparr>cur_locale = ZhCN, document_cookie = None, locale_refreshes = 0\<rparr>"
  have "requestLocale [(''accept-language'', ''fr''),
      (''cookie'', cookie_header ([(''certflow_session'', ''x'')] @ [(''certflow_locale'', ''en'')]))]
    = (if prefix ''zh'' (toLowerCase ''fr'') then ''zh-CN'' else locale_name En)"
    by (rule setLocale_requestLocale [of ?s En "''en''"])
      (simp, simp add: setLocale_def locale_name_def, code_simp, code_simp)
  moreover have "\<not> prefix ''zh'' (toLowerCase ''fr'')" by code_simp
  ultimately show ?thesis by (simp add: locale_name_def)
qed

end
