(* ===== verification/Routing.thy ===== *)
theory Routing
  imports Bff
begin

text \<open>
  From a URL of the browser to a route file: the file-system routing of \<^verbatim>\<open>app/api\<close>. A directory in
  brackets is a dynamic segment, a static segment wins over a dynamic one, and a directory without
  a route file is no route; \<^verbatim>\<open>[...path]\<close> takes all the remaining segments. The segments are those the
  framework has decoded. The second half follows a forwarded request through the URL parser of \<open>fetch\<close>.
\<close>

definition route_of :: "string list \<Rightarrow> api_route option" where
  "route_of segs =
     (case segs of
        [a] \<Rightarrow>
          if a = ''certificates'' then Some RCertificates
          else if a = ''deployment-targets'' then Some RDeploymentTargets
          else if a = ''certificate-deployments'' then Some RDeployments
          else if a = ''notifications'' then Some RNotifications
          else if a = ''events'' then Some REvents
          else if a = ''automations'' then Some RAutomations
          else Some (RResource a)
      | [a, b] \<Rightarrow>
          if a = ''auth'' then Some (RAuth [b])
          else if a = ''certificates'' then Some (RCertificate b)
          else if a = ''automations'' then Some (RAutomation b)
          else if a = ''profile'' \<and> b = ''webhook'' then Some RWebhook
          else if a = ''profile'' \<and> b = ''sessions'' then Some RSessions
          else if a = ''notifications'' \<and> b = ''read'' then Some RNotificationsRead
          else if a = ''settings'' \<and> b = ''smtp'' then Some RSmtp
          else Some (RResourceItem a b)
      | [a, b, c] \<Rightarrow>
          if a = ''auth'' then Some (RAuth [b, c])
          else if a = ''certificates'' then
            (if c = ''relations'' then Some (RCertificateRelations b)
             else if c = ''issue'' then Some (RCertificateIssue b)
             else if c = ''versions'' then Some (RCertificateVersions b)
             else if c = ''manual-challenge'' then Some (RManualChallenge b) else None)
          else if a = ''automations'' then
            (if c = ''run'' then Some (RAutomationRun b)
             else if c = ''runs'' then Some (RAutomationRuns b) else None)
          else if a = ''cloud-credentials'' then Some (RCredentialAction b c)
          else if a = ''dns-accounts'' then Some (RDnsAccountAction b c)
          else if a = ''acme-accounts'' \<and> c = ''verify'' then Some (RAcmeVerify b)
          else if a = ''certificate-deployments'' \<and> c = ''run'' then Some (RDeploymentRun b)
          else if a = ''profile'' \<and> b = ''webhook'' \<and> c = ''test'' then Some RWebhookTest
          else if a = ''profile'' \<and> b = ''sessions'' \<and> c = ''revoke-others'' then Some RRevokeOthers
          else if a = ''settings'' \<and> b = ''smtp'' \<and> c = ''test'' then Some RSmtpTest
          else None
      | [a, b, c, d] \<Rightarrow>
          if a = ''auth'' then Some (RAuth [b, c, d])
          else if a = ''certificates'' \<and> c = ''manual-challenge'' \<and> d = ''check'' then Some (RManualChallengeCheck b)
          else if a = ''certificates'' \<and> c = ''manual-challenge'' \<and> d = ''continue''
            then Some (RManualChallengeContinue b)
          else if a = ''cloud-credentials'' \<and> c = ''alb'' \<and> d = ''regions'' then Some (RAlbRegions b)
          else if a = ''cloud-credentials'' \<and> c = ''alb'' \<and> d = ''load-balancers'' then Some (RLoadBalancers b)
          else if a = ''cloud-credentials'' \<and> c = ''dns'' \<and> d = ''zones'' then Some (RDnsZones b)
          else None
      | a # rest \<Rightarrow>
          if a = ''auth'' then Some (RAuth rest)
          else (case rest of
                  [b, c, d, e, f] \<Rightarrow>
                    if a = ''cloud-credentials'' \<and> c = ''alb'' \<and> d = ''load-balancers'' \<and> f = ''listeners''
                    then Some (RListeners b e) else None
                | _ \<Rightarrow> None)
      | [] \<Rightarrow> None)"

text \<open>The segments of a URL below \<open>/api\<close>, its query cut off.\<close>

definition api_segments :: "string \<Rightarrow> string list option" where
  "api_segments u =
     (case split_on (\<lambda>c. c = CHR ''/'') (takeWhile (\<lambda>c. c \<noteq> CHR ''?'') u) of
        [] # api # rest \<Rightarrow> if api = ''api'' then Some rest else None
      | _ \<Rightarrow> None)"

text \<open>
  The request \<open>r\<close> of the URL \<open>u\<close> is served by a route file that forwards it to the same path and
  query below the base of the control plane.
\<close>

definition reaches_api :: "bff_request \<Rightarrow> string \<Rightarrow> bool" where
  "reaches_api r u =
     (case Option.bind (api_segments u) route_of of
        None \<Rightarrow> False
      | Some rt \<Rightarrow>
          (case serve_route rt r of
             Some (Forward path init) \<Rightarrow> ''/api'' @ path = u
           | _ \<Rightarrow> False))"

text \<open>
  An identifier as it stands in a URL of the console: it ends neither its segment nor the path. (The
  further characters that a URL parser reads as more than themselves are excluded by
  \<open>plain_segment\<close> below, where it matters.)
\<close>

definition path_segment :: "string \<Rightarrow> bool" where
  "path_segment s \<longleftrightarrow> s \<noteq> [] \<and> list_all (\<lambda>c. c \<notin> {CHR ''/'', CHR ''?''}) s"

lemma js_join_segments: "js_join ''/'' (w # ws) = w @ concat (map (\<lambda>v. CHR ''/'' # v) ws)"
  by (induction ws arbitrary: w) auto

lemma api_segments_url:
  assumes "\<forall>w\<in>set ws. list_all (\<lambda>c. c \<notin> {CHR ''/'', CHR ''?''}) w" "q = [] \<or> hd q = CHR ''?''"
  shows "api_segments (''/api'' @ concat (map (\<lambda>w. CHR ''/'' # w) ws) @ q) = Some ws"
proof -
  let ?u = "''/api'' @ concat (map (\<lambda>w. CHR ''/'' # w) ws)"
  have "\<forall>c\<in>set ?u. c \<noteq> CHR ''?''" using assms(1) by (auto simp: list_all_iff)
  moreover have "takeWhile (\<lambda>c. c \<noteq> CHR ''?'') q = []" using assms(2) by (cases q) auto
  ultimately have cut: "takeWhile (\<lambda>c. c \<noteq> CHR ''?'') (?u @ q) = ?u"
    using takeWhile_append2 [of ?u "\<lambda>c. c \<noteq> CHR ''?''" q] by (simp only: append_Nil2) blast
  have u: "?u = js_join ''/'' ([] # ''api'' # ws)" by (simp only: js_join_segments) simp
  have "\<forall>w\<in>set ([] # ''api'' # ws). \<forall>c\<in>set w. c \<noteq> CHR ''/''" using assms(1) by (auto simp: list_all_iff)
  then have "split_on (\<lambda>c. c = CHR ''/'') ?u = [] # ''api'' # ws"
    unfolding u by (intro split_on_join) auto
  with cut show ?thesis by (simp add: api_segments_def)
qed

lemma path_segment_chars: "path_segment w \<Longrightarrow> list_all (\<lambda>c. c \<notin> {CHR ''/'', CHR ''?''}) w"
  by (simp add: path_segment_def)

text \<open>The URLs of the console, segment by segment.\<close>

lemma api_segments_two:
  assumes "path_segment i"
  shows "api_segments (''/api/certificates/'' @ i) = Some [''certificates'', i]"
    and "api_segments (''/api/automations/'' @ i) = Some [''automations'', i]"
  using api_segments_url [of "[''certificates'', i]" "[]"] api_segments_url [of "[''automations'', i]" "[]"]
    path_segment_chars [OF assms] by simp_all

lemma api_segments_three:
  assumes "path_segment i"
  shows "api_segments (''/api/certificates/'' @ i @ ''/issue'') = Some [''certificates'', i, ''issue'']"
    and "api_segments (''/api/certificates/'' @ i @ ''/versions'') = Some [''certificates'', i, ''versions'']"
    and "api_segments (''/api/certificates/'' @ i @ ''/relations'') = Some [''certificates'', i, ''relations'']"
    and "api_segments (''/api/certificates/'' @ i @ ''/manual-challenge'') = Some [''certificates'', i, ''manual-challenge'']"
    and "api_segments (''/api/automations/'' @ i @ ''/run'') = Some [''automations'', i, ''run'']"
    and "api_segments (''/api/automations/'' @ i @ ''/runs'') = Some [''automations'', i, ''runs'']"
  using api_segments_url [of "[''certificates'', i, ''issue'']" "[]"]
    api_segments_url [of "[''certificates'', i, ''versions'']" "[]"]
    api_segments_url [of "[''certificates'', i, ''relations'']" "[]"]
    api_segments_url [of "[''certificates'', i, ''manual-challenge'']" "[]"]
    api_segments_url [of "[''automations'', i, ''run'']" "[]"]
    api_segments_url [of "[''automations'', i, ''runs'']" "[]"]
    path_segment_chars [OF assms] by simp_all

lemma api_segments_four:
  assumes "path_segment i"
  shows "api_segments (''/api/certificates/'' @ i @ ''/manual-challenge/continue'') =
      Some [''certificates'', i, ''manual-challenge'', ''continue'']"
    and "api_segments (''/api/certificates/'' @ i @ ''/manual-challenge/check'') =
      Some [''certificates'', i, ''manual-challenge'', ''check'']"
    and "api_segments (''/api/cloud-credentials/'' @ i @ ''/alb/regions'') =
      Some [''cloud-credentials'', i, ''alb'', ''regions'']"
    and "api_segments (''/api/cloud-credentials/'' @ i @ ''/alb/load-balancers?regionId='' @ q) =
      Some [''cloud-credentials'', i, ''alb'', ''load-balancers'']"
  using api_segments_url [of "[''certificates'', i, ''manual-challenge'', ''continue'']" "[]"]
    api_segments_url [of "[''certificates'', i, ''manual-challenge'', ''check'']" "[]"]
    api_segments_url [of "[''cloud-credentials'', i, ''alb'', ''regions'']" "[]"]
    api_segments_url [of "[''cloud-credentials'', i, ''alb'', ''load-balancers'']" "''?regionId='' @ q"]
    path_segment_chars [OF assms] by simp_all

lemma api_segments_listeners:
  assumes "path_segment i" "path_segment b"
  shows "api_segments (''/api/cloud-credentials/'' @ i @ ''/alb/load-balancers/'' @ b @ ''/listeners?regionId='' @ q) =
      Some [''cloud-credentials'', i, ''alb'', ''load-balancers'', b, ''listeners'']"
  using api_segments_url [of "[''cloud-credentials'', i, ''alb'', ''load-balancers'', b, ''listeners'']" "''?regionId='' @ q"]
    path_segment_chars [OF assms(1)] path_segment_chars [OF assms(2)] by simp

lemma api_segments_one:
  "api_segments ''/api/certificates'' = Some [''certificates'']"
  "api_segments ''/api/automations'' = Some [''automations'']"
  using api_segments_url [of "[''certificates'']" "[]"] api_segments_url [of "[''automations'']" "[]"] by simp_all

lemmas api_segments_urls =
  api_segments_two [unfolded append_Cons append_Nil] api_segments_three [unfolded append_Cons append_Nil]
  api_segments_four [unfolded append_Cons append_Nil]

lemmas api_segments_listeners_url = api_segments_listeners [unfolded append_Cons append_Nil]

lemma method_name_iff [simp]:
  "method_name m = ''GET'' \<longleftrightarrow> m = GET" "method_name m = ''POST'' \<longleftrightarrow> m = POST"
  "method_name m = ''PATCH'' \<longleftrightarrow> m = PATCH" "method_name m = ''DELETE'' \<longleftrightarrow> m = DELETE" "method_name m = ''PUT'' \<longleftrightarrow> m = PUT"
  by (cases m; simp add: method_name_def)+

subsection \<open>Where a forwarded request arrives\<close>

text \<open>
  The path of an upstream URL as \<open>fetch\<close> parses it after the host: tabs and line breaks are dropped, the
  path ends at a question mark or number sign, a backslash separates like a slash, and segments of
  one or two dots (the dots may be percent-encoded) are resolved. Other percent-encodings leave the
  segments what they are.
\<close>

definition dot_segment :: "string \<Rightarrow> bool" where
  "dot_segment w \<longleftrightarrow> toLowerCase w \<in> {''.'', ''%2e''}"

definition double_dot_segment :: "string \<Rightarrow> bool" where
  "double_dot_segment w \<longleftrightarrow> toLowerCase w \<in> {''..'', ''.%2e'', ''%2e.'', ''%2e%2e''}"

fun resolve_dots :: "string list \<Rightarrow> string list \<Rightarrow> string list" where
  "resolve_dots acc [] = rev acc"
| "resolve_dots acc (w # ws) =
     (if double_dot_segment w then (if ws = [] then rev ([] # tl acc) else resolve_dots (tl acc) ws)
      else if dot_segment w then (if ws = [] then rev ([] # acc) else resolve_dots acc ws)
      else resolve_dots (w # acc) ws)"

definition fetched_path :: "string \<Rightarrow> string list" where
  "fetched_path u =
     resolve_dots [] (tl (split_on (\<lambda>c. c \<in> set [CHR ''/'', CHR 0x5C])
       (takeWhile (\<lambda>c. c \<noteq> CHR ''?'' \<and> c \<noteq> CHR ''#'') (filter (\<lambda>c. code c \<notin> {9, 10, 13}) u))))"

text \<open>A decoded parameter that every parser on the way takes for one segment, and for itself.\<close>

definition plain_char :: "char \<Rightarrow> bool" where
  "plain_char c \<longleftrightarrow> 32 < code c \<and> c \<notin> {CHR ''/'', CHR 0x5C, CHR ''?'', CHR ''#'', CHR 0x25}"

definition plain_segment :: "string \<Rightarrow> bool" where
  "plain_segment w \<longleftrightarrow> w \<notin> {[], ''.'', ''..''} \<and> list_all plain_char w"

lemma lower_char_low:
  assumes "code d < 65"
  shows "lower_char c = d \<longleftrightarrow> c = d"
proof (cases "65 \<le> code c \<and> code c \<le> 90 \<or> 192 \<le> code c \<and> code c \<le> 222 \<and> code c \<noteq> 215")
  case True
  then have "code (lower_char c) = code c + 32" "65 \<le> code c" by (auto simp: lower_char_def)
  with assms have "code (lower_char c) \<noteq> code d" "code c \<noteq> code d" by simp_all
  then show ?thesis by blast
next
  case False
  then have "lower_char c = c" by (simp only: lower_char_def if_False)
  then show ?thesis by simp
qed

lemma plain_not_dots:
  assumes "plain_segment w"
  shows "\<not> dot_segment w" "\<not> double_dot_segment w"
proof -
  have low: "code CHR 0x25 < 65" "code CHR ''.'' < 65" by code_simp+
  have "CHR 0x25 \<notin> set w" using assms unfolding plain_segment_def list_all_iff plain_char_def by blast
  then have p: "CHR 0x25 \<notin> set (toLowerCase w)"
    unfolding toLowerCase_def set_map image_iff using lower_char_low [OF low(1)] by metis
  have u: "toLowerCase w \<noteq> u" if "CHR 0x25 \<in> set u" for u using p that by blast
  have "toLowerCase w \<noteq> ''.''" "toLowerCase w \<noteq> ''..''"
    using assms by (simp_all only: toLowerCase_def map_eq_Cons_conv Nil_is_map_conv lower_char_low [OF low(2)] plain_segment_def
        insert_iff empty_iff) blast+
  moreover have "toLowerCase w \<noteq> ''%2e''" "toLowerCase w \<noteq> ''.%2e''" "toLowerCase w \<noteq> ''%2e.''" "toLowerCase w \<noteq> ''%2e%2e''"
    by (rule u; simp)+
  ultimately show "\<not> dot_segment w" "\<not> double_dot_segment w"
    unfolding dot_segment_def double_dot_segment_def by (simp_all only: insert_iff empty_iff simp_thms)
qed

lemma resolve_plain: "\<forall>w\<in>set ws. plain_segment w \<Longrightarrow> resolve_dots acc ws = rev acc @ ws"
  by (induction ws arbitrary: acc) (auto simp: plain_not_dots)

abbreviation path_of :: "string list \<Rightarrow> string" where
  "path_of ws \<equiv> concat (map (\<lambda>w. CHR ''/'' # w) ws)"

lemma takeWhile_cut:
  "takeWhile P ys = [] \<Longrightarrow> (\<And>x. x \<in> set xs \<Longrightarrow> P x) \<Longrightarrow> takeWhile P (xs @ ys) = xs"
  by (simp add: takeWhile_append2)

lemma fetched_path_plain:
  assumes "\<forall>w\<in>set ws. plain_segment w" "ws \<noteq> []" "q = [] \<or> hd q = CHR ''?''"
  shows "fetched_path (path_of ws @ q) = ws"
proof -
  have ok: "\<forall>c\<in>set w. plain_char c" if "w \<in> set ws" for w
    using assms(1) that by (simp add: plain_segment_def list_all_iff)
  have slash: "code CHR ''/'' = 47" "code CHR ''?'' = 63" by code_simp+
  have stop: "c \<noteq> CHR ''?'' \<and> c \<noteq> CHR ''#''" if "c = CHR ''/'' \<or> plain_char c" for c
    using that by (elim disjE) (simp_all add: plain_char_def)
  have chars: "\<forall>c\<in>set (path_of ws). c = CHR ''/'' \<or> plain_char c" using ok by auto
  have "32 < code c" if "c \<in> set (path_of ws)" for c
    using chars [rule_format, OF that] slash unfolding plain_char_def by (elim disjE conjE) simp_all
  then have "code c \<notin> {9, 10, 13}" if "c \<in> set (path_of ws)" for c
    using that by fastforce
  then have kept: "filter (\<lambda>c. code c \<notin> {9, 10, 13}) (path_of ws) = path_of ws"
    by (intro filter_True ballI)
  have "takeWhile (\<lambda>c. c \<noteq> CHR ''?'' \<and> c \<noteq> CHR ''#'') (filter (\<lambda>c. code c \<notin> {9, 10, 13}) q) = []"
  proof (cases q)
    case (Cons a q')
    then have "q = CHR ''?'' # q'" using assms(3) by simp
    moreover have "code CHR ''?'' \<notin> {9, 10, 13}" unfolding slash(2) by simp
    ultimately show ?thesis by (simp only: filter.simps takeWhile.simps simp_thms if_True if_False)
  qed simp
  then have cut: "takeWhile (\<lambda>c. c \<noteq> CHR ''?'' \<and> c \<noteq> CHR ''#'')
      (filter (\<lambda>c. code c \<notin> {9, 10, 13}) (path_of ws @ q)) = path_of ws"
    unfolding filter_append kept by (rule takeWhile_cut) (use chars stop in blast)
  have "path_of ws = js_join ''/'' ([] # ws)" by (simp only: js_join_segments) simp
  moreover have "split_on (\<lambda>c. c \<in> set [CHR ''/'', CHR 0x5C]) (js_join ''/'' ([] # ws)) = [] # ws"
    using ok by (intro split_on_join) (auto simp: plain_char_def)
  ultimately show ?thesis
    unfolding fetched_path_def cut using assms(1) by (simp add: resolve_plain)
qed

subsection \<open>What a route file may send\<close>

text \<open>The segments that a route file and its parameters stand for.\<close>

fun route_segments :: "api_route \<Rightarrow> string list" where
  "route_segments RCertificates = [''certificates'']"
| "route_segments (RCertificate i) = [''certificates'', i]"
| "route_segments (RCertificateRelations i) = [''certificates'', i, ''relations'']"
| "route_segments (RCertificateIssue i) = [''certificates'', i, ''issue'']"
| "route_segments (RCertificateVersions i) = [''certificates'', i, ''versions'']"
| "route_segments (RManualChallenge i) = [''certificates'', i, ''manual-challenge'']"
| "route_segments (RManualChallengeCheck i) = [''certificates'', i, ''manual-challenge'', ''check'']"
| "route_segments (RManualChallengeContinue i) = [''certificates'', i, ''manual-challenge'', ''continue'']"
| "route_segments (RAuth path) = ''auth'' # path"
| "route_segments RDeploymentTargets = [''deployment-targets'']"
| "route_segments (RDnsAccountAction i act) = [''dns-accounts'', i, act]"
| "route_segments (RAcmeVerify i) = [''acme-accounts'', i, ''verify'']"
| "route_segments RWebhook = [''profile'', ''webhook'']"
| "route_segments RWebhookTest = [''profile'', ''webhook'', ''test'']"
| "route_segments RSessions = [''profile'', ''sessions'']"
| "route_segments RRevokeOthers = [''profile'', ''sessions'', ''revoke-others'']"
| "route_segments (RDeploymentRun i) = [''certificate-deployments'', i, ''run'']"
| "route_segments RDeployments = [''certificate-deployments'']"
| "route_segments (RLoadBalancers i) = [''cloud-credentials'', i, ''alb'', ''load-balancers'']"
| "route_segments (RListeners i b) = [''cloud-credentials'', i, ''alb'', ''load-balancers'', b, ''listeners'']"
| "route_segments (RAlbRegions i) = [''cloud-credentials'', i, ''alb'', ''regions'']"
| "route_segments (RDnsZones i) = [''cloud-credentials'', i, ''dns'', ''zones'']"
| "route_segments (RCredentialAction i act) = [''cloud-credentials'', i, act]"
| "route_segments RNotifications = [''notifications'']"
| "route_segments RNotificationsRead = [''notifications'', ''read'']"
| "route_segments REvents = [''events'']"
| "route_segments (RResource res) = [res]"
| "route_segments (RResourceItem res i) = [res, i]"
| "route_segments RSmtp = [''settings'', ''smtp'']"
| "route_segments RSmtpTest = [''settings'', ''smtp'', ''test'']"
| "route_segments RAutomations = [''automations'']"
| "route_segments (RAutomation i) = [''automations'', i]"
| "route_segments (RAutomationRun i) = [''automations'', i, ''run'']"
| "route_segments (RAutomationRuns i) = [''automations'', i, ''runs'']"

lemma route_of_segments:
  assumes "route_of segs = Some rt"
  shows "route_segments rt = segs \<and> rt \<noteq> RAuth []"
proof -
  consider "segs = []" | a where "segs = [a]" | a b where "segs = [a, b]" | a b c where "segs = [a, b, c]"
    | a b c d where "segs = [a, b, c, d]" | a b c d e where "segs = [a, b, c, d, e]"
    | a b c d e f where "segs = [a, b, c, d, e, f]" | a b c d e f g l where "segs = a # b # c # d # e # f # g # l"
    by (metis list.exhaust)
  then show ?thesis
    using assms by cases (simp_all only: route_of_def list.case, auto split: if_splits)
qed

text \<open>The collections of the control plane that may be addressed, and the actions without a body.\<close>

definition collections :: "string set" where
  "collections = {''certificates'', ''auth'', ''deployment-targets'', ''dns-accounts'', ''acme-accounts'', ''profile'',
     ''certificate-deployments'', ''cloud-credentials'', ''notifications'', ''events'', ''settings'', ''automations''}"

definition bare_action :: "string list \<Rightarrow> bool" where
  "bare_action segs \<longleftrightarrow> hd segs \<noteq> ''auth'' \<and>
     (last segs \<in> {''issue'', ''continue'', ''run'', ''verify'', ''enable'', ''disable'', ''revoke-others''} \<or>
      segs = [''settings'', ''smtp'', ''test''])"

definition carries_body :: "http_method \<Rightarrow> string list \<Rightarrow> bool" where
  "carries_body m segs \<longleftrightarrow> m \<in> {PATCH, PUT} \<or> m = POST \<and> \<not> bare_action segs"

lemma forwarded_path:
  assumes "serve_route rt r = Some (Forward path init)" "rt \<noteq> RAuth []"
  shows "\<exists>q. path = path_of (route_segments rt) @ q \<and> (q = [] \<or> hd q = CHR ''?'')"
proof (cases "\<exists>i b. rt = RLoadBalancers i \<or> rt = RListeners i b \<or> rt = REvents")
  case True
  with assms(1) show ?thesis
    by (auto simp: serve_route_def route_defs Let_def split: http_method.splits option.splits if_splits)
next
  case False
  then have "path = path_of (route_segments rt)"
    using assms by (cases rt) (auto simp: serve_route_def route_defs Let_def neq_Nil_conv js_join_segments
        split: http_method.splits if_splits)
  then show ?thesis by (intro exI [of _ "[]"]) simp
qed

lemma forwarded_collection:
  assumes "serve_route rt r = Some (Forward path init)"
  shows "hd (route_segments rt) \<in> collections"
proof (cases "\<exists>a i. rt = RResource a \<or> rt = RResourceItem a i")
  case True
  then have "hd (route_segments rt) \<in> set resources"
    using assms by (auto simp: serve_route_def resource_route_def resource_item_route_def resolveResource_def Let_def
        split: http_method.splits if_splits)
  then show ?thesis by (auto simp: resources_def collections_def)
next
  case False
  then show ?thesis by (cases rt) (simp_all add: collections_def)
qed

lemma forwarded_method:
  assumes "serve_route rt r = Some (Forward path init)"
  shows "case init_method init of None \<Rightarrow> in_method r = GET | Some m \<Rightarrow> in_method r = m"
  using assms
  by (cases rt; cases "in_method r"; simp add: serve_route_def route_defs Let_def split: if_splits; (elim conjE)?; hypsubst?; simp)

lemma forwarded_body:
  assumes "serve_route rt r = Some (Forward path init)"
  shows "init_body init = (if carries_body (in_method r) (route_segments rt) then Some (in_text r) else None)"
proof (cases "\<exists>a. rt = RResource a")
  case True
  have "\<not> bare_action [a]" if "a \<in> set resources" for a
    using that by (auto simp: bare_action_def resources_def)
  with True assms show ?thesis
    by (auto simp: serve_route_def resource_route_def carries_body_def Let_def split: http_method.splits if_splits)
next
  case False
  then show ?thesis
    using assms
    by (cases rt; cases "in_method r"; simp add: serve_route_def route_defs Let_def carries_body_def split: if_splits;
        (elim conjE)?; hypsubst?; simp add: bare_action_def dns_account_actions_def credential_actions_def; blast)
qed

lemma forwarded_action:
  assumes "serve_route rt r = Some (Forward path init)" "route_segments rt = [c, i, act]"
    and "c = ''cloud-credentials'' \<or> c = ''dns-accounts''"
  shows "act \<in> {''verify'', ''enable'', ''disable''}"
  using assms
  by (cases rt) (auto simp: serve_route_def route_defs Let_def dns_account_actions_def credential_actions_def
      split: http_method.splits if_splits)

text \<open>
  C15. What a route file forwards mirrors the request it serves. Let the framework have picked a route
  file for the decoded segments of a URL below \<open>/api\<close>, none of which is empty, a dot segment, or holds
  a blank, control character, slash, backslash, question mark, number sign or percent sign. If the handler
  forwards the request, the URL it fetches is parsed to the very same segments below \<open>/api/v1\<close>; the
  first one is a known collection of the control plane, and below a cloud credential or DNS account
  a third segment is one of the actions verify, enable and disable; the method is that of the
  request; and the body is the incoming text for PATCH, PUT and every POST but the bare actions
  (issue, continue, run, verify, enable, disable, revoke-others and the SMTP test), and absent otherwise.
\<close>

theorem serve_route_faithful:
  assumes "route_of segs = Some rt" "serve_route rt r = Some (Forward path init)"
    and "\<forall>w\<in>set segs. plain_segment w"
  shows "fetched_path (''/api/v1'' @ path) = ''api'' # ''v1'' # segs \<and>
    hd segs \<in> collections \<and>
    (\<forall>c i act. segs = [c, i, act] \<and> (c = ''cloud-credentials'' \<or> c = ''dns-accounts'') \<longrightarrow>
       act \<in> {''verify'', ''enable'', ''disable''}) \<and>
    (case init_method init of None \<Rightarrow> in_method r = GET | Some m \<Rightarrow> in_method r = m) \<and>
    init_body init = (if carries_body (in_method r) segs then Some (in_text r) else None)"
proof -
  from route_of_segments [OF assms(1)] have segs: "route_segments rt = segs" "rt \<noteq> RAuth []" by simp_all
  from forwarded_path [OF assms(2) segs(2)] obtain q where
    path: "path = path_of segs @ q" "q = [] \<or> hd q = CHR ''?''" by (auto simp: segs(1))
  have "''/api/v1'' @ path = path_of (''api'' # ''v1'' # segs) @ q" by (simp add: path(1))
  moreover have "plain_segment ''api''" "plain_segment ''v1''" by code_simp+
  ultimately have "fetched_path (''/api/v1'' @ path) = ''api'' # ''v1'' # segs"
    using assms(3) path(2) fetched_path_plain [of "''api'' # ''v1'' # segs" q] by simp
  then show ?thesis
    using forwarded_collection [OF assms(2)] forwarded_method [OF assms(2)] forwarded_body [OF assms(2)]
      forwarded_action [OF assms(2)] unfolding segs(1) by blast
qed

text \<open>An action on a credential.\<close>

definition enable_request :: bff_request where
  "enable_request = \<lparr>in_method = POST, in_segments = [], in_query = [], in_headers = [], in_text = ''{}''\<rparr>"

lemma serve_route_faithful_witness:
  "serve_route (RCredentialAction ''k1'' ''enable'') enable_request =
     Some (Forward ''/cloud-credentials/k1/enable'' (sending POST)) \<and>
   fetched_path (''/api/v1'' @ ''/cloud-credentials/k1/enable'') = [''api'', ''v1'', ''cloud-credentials'', ''k1'', ''enable'']"
proof -
  have r: "route_of [''cloud-credentials'', ''k1'', ''enable''] = Some (RCredentialAction ''k1'' ''enable'')"
    by (simp add: route_of_def)
  have s: "serve_route (RCredentialAction ''k1'' ''enable'') enable_request =
      Some (Forward ''/cloud-credentials/k1/enable'' (sending POST))"
    by (simp add: serve_route_def credential_action_route_def credential_actions_def enable_request_def)
  have "\<forall>w\<in>set [''cloud-credentials'', ''k1'', ''enable'']. plain_segment w" by code_simp
  from serve_route_faithful [OF r s this] s show ?thesis by simp
qed

text \<open>
  The condition on the segments is needed: an identifier is put into the upstream URL as it is, so a
  decoded parameter of dots and slashes leads out of the collection.
\<close>

theorem parameter_leaves_collection:
  "route_of [''dns-accounts'', ''../cloud-credentials/k1''] = Some (RResourceItem ''dns-accounts'' ''../cloud-credentials/k1'') \<and>
   serve_route (RResourceItem ''dns-accounts'' ''../cloud-credentials/k1'') (enable_request\<lparr>in_method := DELETE\<rparr>) =
     Some (Forward ''/dns-accounts/../cloud-credentials/k1'' (sending DELETE)) \<and>
   fetched_path (''/api/v1'' @ ''/dns-accounts/../cloud-credentials/k1'') = [''api'', ''v1'', ''cloud-credentials'', ''k1'']"
proof (intro conjI)
  show "fetched_path (''/api/v1'' @ ''/dns-accounts/../cloud-credentials/k1'') = [''api'', ''v1'', ''cloud-credentials'', ''k1'']"
    by code_simp
qed (simp_all add: route_of_def serve_route_def resource_item_route_def resolveResource_def resources_def enable_request_def
    sending_def Let_def)

end
