(* ===== verification/Domains.thy ===== *)
theory Domains
  imports Texts
begin

text \<open>
  Domain names of a certificate: the parsing of the domains field and \<open>validateDomains\<close>, which the
  creation wizard (\<^verbatim>\<open>certificate-workflow.tsx\<close>) and the edit form (\<^verbatim>\<open>certificate-list.tsx\<close>) each
  define. The regular expression of the source is a term of a small language of regular
  expressions with a derivative matcher; the matcher is proved to decide the language, and the
  language is proved equal to a declarative description of a host name.
\<close>

subsection \<open>Regular expressions\<close>

datatype rx =
    Zero
  | Eps
  | Class "char \<Rightarrow> bool"
  | Seq rx rx
  | Alt rx rx
  | Star rx
  | UpTo nat rx

definition Lit :: "char \<Rightarrow> rx" where
  "Lit c = Class (\<lambda>x. x = c)"

definition Plus :: "rx \<Rightarrow> rx" where
  "Plus r = Seq r (Star r)"

definition Opt :: "rx \<Rightarrow> rx" where
  "Opt r = UpTo 1 r"

definition Between :: "nat \<Rightarrow> nat \<Rightarrow> rx \<Rightarrow> rx" where
  "Between m n r = foldr Seq (replicate m r) (UpTo (n - m) r)"

inductive_set star :: "string set \<Rightarrow> string set" for A :: "string set" where
  star_Nil: "[] \<in> star A"
| star_step: "u \<in> A \<Longrightarrow> v \<in> star A \<Longrightarrow> u @ v \<in> star A"

fun upto_lang :: "nat \<Rightarrow> string set \<Rightarrow> string set" where
  "upto_lang 0 A = {[]}"
| "upto_lang (Suc n) A = insert [] {u @ v | u v. u \<in> A \<and> v \<in> upto_lang n A}"

primrec lang :: "rx \<Rightarrow> string set" where
  "lang Zero = {}"
| "lang Eps = {[]}"
| "lang (Class p) = {[c] | c. p c}"
| "lang (Seq r s) = {u @ v | u v. u \<in> lang r \<and> v \<in> lang s}"
| "lang (Alt r s) = lang r \<union> lang s"
| "lang (Star r) = star (lang r)"
| "lang (UpTo n r) = upto_lang n (lang r)"

primrec nullable :: "rx \<Rightarrow> bool" where
  "nullable Zero = False"
| "nullable Eps = True"
| "nullable (Class p) = False"
| "nullable (Seq r s) = (nullable r \<and> nullable s)"
| "nullable (Alt r s) = (nullable r \<or> nullable s)"
| "nullable (Star r) = True"
| "nullable (UpTo n r) = True"

primrec deriv :: "char \<Rightarrow> rx \<Rightarrow> rx" where
  "deriv c Zero = Zero"
| "deriv c Eps = Zero"
| "deriv c (Class p) = (if p c then Eps else Zero)"
| "deriv c (Seq r s) = (if nullable r then Alt (Seq (deriv c r) s) (deriv c s) else Seq (deriv c r) s)"
| "deriv c (Alt r s) = Alt (deriv c r) (deriv c s)"
| "deriv c (Star r) = Seq (deriv c r) (Star r)"
| "deriv c (UpTo n r) = (case n of 0 \<Rightarrow> Zero | Suc m \<Rightarrow> Seq (deriv c r) (UpTo m r))"

fun matches :: "rx \<Rightarrow> string \<Rightarrow> bool" where
  "matches r [] = nullable r"
| "matches r (c # s) = matches (deriv c r) s"

lemma Nil_upto_lang [simp]: "[] \<in> upto_lang n A"
  by (cases n) auto

lemma nullable_lang: "nullable r \<longleftrightarrow> [] \<in> lang r"
  by (induction r) (auto intro: star_Nil)

lemma star_Cons: "c # w \<in> star A \<longleftrightarrow> (\<exists>u v. w = u @ v \<and> c # u \<in> A \<and> v \<in> star A)"
proof
  assume "c # w \<in> star A"
  then show "\<exists>u v. w = u @ v \<and> c # u \<in> A \<and> v \<in> star A"
  proof (induction "c # w" rule: star.induct)
    case (star_step u v)
    then show ?case by (cases u) auto
  qed
next
  assume "\<exists>u v. w = u @ v \<and> c # u \<in> A \<and> v \<in> star A"
  then show "c # w \<in> star A"
    using star_step [of "c # _" A] by auto
qed

lemma upto_lang_Suc_iff:
  "x \<in> upto_lang (Suc n) A \<longleftrightarrow> x = [] \<or> (\<exists>u v. x = u @ v \<and> u \<in> A \<and> v \<in> upto_lang n A)"
  by simp

lemma upto_lang_Suc_mono: "upto_lang n A \<subseteq> upto_lang (Suc n) A"
proof (induction n)
  case 0
  then show ?case by simp
next
  case (Suc n)
  show ?case
  proof
    fix x
    assume "x \<in> upto_lang (Suc n) A"
    then show "x \<in> upto_lang (Suc (Suc n)) A"
      unfolding upto_lang_Suc_iff [of x n] upto_lang_Suc_iff [of x "Suc n"] using Suc.IH by blast
  qed
qed

lemma upto_lang_Cons_iff:
  "c # w \<in> upto_lang n A \<longleftrightarrow>
    (case n of 0 \<Rightarrow> False | Suc m \<Rightarrow> \<exists>u v. w = u @ v \<and> c # u \<in> A \<and> v \<in> upto_lang m A)"
proof (induction n)
  case 0
  then show ?case by simp
next
  case (Suc n)
  have "c # w \<in> upto_lang (Suc n) A \<longleftrightarrow>
      (\<exists>u v. w = u @ v \<and> c # u \<in> A \<and> v \<in> upto_lang n A) \<or> [] \<in> A \<and> c # w \<in> upto_lang n A"
    by (auto simp: Cons_eq_append_conv)
  also have "\<dots> \<longleftrightarrow> (\<exists>u v. w = u @ v \<and> c # u \<in> A \<and> v \<in> upto_lang n A)"
    using Suc.IH upto_lang_Suc_mono [of _ A] by (cases n) (auto, blast)
  finally show ?case by simp
qed

lemma deriv_lang: "w \<in> lang (deriv c r) \<longleftrightarrow> c # w \<in> lang r"
proof (induction r arbitrary: w)
  case (Seq r s)
  then show ?case by (auto simp: nullable_lang Cons_eq_append_conv)
next
  case (Star r)
  then show ?case by (auto simp: star_Cons)
next
  case (UpTo n r)
  then show ?case by (auto simp: upto_lang_Cons_iff simp del: upto_lang.simps split: nat.splits)
qed auto

theorem matches_lang: "matches r w \<longleftrightarrow> w \<in> lang r"
  by (induction w arbitrary: r) (auto simp: nullable_lang deriv_lang)

subsection \<open>The domain expression\<close>

text \<open>The classes of the expression under its \<open>i\<close> flag.\<close>

definition is_letter :: "char \<Rightarrow> bool" where
  "is_letter c \<longleftrightarrow> 97 \<le> code c \<and> code c \<le> 122 \<or> 65 \<le> code c \<and> code c \<le> 90"

definition is_alnum :: "char \<Rightarrow> bool" where
  "is_alnum c \<longleftrightarrow> is_letter c \<or> is_digit c"

definition is_ldh :: "char \<Rightarrow> bool" where
  "is_ldh c \<longleftrightarrow> is_alnum c \<or> c = CHR ''-''"

text \<open>\<^verbatim>\<open>[a-z0-9](?:[a-z0-9-]{0,61}[a-z0-9])?\<close>\<close>

definition label_rx :: rx where
  "label_rx = Seq (Class is_alnum) (Opt (Seq (Between 0 61 (Class is_ldh)) (Class is_alnum)))"

text \<open>\<^verbatim>\<open>/^(\*\.)?([a-z0-9](?:[a-z0-9-]{0,61}[a-z0-9])?\.)+[a-z]{2,63}$/i\<close>\<close>

definition domain_rx :: rx where
  "domain_rx = Seq (Opt (Seq (Lit CHR ''*'') (Lit CHR ''.'')))
     (Seq (Plus (Seq label_rx (Lit CHR ''.''))) (Between 2 63 (Class is_letter)))"

definition domain_wellformed :: "string \<Rightarrow> bool" where
  "domain_wellformed d \<longleftrightarrow> \<not> (length d > 253 \<or> \<not> matches domain_rx d)"

subsection \<open>A declarative description of host names\<close>

definition valid_label :: "string \<Rightarrow> bool" where
  "valid_label l \<longleftrightarrow> 1 \<le> length l \<and> length l \<le> 63 \<and> list_all is_ldh l \<and> is_alnum (hd l) \<and> is_alnum (last l)"

definition valid_tld :: "string \<Rightarrow> bool" where
  "valid_tld l \<longleftrightarrow> 2 \<le> length l \<and> length l \<le> 63 \<and> list_all is_letter l"

abbreviation labels :: "string \<Rightarrow> string list" where
  "labels d \<equiv> split_on (\<lambda>c. c = CHR ''.'') d"

definition host_name :: "string \<Rightarrow> bool" where
  "host_name d \<longleftrightarrow> 2 \<le> length (labels d) \<and> list_all valid_label (butlast (labels d)) \<and> valid_tld (last (labels d))"

definition wildcard_of :: "string \<Rightarrow> string" where
  "wildcard_of d = ''*.'' @ d"

lemma upto_class: "upto_lang n {[c] | c. p c} = {w. length w \<le> n \<and> list_all p w}"
proof (induction n)
  case 0
  then show ?case by auto
next
  case (Suc n)
  show ?case
  proof (rule set_eqI)
    fix w
    show "w \<in> upto_lang (Suc n) {[c] | c. p c} \<longleftrightarrow> w \<in> {w. length w \<le> Suc n \<and> list_all p w}"
    proof (cases w)
      case Nil
      then show ?thesis by simp
    next
      case (Cons a v)
      have "a # v \<in> upto_lang (Suc n) {[c] | c. p c} \<longleftrightarrow> p a \<and> v \<in> upto_lang n {[c] | c. p c}"
        by (simp add: upto_lang_Cons_iff del: upto_lang.simps)
      then show ?thesis unfolding Cons Suc.IH by auto
    qed
  qed
qed

lemma seq_class: "{u @ v | u v. u \<in> {[c] | c. p c} \<and> v \<in> A} = {a # y | a y. p a \<and> y \<in> A}"
proof -
  have "{u @ v | u v. u \<in> {[c] | c. p c} \<and> v \<in> A} = {[a] @ y | a y. p a \<and> y \<in> A}" by blast
  then show ?thesis by simp
qed

lemma upto_one: "upto_lang (Suc 0) A = insert [] A"
  by auto

lemma opt_prefix: "{u @ v | u v. u \<in> {[], x} \<and> P v} = {v. P v} \<union> {x @ v | v. P v}"
proof -
  have "{u @ v | u v. u \<in> {[], x} \<and> P v} = {[] @ v | v. P v} \<union> {x @ v | v. P v}" by blast
  then show ?thesis by simp
qed

lemma is_dot_not_ldh [simp]: "\<not> is_ldh CHR ''.''" "\<not> is_letter CHR ''.''" "\<not> is_alnum CHR ''.''"
  by (simp_all add: is_ldh_def is_alnum_def is_letter_def is_digit_def code_def)

lemma alnum_ldh: "is_alnum c \<Longrightarrow> is_ldh c"
  by (simp add: is_ldh_def)

lemma lang_label_rx: "l \<in> lang label_rx \<longleftrightarrow> valid_label l"
proof -
  let ?inner = "{w @ [b] | w b. length w \<le> 61 \<and> list_all is_ldh w \<and> is_alnum b}"
  have inner: "lang (Seq (Between 0 61 (Class is_ldh)) (Class is_alnum)) = ?inner"
    by (simp only: lang.simps Between_def upto_class replicate_0 foldr.simps id_apply diff_zero) blast
  have rx: "lang label_rx = {a # x | a x. is_alnum a \<and> (x = [] \<or> x \<in> ?inner)}"
    unfolding label_rx_def Opt_def One_nat_def lang.simps(4) [of "Class _"] lang.simps(7) inner upto_one
      lang.simps(3) seq_class by blast
  show ?thesis
  proof (cases l)
    case Nil
    then show ?thesis by (simp add: rx valid_label_def)
  next
    case (Cons a x)
    show ?thesis
    proof (cases x rule: rev_cases)
      case Nil
      with Cons show ?thesis by (auto simp: rx valid_label_def alnum_ldh)
    next
      case (snoc w b)
      with Cons show ?thesis by (auto simp: rx valid_label_def alnum_ldh)
    qed
  qed
qed

lemma lang_tld: "lang (Between 2 63 (Class is_letter)) = {t. valid_tld t}"
proof -
  have "lang (Between 2 63 (Class is_letter)) =
      {a # b # w | a b w. is_letter a \<and> is_letter b \<and> length w \<le> 61 \<and> list_all is_letter w}"
    by (simp only: Between_def numeral_2_eq_2 replicate.simps foldr.simps o_apply id_apply lang.simps
        seq_class upto_class) auto
  also have "\<dots> = {t. valid_tld t}"
  proof (rule set_eqI)
    fix t
    show "t \<in> {a # b # w | a b w. is_letter a \<and> is_letter b \<and> length w \<le> 61 \<and> list_all is_letter w}
      \<longleftrightarrow> t \<in> {t. valid_tld t}"
      by (cases t rule: remdups_adj.cases) (auto simp: valid_tld_def)
  qed
  finally show ?thesis .
qed

lemma star_concat: "star {f l | l. P l} = {concat (map f ls) | ls. list_all P ls}"
proof (rule set_eqI, rule iffI)
  fix w
  assume "w \<in> star {f l | l. P l}"
  then show "w \<in> {concat (map f ls) | ls. list_all P ls}"
  proof (induction rule: star.induct)
    case star_Nil
    show ?case by (rule CollectI, rule exI [of _ "[]"]) simp
  next
    case (star_step u v)
    then obtain l ls where "u = f l" "P l" "v = concat (map f ls)" "list_all P ls" by auto
    then show ?case by (intro CollectI exI [of _ "l # ls"]) simp
  qed
next
  fix w
  assume "w \<in> {concat (map f ls) | ls. list_all P ls}"
  then obtain ls where w: "w = concat (map f ls)" and P: "list_all P ls" by auto
  from P have "concat (map f ls) \<in> star {f l | l. P l}"
    by (induction ls) (auto intro: star_Nil star_step)
  then show "w \<in> star {f l | l. P l}" by (simp add: w)
qed

lemma join_dots: "js_join ''.'' (ls @ [t]) = concat (map (\<lambda>l. l @ ''.'') ls) @ t"
  by (induction ls) (simp_all add: js_join_Cons)

lemma labels_of_parts:
  assumes "list_all valid_label ls" "valid_tld t"
  shows "labels (concat (map (\<lambda>l. l @ ''.'') ls) @ t) = ls @ [t]"
proof -
  have "\<forall>w\<in>set (ls @ [t]). \<forall>c\<in>set w. c \<noteq> CHR ''.''"
    using assms by (fastforce simp: valid_label_def valid_tld_def list_all_iff)
  then show ?thesis
    unfolding join_dots [symmetric] by (intro split_on_join) auto
qed

lemma host_name_parts:
  "host_name d \<longleftrightarrow> (\<exists>ls t. ls \<noteq> [] \<and> list_all valid_label ls \<and> valid_tld t \<and>
     d = concat (map (\<lambda>l. l @ ''.'') ls) @ t)"
proof
  assume h: "host_name d"
  define ws where "ws = labels d"
  have ne: "ws \<noteq> []" by (simp add: ws_def)
  then have ws: "butlast ws @ [last ws] = ws" by simp
  have "d = js_join ''.'' ws"
    using join_split_on [of "CHR ''.''" d] by (simp add: ws_def)
  also have "\<dots> = js_join ''.'' (butlast ws @ [last ws])" by (simp only: ws)
  also have "\<dots> = concat (map (\<lambda>l. l @ ''.'') (butlast ws)) @ last ws" by (rule join_dots)
  finally have d: "d = concat (map (\<lambda>l. l @ ''.'') (butlast ws)) @ last ws" .
  have "butlast ws \<noteq> []"
    using h by (cases ws rule: rev_cases) (auto simp: host_name_def ws_def)
  moreover have "list_all valid_label (butlast ws)" "valid_tld (last ws)"
    using h by (simp_all add: host_name_def ws_def)
  ultimately show "\<exists>ls t. ls \<noteq> [] \<and> list_all valid_label ls \<and> valid_tld t \<and>
      d = concat (map (\<lambda>l. l @ ''.'') ls) @ t"
    using d by blast
next
  assume "\<exists>ls t. ls \<noteq> [] \<and> list_all valid_label ls \<and> valid_tld t \<and>
     d = concat (map (\<lambda>l. l @ ''.'') ls) @ t"
  then obtain ls t where *: "ls \<noteq> []" "list_all valid_label ls" "valid_tld t"
      "d = concat (map (\<lambda>l. l @ ''.'') ls) @ t" by blast
  then have "labels d = ls @ [t]" by (simp add: labels_of_parts)
  with * show "host_name d" by (cases ls) (auto simp: host_name_def)
qed

lemma lang_host:
  "lang (Seq (Plus (Seq label_rx (Lit CHR ''.''))) (Between 2 63 (Class is_letter))) = {d. host_name d}"
proof -
  have dot: "lang (Seq label_rx (Lit CHR ''.'')) = {l @ ''.'' | l. valid_label l}"
    by (auto simp: Lit_def lang_label_rx)
  have "lang (Plus (Seq label_rx (Lit CHR ''.''))) =
      {concat (map (\<lambda>l. l @ ''.'') ls) | ls. ls \<noteq> [] \<and> list_all valid_label ls}"
  proof (rule set_eqI, rule iffI)
    fix w
    assume "w \<in> lang (Plus (Seq label_rx (Lit CHR ''.'')))"
    then obtain u v where u: "w = u @ v" "u \<in> {l @ ''.'' | l. valid_label l}"
        and v: "v \<in> star {l @ ''.'' | l. valid_label l}"
      unfolding Plus_def lang.simps(4,6) [of "Seq label_rx (Lit CHR ''.'')"] dot by blast
    from v obtain ls where "v = concat (map (\<lambda>l. l @ ''.'') ls)" "list_all valid_label ls"
      unfolding star_concat by blast
    moreover from u(2) obtain l where "u = l @ ''.''" "valid_label l" by blast
    ultimately have "w = (l @ ''.'') @ concat (map (\<lambda>l. l @ ''.'') ls)" "valid_label l"
        "list_all valid_label ls"
      using u(1) by simp_all
    then show "w \<in> {concat (map (\<lambda>l. l @ ''.'') ls) | ls. ls \<noteq> [] \<and> list_all valid_label ls}"
      by (intro CollectI exI [of _ "l # ls"]) simp
  next
    fix w
    assume "w \<in> {concat (map (\<lambda>l. l @ ''.'') ls) | ls. ls \<noteq> [] \<and> list_all valid_label ls}"
    then obtain l ls where w: "w = (l @ ''.'') @ concat (map (\<lambda>l. l @ ''.'') ls)"
        and l: "valid_label l" "list_all valid_label ls"
      by (auto simp: neq_Nil_conv)
    have "concat (map (\<lambda>l. l @ ''.'') ls) \<in> star {l @ ''.'' | l. valid_label l}"
      using l(2) unfolding star_concat by blast
    then show "w \<in> lang (Plus (Seq label_rx (Lit CHR ''.'')))"
      unfolding Plus_def lang.simps(4,6) [of "Seq label_rx (Lit CHR ''.'')"] dot
      using w l(1) by blast
  qed
  then show ?thesis
    by (simp only: lang.simps(4) lang_tld) (auto simp: host_name_parts)
qed

lemma domain_wellformed_host:
  "domain_wellformed d \<longleftrightarrow>
     length d \<le> 253 \<and> (host_name d \<or> (\<exists>h. d = wildcard_of h \<and> host_name h))"
proof -
  have opt: "lang (Opt (Seq (Lit CHR ''*'') (Lit CHR ''.''))) = {[], ''*.''}"
    by (auto simp: Opt_def Lit_def)
  have "lang domain_rx = {v. host_name v} \<union> {''*.'' @ v | v. host_name v}"
    unfolding domain_rx_def lang.simps(4) [of "Opt _"] opt lang_host opt_prefix [symmetric] by simp
  then have "matches domain_rx d \<longleftrightarrow> host_name d \<or> (\<exists>h. d = wildcard_of h \<and> host_name h)"
    by (auto simp: matches_lang wildcard_of_def)
  then show ?thesis by (simp add: domain_wellformed_def not_less)
qed

subsection \<open>The domains field and its validation\<close>

definition is_domain_separator :: "char \<Rightarrow> bool" where
  "is_domain_separator c \<longleftrightarrow> code c = 10 \<or> c = CHR '',''"

definition newline :: char where
  "newline = char_of (10 :: nat)"

definition parse_domains :: "string \<Rightarrow> string list" where
  "parse_domains domainsText =
     filter (\<lambda>d. d \<noteq> []) (map (\<lambda>d. toLowerCase (js_trim d)) (split_on is_domain_separator domainsText))"

abbreviation is_wildcard :: "string \<Rightarrow> bool" where
  "is_wildcard d \<equiv> prefix ''*.'' d"

definition parent_name :: "string \<Rightarrow> string" where
  "parent_name d = js_join ''.'' (tl (labels d))"

text \<open>
  \<open>validateDomains\<close> of the wizard: its two loops, the first with the set and the map it fills, the second
  over the map. \<open>Inl\<close> and \<open>Some\<close> are early returns.
\<close>

fun scan_domains :: "string list \<Rightarrow> (string \<times> string) list \<Rightarrow> string list \<Rightarrow> label + (string \<times> string) list" where
  "scan_domains unique wildcards [] = Inr wildcards"
| "scan_domains unique wildcards (domain # domains) =
     (if domain \<in> set unique then Inl (Tr ''certificate.domainDuplicate'' [(''domain'', domain)])
      else if length domain > 253 \<or> \<not> matches domain_rx domain
        then Inl (Tr ''certificate.domainInvalid'' [(''domain'', domain)])
      else scan_domains (domain # unique)
        (if is_wildcard domain then al_set (drop 2 domain) domain wildcards else wildcards) domains)"

fun scan_covered :: "(string \<times> string) list \<Rightarrow> string list \<Rightarrow> label option" where
  "scan_covered wildcards [] = None"
| "scan_covered wildcards (domain # domains) =
     (if is_wildcard domain then scan_covered wildcards domains
      else (case al_get (parent_name domain) wildcards of
              Some wildcard \<Rightarrow>
                if wildcard \<noteq> []
                then Some (Tr ''certificate.domainCovered'' [(''domain'', domain), (''wildcard'', wildcard)])
                else scan_covered wildcards domains
            | None \<Rightarrow> scan_covered wildcards domains))"

definition validateDomains :: "string list \<Rightarrow> label" where
  "validateDomains domains =
     (case scan_domains [] [] domains of
        Inl message \<Rightarrow> message
      | Inr wildcards \<Rightarrow>
          (case scan_covered wildcards domains of Some message \<Rightarrow> message | None \<Rightarrow> no_text))"

text \<open>The edit form has a copy of the function, with its texts in Chinese.\<close>

fun edit_scan_domains :: "string list \<Rightarrow> (string \<times> string) list \<Rightarrow> string list \<Rightarrow> label + (string \<times> string) list" where
  "edit_scan_domains unique wildcards [] = Inr wildcards"
| "edit_scan_domains unique wildcards (domain # domains) =
     (if domain \<in> set unique then Inl (Cat [Zh ''duplicate domain: '', Raw domain])
      else if length domain > 253 \<or> \<not> matches domain_rx domain
        then Inl (Cat [Zh ''invalid domain format: '', Raw domain])
      else edit_scan_domains (domain # unique)
        (if is_wildcard domain then al_set (drop 2 domain) domain wildcards else wildcards) domains)"

fun edit_scan_covered :: "(string \<times> string) list \<Rightarrow> string list \<Rightarrow> label option" where
  "edit_scan_covered wildcards [] = None"
| "edit_scan_covered wildcards (domain # domains) =
     (if is_wildcard domain then edit_scan_covered wildcards domains
      else (case al_get (parent_name domain) wildcards of
              Some wildcard \<Rightarrow>
                if wildcard \<noteq> []
                then Some (Cat [Zh ''domain '', Raw domain, Zh '' is already covered by '', Raw wildcard,
                  Zh '', remove the exact domain''])
                else edit_scan_covered wildcards domains
            | None \<Rightarrow> edit_scan_covered wildcards domains))"

definition edit_validateDomains :: "string list \<Rightarrow> label" where
  "edit_validateDomains domains =
     (case edit_scan_domains [] [] domains of
        Inl message \<Rightarrow> message
      | Inr wildcards \<Rightarrow>
          (case edit_scan_covered wildcards domains of Some message \<Rightarrow> message | None \<Rightarrow> no_text))"

subsection \<open>A reference for both\<close>

text \<open>What is wrong with a list, apart from its wording: a reference that both functions are proved to word.\<close>

datatype domain_error =
    DomainDuplicate string
  | DomainInvalid string
  | DomainCovered string string

fun first_error :: "string list \<Rightarrow> string list \<Rightarrow> domain_error option" where
  "first_error before [] = None"
| "first_error before (d # ds) =
     (if d \<in> set before then Some (DomainDuplicate d)
      else if \<not> domain_wellformed d then Some (DomainInvalid d)
      else first_error (d # before) ds)"

definition covered :: "string set \<Rightarrow> string \<Rightarrow> bool" where
  "covered S d \<longleftrightarrow> \<not> is_wildcard d \<and> wildcard_of (parent_name d) \<in> S"

definition check_domains :: "string list \<Rightarrow> domain_error option" where
  "check_domains ds =
     (case first_error [] ds of
        Some e \<Rightarrow> Some e
      | None \<Rightarrow> map_option (\<lambda>d. DomainCovered d (wildcard_of (parent_name d))) (List.find (covered (set ds)) ds))"

definition wizard_text :: "domain_error \<Rightarrow> label" where
  "wizard_text e = (case e of
      DomainDuplicate d \<Rightarrow> Tr ''certificate.domainDuplicate'' [(''domain'', d)]
    | DomainInvalid d \<Rightarrow> Tr ''certificate.domainInvalid'' [(''domain'', d)]
    | DomainCovered d w \<Rightarrow> Tr ''certificate.domainCovered'' [(''domain'', d), (''wildcard'', w)])"

definition edit_text :: "domain_error \<Rightarrow> label" where
  "edit_text e = (case e of
      DomainDuplicate d \<Rightarrow> Cat [Zh ''duplicate domain: '', Raw d]
    | DomainInvalid d \<Rightarrow> Cat [Zh ''invalid domain format: '', Raw d]
    | DomainCovered d w \<Rightarrow>
        Cat [Zh ''domain '', Raw d, Zh '' is already covered by '', Raw w, Zh '', remove the exact domain''])"

lemma text_inj [simp]:
  "wizard_text e = wizard_text e' \<longleftrightarrow> e = e'" "edit_text e = edit_text e' \<longleftrightarrow> e = e'"
  "wizard_text e \<noteq> no_text" "edit_text e \<noteq> no_text"
  by (cases e; cases e'; simp add: wizard_text_def edit_text_def)+

subsection \<open>What validation decides\<close>

lemma al_get_wildcard:
  "al_get h (if is_wildcard d then al_set (drop 2 d) d wild else wild) =
     (if wildcard_of h = d then Some d else al_get h wild)"
proof (cases "is_wildcard d")
  case True
  then obtain z where "d = ''*.'' @ z" by (auto simp: prefix_def)
  then show ?thesis by (auto simp: wildcard_of_def)
next
  case False
  then have "wildcard_of h \<noteq> d" by (auto simp: wildcard_of_def)
  with False show ?thesis by simp
qed

text \<open>The map that a loop has filled: each name with its wildcard, of those met so far.\<close>

definition wildcards_met :: "string set \<Rightarrow> (string \<times> string) list \<Rightarrow> bool" where
  "wildcards_met S wild \<longleftrightarrow> (\<forall>h. al_get h wild = (if wildcard_of h \<in> S then Some (wildcard_of h) else None))"

lemma wildcards_met_Cons:
  "wildcards_met S wild \<Longrightarrow>
     wildcards_met (insert d S) (if is_wildcard d then al_set (drop 2 d) d wild else wild)"
  unfolding wildcards_met_def al_get_wildcard by auto

lemma wildcards_met_Nil [simp]: "wildcards_met {} []"
  by (simp add: wildcards_met_def)

lemma scan_domains_text:
  "wildcards_met (set unique) wild \<Longrightarrow>
     (case first_error unique ds of
        Some e \<Rightarrow> scan_domains unique wild ds = Inl (wizard_text e)
      | None \<Rightarrow> \<exists>w. scan_domains unique wild ds = Inr w \<and> wildcards_met (set unique \<union> set ds) w)"
proof (induction ds arbitrary: unique wild)
  case Nil
  then show ?case by simp
next
  case (Cons d ds)
  let ?w = "if is_wildcard d then al_set (drop 2 d) d wild else wild"
  have wf: "domain_wellformed d \<longleftrightarrow> \<not> (253 < length d \<or> \<not> matches domain_rx d)" by (simp add: domain_wellformed_def)
  have met: "wildcards_met (set (d # unique)) ?w" using wildcards_met_Cons [OF Cons.prems, of d] by simp
  have step: "scan_domains unique wild (d # ds) =
      (if d \<in> set unique then Inl (wizard_text (DomainDuplicate d))
       else if \<not> domain_wellformed d then Inl (wizard_text (DomainInvalid d)) else scan_domains (d # unique) ?w ds)"
    unfolding wf by (simp add: wizard_text_def)
  show ?case
    using Cons.IH [OF met] unfolding step by (simp split: option.splits del: if_split split: if_split_asm)
qed

lemma edit_scan_domains_text:
  "wildcards_met (set unique) wild \<Longrightarrow>
     (case first_error unique ds of
        Some e \<Rightarrow> edit_scan_domains unique wild ds = Inl (edit_text e)
      | None \<Rightarrow> \<exists>w. edit_scan_domains unique wild ds = Inr w \<and> wildcards_met (set unique \<union> set ds) w)"
proof (induction ds arbitrary: unique wild)
  case Nil
  then show ?case by simp
next
  case (Cons d ds)
  let ?w = "if is_wildcard d then al_set (drop 2 d) d wild else wild"
  have wf: "domain_wellformed d \<longleftrightarrow> \<not> (253 < length d \<or> \<not> matches domain_rx d)" by (simp add: domain_wellformed_def)
  have met: "wildcards_met (set (d # unique)) ?w" using wildcards_met_Cons [OF Cons.prems, of d] by simp
  have step: "edit_scan_domains unique wild (d # ds) =
      (if d \<in> set unique then Inl (edit_text (DomainDuplicate d))
       else if \<not> domain_wellformed d then Inl (edit_text (DomainInvalid d)) else edit_scan_domains (d # unique) ?w ds)"
    unfolding wf by (simp add: edit_text_def)
  show ?case
    using Cons.IH [OF met] unfolding step by (simp split: option.splits del: if_split split: if_split_asm)
qed

abbreviation cover_error :: "string \<Rightarrow> domain_error" where
  "cover_error d \<equiv> DomainCovered d (wildcard_of (parent_name d))"

lemma scan_covered_text:
  "wildcards_met S wild \<Longrightarrow>
     scan_covered wild ds = map_option (\<lambda>d. wizard_text (cover_error d)) (List.find (covered S) ds)"
  by (induction ds) (auto simp: wildcards_met_def covered_def wizard_text_def wildcard_of_def)

lemma edit_scan_covered_text:
  "wildcards_met S wild \<Longrightarrow>
     edit_scan_covered wild ds = map_option (\<lambda>d. edit_text (cover_error d)) (List.find (covered S) ds)"
  by (induction ds) (auto simp: wildcards_met_def covered_def edit_text_def wildcard_of_def)

lemma validateDomains_text:
  "validateDomains ds = (case check_domains ds of None \<Rightarrow> no_text | Some e \<Rightarrow> wizard_text e)"
  using scan_domains_text [of "[]" "[]" ds] scan_covered_text [of "set ds" _ ds]
  by (cases "first_error [] ds") (auto simp: validateDomains_def check_domains_def split: option.splits)

lemma edit_validateDomains_text:
  "edit_validateDomains ds = (case check_domains ds of None \<Rightarrow> no_text | Some e \<Rightarrow> edit_text e)"
  using edit_scan_domains_text [of "[]" "[]" ds] edit_scan_covered_text [of "set ds" _ ds]
  by (cases "first_error [] ds") (auto simp: edit_validateDomains_def check_domains_def split: option.splits)

lemma validateDomains_no_text: "validateDomains ds = no_text \<longleftrightarrow> check_domains ds = None"
  by (simp add: validateDomains_text split: option.splits)

lemma edit_validateDomains_no_text: "edit_validateDomains ds = no_text \<longleftrightarrow> check_domains ds = None"
  by (simp add: edit_validateDomains_text split: option.splits)

text \<open>The first element of a kind, by the beginning of the list before it.\<close>

lemma find_split:
  "List.find P xs = Some x \<longleftrightarrow> (\<exists>pre post. xs = pre @ x # post \<and> P x \<and> (\<forall>y\<in>set pre. \<not> P y))"
proof (induction xs)
  case Nil
  then show ?case by simp
next
  case (Cons a xs)
  show ?case
  proof (cases "P a")
    case True
    then show ?thesis by (auto simp: Cons_eq_append_conv)
  next
    case False
    have "(\<exists>pre post. a # xs = pre @ x # post \<and> P x \<and> (\<forall>y\<in>set pre. \<not> P y)) \<longleftrightarrow>
        (\<exists>pre post. xs = pre @ x # post \<and> P x \<and> (\<forall>y\<in>set pre. \<not> P y))" (is "?L \<longleftrightarrow> ?R")
    proof
      assume ?L
      then show ?R using False by (auto simp: Cons_eq_append_conv)
    next
      assume ?R
      then obtain pre post where "xs = pre @ x # post" "P x" "\<forall>y\<in>set pre. \<not> P y" by blast
      with False show ?L by (intro exI [of _ "a # pre"] exI [of _ post]) simp
    qed
    with False Cons.IH show ?thesis by simp
  qed
qed

definition clean_list :: "string list \<Rightarrow> bool" where
  "clean_list ds \<longleftrightarrow> distinct ds \<and> (\<forall>d\<in>set ds. domain_wellformed d)"

lemma first_error_None:
  "first_error before ds = None \<longleftrightarrow> clean_list ds \<and> set ds \<inter> set before = {}"
  by (induction ds arbitrary: before) (auto simp: clean_list_def)

lemma first_error_append:
  "clean_list pre \<Longrightarrow> set pre \<inter> set before = {} \<Longrightarrow>
     first_error before (pre @ ds) = first_error (rev pre @ before) ds"
  by (induction pre arbitrary: before) (auto simp: clean_list_def)

lemma first_error_parts:
  "first_error before ds = Some e \<Longrightarrow>
     \<exists>pre d post. ds = pre @ d # post \<and> clean_list pre \<and> set pre \<inter> set before = {} \<and>
       first_error (rev pre @ before) [d] = Some e"
proof (induction ds arbitrary: before)
  case Nil
  then show ?case by simp
next
  case (Cons a ds)
  show ?case
  proof (cases "a \<in> set before \<or> \<not> domain_wellformed a")
    case True
    with Cons.prems show ?thesis
      by (intro exI [of _ "[]"] exI [of _ a] exI [of _ ds]) (auto simp: clean_list_def)
  next
    case False
    with Cons.prems have "first_error (a # before) ds = Some e" by simp
    from Cons.IH [OF this] obtain pre d post where "ds = pre @ d # post" "clean_list pre"
        "set pre \<inter> set (a # before) = {}" "first_error (rev pre @ a # before) [d] = Some e" by blast
    with False show ?thesis
      by (intro exI [of _ "a # pre"] exI [of _ d] exI [of _ post]) (simp add: clean_list_def)
  qed
qed

lemma first_error_Some:
  "first_error [] ds = Some e \<longleftrightarrow>
     (\<exists>pre d post. ds = pre @ d # post \<and> clean_list pre \<and>
       (if d \<in> set pre then e = DomainDuplicate d else \<not> domain_wellformed d \<and> e = DomainInvalid d))"
  (is "?L \<longleftrightarrow> ?R")
proof
  assume ?L
  from first_error_parts [OF this] show ?R by (fastforce split: if_splits)
next
  assume ?R
  then obtain pre d post where "ds = pre @ d # post" "clean_list pre"
      "if d \<in> set pre then e = DomainDuplicate d else \<not> domain_wellformed d \<and> e = DomainInvalid d" by blast
  then show ?L using first_error_append [of pre "[]" "d # post"] by (simp split: if_splits)
qed

lemma check_domains_None:
  "check_domains ds = None \<longleftrightarrow>
     distinct ds \<and> (\<forall>d\<in>set ds. domain_wellformed d) \<and>
     (\<forall>d\<in>set ds. \<not> is_wildcard d \<longrightarrow> wildcard_of (parent_name d) \<notin> set ds)"
  using first_error_None [of "[]" ds]
  by (cases "first_error [] ds") (auto simp: check_domains_def clean_list_def find_None_iff covered_def)

text \<open>
  C6. Validation accepts a list of domains exactly when no domain occurs twice, every domain is a
  host name of at most 253 characters (labels of letters, digits and inner hyphens, at most 63
  long, then an alphabetic last label) or the wildcard of one, and no exact domain stands
  beside the wildcard of its parent, which already covers it.
\<close>

theorem validateDomains_accepts:
  "validateDomains ds = no_text \<longleftrightarrow>
     distinct ds \<and>
     (\<forall>d\<in>set ds. length d \<le> 253 \<and> (host_name d \<or> (\<exists>h. d = wildcard_of h \<and> host_name h))) \<and>
     (\<forall>d\<in>set ds. \<not> is_wildcard d \<longrightarrow> wildcard_of (parent_name d) \<notin> set ds)"
  by (simp only: validateDomains_no_text check_domains_None domain_wellformed_host)

lemma validateDomains_accepts_witness:
  "host_name ''b.io'' \<and> validateDomains [''a.b.io'', ''*.b.io''] \<noteq> no_text"
proof -
  have "parent_name ''a.b.io'' = ''b.io''" by code_simp
  then have "\<not> (\<forall>d\<in>set [''a.b.io'', ''*.b.io'']. \<not> is_wildcard d \<longrightarrow>
      wildcard_of (parent_name d) \<notin> set [''a.b.io'', ''*.b.io''])"
    by (simp add: wildcard_of_def)
  then have "validateDomains [''a.b.io'', ''*.b.io''] \<noteq> no_text"
    using validateDomains_accepts [of "[''a.b.io'', ''*.b.io'']"] by blast
  moreover have "host_name ''b.io''" by code_simp
  ultimately show ?thesis by blast
qed

text \<open>The declarative side: a domain name, and the first domain of a list that is wrong in each of the three ways.\<close>

definition domain_name :: "string \<Rightarrow> bool" where
  "domain_name d \<longleftrightarrow> length d \<le> 253 \<and> (host_name d \<or> (\<exists>h. d = wildcard_of h \<and> host_name h))"

definition first_duplicate :: "string list \<Rightarrow> string \<Rightarrow> bool" where
  "first_duplicate ds d \<longleftrightarrow>
     (\<exists>pre post. ds = pre @ d # post \<and> d \<in> set pre \<and> distinct pre \<and> (\<forall>x\<in>set pre. domain_name x))"

definition first_invalid :: "string list \<Rightarrow> string \<Rightarrow> bool" where
  "first_invalid ds d \<longleftrightarrow>
     (\<exists>pre post. ds = pre @ d # post \<and> \<not> domain_name d \<and> distinct pre \<and> (\<forall>x\<in>set pre. domain_name x))"

definition first_covered :: "string list \<Rightarrow> string \<Rightarrow> bool" where
  "first_covered ds d \<longleftrightarrow>
     distinct ds \<and> (\<forall>x\<in>set ds. domain_name x) \<and>
     (\<exists>pre post. ds = pre @ d # post \<and> \<not> is_wildcard d \<and> wildcard_of (parent_name d) \<in> set ds \<and>
       (\<forall>x\<in>set pre. is_wildcard x \<or> wildcard_of (parent_name x) \<notin> set ds))"

lemma clean_list_names: "clean_list ds \<longleftrightarrow> distinct ds \<and> (\<forall>x\<in>set ds. domain_name x)"
  by (simp add: clean_list_def domain_wellformed_host domain_name_def)

lemma wellformed_name: "domain_wellformed d \<longleftrightarrow> domain_name d"
  by (simp add: domain_wellformed_host domain_name_def)

lemma check_domains_duplicate: "check_domains ds = Some (DomainDuplicate d) \<longleftrightarrow> first_duplicate ds d"
proof -
  have "check_domains ds = Some (DomainDuplicate d) \<longleftrightarrow> first_error [] ds = Some (DomainDuplicate d)"
    by (auto simp: check_domains_def split: option.splits)
  then show ?thesis
    by (auto simp: first_error_Some first_duplicate_def clean_list_names split: if_splits)
qed

lemma check_domains_invalid: "check_domains ds = Some (DomainInvalid d) \<longleftrightarrow> first_invalid ds d"
proof -
  have "check_domains ds = Some (DomainInvalid d) \<longleftrightarrow> first_error [] ds = Some (DomainInvalid d)"
    by (auto simp: check_domains_def split: option.splits)
  then show ?thesis
    by (fastforce simp: first_error_Some first_invalid_def clean_list_names wellformed_name split: if_splits)
qed

lemma check_domains_covered:
  "check_domains ds = Some (DomainCovered d w) \<longleftrightarrow> first_covered ds d \<and> w = wildcard_of (parent_name d)"
proof (cases "first_error [] ds")
  case None
  then have "clean_list ds" by (simp add: first_error_None)
  moreover have "check_domains ds = Some (DomainCovered d w) \<longleftrightarrow>
      List.find (covered (set ds)) ds = Some d \<and> w = wildcard_of (parent_name d)"
    using None by (auto simp: check_domains_def)
  ultimately show ?thesis
    by (auto simp: find_split first_covered_def covered_def clean_list_names)
next
  case (Some e)
  then have "\<not> clean_list ds" using first_error_None [of "[]" ds] by auto
  moreover have "e \<noteq> DomainCovered d w" using Some by (auto simp: first_error_Some split: if_splits)
  ultimately show ?thesis using Some by (auto simp: check_domains_def first_covered_def clean_list_names)
qed

lemma wizard_reports: "validateDomains ds = wizard_text e \<longleftrightarrow> check_domains ds = Some e"
  by (simp add: validateDomains_text eq_commute [of no_text] split: option.splits)

lemma edit_reports: "edit_validateDomains ds = edit_text e \<longleftrightarrow> check_domains ds = Some e"
  by (simp add: edit_validateDomains_text eq_commute [of no_text] split: option.splits)

text \<open>
  C7. The text reported for a list of domains names the first thing wrong with it. The wizard and the
  edit form, each with a function and texts of its own, report a domain as duplicate exactly when
  it is the first domain that stands before it already, after a beginning of domain names that are
  distinct; as invalid exactly when it is the first that is not a domain name (a host name of at most
  253 characters or the wildcard of one), after such a beginning; and as covered, with its wildcard,
  exactly when the whole list is of distinct domain names and it is the first exact domain whose
  parent's wildcard is in the list. They report nothing else, and one accepts a list exactly when
  the other does.
\<close>

theorem validateDomains_errors:
  "(validateDomains ds = Tr ''certificate.domainDuplicate'' [(''domain'', d)] \<longleftrightarrow> first_duplicate ds d) \<and>
   (validateDomains ds = Tr ''certificate.domainInvalid'' [(''domain'', d)] \<longleftrightarrow> first_invalid ds d) \<and>
   (validateDomains ds = Tr ''certificate.domainCovered'' [(''domain'', d), (''wildcard'', w)] \<longleftrightarrow>
      first_covered ds d \<and> w = wildcard_of (parent_name d)) \<and>
   (edit_validateDomains ds = Cat [Zh ''duplicate domain: '', Raw d] \<longleftrightarrow> first_duplicate ds d) \<and>
   (edit_validateDomains ds = Cat [Zh ''invalid domain format: '', Raw d] \<longleftrightarrow> first_invalid ds d) \<and>
   (edit_validateDomains ds = Cat [Zh ''domain '', Raw d, Zh '' is already covered by '', Raw w,
        Zh '', remove the exact domain''] \<longleftrightarrow> first_covered ds d \<and> w = wildcard_of (parent_name d)) \<and>
   (validateDomains ds = no_text \<or> (\<exists>x. first_duplicate ds x \<or> first_invalid ds x \<or> first_covered ds x)) \<and>
   (edit_validateDomains ds = no_text \<longleftrightarrow> validateDomains ds = no_text)"
proof -
  note errors = check_domains_duplicate check_domains_invalid check_domains_covered
  have "check_domains ds = None \<or> (\<exists>x. first_duplicate ds x \<or> first_invalid ds x \<or> first_covered ds x)"
  proof (cases "check_domains ds")
    case (Some e)
    then show ?thesis by (cases e) (auto simp: errors)
  qed simp
  then show ?thesis
    using wizard_reports [of ds "DomainDuplicate d"] wizard_reports [of ds "DomainInvalid d"]
      wizard_reports [of ds "DomainCovered d w"] edit_reports [of ds "DomainDuplicate d"]
      edit_reports [of ds "DomainInvalid d"] edit_reports [of ds "DomainCovered d w"]
    by (simp add: wizard_text_def edit_text_def errors validateDomains_no_text edit_validateDomains_no_text)
qed

lemma validateDomains_errors_witness:
  "validateDomains [''a.io'', ''b_c.io''] = Tr ''certificate.domainInvalid'' [(''domain'', ''b_c.io'')] \<and>
   edit_validateDomains [''a.io'', ''b_c.io''] = Cat [Zh ''invalid domain format: '', Raw ''b_c.io''] \<and>
   first_invalid [''a.io'', ''b_c.io''] ''b_c.io''"
proof -
  have "validateDomains [''a.io'', ''b_c.io''] = Tr ''certificate.domainInvalid'' [(''domain'', ''b_c.io'')]" by code_simp
  with validateDomains_errors [of "[''a.io'', ''b_c.io'']" "''b_c.io''" "[]"] show ?thesis by blast
qed

subsection \<open>The domains field\<close>

lemma host_name_chars: "host_name d \<Longrightarrow> d \<noteq> [] \<and> (\<forall>c\<in>set d. is_ldh c \<or> c = CHR ''.'')"
proof -
  assume "host_name d"
  then obtain ls t where *: "list_all valid_label ls" "valid_tld t"
      "d = concat (map (\<lambda>l. l @ ''.'') ls) @ t"
    unfolding host_name_parts by blast
  then have "t \<noteq> []" by (auto simp: valid_tld_def)
  with * show ?thesis
    by (auto simp: valid_label_def valid_tld_def list_all_iff is_ldh_def is_alnum_def)
qed

lemma wellformed_chars:
  assumes "domain_wellformed d"
  shows "d \<noteq> [] \<and> (\<forall>c\<in>set d. \<not> is_js_space c \<and> \<not> is_domain_separator c)"
proof -
  have plain: "\<not> is_js_space c \<and> \<not> is_domain_separator c" if "is_ldh c \<or> c = CHR ''.'' \<or> c = CHR ''*''" for c
    using that by (auto simp: is_ldh_def is_alnum_def is_letter_def is_digit_def is_js_space_def
        is_domain_separator_def code_def)
  from assms have "host_name d \<or> (\<exists>h. d = wildcard_of h \<and> host_name h)"
    by (simp add: domain_wellformed_host)
  then have "d \<noteq> [] \<and> (\<forall>c\<in>set d. is_ldh c \<or> c = CHR ''.'' \<or> c = CHR ''*'')"
    using host_name_chars by (fastforce simp: wildcard_of_def)
  with plain show ?thesis by blast
qed

lemma newline_separator [simp]: "is_domain_separator newline"
  by (simp add: is_domain_separator_def newline_def)

lemma parse_domains_join:
  assumes "ds \<noteq> []" "\<forall>d\<in>set ds. domain_wellformed d" "\<forall>d\<in>set ds. toLowerCase d = d"
  shows "parse_domains (js_join [newline] ds) = ds"
proof -
  note wf = assms(2)
  have "split_on is_domain_separator (js_join [newline] ds) = ds"
    using assms(1) wf wellformed_chars by (intro split_on_join) auto
  moreover have "toLowerCase (js_trim d) = d" if "d \<in> set ds" for d
  proof -
    have "d \<noteq> []" "\<forall>c\<in>set d. \<not> is_js_space c" using wellformed_chars wf that by blast+
    then have "js_trim d = d" by (intro js_trim_fixed) simp
    with assms(3) that show ?thesis by simp
  qed
  moreover have "filter (\<lambda>d. d \<noteq> []) ds = ds"
    using wf wellformed_chars by (intro filter_True) blast
  ultimately show ?thesis
    by (simp add: parse_domains_def map_idI)
qed

text \<open>The list that parsing gives never holds an empty or an untrimmed name.\<close>

lemma parse_domains_clean:
  "d \<in> set (parse_domains t) \<Longrightarrow> d \<noteq> [] \<and> js_trim d = d \<and> toLowerCase d = d"
  by (auto simp: parse_domains_def js_trim_toLowerCase)

end
