(* ===== verification/Session.thy ===== *)
theory Session
  imports Domains
begin

text \<open>
  Who gets in: the middleware of \<^verbatim>\<open>proxy.ts\<close>, and the return path after a login from
  \<^verbatim>\<open>features/auth/components/auth-forms.tsx\<close>. A query string is the association list that
  \<open>URLSearchParams\<close> reads back.
\<close>

subsection \<open>The middleware\<close>

text \<open>\<open>/\.[a-z0-9]+$/i.test(pathname)\<close>: an alphanumeric file extension at the end.\<close>

definition has_extension :: "string \<Rightarrow> bool" where
  "has_extension path =
     (let ext = takeWhile is_alnum (rev path); before = dropWhile is_alnum (rev path)
      in ext \<noteq> [] \<and> before \<noteq> [] \<and> hd before = CHR ''.'')"

lemma has_extension_iff:
  "has_extension path \<longleftrightarrow> (\<exists>base ext. path = base @ CHR ''.'' # ext \<and> ext \<noteq> [] \<and> list_all is_alnum ext)"
proof
  let ?r = "rev path"
  assume "has_extension path"
  then obtain b where b: "takeWhile is_alnum ?r \<noteq> []" "dropWhile is_alnum ?r = CHR ''.'' # b"
    by (cases "dropWhile is_alnum ?r") (auto simp: has_extension_def Let_def)
  then have "?r = takeWhile is_alnum ?r @ CHR ''.'' # b"
    using takeWhile_dropWhile_id [of is_alnum ?r] by simp
  then have "path = rev b @ CHR ''.'' # rev (takeWhile is_alnum ?r)"
    by (metis rev.simps(2) rev_append rev_rev_ident append_Cons append_Nil append_assoc)
  moreover have "list_all is_alnum (rev (takeWhile is_alnum ?r))"
    by (auto simp: list_all_iff dest: set_takeWhileD)
  ultimately show "\<exists>base ext. path = base @ CHR ''.'' # ext \<and> ext \<noteq> [] \<and> list_all is_alnum ext"
    using b(1) by (metis rev_is_Nil_conv)
next
  assume "\<exists>base ext. path = base @ CHR ''.'' # ext \<and> ext \<noteq> [] \<and> list_all is_alnum ext"
  then obtain base ext where p: "path = base @ CHR ''.'' # ext" "ext \<noteq> []" "\<forall>c\<in>set ext. is_alnum c"
    by (auto simp: list_all_iff)
  have dot: "\<not> is_alnum (CHR ''.'')" by code_simp
  have "takeWhile is_alnum (rev ext @ CHR ''.'' # rev base) = rev ext"
    "dropWhile is_alnum (rev ext @ CHR ''.'' # rev base) = CHR ''.'' # rev base"
    using p(3) dot takeWhile_append2 [of "rev ext" is_alnum "CHR ''.'' # rev base"]
      dropWhile_append2 [of "rev ext" is_alnum "CHR ''.'' # rev base"] by simp_all
  then show "has_extension path"
    using p by (simp add: has_extension_def Let_def)
qed

text \<open>\<open>config.matcher\<close>: the paths the middleware runs on (the dot of \<open>favicon.ico\<close> is a wild card).\<close>

definition matcher_applies :: "string \<Rightarrow> bool" where
  "matcher_applies path =
     (case path of
        [] \<Rightarrow> False
      | c # rest \<Rightarrow> c = CHR ''/'' \<and> \<not> prefix ''api'' rest \<and> \<not> prefix ''_next'' rest \<and>
          \<not> (prefix ''favicon'' rest \<and> 8 \<le> length rest \<and> prefix ''ico'' (drop 8 rest)))"

datatype gate = NextResponse | RedirectTo string "(string \<times> string) list"

definition public_pages :: "string list" where
  "public_pages = [''/'', ''/login'', ''/register'']"

definition proxy :: "string \<Rightarrow> (string \<times> string) list \<Rightarrow> gate" where
  "proxy pathname cookies =
     (let signedIn = al_get ''certflow_session'' cookies \<notin> {None, Some []}
      in if has_extension pathname then NextResponse
         else if pathname \<in> set public_pages then NextResponse
         else if \<not> signedIn then RedirectTo ''/login'' (al_set ''next'' pathname [])
         else NextResponse)"

definition middleware :: "string \<Rightarrow> (string \<times> string) list \<Rightarrow> gate" where
  "middleware pathname cookies = (if matcher_applies pathname then proxy pathname cookies else NextResponse)"

subsection \<open>After the login\<close>

definition normalizeEmail :: "string \<Rightarrow> string" where
  "normalizeEmail email = toLowerCase (js_trim email)"

text \<open>\<open>/^[^\s@]+@[^\s@]+$/\<close> on the normalized address.\<close>

definition isValidEmail :: "string \<Rightarrow> bool" where
  "isValidEmail email =
     (case split_on (\<lambda>c. c = CHR ''@'') (normalizeEmail email) of
        [user, host] \<Rightarrow> user \<noteq> [] \<and> host \<noteq> [] \<and> list_all (\<lambda>c. \<not> is_js_space c) (user @ host)
      | _ \<Rightarrow> False)"

definition sanitizeNextPath :: "string option \<Rightarrow> string" where
  "sanitizeNextPath value =
     (let path = map_option js_trim value
      in case path of
           None \<Rightarrow> ''/dashboard''
         | Some p \<Rightarrow> if p \<noteq> [] \<and> prefix ''/'' p \<and> \<not> prefix ''//'' p then p else ''/dashboard'')"

text \<open>
  C10. Without a session cookie the middleware lets a page through exactly when it is one of the
  three public pages, has a file extension, or lies outside the matcher; every other path is
  sent to the login page with the path itself, and only that, as the place to return to.
\<close>

theorem middleware_without_session:
  "middleware pathname (al_delete ''certflow_session'' cookies) =
     (if pathname \<in> {''/'', ''/login'', ''/register''} \<or>
         (\<exists>base ext. pathname = base @ CHR ''.'' # ext \<and> ext \<noteq> [] \<and> list_all is_alnum ext)
      then NextResponse
      else if matcher_applies pathname then RedirectTo ''/login'' [(''next'', pathname)]
      else NextResponse)"
  by (auto simp: middleware_def proxy_def public_pages_def has_extension_iff [symmetric])

text \<open>
  C12. The return path is a path of this origin's shape whatever the query parameter holds: it
  begins with one slash, not two, and has no white space at its ends.
\<close>

theorem sanitizeNextPath_local:
  "prefix ''/'' (sanitizeNextPath v) \<and> \<not> prefix ''//'' (sanitizeNextPath v) \<and>
   js_trim (sanitizeNextPath v) = sanitizeNextPath v"
proof -
  have "js_trim ''/dashboard'' = ''/dashboard''" by code_simp
  then show ?thesis by (cases v) (simp_all add: sanitizeNextPath_def Let_def)
qed

text \<open>
  C11. A visitor who is sent to the login page comes back to the page asked for: the return path
  read from the redirect is the path the middleware stopped, if that has a single leading
  slash and no white space at its ends.
\<close>

theorem login_returns:
  assumes "middleware pathname cookies = RedirectTo login q"
    and "\<not> prefix ''//'' pathname" "js_trim pathname = pathname"
  shows "login = ''/login'' \<and> sanitizeNextPath (al_get ''next'' q) = pathname"
proof -
  from assms(1) have m: "matcher_applies pathname" and q: "login = ''/login''" "q = [(''next'', pathname)]"
    by (auto simp: middleware_def proxy_def Let_def split: if_splits)
  from m have "prefix ''/'' pathname"
    by (auto simp: matcher_applies_def split: list.splits)
  with assms(2,3) q show ?thesis
    by (cases pathname) (simp_all add: sanitizeNextPath_def)
qed

lemma login_returns_witness:
  "middleware ''/certificates'' [(''certflow_locale'', ''en'')] = RedirectTo ''/login'' [(''next'', ''/certificates'')] \<and>
   sanitizeNextPath (Some ''/certificates'') = ''/certificates''"
proof -
  have m: "middleware ''/certificates'' [(''certflow_locale'', ''en'')] = RedirectTo ''/login'' [(''next'', ''/certificates'')]"
    by code_simp
  have t: "js_trim ''/certificates'' = ''/certificates''" by code_simp
  show ?thesis using m login_returns [OF m _ t] by simp
qed

text \<open>
  The check looks at the characters only: a backslash after the first slash passes, although
  browsers read it as a second slash.
\<close>

lemma sanitizeNextPath_backslash: "sanitizeNextPath (Some (''/'' @ [CHR 0x5C] @ ''evil.example'')) = ''/'' @ [CHR 0x5C] @ ''evil.example''"
  by code_simp

lemma isValidEmail_iff:
  "isValidEmail email \<longleftrightarrow> (\<exists>user host. normalizeEmail email = user @ CHR ''@'' # host \<and> user \<noteq> [] \<and> host \<noteq> [] \<and>
     (\<forall>c\<in>set user \<union> set host. \<not> is_js_space c \<and> c \<noteq> CHR ''@''))"
proof
  assume v: "isValidEmail email"
  then obtain user host where s: "split_on (\<lambda>c. c = CHR ''@'') (normalizeEmail email) = [user, host]"
    by (auto simp: isValidEmail_def split: list.splits)
  have "normalizeEmail email = user @ CHR ''@'' # host"
    using join_split_on [of "CHR ''@''" "normalizeEmail email"] unfolding s by simp
  moreover have "\<forall>w\<in>{user, host}. \<forall>c\<in>set w. c \<noteq> CHR ''@''"
    using split_on_no_sep [of "\<lambda>c. c = CHR ''@''" "normalizeEmail email"] unfolding s by simp
  moreover have "user \<noteq> [] \<and> host \<noteq> [] \<and> (\<forall>c\<in>set user \<union> set host. \<not> is_js_space c)"
    using v unfolding isValidEmail_def s by (simp add: list_all_iff ball_Un)
  ultimately show "\<exists>user host. normalizeEmail email = user @ CHR ''@'' # host \<and> user \<noteq> [] \<and> host \<noteq> [] \<and>
     (\<forall>c\<in>set user \<union> set host. \<not> is_js_space c \<and> c \<noteq> CHR ''@'')"
    by blast
next
  assume "\<exists>user host. normalizeEmail email = user @ CHR ''@'' # host \<and> user \<noteq> [] \<and> host \<noteq> [] \<and>
     (\<forall>c\<in>set user \<union> set host. \<not> is_js_space c \<and> c \<noteq> CHR ''@'')"
  then obtain user host where *: "normalizeEmail email = user @ CHR ''@'' # host" "user \<noteq> []" "host \<noteq> []"
    "\<forall>c\<in>set user \<union> set host. \<not> is_js_space c \<and> c \<noteq> CHR ''@''" by blast
  then have "split_on (\<lambda>c. c = CHR ''@'') (normalizeEmail email) = [user, host]"
    by (simp add: split_on_append split_on_single)
  with * show "isValidEmail email" by (auto simp: isValidEmail_def list_all_iff)
qed

end
