(* ===== verification/Server_Data.thy ===== *)
theory Server_Data
  imports Http
begin

text \<open>
  Data loading on the server: \<open>apiGet\<close> and the \<open>get\<close> functions of \<^verbatim>\<open>lib/api.ts\<close>, and the pages of
  \<^verbatim>\<open>app/\<close> that load data. The requests of one \<open>Promise.all\<close> are sent in the order listed. The
  record \<open>server\<close> holds the parameters: fetch, the cookie jar and its header text. The record
  \<open>casts\<close> stands for the unchecked \<open>as T\<close> readings of a JSON body.
\<close>

record 'w server =
  srv_fetch :: "(unit, 'w) fetch"
  srv_base :: string
  srv_jar :: "(string \<times> string) list"
  srv_jar_text :: string

record 'a api_data =
  got :: 'a
  unavailable :: bool

definition server_locale :: "'w server \<Rightarrow> string" where
  "server_locale srv = (if al_get ''certflow_locale'' (srv_jar srv) = Some ''en'' then ''en'' else ''zh-CN'')"

definition server_request :: "'w server \<Rightarrow> string \<Rightarrow> unit request" where
  "server_request srv path =
     \<lparr>req_method = None, req_path = srv_base srv @ ''/api/v1'' @ path,
      req_headers = (if srv_jar_text srv \<noteq> [] then [(''cookie'', srv_jar_text srv)] else []) @
        [(''X-CertFlow-Locale'', server_locale srv)],
      req_body = None\<rparr>"

definition apiGet :: "(json \<Rightarrow> 'a) \<Rightarrow> 'w server \<Rightarrow> string \<Rightarrow> 'a \<Rightarrow> 'w \<Rightarrow> 'a api_data \<times> 'w" where
  "apiGet cast srv path fallback w =
     (case srv_fetch srv (server_request srv path) w of
        (Rejected m, w') \<Rightarrow> (\<lparr>got = fallback, unavailable = True\<rparr>, w')
      | (Replied r, w') \<Rightarrow>
          (if \<not> resp_ok r then \<lparr>got = fallback, unavailable = True\<rparr>
           else (case body r of
                   None \<Rightarrow> \<lparr>got = fallback, unavailable = True\<rparr>
                 | Some j \<Rightarrow> \<lparr>got = cast j, unavailable = False\<rparr>), w'))"

subsection \<open>The resources\<close>

record casts =
  as_dashboard :: "json \<Rightarrow> dashboard"
  as_user :: "json \<Rightarrow> current_user option"
  as_admin_dashboard :: "json \<Rightarrow> admin_dashboard"
  as_certificates :: "json \<Rightarrow> certificate list"
  as_executions :: "json \<Rightarrow> execution list"
  as_credentials :: "json \<Rightarrow> cloud_credential list"
  as_acme :: "json \<Rightarrow> acme_account list"
  as_dns :: "json \<Rightarrow> dns_account list"
  as_targets :: "json \<Rightarrow> deployment_target list"
  as_deployments :: "json \<Rightarrow> certificate_deployment list"
  as_automations :: "json \<Rightarrow> automation_task list"

definition scoped :: "bool \<Rightarrow> string \<Rightarrow> string" where
  "scoped mine path = path @ (if mine then ''?scope=mine'' else [])"

definition getDashboard :: "casts \<Rightarrow> 'w server \<Rightarrow> 'w \<Rightarrow> dashboard api_data \<times> 'w" where
  "getDashboard c srv = apiGet (as_dashboard c) srv ''/dashboard''
     \<lparr>activeCertificates = 0, expiringSoon = 0, runningJobs = 0, failedExecutions = 0\<rparr>"

definition getCurrentUser :: "casts \<Rightarrow> 'w server \<Rightarrow> 'w \<Rightarrow> current_user option api_data \<times> 'w" where
  "getCurrentUser c srv = apiGet (as_user c) srv ''/auth/me'' None"

definition getAdminDashboard :: "casts \<Rightarrow> 'w server \<Rightarrow> 'w \<Rightarrow> admin_dashboard api_data \<times> 'w" where
  "getAdminDashboard c srv = apiGet (as_admin_dashboard c) srv ''/admin/dashboard''
     \<lparr>admin_metrics_of =
        \<lparr>activeUsers = 0, newUsers30d = 0, certificatesTotal = 0, certificatesIssued = 0,
         certificatesExpiring7d = 0, certificatesExpiring30d = 0, jobsQueued = 0, jobsRunning = 0,
         failedExecutions24h = 0, executionFailureRate30d = 0, invalidCloudCredentials = 0,
         invalidDNSAccounts = 0, invalidACMEAccounts = 0, smtpConfigured = False\<rparr>,
      executionTrend = [], expiryDistribution = [],
      automationHealth = \<lparr>healthy = 0, paused = 0, attention = 0\<rparr>,
      riskCertificates = [], admin_failedExecutions = [], resourceOwners = []\<rparr>"

definition getCertificates :: "casts \<Rightarrow> 'w server \<Rightarrow> bool \<Rightarrow> 'w \<Rightarrow> certificate list api_data \<times> 'w" where
  "getCertificates c srv mine = apiGet (as_certificates c) srv (scoped mine ''/certificates'') []"

definition getExecutions :: "casts \<Rightarrow> 'w server \<Rightarrow> bool \<Rightarrow> 'w \<Rightarrow> execution list api_data \<times> 'w" where
  "getExecutions c srv mine = apiGet (as_executions c) srv (scoped mine ''/executions'') []"

definition getCloudCredentials :: "casts \<Rightarrow> 'w server \<Rightarrow> 'w \<Rightarrow> cloud_credential list api_data \<times> 'w" where
  "getCloudCredentials c srv = apiGet (as_credentials c) srv ''/cloud-credentials'' []"

definition getACMEAccounts :: "casts \<Rightarrow> 'w server \<Rightarrow> 'w \<Rightarrow> acme_account list api_data \<times> 'w" where
  "getACMEAccounts c srv = apiGet (as_acme c) srv ''/acme-accounts'' []"

definition getDNSAccounts :: "casts \<Rightarrow> 'w server \<Rightarrow> 'w \<Rightarrow> dns_account list api_data \<times> 'w" where
  "getDNSAccounts c srv = apiGet (as_dns c) srv ''/dns-accounts'' []"

definition getDeploymentTargets :: "casts \<Rightarrow> 'w server \<Rightarrow> 'w \<Rightarrow> deployment_target list api_data \<times> 'w" where
  "getDeploymentTargets c srv = apiGet (as_targets c) srv ''/deployment-targets'' []"

definition getCertificateDeployments ::
    "casts \<Rightarrow> 'w server \<Rightarrow> 'w \<Rightarrow> certificate_deployment list api_data \<times> 'w" where
  "getCertificateDeployments c srv = apiGet (as_deployments c) srv ''/certificate-deployments'' []"

definition getAutomations :: "casts \<Rightarrow> 'w server \<Rightarrow> bool \<Rightarrow> 'w \<Rightarrow> automation_task list api_data \<times> 'w" where
  "getAutomations c srv mine = apiGet (as_automations c) srv (scoped mine ''/automations'') []"

subsection \<open>Pages\<close>

record certificates_props =
  page_certificates :: "certificate list"
  list_acme :: "acme_account list"
  list_dns :: "dns_account list"
  workflow_acme :: "acme_account list"
  workflow_dns :: "dns_account list"
  page_warning :: bool

definition CertificatesPage :: "casts \<Rightarrow> 'w server \<Rightarrow> 'w \<Rightarrow> certificates_props \<times> 'w" where
  "CertificatesPage c srv w =
     (let (certs, w1) = getCertificates c srv False w;
          (acme, w2) = getACMEAccounts c srv w1;
          (dns, w3) = getDNSAccounts c srv w2
      in (\<lparr>page_certificates = got certs, list_acme = got acme, list_dns = got dns,
           workflow_acme = filter (\<lambda>a. acme_status a = ''active'') (got acme),
           workflow_dns = filter (\<lambda>a. dns_status a = ''active'') (got dns),
           page_warning = unavailable certs\<rparr>, w3))"

record deployments_props =
  dep_credentials :: "cloud_credential list"
  dep_certificates :: "certificate list"
  initialTargets :: "deployment_target list"
  initialAutomations :: "automation_task list"

definition DeploymentsPage :: "casts \<Rightarrow> 'w server \<Rightarrow> 'w \<Rightarrow> deployments_props \<times> 'w" where
  "DeploymentsPage c srv w =
     (let (creds, w1) = getCloudCredentials c srv w;
          (certs, w2) = getCertificates c srv False w1;
          (targets, w3) = getDeploymentTargets c srv w2;
          (autos, w4) = getAutomations c srv False w3
      in (\<lparr>dep_credentials = got creds, dep_certificates = got certs,
           initialTargets = got targets, initialAutomations = got autos\<rparr>, w4))"

definition ExecutionsPage :: "casts \<Rightarrow> 'w server \<Rightarrow> 'w \<Rightarrow> (bool \<times> execution list) \<times> 'w" where
  "ExecutionsPage c srv w =
     (let (execs, w1) = getExecutions c srv False w in ((unavailable execs, got execs), w1))"

datatype dashboard_view = SystemView | MineView

datatype dashboard_page =
    AdminPage dashboard_view "admin_dashboard option"
  | PersonalPage "dashboard_view option" bool dashboard "certificate list" "execution list" "automation_task list"

definition DashboardPage :: "casts \<Rightarrow> 'w server \<Rightarrow> string option \<Rightarrow> 'w \<Rightarrow> dashboard_page \<times> 'w" where
  "DashboardPage c srv view_param w =
     (let (userResult, w1) = getCurrentUser c srv w;
          isAdmin = (map_option user_role (got userResult) = Some Admin \<and> \<not> unavailable userResult);
          vw = (if isAdmin \<and> view_param = Some ''mine'' then MineView else SystemView)
      in if isAdmin \<and> vw = SystemView then
           (let (result, w2) = getAdminDashboard c srv w1
            in (AdminPage vw (if unavailable result then None else Some (got result)), w2))
         else
           (let (dash, w2) = getDashboard c srv w1;
                (certs, w3) = getCertificates c srv True w2;
                (execs, w4) = getExecutions c srv True w3;
                (autos, w5) = getAutomations c srv True w4
            in (PersonalPage (if isAdmin then Some vw else None)
                  (unavailable dash \<or> unavailable certs \<or> unavailable execs \<or> unavailable autos)
                  (got dash) (got certs) (got execs) (got autos), w5)))"

datatype configuration_page =
    CredentialsPage "cloud_credential list"
  | AcmePage "acme_account list"
  | DnsPage "dns_account list" "cloud_credential list" bool
  | UnknownSection

definition ConfigurationPage :: "casts \<Rightarrow> 'w server \<Rightarrow> string \<Rightarrow> 'w \<Rightarrow> configuration_page \<times> 'w" where
  "ConfigurationPage c srv section_name w =
     (if section_name = ''cloud-credentials'' then
        (let (creds, w1) = getCloudCredentials c srv w in (CredentialsPage (got creds), w1))
      else if section_name = ''acme-accounts'' then
        (let (accs, w1) = getACMEAccounts c srv w in (AcmePage (got accs), w1))
      else if section_name = ''dns-accounts'' then
        (let (accs, w1) = getDNSAccounts c srv w; (creds, w2) = getCloudCredentials c srv w1
         in (DnsPage (got accs) (got creds) (unavailable accs \<or> unavailable creds), w2))
      else (UnknownSection, w))"

lemmas getter_defs = getDashboard_def getCurrentUser_def getAdminDashboard_def getCertificates_def
  getExecutions_def getCloudCredentials_def getACMEAccounts_def getDNSAccounts_def
  getDeploymentTargets_def getCertificateDeployments_def getAutomations_def

subsection \<open>Requests and failures\<close>

text \<open>A server whose world records every request.\<close>

definition recording :: "'w server \<Rightarrow> (unit request list \<times> 'w) server" where
  "recording srv = \<lparr>srv_fetch = recorded (srv_fetch srv), srv_base = srv_base srv,
     srv_jar = srv_jar srv, srv_jar_text = srv_jar_text srv\<rparr>"

lemma recording_request [simp]: "server_request (recording srv) path = server_request srv path"
  by (simp add: server_request_def recording_def server_locale_def)

lemma apiGet_recording:
  "apiGet cast (recording srv) path fb (l, w) =
     (fst (apiGet cast srv path fb w), (l @ [server_request srv path], snd (apiGet cast srv path fb w)))"
proof -
  have f: "srv_fetch (recording srv) = recorded (srv_fetch srv)" by (simp add: recording_def)
  show ?thesis
    by (cases "srv_fetch srv (server_request srv path) w"; cases "fst (srv_fetch srv (server_request srv path) w)")
      (simp_all add: apiGet_def f recorded_eq)
qed

lemma apiGet_unavailable: "unavailable (fst (apiGet cast srv path fb w)) \<Longrightarrow> got (fst (apiGet cast srv path fb w)) = fb"
  by (auto simp: apiGet_def split: prod.splits outcome.splits option.splits if_splits)

definition admin_user :: "casts \<Rightarrow> 'w server \<Rightarrow> 'w \<Rightarrow> bool" where
  "admin_user c srv w \<longleftrightarrow>
     (case srv_fetch srv (server_request srv ''/auth/me'') w of
        (Replied r, _) \<Rightarrow> resp_ok r \<and> body r \<noteq> None \<and>
          map_option user_role (as_user c (the (body r))) = Some Admin
      | _ \<Rightarrow> False)"

lemma getCurrentUser_admin:
  "(map_option user_role (got (fst (getCurrentUser c srv w))) = Some Admin \<and> \<not> unavailable (fst (getCurrentUser c srv w)))
     = admin_user c srv w"
  by (auto simp: getCurrentUser_def apiGet_def admin_user_def split: prod.splits outcome.splits option.splits if_splits)

text \<open>
  What the dashboard page asks the control plane: the user first; then the system-wide data
  only when that answer is a successful one naming an administrator who did not ask for the
  personal view, and otherwise the four personal resources, every list of them with the scope
  of the user.
\<close>

theorem DashboardPage_requests:
  "map req_path (fst (snd (DashboardPage c (recording srv) vw ([], w)))) =
     map (\<lambda>p. srv_base srv @ ''/api/v1'' @ p)
       (if admin_user c srv w \<and> vw \<noteq> Some ''mine'' then [''/auth/me'', ''/admin/dashboard'']
        else [''/auth/me'', ''/dashboard'', ''/certificates?scope=mine'', ''/executions?scope=mine'',
              ''/automations?scope=mine''])"
proof -
  have path: "req_path (server_request srv p) = srv_base srv @ ''/api/v1'' @ p" for p
    by (simp add: server_request_def)
  have rec: "fst (getCurrentUser c (recording srv) ([], w)) = fst (getCurrentUser c srv w)"
    "snd (getCurrentUser c (recording srv) ([], w)) = ([server_request srv ''/auth/me''], snd (getCurrentUser c srv w))"
    by (simp_all add: getCurrentUser_def apiGet_recording)
  show ?thesis
    unfolding DashboardPage_def case_prod_beta Let_def rec getCurrentUser_admin
    by (cases "vw = Some ''mine''"; cases "admin_user c srv w")
      (simp_all add: getDashboard_def getAdminDashboard_def getCertificates_def getExecutions_def
        getAutomations_def apiGet_recording path scoped_def)
qed

text \<open>
  The certificates page never fails: with the control plane down it shows the warning over
  empty lists, and the creation wizard is only ever given active accounts out of those the list
  view knows.
\<close>

theorem CertificatesPage_props:
  "let p = fst (CertificatesPage c srv w)
   in page_warning p = unavailable (fst (getCertificates c srv False w)) \<and>
      page_certificates p = (if page_warning p then [] else got (fst (getCertificates c srv False w))) \<and>
      set (workflow_acme p) = {a \<in> set (list_acme p). acme_status a = ''active''} \<and>
      set (workflow_dns p) = {a \<in> set (list_dns p). dns_status a = ''active''}"
  using apiGet_unavailable [of "as_certificates c" srv "scoped False ''/certificates''" "[]" w]
  by (simp add: CertificatesPage_def getter_defs case_prod_beta Let_def)

end
