(* ===== verification/Views.thy ===== *)
theory Views
  imports Texts
begin

text \<open>
  Rendered views. A React component is a function from its props and state to a tree of elements;
  here the tree keeps the nesting, the texts and every control with the event it dispatches, and
  drops icons, style classes and ARIA attributes (all but the name of a status tag). \<open>offered v\<close> is the set of events a user can
  trigger in \<open>v\<close>: a disabled control and a closed dialog offer nothing.

  The second half is the shared controls of \<^verbatim>\<open>components/ui\<close>: pagination, table actions, modals,
  empty states, status tags.
\<close>

datatype 'e view =
    Txt label
  | El string "'e view list"
  | Button label bool 'e
  | Field label string "string \<Rightarrow> 'e"
  | Choice label "string option" bool "(string \<times> label \<times> bool) list" "string \<Rightarrow> 'e"
  | Check label bool "bool \<Rightarrow> 'e"
  | Menu label "(string \<times> label \<times> bool) list" "string \<Rightarrow> 'e option"
  | Dialog bool label label 'e "'e view list" "'e view list"

primrec offered :: "'e view \<Rightarrow> 'e set" where
  "offered (Txt t) = {}"
| "offered (El tag vs) = \<Union> (set (map offered vs))"
| "offered (Button l disabled e) = (if disabled then {} else {e})"
| "offered (Field l v f) = range f"
| "offered (Choice l sel disabled items f) =
     (if disabled then {} else set (map (\<lambda>it. f (fst it)) (filter (\<lambda>it. \<not> snd (snd it)) items)))"
| "offered (Check l v f) = {f (\<not> v)}"
| "offered (Menu l items f) =
     \<Union> ((\<lambda>(i, _, d). set_option (f i)) ` {it \<in> set items. \<not> snd (snd it)})"
| "offered (Dialog isOpen title desc close vs footer) =
     (if isOpen then insert close (\<Union> (set (map offered vs)) \<union> \<Union> (set (map offered footer))) else {})"

abbreviation offered_any :: "'e view list \<Rightarrow> 'e set" where
  "offered_any vs \<equiv> \<Union> (set (map offered vs))"

text \<open>The texts a view shows (a closed dialog shows none).\<close>

primrec shown_texts :: "'e view \<Rightarrow> label set" where
  "shown_texts (Txt t) = {t}"
| "shown_texts (El tag vs) = \<Union> (set (map shown_texts vs))"
| "shown_texts (Button l disabled e) = {l}"
| "shown_texts (Field l v f) = {l, Raw v}"
| "shown_texts (Choice l sel disabled items f) = {l}"
| "shown_texts (Check l v f) = {l}"
| "shown_texts (Menu l items f) = {l}"
| "shown_texts (Dialog isOpen title desc close vs footer) =
     (if isOpen then {title, desc} \<union> \<Union> (set (map shown_texts vs)) \<union> \<Union> (set (map shown_texts footer))
      else {})"

text \<open>Conditional rendering \<open>{c ? v : null}\<close>.\<close>

abbreviation show_if :: "bool \<Rightarrow> 'e view \<Rightarrow> 'e view" where
  "show_if c v \<equiv> (if c then v else El [] [])"

lemma offered_map_view: "offered (map_view f v) = f ` offered v"
proof (induction v)
  case (Choice l sel d items g)
  then show ?case by (simp add: image_image o_def)
next
  case (Menu l items g)
  then show ?case by (auto simp: image_iff split: prod.splits option.splits)
qed (auto simp: image_Un image_UN image_iff)

lemma offered_Choice_map:
  "offered (Choice l sel d (map (\<lambda>x. (k x, lb x, False)) xs) f) =
     (if d then {} else (\<lambda>x. f (k x)) ` set xs)"
  by (auto simp: filter_map)

subsection \<open>Status tags, modals, empty states\<close>

text \<open>The group of a status tag has an accessible name of its own, a Chinese literal.\<close>

definition StatusTag :: "string \<Rightarrow> 'e view" where
  "StatusTag st = El ''TagGroup'' [Txt (Zh ''status''), El ''Tag'' [Txt (status_label st)]]"

definition ResourceModal :: "bool \<Rightarrow> label \<Rightarrow> label \<Rightarrow> 'e \<Rightarrow> 'e view list \<Rightarrow> 'e view list \<Rightarrow> 'e view" where
  "ResourceModal isOpen title description close footer children =
     Dialog isOpen title description close children footer"

definition ModalCancelButton :: "'e \<Rightarrow> 'e view" where
  "ModalCancelButton e = Button (Tr ''common.cancel'' []) False e"

definition ApiUnavailableWarning :: "'e view" where
  "ApiUnavailableWarning = El ''div'' [Txt (Tr ''common.apiUnavailable'' [])]"

definition FormError :: "label \<Rightarrow> 'e view" where
  "FormError e = El ''div role=alert'' [Txt e]"

definition EmptyStateAction :: "label \<times> 'e \<Rightarrow> 'e view" where
  "EmptyStateAction a = Button (fst a) False (snd a)"

definition ResourceEmptyState ::
    "label \<Rightarrow> label option \<Rightarrow> (label \<times> 'e) option \<Rightarrow> (label \<times> 'e) option \<Rightarrow> 'e view" where
  "ResourceEmptyState title description primaryAction secondaryAction =
     El ''section''
      [El ''strong'' [Txt title],
       (case description of None \<Rightarrow> El [] [] | Some d \<Rightarrow> show_if (shown d) (El ''p'' [Txt d])),
       show_if (primaryAction \<noteq> None \<or> secondaryAction \<noteq> None)
         (El ''div''
           [case secondaryAction of None \<Rightarrow> El [] [] | Some a \<Rightarrow> EmptyStateAction a,
            case primaryAction of None \<Rightarrow> El [] [] | Some a \<Rightarrow> EmptyStateAction a])]"

lemma offered_simple [simp]:
  "offered (StatusTag st) = {}"
  "offered (ModalCancelButton e) = {e}"
  "offered ApiUnavailableWarning = {}"
  "offered (FormError t) = {}"
  "offered (ResourceModal isOpen title description close footer vs) =
     (if isOpen then insert close (offered_any vs \<union> offered_any footer) else {})"
  "offered (ResourceEmptyState title descr pa sa) =
     snd ` (set_option pa \<union> set_option sa)"
  by (auto simp: StatusTag_def ModalCancelButton_def ApiUnavailableWarning_def FormError_def
      ResourceModal_def ResourceEmptyState_def EmptyStateAction_def split: option.splits)

subsection \<open>Table actions\<close>

record 'e table_action =
  ta_id :: string
  ta_label :: label
  ta_press :: 'e
  ta_disabled :: bool
  ta_pending :: bool
  ta_pendingLabel :: "label option"

definition action :: "string \<Rightarrow> label \<Rightarrow> 'e \<Rightarrow> bool \<Rightarrow> 'e table_action" where
  "action i l e disabled = \<lparr>ta_id = i, ta_label = l, ta_press = e, ta_disabled = disabled,
     ta_pending = False, ta_pendingLabel = None\<rparr>"

definition action_text :: "'e table_action \<Rightarrow> label" where
  "action_text a = (if ta_pending a then
       (case ta_pendingLabel a of Some l \<Rightarrow> l | None \<Rightarrow> Cat [ta_label a, Zh ''in progress''])
     else ta_label a)"

definition more_action :: "'e table_action list \<Rightarrow> string \<Rightarrow> 'e option" where
  "more_action moreActions key =
     (case List.find (\<lambda>a. ta_id a = key) moreActions of
        Some a \<Rightarrow> if ta_disabled a then None else Some (ta_press a)
      | None \<Rightarrow> None)"

definition TableActions :: "'e table_action list \<Rightarrow> 'e view" where
  "TableActions actions =
     (let visibleActions = take 3 actions; moreActions = drop 3 actions
      in El ''ButtonGroup''
        (map (\<lambda>a. Button (action_text a) (ta_disabled a) (ta_press a)) visibleActions @
         (if moreActions \<noteq> [] then
            [Menu (Tr ''common.moreActions'' [])
               (map (\<lambda>a. (ta_id a, ta_label a, ta_disabled a)) moreActions) (more_action moreActions)]
          else [])))"

lemma more_action_distinct:
  "distinct (map ta_id as) \<Longrightarrow> a \<in> set as \<Longrightarrow>
     more_action as (ta_id a) = (if ta_disabled a then None else Some (ta_press a))"
proof (induction as)
  case Nil
  then show ?case by simp
next
  case (Cons b bs)
  show ?case
  proof (cases "ta_id b = ta_id a")
    case True
    with Cons.prems have "a = b" by (auto simp: image_iff)
    then show ?thesis by (simp add: more_action_def)
  next
    case False
    then show ?thesis using Cons by (auto simp: more_action_def)
  qed
qed

text \<open>
  A row of table actions hides nothing and adds nothing: whatever their number, the events it
  offers are those of its enabled actions, although all but three sit behind the More menu
  (which looks an action up by its id, so the ids must differ).
\<close>

lemma TableActions_offered:
  assumes "distinct (map ta_id actions)"
  shows "offered (TableActions actions) = set (map ta_press (filter (\<lambda>a. \<not> ta_disabled a) actions))"
proof -
  let ?v = "take 3 actions" and ?m = "drop 3 actions"
  have set: "set actions = set ?v \<union> set ?m"
    by (metis append_take_drop_id set_append)
  have dm: "distinct (map ta_id ?m)"
    using assms by (simp add: drop_map [symmetric])
  have menu: "(\<Union>a\<in>{a \<in> set ?m. \<not> ta_disabled a}. set_option (more_action ?m (ta_id a)))
      = ta_press ` {a \<in> set ?m. \<not> ta_disabled a}"
    using more_action_distinct [OF dm] by (auto simp: image_iff)
  have row: "offered (TableActions actions) =
      ta_press ` {a \<in> set ?v. \<not> ta_disabled a} \<union>
      (\<Union>a\<in>{a \<in> set ?m. \<not> ta_disabled a}. set_option (more_action ?m (ta_id a)))"
    by (auto simp: TableActions_def Let_def split: if_splits)
  show ?thesis
    unfolding row menu using set by auto
qed

end
