(* ===== verification/Certificate_Edit.thy ===== *)
theory Certificate_Edit
  imports Domains Resources Views
begin

text \<open>
  The edit form of a certificate, \<open>CertificateEditPanel\<close> of \<^verbatim>\<open>certificate-list.tsx\<close>: its fields,
  its validation and the payload it hands to the list. \<open>edit_key\<close> is the React key of the panel:
  a panel keeps its fields as long as the key stays.
\<close>

record certificate_detail = certificate +
  acmeAccountId :: string
  defaultDnsAccountId :: string
  renewBeforeDays :: int

record edit_payload =
  pay_name :: string
  pay_acmeAccountId :: string
  pay_defaultDnsAccountId :: string
  pay_validationMode :: string
  pay_domains :: "string list"
  pay_keyAlgorithm :: string
  pay_renewBeforeDays :: rat

record edit_panel =
  edit_key :: string
  edit_name :: string
  edit_domainsText :: string
  edit_keyAlgorithm :: string
  edit_acmeAccountId :: string
  edit_dnsAccountId :: string
  edit_validationMode :: string
  edit_renewBeforeDays :: string
  edit_validationError :: label

definition mount_edit_panel :: "certificate_detail \<Rightarrow> edit_panel" where
  "mount_edit_panel c =
     \<lparr>edit_key = cert_id c, edit_name = cert_name c,
      edit_domainsText = js_join [newline] (cert_domains c),
      edit_keyAlgorithm = keyAlgorithm c, edit_acmeAccountId = acmeAccountId c,
      edit_dnsAccountId = defaultDnsAccountId c, edit_validationMode = validationMode c,
      edit_renewBeforeDays = int_string (if renewBeforeDays c = 0 then 30 else renewBeforeDays c),
      edit_validationError = no_text\<rparr>"

datatype edit_event =
    EditName string | EditDomains string | EditKeyAlgorithm string | EditRenew string
  | EditAcme string | EditDns string | EditMode string

definition edit_field :: "edit_event \<Rightarrow> edit_panel \<Rightarrow> edit_panel" where
  "edit_field e p =
     (case e of
        EditName v \<Rightarrow> p\<lparr>edit_name := v\<rparr>
      | EditDomains v \<Rightarrow> p\<lparr>edit_domainsText := v\<rparr>
      | EditKeyAlgorithm v \<Rightarrow> p\<lparr>edit_keyAlgorithm := v\<rparr>
      | EditRenew v \<Rightarrow> p\<lparr>edit_renewBeforeDays := v\<rparr>
      | EditAcme v \<Rightarrow> p\<lparr>edit_acmeAccountId := v\<rparr>
      | EditDns v \<Rightarrow> p\<lparr>edit_dnsAccountId := v\<rparr>
      | EditMode v \<Rightarrow> p\<lparr>edit_validationMode := v\<rparr>)"

text \<open>\<open>Number(text) || 30\<close>\<close>

definition number_or_30 :: "string \<Rightarrow> rat" where
  "number_or_30 v = (case js_number v of None \<Rightarrow> 30 | Some n \<Rightarrow> if n = 0 then 30 else n)"

definition submit_edit :: "edit_panel \<Rightarrow> edit_panel \<times> edit_payload option" where
  "submit_edit p =
     (let domains = parse_domains (edit_domainsText p);
          refuse = (\<lambda>e. (p\<lparr>edit_validationError := e\<rparr>, None))
      in if js_trim (edit_name p) = [] then refuse (Zh ''enter a certificate name'')
         else if domains = [] then refuse (Zh ''enter at least one domain'')
         else if shown (edit_validateDomains domains) then refuse (edit_validateDomains domains)
         else if edit_acmeAccountId p = [] then refuse (Zh ''select an ACME account'')
         else if edit_validationMode p = ''auto'' \<and> edit_dnsAccountId p = []
           then refuse (Zh ''automatic DNS needs a DNS account'')
         else (p\<lparr>edit_validationError := no_text\<rparr>,
           Some \<lparr>pay_name = js_trim (edit_name p), pay_acmeAccountId = edit_acmeAccountId p,
             pay_defaultDnsAccountId = (if edit_validationMode p = ''auto'' then edit_dnsAccountId p else []),
             pay_validationMode = edit_validationMode p, pay_domains = domains,
             pay_keyAlgorithm = edit_keyAlgorithm p,
             pay_renewBeforeDays = number_or_30 (edit_renewBeforeDays p)\<rparr>))"

definition key_algorithm_items :: "(string \<times> label \<times> bool) list" where
  "key_algorithm_items =
     [(''ecdsa_p256'', Raw ''ECDSA P-256'', False), (''ecdsa_p384'', Raw ''ECDSA P-384'', False),
      (''rsa_2048'', Raw ''RSA 2048'', False), (''rsa_4096'', Raw ''RSA 4096'', False)]"

abbreviation selected_key :: "string \<Rightarrow> string option" where
  "selected_key k \<equiv> (if k = [] then None else Some k)"

definition edit_panel_view ::
    "acme_account list \<Rightarrow> dns_account list \<Rightarrow> label \<Rightarrow> edit_panel \<Rightarrow> edit_event view" where
  "edit_panel_view acmeAccounts dnsAccounts err p =
     El ''form id=certificate-edit-form''
      [Field (Zh ''name'') (edit_name p) EditName,
       Field (Zh ''domains and SAN'') (edit_domainsText p) EditDomains,
       Txt (Zh ''one domain per line; a wildcard covers one level only''),
       Choice (Zh ''key algorithm'') (Some (edit_keyAlgorithm p)) False key_algorithm_items EditKeyAlgorithm,
       Field (Zh ''renew before days'') (edit_renewBeforeDays p) EditRenew,
       Choice (Zh ''ACME account'') (selected_key (edit_acmeAccountId p)) False
         (map (\<lambda>a. (acme_id a, Raw (acme_name a), False)) acmeAccounts) EditAcme,
       Choice (Zh ''DNS account'') (selected_key (edit_dnsAccountId p)) (edit_validationMode p = ''manual'')
         (map (\<lambda>a. (dns_id a, Raw (dns_name a), False)) dnsAccounts) EditDns,
       Choice (Zh ''DNS-01 validation'') (Some (edit_validationMode p)) False
         [(''auto'', Zh ''update the DNS TXT record automatically'', False),
          (''manual'', Zh ''add the DNS TXT record by hand'', False)] EditMode,
       show_if (shown (edit_validationError p) \<or> shown err)
         (FormError (if shown (edit_validationError p) then edit_validationError p else err))]"

subsection \<open>What the form sends\<close>

definition acceptable_payload :: "edit_payload \<Rightarrow> bool" where
  "acceptable_payload y \<longleftrightarrow>
     pay_name y \<noteq> [] \<and> js_trim (pay_name y) = pay_name y \<and>
     pay_domains y \<noteq> [] \<and> check_domains (pay_domains y) = None \<and>
     list_all (\<lambda>d. toLowerCase d = d) (pay_domains y) \<and>
     pay_acmeAccountId y \<noteq> [] \<and>
     (pay_validationMode y = ''auto'') = (pay_defaultDnsAccountId y \<noteq> []) \<and>
     pay_renewBeforeDays y \<noteq> 0"

lemma submit_edit_acceptable: "snd (submit_edit p) = Some y \<Longrightarrow> acceptable_payload y"
proof -
  assume a: "snd (submit_edit p) = Some y"
  have lower: "list_all (\<lambda>d. toLowerCase d = d) (parse_domains t)" for t
    by (auto simp: list_all_iff dest: parse_domains_clean)
  have n: "number_or_30 v \<noteq> 0" for v by (simp add: number_or_30_def split: option.splits)
  from a show ?thesis
    using lower n by (auto simp: submit_edit_def Let_def acceptable_payload_def edit_validateDomains_no_text
        split: if_splits)
qed

lemma submit_edit_refused:
  "snd (submit_edit p) = None \<longleftrightarrow> shown (edit_validationError (fst (submit_edit p)))"
  by (simp add: submit_edit_def Let_def)

lemma digit_char: "n < 10 \<Longrightarrow> is_digit (char_of (48 + n))" for n :: nat
  by (simp add: is_digit_def)

lemma nat_digits_all: "list_all is_digit (nat_digits n) \<and> nat_digits n \<noteq> []"
proof (induction n rule: nat_digits.induct)
  case (1 n)
  then show ?case
    by (cases "n < 10") (simp_all add: nat_digits.simps [of n] digit_char)
qed

lemma js_number_digits: "js_number (nat_digits n) = Some (of_nat n)"
proof -
  let ?s = "nat_digits n"
  have d: "list_all is_digit ?s" "?s \<noteq> []" using nat_digits_all by simp_all
  have plain: "\<not> is_js_space c \<and> c \<noteq> CHR ''-'' \<and> c \<noteq> CHR ''+''" if "is_digit c" for c
    using that by (auto simp: is_digit_def is_js_space_def code_def)
  have t: "js_trim ?s = ?s"
    using d plain by (intro js_trim_fixed) (auto simp: list_all_iff)
  have tw: "takeWhile is_digit ?s = ?s" "dropWhile is_digit ?s = []"
    using d by (auto simp: list_all_iff takeWhile_eq_all_conv)
  have u: "unsigned_decimal ?s = Some (of_nat n)"
    using d key_number_digits [of n] by (simp add: unsigned_decimal_def tw key_number_def)
  obtain c r where c: "?s = c # r" using d by (cases ?s) auto
  then have "is_digit c" using d by simp
  with plain have "c \<noteq> CHR ''-''" "c \<noteq> CHR ''+''" by blast+
  with u t c show ?thesis by (simp add: js_number_def)
qed

text \<open>
  C30. Opening the edit form of a certificate and submitting it untouched proposes the
  certificate as it is: for a certificate with a trimmed name, lower-case domains that pass
  validation, an ACME account, a DNS account exactly in automatic mode, and a positive number of
  days before the expiry (the database keeps it between 1 and 90), the form accepts and the
  payload equals the stored configuration.
\<close>

theorem edit_untouched:
  assumes "cert_name c \<noteq> []" "js_trim (cert_name c) = cert_name c"
    and "cert_domains c \<noteq> []" "edit_validateDomains (cert_domains c) = no_text"
    and "\<forall>d\<in>set (cert_domains c). toLowerCase d = d"
    and "acmeAccountId c \<noteq> []" "(defaultDnsAccountId c = []) = (validationMode c \<noteq> ''auto'')"
    and "0 < renewBeforeDays c"
  shows "snd (submit_edit (mount_edit_panel c)) =
    Some \<lparr>pay_name = cert_name c, pay_acmeAccountId = acmeAccountId c,
      pay_defaultDnsAccountId = defaultDnsAccountId c, pay_validationMode = validationMode c,
      pay_domains = cert_domains c, pay_keyAlgorithm = keyAlgorithm c,
      pay_renewBeforeDays = of_int (renewBeforeDays c)\<rparr>"
proof -
  have wf: "\<forall>d\<in>set (cert_domains c). domain_wellformed d"
    using assms(4) by (simp add: edit_validateDomains_no_text check_domains_None)
  have p: "parse_domains (js_join [newline] (cert_domains c)) = cert_domains c"
    by (rule parse_domains_join [OF assms(3) wf assms(5)])
  have r: "number_or_30 (int_string (renewBeforeDays c)) = of_int (renewBeforeDays c)"
    using assms(8) by (simp add: number_or_30_def int_string_def js_number_digits of_nat_nat)
  from assms(7) have dns: "validationMode c = ''auto'' \<and> defaultDnsAccountId c \<noteq> [] \<or>
      validationMode c \<noteq> ''auto'' \<and> defaultDnsAccountId c = []" by blast
  show ?thesis
    using assms(1,2,3,4,6,8) dns by (auto simp: submit_edit_def mount_edit_panel_def Let_def p r)
qed

definition sample_detail :: certificate_detail where
  "sample_detail = \<lparr>cert_id = ''c1'', cert_name = ''site'', cert_domains = [''a.io'', ''*.b.io''],
     cert_status = ''issued'', keyAlgorithm = ''ecdsa_p256'', validationMode = ''auto'',
     notAfter = None, fingerprint = [], lastIssuedAt = None, cert_lastError = [], cert_createdAt = [],
     acmeAccountId = ''m1'', defaultDnsAccountId = ''d1'', renewBeforeDays = 14\<rparr>"

lemma edit_untouched_witness:
  "snd (submit_edit (mount_edit_panel sample_detail)) =
    Some \<lparr>pay_name = ''site'', pay_acmeAccountId = ''m1'', pay_defaultDnsAccountId = ''d1'',
      pay_validationMode = ''auto'', pay_domains = [''a.io'', ''*.b.io''],
      pay_keyAlgorithm = ''ecdsa_p256'', pay_renewBeforeDays = 14\<rparr>"
proof -
  have n: "js_trim (cert_name sample_detail) = cert_name sample_detail" by code_simp
  have v: "edit_validateDomains (cert_domains sample_detail) = no_text" by code_simp
  have l: "\<forall>d\<in>set (cert_domains sample_detail). toLowerCase d = d" by code_simp
  show ?thesis
    using edit_untouched [OF _ n _ v l] by (simp add: sample_detail_def)
qed

end
