(* ===== verification/Runtime.thy ===== *)
theory Runtime
  imports Views Http
begin

text \<open>
  How a component runs. A component is a record of its render function, its event handlers and the
  continuations of its requests. A handler runs to its first \<open>await\<close> and names the requests it has
  sent; each request carries a continuation with the values the closure captured. A system is
  a component state with the continuations still waiting. It moves when the user triggers an
  event the current view offers, when a window event arrives, when any one waiting request is
  answered, or when the outside (new props, the clock, navigation) changes the state; so all
  interleavings of user actions and replies are included.
\<close>

record ('s, 'e, 'k, 'r) app =
  app_view :: "'s \<Rightarrow> 'e view"
  app_ambient :: "'s \<Rightarrow> 'e set"
  app_handle :: "'e \<Rightarrow> 's \<Rightarrow> 's \<times> 'k list"
  app_resume :: "'k \<Rightarrow> 'r \<Rightarrow> 's \<Rightarrow> 's \<times> 'k list"
  app_answers :: "'k \<Rightarrow> 'r set"
  app_outside :: "'s \<Rightarrow> 's set"

type_synonym ('s, 'k) system = "'s \<times> 'k list"

inductive ui_step :: "('s, 'e, 'k, 'r) app \<Rightarrow> ('s, 'k) system \<Rightarrow> ('s, 'k) system \<Rightarrow> bool"
  for a :: "('s, 'e, 'k, 'r) app" where
  event: "e \<in> offered (app_view a s) \<union> app_ambient a s \<Longrightarrow> app_handle a e s = (s', ks) \<Longrightarrow>
     ui_step a (s, q) (s', q @ ks)"
| reply: "k \<in> set q \<Longrightarrow> r \<in> app_answers a k \<Longrightarrow> app_resume a k r s = (s', ks) \<Longrightarrow>
     ui_step a (s, q) (s', remove1 k q @ ks)"
| outside: "s' \<in> app_outside a s \<Longrightarrow> ui_step a (s, q) (s', q)"

inductive_cases ui_stepE: "ui_step a (s, q) (s', q')"

inductive ui_reach :: "('s, 'e, 'k, 'r) app \<Rightarrow> ('s, 'k) system \<Rightarrow> ('s, 'k) system \<Rightarrow> bool"
  for a :: "('s, 'e, 'k, 'r) app" and x0 :: "('s, 'k) system" where
  start: "ui_reach a x0 x0"
| step: "ui_reach a x0 x \<Longrightarrow> ui_step a x y \<Longrightarrow> ui_reach a x0 y"

lemma ui_reach_event:
  "ui_reach a x0 (s, q) \<Longrightarrow> e \<in> offered (app_view a s) \<union> app_ambient a s \<Longrightarrow>
     app_handle a e s = (s', ks) \<Longrightarrow> ui_reach a x0 (s', q @ ks)"
  by (rule ui_reach.step, assumption, rule ui_step.event)

lemma ui_reach_reply:
  "ui_reach a x0 (s, q) \<Longrightarrow> k \<in> set q \<Longrightarrow> r \<in> app_answers a k \<Longrightarrow>
     app_resume a k r s = (s', ks) \<Longrightarrow> ui_reach a x0 (s', remove1 k q @ ks)"
  by (rule ui_reach.step, assumption, rule ui_step.reply)

text \<open>
  The invariant rule: a property of the component state that every handler, continuation and
  outside change keeps holds in every reachable system.
\<close>

lemma ui_reach_inv:
  assumes "ui_reach a x0 x" and "I (fst x0)"
    and "\<And>e s. I s \<Longrightarrow> e \<in> offered (app_view a s) \<union> app_ambient a s \<Longrightarrow> I (fst (app_handle a e s))"
    and "\<And>k r s. I s \<Longrightarrow> r \<in> app_answers a k \<Longrightarrow> I (fst (app_resume a k r s))"
    and "\<And>s s'. I s \<Longrightarrow> s' \<in> app_outside a s \<Longrightarrow> I s'"
  shows "I (fst x)"
  using assms(1)
proof (induction rule: ui_reach.induct)
  case start
  then show ?case using assms(2) by simp
next
  case (step x y)
  from step.hyps(2) step.IH show ?case
    by (cases rule: ui_step.cases) (force dest: assms(3,4,5))+
qed

text \<open>The same for a property of the state together with the waiting requests.\<close>

lemma ui_reach_sys_inv:
  assumes "ui_reach a x0 x" and "J (fst x0) (snd x0)"
    and "\<And>e s q s' ks. J s q \<Longrightarrow> e \<in> offered (app_view a s) \<union> app_ambient a s \<Longrightarrow>
      app_handle a e s = (s', ks) \<Longrightarrow> J s' (q @ ks)"
    and "\<And>k r s q s' ks. J s q \<Longrightarrow> k \<in> set q \<Longrightarrow> r \<in> app_answers a k \<Longrightarrow>
      app_resume a k r s = (s', ks) \<Longrightarrow> J s' (remove1 k q @ ks)"
    and "\<And>s q s'. J s q \<Longrightarrow> s' \<in> app_outside a s \<Longrightarrow> J s' q"
  shows "J (fst x) (snd x)"
  using assms(1)
proof (induction rule: ui_reach.induct)
  case start
  then show ?case using assms(2) by simp
next
  case (step x y)
  from step.hyps(2) step.IH show ?case
    by (cases rule: ui_step.cases) (simp_all add: assms(3,4,5))
qed

subsection \<open>Restricted answers\<close>

text \<open>
  The same application against a server whose answers satisfy \<open>P\<close>, in any order and with any delay;
  everything it reaches the application reaches, so invariants carry over.
\<close>

definition answering :: "('k \<Rightarrow> 'r \<Rightarrow> bool) \<Rightarrow> ('s, 'e, 'k, 'r) app \<Rightarrow> ('s, 'e, 'k, 'r) app" where
  "answering P a = a\<lparr>app_answers := \<lambda>k. {r \<in> app_answers a k. P k r}\<rparr>"

lemma answering_simps [simp]:
  "app_view (answering P a) = app_view a" "app_ambient (answering P a) = app_ambient a"
  "app_handle (answering P a) = app_handle a" "app_resume (answering P a) = app_resume a"
  "app_outside (answering P a) = app_outside a"
  "r \<in> app_answers (answering P a) k \<longleftrightarrow> r \<in> app_answers a k \<and> P k r"
  by (auto simp: answering_def)

lemma answering_step: "ui_step (answering P a) x y \<Longrightarrow> ui_step a x y"
  by (cases rule: ui_step.cases) (auto intro: ui_step.intros)

lemma answering_reach: "ui_reach (answering P a) x0 x \<Longrightarrow> ui_reach a x0 x"
  by (induction rule: ui_reach.induct) (auto intro: ui_reach.intros answering_step)

subsection \<open>The contract of a busy flag\<close>

text \<open>
  Every manager disables its mutating controls by one boolean \<open>pending\<close>. The contract
  \<open>single_flight\<close>: no event starts a mutating request unless the flag is down, starting one raises
  it, and only the answer to a mutating request may lower it. Then at most one mutating
  request is ever waiting. \<open>releasing_flight\<close> adds that an answered mutation always lowers
  the flag or goes on with another request: then the flag is up exactly while one waits.
\<close>

locale single_flight =
  fixes a :: "('s, 'e, 'k, 'r) app"
    and busy :: "'s \<Rightarrow> bool"
    and mutating :: "'k \<Rightarrow> bool"
  assumes event_law: "e \<in> offered (app_view a s) \<union> app_ambient a s \<Longrightarrow> app_handle a e s = (s', ks) \<Longrightarrow>
      filter mutating ks = [] \<and> busy s' = busy s \<or>
      \<not> busy s \<and> busy s' \<and> length (filter mutating ks) = 1"
    and background_law: "\<not> mutating k \<Longrightarrow> r \<in> app_answers a k \<Longrightarrow> app_resume a k r s = (s', ks) \<Longrightarrow>
      filter mutating ks = [] \<and> busy s' = busy s"
    and answer_law: "mutating k \<Longrightarrow> r \<in> app_answers a k \<Longrightarrow> busy s \<Longrightarrow> app_resume a k r s = (s', ks) \<Longrightarrow>
      filter mutating ks = [] \<or> busy s' \<and> length (filter mutating ks) = 1"
    and outside_law: "s' \<in> app_outside a s \<Longrightarrow> busy s' = busy s"
begin

lemma step_flight:
  assumes "ui_step a (s, q) (s', q')"
    and "length (filter mutating q) \<le> 1" and "filter mutating q \<noteq> [] \<Longrightarrow> busy s"
  shows "length (filter mutating q') \<le> 1 \<and> (filter mutating q' \<noteq> [] \<longrightarrow> busy s')"
  using assms(1)
proof (cases rule: ui_step.cases)
  case (event e ks)
  from event_law [OF event(2,3)] assms(2,3) event(1) show ?thesis
    by (cases "filter mutating q") auto
next
  case (reply k r ks)
  show ?thesis
  proof (cases "mutating k")
    case True
    then have "filter mutating q \<noteq> []" using reply(2) by (rule filter_in_nonempty [rotated])
    then have b: "busy s" by (rule assms(3))
    have none: "filter mutating (remove1 k q) = []"
      using filter_remove1_count [OF reply(2), of mutating] True assms(2) by auto
    from answer_law [OF True reply(3) b reply(4)] none reply(1) show ?thesis by auto
  next
    case False
    from background_law [OF False reply(3,4)] assms(2,3) reply(1) filter_remove1_other [of mutating k q] False
    show ?thesis by simp
  qed
next
  case outside
  with outside_law [OF outside(2)] assms(2,3) show ?thesis by simp
qed

lemma reach_flight:
  assumes "ui_reach a x0 x" "\<not> busy (fst x0)" "filter mutating (snd x0) = []"
  shows "length (filter mutating (snd x)) \<le> 1 \<and> (filter mutating (snd x) \<noteq> [] \<longrightarrow> busy (fst x))"
  using assms(1)
proof (induction rule: ui_reach.induct)
  case start
  then show ?case using assms(3) by simp
next
  case (step x y)
  then show ?case
    using step_flight [of "fst x" "snd x" "fst y" "snd y"] by simp
qed

text \<open>
  A flag left up with no mutating request waiting stays up: no event can send another one.
\<close>

lemma stuck:
  assumes "ui_reach a x0 y" "busy (fst x0)" "filter mutating (snd x0) = []"
  shows "busy (fst y) \<and> filter mutating (snd y) = []"
  using assms(1)
proof (induction rule: ui_reach.induct)
  case start
  then show ?case using assms(2,3) by simp
next
  case (step x y)
  from step.hyps(2) show ?case
  proof (cases rule: ui_step.cases)
    case (event e s s' ks q)
    from event_law [OF event(3,4)] step.IH event(1,2) show ?thesis by auto
  next
    case (reply k q r s s' ks)
    have k: "\<not> mutating k"
      using step.IH reply(1,3) filter_in_nonempty [of k q mutating] by auto
    from background_law [OF k reply(4,5)] step.IH reply(1,2) filter_remove1_other [of mutating k q] k
    show ?thesis by simp
  next
    case (outside s' s q)
    from outside_law [OF outside(3)] step.IH outside(1,2) show ?thesis by simp
  qed
qed

text \<open>While a mutating request waits, no event starts another one.\<close>

lemma no_second_flight:
  assumes "ui_reach a x0 (s, q)" "\<not> busy (fst x0)" "filter mutating (snd x0) = []" "filter mutating q \<noteq> []"
    and "e \<in> offered (app_view a s) \<union> app_ambient a s" "app_handle a e s = (s', ks)"
  shows "filter mutating ks = []"
  using reach_flight [OF assms(1,2,3)] assms(4) event_law [OF assms(5,6)] by auto

end

locale releasing_flight = single_flight +
  assumes release_law: "mutating k \<Longrightarrow> r \<in> app_answers a k \<Longrightarrow> busy s \<Longrightarrow> app_resume a k r s = (s', ks) \<Longrightarrow>
      busy s' = (filter mutating ks \<noteq> [])"
begin

lemma reach_busy:
  assumes "ui_reach a x0 x" "\<not> busy (fst x0)" "filter mutating (snd x0) = []"
  shows "busy (fst x) = (filter mutating (snd x) \<noteq> [])"
  using assms(1)
proof (induction rule: ui_reach.induct)
  case start
  then show ?case using assms(2,3) by simp
next
  case (step x y)
  from step.hyps(2) show ?case
  proof (cases rule: ui_step.cases)
    case (event e s s' ks q)
    from event_law [OF event(3,4)] step.IH event(1,2) show ?thesis by auto
  next
    case (reply k q r s s' ks)
    show ?thesis
    proof (cases "mutating k")
      case True
      have ne: "filter mutating q \<noteq> []" using reply(3) True by (rule filter_in_nonempty)
      then have b: "busy s" using step.IH reply(1) by simp
      have none: "filter mutating (remove1 k q) = []"
        using filter_remove1_count [OF reply(3), of mutating] True
          reach_flight [OF step.hyps(1) assms(2,3)] reply(1) by auto
      from release_law [OF True reply(4) b reply(5)] none reply(2) show ?thesis by simp
    next
      case False
      from background_law [OF False reply(4,5)] step.IH reply(1,2)
        filter_remove1_other [of mutating k q] False
      show ?thesis by simp
    qed
  next
    case (outside s' s q)
    from outside_law [OF outside(3)] step.IH outside(1,2) show ?thesis by simp
  qed
qed

end

subsection \<open>The contract of chained requests\<close>

text \<open>
  A reply may send further requests. \<open>reply_run a n x y\<close>: from \<open>x\<close>, \<open>n\<close> replies and nothing else lead to
  \<open>y\<close>. The contract \<open>ending_chains\<close>: a weight of requests that the requests sent by a reply do not
  reach together. Then replies alone cannot go on for ever.
\<close>

inductive reply_run :: "('s, 'e, 'k, 'r) app \<Rightarrow> nat \<Rightarrow> ('s, 'k) system \<Rightarrow> ('s, 'k) system \<Rightarrow> bool"
  for a :: "('s, 'e, 'k, 'r) app" where
  no_reply: "reply_run a 0 x x"
| one_reply: "reply_run a n x (s, q) \<Longrightarrow> k \<in> set q \<Longrightarrow> r \<in> app_answers a k \<Longrightarrow> app_resume a k r s = (s', ks) \<Longrightarrow>
     reply_run a (Suc n) x (s', remove1 k q @ ks)"

lemma reply_run_reach: "reply_run a n x y \<Longrightarrow> ui_reach a x0 x \<Longrightarrow> ui_reach a x0 y"
  by (induction rule: reply_run.induct) (auto intro: ui_reach_reply)

lemma weight_remove1: "k \<in> set q \<Longrightarrow> sum_list (map w (remove1 k q)) + w k = sum_list (map w q)" for w :: "'k \<Rightarrow> nat"
  by (induction q) auto

lemma weight_bound: "\<forall>k\<in>set q. w k \<le> m \<Longrightarrow> sum_list (map w q) \<le> m * length q" for w :: "'k \<Rightarrow> nat"
  by (induction q) auto

locale ending_chains =
  fixes a :: "('s, 'e, 'k, 'r) app"
    and weight :: "'k \<Rightarrow> nat"
  assumes chain_law: "r \<in> app_answers a k \<Longrightarrow> app_resume a k r s = (s', ks) \<Longrightarrow> sum_list (map weight ks) < weight k"
begin

lemma run_bound: "reply_run a n x y \<Longrightarrow> n + sum_list (map weight (snd y)) \<le> sum_list (map weight (snd x))"
proof (induction rule: reply_run.induct)
  case (no_reply x)
  then show ?case by simp
next
  case (one_reply n x s q k r s' ks)
  from chain_law [OF one_reply.hyps(3,4)] weight_remove1 [OF one_reply.hyps(2), of weight] one_reply.IH
  show ?case by simp
qed

lemma run_ends:
  assumes "reply_run a n x y" "\<forall>k\<in>set (snd x). weight k \<le> m"
  shows "n \<le> m * length (snd x)"
  using run_bound [OF assms(1)] weight_bound [OF assms(2)] by simp

end

end
