(* ===== verification/Expiry.thy ===== *)
theory Expiry
  imports Resources
begin

text \<open>
  Time: the part of \<open>Date\<close> the console uses, and the expiry of certificates
  (\<^verbatim>\<open>certificate-list.tsx\<close>, \<open>matchesExpiry\<close>, \<open>expiryLabel\<close>, \<open>expiryTone\<close>). A time is a number of
  milliseconds since the epoch; \<open>None\<close> is the \<open>NaN\<close> of an invalid date. A text is read
  in the ISO format of the language standard; texts outside it, whose reading is left to the
  implementation, are invalid here. The quotient of two times is taken exactly.
\<close>

subsection \<open>Reading time stamps\<close>

definition leap :: "int \<Rightarrow> bool" where
  "leap y \<longleftrightarrow> y mod 4 = 0 \<and> (y mod 100 \<noteq> 0 \<or> y mod 400 = 0)"

definition month_days :: "int \<Rightarrow> nat \<Rightarrow> int" where
  "month_days y m = (if m = 2 then (if leap y then 29 else 28) else if m \<in> {4, 6, 9, 11} then 30 else 31)"

definition leaps_before :: "int \<Rightarrow> int" where
  "leaps_before y = (y - 1) div 4 - (y - 1) div 100 + (y - 1) div 400"

definition day_number :: "int \<Rightarrow> nat \<Rightarrow> int \<Rightarrow> int" where
  "day_number y m d =
     365 * (y - 1970) + (leaps_before y - leaps_before 1970) + sum_list (map (month_days y) [1..<m]) + (d - 1)"

text \<open>A fixed number of digits at the front of a text.\<close>

definition take_digits :: "nat \<Rightarrow> string \<Rightarrow> (nat \<times> string) option" where
  "take_digits n s =
     (if n \<le> length s \<and> list_all is_digit (take n s) then Some (digits_value 0 (take n s), drop n s) else None)"

definition expect :: "char \<Rightarrow> string \<Rightarrow> string option" where
  "expect c s = (case s of [] \<Rightarrow> None | a # r \<Rightarrow> if a = c then Some r else None)"

text \<open>The fraction of a second, in whole milliseconds.\<close>

definition millis :: "string \<Rightarrow> nat" where
  "millis ds = digits_value 0 (take 3 (ds @ ''000''))"

definition read_zone :: "string \<Rightarrow> int option" where
  "read_zone s =
     (case s of
        [] \<Rightarrow> None
      | z # r \<Rightarrow>
          if z = CHR ''Z'' then (if r = [] then Some 0 else None)
          else if z = CHR ''+'' \<or> z = CHR ''-'' then
            Option.bind (take_digits 2 r) (\<lambda>(h, r1). Option.bind (expect (CHR '':'') r1) (\<lambda>r2.
            Option.bind (take_digits 2 r2) (\<lambda>(mi, r3).
              if r3 = [] \<and> h \<le> 23 \<and> mi \<le> 59
              then Some ((if z = CHR ''+'' then 1 else - 1) * (60 * int h + int mi) * 60000) else None)))
          else None)"

definition read_clock :: "string \<Rightarrow> int option" where
  "read_clock s =
     Option.bind (take_digits 2 s) (\<lambda>(h, r1). Option.bind (expect (CHR '':'') r1) (\<lambda>r2.
     Option.bind (take_digits 2 r2) (\<lambda>(mi, r3). Option.bind (expect (CHR '':'') r3) (\<lambda>r4.
     Option.bind (take_digits 2 r4) (\<lambda>(sec, r5).
       let dotted = (case r5 of [] \<Rightarrow> False | c # _ \<Rightarrow> c = CHR ''.'');
           frac = (if dotted then takeWhile is_digit (tl r5) else []);
           zone = (if dotted then dropWhile is_digit (tl r5) else r5)
       in if (dotted \<and> frac = []) \<or> 23 < h \<or> 59 < mi \<or> 59 < sec then None
          else map_option (\<lambda>off. (3600 * int h + 60 * int mi + int sec) * 1000 + int (millis frac) - off)
                 (read_zone zone))))))"

definition js_date :: "string \<Rightarrow> int option" where
  "js_date s =
     Option.bind (take_digits 4 s) (\<lambda>(y, r1). Option.bind (expect (CHR ''-'') r1) (\<lambda>r2.
     Option.bind (take_digits 2 r2) (\<lambda>(m, r3). Option.bind (expect (CHR ''-'') r3) (\<lambda>r4.
     Option.bind (take_digits 2 r4) (\<lambda>(d, r5).
       if m = 0 \<or> 12 < m \<or> d = 0 \<or> month_days (int y) m < int d then None
       else (let day = day_number (int y) m (int d) * 86400000
             in if r5 = [] then Some day
                else Option.bind (expect (CHR ''T'') r5) (\<lambda>r6. map_option (\<lambda>c. day + c) (read_clock r6))))))))"

subsection \<open>Remaining days\<close>

definition day_ms :: int where
  "day_ms = 86400000"

definition remaining_days :: "int \<Rightarrow> string \<Rightarrow> int option" where
  "remaining_days now value = map_option (\<lambda>t. - ((now - t) div day_ms)) (js_date value)"

definition matchesExpiry :: "int \<Rightarrow> certificate \<Rightarrow> string \<Rightarrow> bool" where
  "matchesExpiry now c flt =
     (if flt = ''all'' then True
      else if notAfter c \<in> {None, Some []} then flt = ''unissued''
      else (let remaining = remaining_days now (the (notAfter c))
            in if flt = ''expired'' then (case remaining of Some n \<Rightarrow> n < 0 | None \<Rightarrow> False)
               else if flt = ''7'' then (case remaining of Some n \<Rightarrow> 0 \<le> n \<and> n \<le> 7 | None \<Rightarrow> False)
               else if flt = ''30'' then (case remaining of Some n \<Rightarrow> 0 \<le> n \<and> n \<le> 30 | None \<Rightarrow> False)
               else False))"

definition days_text :: "int option \<Rightarrow> string" where
  "days_text n = (case n of Some k \<Rightarrow> int_string k | None \<Rightarrow> ''NaN'')"

definition expiryLabel :: "int \<Rightarrow> string \<Rightarrow> label" where
  "expiryLabel now value =
     (let remaining = remaining_days now value
      in case remaining of
           Some n \<Rightarrow>
             if n < 0 then Tr ''certificate.expiredDays'' [(''days'', int_string \<bar>n\<bar>)]
             else if n = 0 then Tr ''certificate.expiresToday'' []
             else Tr ''certificate.daysRemaining'' [(''days'', days_text remaining)]
         | None \<Rightarrow> Tr ''certificate.daysRemaining'' [(''days'', days_text remaining)])"

definition expiryTone :: "int \<Rightarrow> string \<Rightarrow> string" where
  "expiryTone now value =
     (case remaining_days now value of
        Some n \<Rightarrow> if n < 0 then ''certificate-expiry-danger''
          else if n \<le> 7 then ''certificate-expiry-warning'' else ''certificate-expiry-neutral''
      | None \<Rightarrow> ''certificate-expiry-neutral'')"

subsection \<open>What the days mean\<close>

lemma ceil_days_le: "- ((now - t) div day_ms) \<le> n \<longleftrightarrow> t - now \<le> n * day_ms" for n :: int
  unfolding day_ms_def by linarith

text \<open>
  The filters and the marks of the list agree on every certificate and every clock: a
  certificate is under the filter \<open>expired\<close> exactly when it is marked as danger, under \<open>7\<close>
  exactly when it is marked as warning, and the filter \<open>30\<close> holds those and none marked as danger;
  the days counted are those of the milliseconds left, rounded up.
\<close>

theorem expiry_consistent:
  assumes "notAfter c = Some v" "v \<noteq> []" "js_date v = Some t"
  shows "matchesExpiry now c ''expired'' = (expiryTone now v = ''certificate-expiry-danger'') \<and>
    matchesExpiry now c ''7'' = (expiryTone now v = ''certificate-expiry-warning'') \<and>
    matchesExpiry now c ''expired'' = (t - now \<le> - day_ms) \<and>
    matchesExpiry now c ''7'' = (- day_ms < t - now \<and> t - now \<le> 7 * day_ms) \<and>
    matchesExpiry now c ''30'' = (- day_ms < t - now \<and> t - now \<le> 30 * day_ms)"
proof -
  define n where "n = - ((now - t) div day_ms)"
  have r: "remaining_days now v = Some n"
    using assms(3) by (simp add: remaining_days_def n_def)
  have le: "n \<le> k \<longleftrightarrow> t - now \<le> k * day_ms" for k
    unfolding n_def by (rule ceil_days_le)
  have neg: "n < 0 \<longleftrightarrow> t - now \<le> - day_ms" using le [of "- 1"] by linarith
  have m: "matchesExpiry now c ''expired'' = (n < 0)" "matchesExpiry now c ''7'' = (0 \<le> n \<and> n \<le> 7)"
    "matchesExpiry now c ''30'' = (0 \<le> n \<and> n \<le> 30)"
    using assms(1,2) by (simp_all add: matchesExpiry_def r)
  have tone: "expiryTone now v = (if n < 0 then ''certificate-expiry-danger''
      else if n \<le> 7 then ''certificate-expiry-warning'' else ''certificate-expiry-neutral'')"
    by (simp add: expiryTone_def r)
  show ?thesis
    unfolding m tone using neg le [of 7] le [of 30] by (cases "n < 0"; cases "n \<le> 7") auto
qed

lemma expiry_consistent_witness:
  "matchesExpiry 1772582400000 \<lparr>cert_id = ''c'', cert_name = ''n'', cert_domains = [], cert_status = ''issued'',
     keyAlgorithm = [], validationMode = [], notAfter = Some ''2026-03-10T00:00:00Z'', fingerprint = [],
     lastIssuedAt = None, cert_lastError = [], cert_createdAt = []\<rparr> ''7''
   = (expiryTone 1772582400000 ''2026-03-10T00:00:00Z'' = ''certificate-expiry-warning'')"
proof -
  let ?c = "\<lparr>cert_id = ''c'', cert_name = ''n'', cert_domains = [], cert_status = ''issued'',
     keyAlgorithm = [], validationMode = [], notAfter = Some ''2026-03-10T00:00:00Z'', fingerprint = [],
     lastIssuedAt = None, cert_lastError = [], cert_createdAt = []\<rparr>"
  have d: "js_date ''2026-03-10T00:00:00Z'' = Some 1773100800000" by code_simp
  have n: "notAfter ?c = Some ''2026-03-10T00:00:00Z''" by simp
  show ?thesis using expiry_consistent [OF n _ d] by simp
qed

text \<open>
  C38. A certificate that expired less than a day ago is not reported as expired: the list says
  that it expires today, marks it as a warning and leaves it out of the filter for expired
  certificates, because the negative fraction of a day is rounded up to zero.
\<close>

theorem just_expired:
  assumes "notAfter c = Some v" "v \<noteq> []" "js_date v = Some t" "t < now" "now < t + day_ms"
  shows "expiryLabel now v = Tr ''certificate.expiresToday'' [] \<and>
    expiryTone now v = ''certificate-expiry-warning'' \<and> \<not> matchesExpiry now c ''expired''"
proof -
  have "(now - t) div day_ms = 0"
    using assms(4,5) by (intro div_pos_pos_trivial) (simp_all add: day_ms_def)
  then have "remaining_days now v = Some 0" using assms(3) by (simp add: remaining_days_def)
  with assms(1,2) show ?thesis
    by (simp add: expiryLabel_def expiryTone_def matchesExpiry_def)
qed

lemma just_expired_witness:
  "expiryLabel 1773104400000 ''2026-03-10T00:00:00Z'' = Tr ''certificate.expiresToday'' []"
proof -
  let ?c = "\<lparr>cert_id = ''c'', cert_name = ''n'', cert_domains = [], cert_status = ''issued'',
     keyAlgorithm = [], validationMode = [], notAfter = Some ''2026-03-10T00:00:00Z'', fingerprint = [],
     lastIssuedAt = None, cert_lastError = [], cert_createdAt = []\<rparr>"
  have d: "js_date ''2026-03-10T00:00:00Z'' = Some 1773100800000" by code_simp
  have n: "notAfter ?c = Some ''2026-03-10T00:00:00Z''" by simp
  show ?thesis using just_expired [OF n _ d, of 1773104400000] by (simp add: day_ms_def)
qed

end
