(* ===== verification/Certificate_Detail.thy ===== *)
theory Certificate_Detail
  imports Runtime Resources Expiry
begin

text \<open>
  The panels of the certificate dialog (\<^verbatim>\<open>certificate-list.tsx\<close>): the overview with its version
  history and related resources, and the manual DNS validation, which is an application of its
  own with two buttons that talk to the control plane.
\<close>

subsection \<open>The overview\<close>

record overview =
  ov_versions :: "certificate_version list option"
  ov_relations :: "certificate_relations option"
  ov_loadError :: label
  ov_active :: bool

definition mount_overview :: overview where
  "mount_overview = \<lparr>ov_versions = None, ov_relations = None, ov_loadError = no_text, ov_active = True\<rparr>"

definition unmount_overview :: "overview \<Rightarrow> overview" where
  "unmount_overview o1 = o1\<lparr>ov_active := False\<rparr>"

definition overview_requests :: "string \<Rightarrow> string list" where
  "overview_requests i = [''/api/certificates/'' @ i @ ''/versions'', ''/api/certificates/'' @ i @ ''/relations'']"

text \<open>
  The end of the \<open>Promise.all\<close> of both requests: both values, or the first failure. After the
  clean-up of the effect nothing is stored any more.
\<close>

definition overview_loaded ::
    "failure + (certificate_version list \<times> certificate_relations) \<Rightarrow> overview \<Rightarrow> overview" where
  "overview_loaded r o1 =
     (if \<not> ov_active o1 then o1
      else (case r of
              Inr (vs, rel) \<Rightarrow> o1\<lparr>ov_versions := Some vs, ov_relations := Some rel\<rparr>
            | Inl f \<Rightarrow> o1\<lparr>ov_loadError := failure_message f no_text\<rparr>))"

definition automationActionLabel :: "action_type \<Rightarrow> label" where
  "automationActionLabel a = (case a of RenewCertificate \<Rightarrow> Zh ''regular renewal''
     | UploadSsl \<Rightarrow> Zh ''upload SSL'' | DeployAlb \<Rightarrow> Zh ''update ALB'')"

definition RelationCard ::
    "label \<Rightarrow> (string \<times> string) option \<Rightarrow> label \<Rightarrow> nat option \<Rightarrow> label \<Rightarrow> 'e view" where
  "RelationCard title resource empty_text count detail_text =
     El ''div''
      [Txt title,
       El ''strong'' [Txt (case resource of
            Some (name, st) \<Rightarrow> Raw name
          | None \<Rightarrow> (case count of None \<Rightarrow> empty_text | Some n \<Rightarrow> Cat [Raw (nat_digits n), Zh '' items'']))],
       El ''small'' [Txt (case resource of Some (name, st) \<Rightarrow> Raw st | None \<Rightarrow> detail_text)]]"

fun join_labels :: "label \<Rightarrow> label list \<Rightarrow> label list" where
  "join_labels sep [] = []"
| "join_labels sep [x] = [x]"
| "join_labels sep (x # y # xs) = x # sep # join_labels sep (y # xs)"

definition CertificateRelationSummary :: "certificate_relations option \<Rightarrow> 'e view" where
  "CertificateRelationSummary relations =
     El ''section''
      [El ''h2'' [Txt (Zh ''related resources'')],
       El ''p'' [Txt (Zh ''enabled automations go on after a reissue'')],
       (case relations of
          None \<Rightarrow> El ''div'' [Txt (Zh ''loading related resources'')]
        | Some r \<Rightarrow>
            El ''div''
             [RelationCard (Zh ''ACME account'') (map_option (\<lambda>a. (ref_name a, ref_status a)) (rel_acmeAccount r))
                (Zh ''no related account found'') None no_text,
              RelationCard (Zh ''DNS account'') (map_option (\<lambda>a. (ref_name a, ref_status a)) (rel_dnsAccount r))
                (Zh ''manual validation or no DNS account'') None no_text,
              RelationCard (Zh ''automation tasks'') None no_text (Some (length (rel_automations r)))
                (if rel_automations r \<noteq> [] then
                   Cat (join_labels (Zh ''enumeration comma'')
                     (map (\<lambda>a. Cat [Raw (aref_name a), Zh ''left parenthesis'',
                        automationActionLabel (aref_actionType a), Zh ''right parenthesis'']) (rel_automations r)))
                 else Zh ''not configured''),
              RelationCard (Zh ''deployment targets'') None no_text (Some (length (rel_deployments r)))
                (if rel_deployments r \<noteq> [] then
                   Cat (join_labels (Zh ''enumeration comma'') (map (\<lambda>d. Raw (dref_targetName d)) (rel_deployments r)))
                 else Zh ''not configured'')])]"

definition first_shown :: "string list \<Rightarrow> string" where
  "first_shown xs = (case List.find (\<lambda>x. x \<noteq> []) xs of Some x \<Rightarrow> x | None \<Rightarrow> last xs)"

definition version_row :: "certificate_version \<Rightarrow> 'e view" where
  "version_row v =
     El ''Table.Row''
      [El ''Table.Cell''
        [Txt (if isCurrent v then Zh ''current version'' else Zh ''historic version''),
         Txt (Raw (first_shown [serialNumber v, version_fingerprint v, version_id v]))],
       El ''Table.Cell'' [Txt (Cat [formatDate (Some (version_notBefore v)) ZhCN, Zh '' to '',
         formatDate (Some (version_notAfter v)) ZhCN])],
       El ''Table.Cell'' [Txt (formatDate (Some (issuedAt v)) ZhCN)],
       El ''Table.Cell''
        [if revokedAt v \<notin> {None, Some []} then StatusTag ''revoked''
         else if isCurrent v then StatusTag ''issued''
         else Txt (Zh ''archived'')]]"

definition CertificateVersionHistory :: "certificate_version list option \<Rightarrow> 'e view" where
  "CertificateVersionHistory versions =
     El ''section''
      [El ''h2'' [Txt (Zh ''version history'')],
       El ''p'' [Txt (Zh ''only metadata is shown, neither key nor certificate'')],
       (case versions of
          None \<Rightarrow> El ''div'' [Txt (Zh ''loading version history'')]
        | Some vs \<Rightarrow>
            if vs = [] then El ''div'' [Txt (Zh ''no issued version yet'')]
            else El ''Table''
             [El ''Table.Header'' (map (\<lambda>g. Txt (Zh g)) [''version'', ''validity'', ''issued at'', ''status'']),
              El ''Table.Body'' (map version_row vs)])]"

definition CertificateOverview :: "int \<Rightarrow> locale_id \<Rightarrow> certificate \<Rightarrow> overview \<Rightarrow> 'e view" where
  "CertificateOverview now loc c o1 =
     El ''div''
      [El ''dl''
        [Txt (Zh ''status''), StatusTag (cert_status c),
         Txt (Zh ''key algorithm''), Txt (Raw (keyAlgorithm c)),
         Txt (Zh ''validation mode''),
         Txt (if validationMode c = ''manual'' then Zh ''manual DNS TXT'' else Zh ''automatic DNS''),
         Txt (Zh ''expires at''),
         (if notAfter c \<notin> {None, Some []}
          then El ''span'' [Txt (formatDate (notAfter c) loc),
            El (''small '' @ expiryTone now (the (notAfter c))) [Txt (expiryLabel now (the (notAfter c)))]]
          else Txt (Zh ''to be issued'')),
         Txt (Zh ''SAN and wildcard domains''),
         El ''ul'' (map (\<lambda>d. El ''li'' [Txt (Raw d),
           Txt (if prefix ''*.'' d then Zh ''covers one level of subdomains'' else Zh ''exact domain'')])
           (cert_domains c)),
         Txt (Zh ''SHA-256 fingerprint''),
         Txt (if fingerprint c \<noteq> [] then Raw (fingerprint c) else Zh ''generated after issuance''),
         Txt (Zh ''last issued''),
         Txt (if lastIssuedAt c \<notin> {None, Some []} then formatDate (lastIssuedAt c) ZhCN else Zh ''none yet''),
         Txt (Zh ''created at''), Txt (formatDate (Some (cert_createdAt c)) ZhCN)],
       show_if (cert_lastError c \<noteq> []) (FormError (Raw (cert_lastError c))),
       show_if (shown (ov_loadError o1))
         (FormError (Cat [Zh ''cannot load versions and related resources: '', ov_loadError o1])),
       CertificateVersionHistory (ov_versions o1),
       CertificateRelationSummary (ov_relations o1)]"

subsection \<open>Manual DNS validation\<close>

record challenge =
  ch_domain :: string
  ch_fqdn :: string
  ch_value :: string

record manual_challenge =
  mc_certificateId :: string
  mc_status :: string
  mc_challenges :: "challenge list"

record manual_check =
  chk_fqdn :: string
  chk_expected :: string
  chk_observed :: "string list"
  chk_matched :: bool
  chk_error :: string

record manual_panel =
  mv_certificateId :: string
  mv_challenge :: "manual_challenge option"
  mv_error :: label
  mv_pending :: bool
  mv_checkingDNS :: bool
  mv_checks :: "manual_check list option"
  mv_clipboard :: "string list"

datatype manual_event = CopyAll | CopyValue string | ContinueValidation | CheckDNS

datatype manual_call = LoadChallenge | ContinueCall | CheckCall

datatype manual_reply =
    ManualFailed failure
  | ManualChallengeIs manual_challenge
  | ManualContinued
  | ManualChecksAre "manual_check list"

definition mount_manual :: "string \<Rightarrow> manual_panel \<times> manual_call list" where
  "mount_manual i =
     (\<lparr>mv_certificateId = i, mv_challenge = None, mv_error = no_text, mv_pending = False,
       mv_checkingDNS = False, mv_checks = None, mv_clipboard = []\<rparr>, [LoadChallenge])"

definition manual_request :: "manual_call \<Rightarrow> manual_panel \<Rightarrow> string \<times> string" where
  "manual_request k s =
     (let base = ''/api/certificates/'' @ mv_certificateId s @ ''/manual-challenge''
      in case k of
           LoadChallenge \<Rightarrow> (''GET'', base)
         | ContinueCall \<Rightarrow> (''POST'', base @ ''/continue'')
         | CheckCall \<Rightarrow> (''GET'', base @ ''/check''))"

definition txt_line :: "challenge \<Rightarrow> string" where
  "txt_line c = ch_fqdn c @ [char_of (9 :: nat)] @ ''TXT'' @ [char_of (9 :: nat)] @ ch_value c"

definition copyAll :: "manual_panel \<Rightarrow> manual_panel" where
  "copyAll s =
     (case mv_challenge s of
        None \<Rightarrow> s
      | Some c \<Rightarrow> s\<lparr>mv_clipboard := mv_clipboard s @
          [js_join [char_of (10 :: nat)] (map txt_line (mc_challenges c))]\<rparr>)"

definition continueValidation :: "manual_panel \<Rightarrow> manual_panel \<times> manual_call list" where
  "continueValidation s = (s\<lparr>mv_pending := True, mv_error := no_text\<rparr>, [ContinueCall])"

definition continued :: "manual_reply \<Rightarrow> manual_panel \<Rightarrow> manual_panel" where
  "continued r s =
     (case r of
        ManualFailed f \<Rightarrow> s\<lparr>mv_error := failure_message f (Zh ''cannot continue the validation''), mv_pending := False\<rparr>
      | _ \<Rightarrow> s\<lparr>mv_challenge := map_option (\<lambda>c. c\<lparr>mc_status := ''approved''\<rparr>) (mv_challenge s),
             mv_pending := False\<rparr>)"

definition checkDNS :: "manual_panel \<Rightarrow> manual_panel \<times> manual_call list" where
  "checkDNS s = (s\<lparr>mv_checkingDNS := True, mv_error := no_text\<rparr>, [CheckCall])"

definition checked :: "manual_reply \<Rightarrow> manual_panel \<Rightarrow> manual_panel" where
  "checked r s =
     (case r of
        ManualFailed f \<Rightarrow> s\<lparr>mv_error := failure_message f (Zh ''cannot check the DNS resolution''), mv_checkingDNS := False\<rparr>
      | ManualChecksAre cs \<Rightarrow> s\<lparr>mv_checks := Some cs, mv_checkingDNS := False\<rparr>
      | _ \<Rightarrow> s\<lparr>mv_checkingDNS := False\<rparr>)"

definition challenge_loaded :: "manual_reply \<Rightarrow> manual_panel \<Rightarrow> manual_panel" where
  "challenge_loaded r s =
     (case r of
        ManualFailed f \<Rightarrow> s\<lparr>mv_error := failure_message f no_text\<rparr>
      | ManualChallengeIs c \<Rightarrow> s\<lparr>mv_challenge := Some c\<rparr>
      | _ \<Rightarrow> s)"

definition manual_handle :: "manual_event \<Rightarrow> manual_panel \<Rightarrow> manual_panel \<times> manual_call list" where
  "manual_handle e s =
     (case e of
        CopyAll \<Rightarrow> (copyAll s, [])
      | CopyValue v \<Rightarrow> (s\<lparr>mv_clipboard := mv_clipboard s @ [v]\<rparr>, [])
      | ContinueValidation \<Rightarrow> continueValidation s
      | CheckDNS \<Rightarrow> checkDNS s)"

definition manual_resume :: "manual_call \<Rightarrow> manual_reply \<Rightarrow> manual_panel \<Rightarrow> manual_panel \<times> manual_call list" where
  "manual_resume k r s =
     (case k of
        LoadChallenge \<Rightarrow> (challenge_loaded r s, [])
      | ContinueCall \<Rightarrow> (continued r s, [])
      | CheckCall \<Rightarrow> (checked r s, []))"

definition manual_answers :: "manual_call \<Rightarrow> manual_reply set" where
  "manual_answers k =
     range ManualFailed \<union>
     (case k of LoadChallenge \<Rightarrow> range ManualChallengeIs | ContinueCall \<Rightarrow> {ManualContinued}
      | CheckCall \<Rightarrow> range ManualChecksAre)"

definition check_row :: "manual_check \<Rightarrow> manual_event view" where
  "check_row c =
     El ''div'' [Txt (Raw (chk_fqdn c)),
       Txt (if chk_matched c then Zh ''resolved to the expected TXT value''
            else if chk_error c \<noteq> [] then Zh ''no TXT record found for now''
            else Zh ''not resolved to the expected TXT value yet'')]"

definition manual_view :: "manual_panel \<Rightarrow> manual_event view" where
  "manual_view s =
     (if shown (mv_error s) then FormError (mv_error s)
      else (case mv_challenge s of
          None \<Rightarrow> El ''div'' [Txt (Zh ''loading validation records'')]
        | Some c \<Rightarrow>
            El ''div''
             [El ''div''
               [Txt (Zh ''records to validate''),
                Txt (Cat [Zh ''status: '', if mc_status c = ''waiting_user'' then Zh ''waiting for DNS''
                  else Zh ''validation submitted'']),
                Button (Zh ''copy all TXT records'') False CopyAll],
              El ''Table''
               [El ''Table.Header'' (map (\<lambda>g. Txt (Zh g)) [''domain'', ''record name'', ''TXT value'', ''actions'']),
                El ''Table.Body''
                 (map (\<lambda>item. El ''Table.Row'' [Txt (Raw (ch_domain item)), Txt (Raw (ch_fqdn item)),
                    Txt (Raw (ch_value item)),
                    TableActions [action ''copy'' (Zh ''copy'') (CopyValue (ch_value item)) False]]) (mc_challenges c))],
              El ''div''
               [Button (if mv_checkingDNS s then Zh ''checking'' else Zh ''check the DNS resolution'')
                  (mv_checkingDNS s) CheckDNS,
                (case mv_checks s of
                   None \<Rightarrow> El [] []
                 | Some cs \<Rightarrow> El ''div'' (map check_row cs @
                     [Txt (Zh ''the check uses the resolver of the server; public resolvers may differ'')]))],
              show_if (mc_status c = ''waiting_user'')
                (Button (if mv_pending s then Zh ''submitting'' else Zh ''TXT is in effect, continue'')
                  (mv_pending s) ContinueValidation)]))"

definition manual_app :: "(manual_panel, manual_event, manual_call, manual_reply) app" where
  "manual_app = \<lparr>app_view = manual_view, app_ambient = (\<lambda>s. {}), app_handle = manual_handle,
     app_resume = manual_resume, app_answers = manual_answers, app_outside = (\<lambda>s. {})\<rparr>"

lemmas manual_defs = manual_app_def manual_handle_def manual_resume_def manual_answers_def
  continueValidation_def continued_def checkDNS_def checked_def challenge_loaded_def copyAll_def

lemma TableActions_single [simp]: "offered (TableActions [action i l e d]) = (if d then {} else {e})"
  by (simp add: TableActions_def action_def)

lemma offered_check_row [simp]: "offered (check_row c) = {}"
  by (simp add: check_row_def)

lemma manual_offered:
  "offered (manual_view s) =
     (case mv_challenge s of
        None \<Rightarrow> {}
      | Some c \<Rightarrow>
          if shown (mv_error s) then {}
          else {CopyAll} \<union> (CopyValue \<circ> ch_value) ` set (mc_challenges c) \<union>
            (if mv_checkingDNS s then {} else {CheckDNS}) \<union>
            (if mc_status c = ''waiting_user'' \<and> \<not> mv_pending s then {ContinueValidation} else {}))"
proof -
  have rows: "offered_any (map (\<lambda>item. El ''Table.Row'' [Txt (Raw (ch_domain item)), Txt (Raw (ch_fqdn item)),
      Txt (Raw (ch_value item)), TableActions [action ''copy'' (Zh ''copy'') (CopyValue (ch_value item)) False]]) cs)
      = (CopyValue \<circ> ch_value) ` set cs" for cs
    by (induction cs) auto
  show ?thesis
  proof (cases "mv_challenge s")
    case None
    then show ?thesis by (simp add: manual_view_def)
  next
    case (Some c)
    show ?thesis
      by (cases "mv_checks s")
        (auto simp: manual_view_def Some rows [simplified])
  qed
qed

interpretation continue_flight: releasing_flight manual_app mv_pending "\<lambda>k. k = ContinueCall"
proof unfold_locales
  fix e s s' ks
  assume "e \<in> offered (app_view manual_app s) \<union> app_ambient manual_app s" "app_handle manual_app e s = (s', ks)"
  then show "filter (\<lambda>k. k = ContinueCall) ks = [] \<and> mv_pending s' = mv_pending s \<or>
      \<not> mv_pending s \<and> mv_pending s' \<and> length (filter (\<lambda>k. k = ContinueCall) ks) = 1"
    by (cases e) (auto simp: manual_defs manual_offered split: option.splits if_splits)
qed (auto simp: manual_defs split: manual_call.splits manual_reply.splits)

text \<open>
  The manual validation of a certificate is submitted at most once at a time: in every state
  the panel can reach, whatever the order of clicks and replies, at most one submission waits
  for an answer, and the panel is marked pending exactly while one does.
\<close>

theorem manual_submission_single:
  assumes "ui_reach manual_app (mount_manual i) (s, q)"
  shows "length (filter (\<lambda>k. k = ContinueCall) q) \<le> 1 \<and> mv_pending s = (ContinueCall \<in> set q)"
  using continue_flight.reach_flight [OF assms] continue_flight.reach_busy [OF assms]
  by (simp add: mount_manual_def filter_empty_conv)

definition sample_challenge :: manual_challenge where
  "sample_challenge = \<lparr>mc_certificateId = ''c1'', mc_status = ''waiting_user'',
     mc_challenges = [\<lparr>ch_domain = ''a.io'', ch_fqdn = ''_acme-challenge.a.io'', ch_value = ''v''\<rparr>]\<rparr>"

lemma manual_loaded_reach:
  "ui_reach manual_app (mount_manual ''c1'') (challenge_loaded (ManualChallengeIs sample_challenge) (fst (mount_manual ''c1'')), [])"
proof -
  have m: "mount_manual ''c1'' = (fst (mount_manual ''c1''), [LoadChallenge])"
    by (simp add: mount_manual_def)
  have r: "app_resume manual_app LoadChallenge (ManualChallengeIs sample_challenge) (fst (mount_manual ''c1'')) =
      (challenge_loaded (ManualChallengeIs sample_challenge) (fst (mount_manual ''c1'')), [])"
    by (simp add: manual_app_def manual_resume_def)
  have "ui_reach manual_app (mount_manual ''c1'') (fst (mount_manual ''c1''), [LoadChallenge])"
    using ui_reach.start [of manual_app "mount_manual ''c1''"] m by simp
  from ui_reach_reply [OF this _ _ r] show ?thesis by (simp add: manual_app_def manual_answers_def)
qed

lemma manual_submitted_reach:
  assumes "e = ContinueValidation \<and> k = ContinueCall \<or> e = CheckDNS \<and> k = CheckCall"
  shows "\<exists>s. ui_reach manual_app (mount_manual ''c1'') (s, [k])"
proof -
  let ?s = "challenge_loaded (ManualChallengeIs sample_challenge) (fst (mount_manual ''c1''))"
  have o: "e \<in> offered (app_view manual_app ?s) \<union> app_ambient manual_app ?s"
    using assms by (auto simp: manual_app_def manual_offered challenge_loaded_def mount_manual_def sample_challenge_def)
  have "app_handle manual_app e ?s = (fst (app_handle manual_app e ?s), [k])"
    using assms by (auto simp: manual_defs)
  from ui_reach_event [OF manual_loaded_reach o this] show ?thesis by auto
qed

lemma manual_submission_single_witness:
  "\<exists>s. ui_reach manual_app (mount_manual ''c1'') (s, [ContinueCall]) \<and> mv_pending s"
  using manual_submitted_reach [of ContinueValidation ContinueCall] manual_submission_single [of "''c1''" _ "[ContinueCall]"]
  by auto

text \<open>
  An error of the manual validation is a dead end: once a failed check or a failed submission
  has put an error on the panel and no request is waiting, no step of the panel is possible any
  more; the records and all buttons are gone until the dialog is closed.
\<close>

theorem manual_error_dead_end:
  assumes "ui_reach manual_app x0 (s, [CheckCall])"
    and "shown (failure_message f (Zh ''cannot check the DNS resolution''))"
    and "app_resume manual_app CheckCall (ManualFailed f) s = (s', ks)"
  shows "ui_reach manual_app x0 (s', []) \<and> (\<nexists>y. ui_step manual_app (s', []) y)"
proof -
  from assms(3) have s': "mv_error s' = failure_message f (Zh ''cannot check the DNS resolution'')" "ks = []"
    by (auto simp: manual_defs)
  have "ui_reach manual_app x0 (s', remove1 CheckCall [CheckCall] @ ks)"
    by (rule ui_reach_reply [OF assms(1) _ _ assms(3)]) (simp_all add: manual_defs)
  moreover have "offered (manual_view s') = {}"
    using s'(1) assms(2) by (simp add: manual_offered split: option.split)
  then have "\<not> ui_step manual_app (s', []) y" for y
    by (auto elim!: ui_step.cases simp: manual_app_def)
  ultimately show ?thesis using s'(2) by simp
qed

lemma manual_error_dead_end_witness:
  "\<exists>s. ui_reach manual_app (mount_manual ''c1'') (s, []) \<and> (\<nexists>y. ui_step manual_app (s, []) y)"
proof -
  obtain s where s: "ui_reach manual_app (mount_manual ''c1'') (s, [CheckCall])"
    using manual_submitted_reach [of CheckDNS CheckCall] by auto
  have r: "app_resume manual_app CheckCall (ManualFailed (ErrorFailure ''timeout'')) s =
      (checked (ManualFailed (ErrorFailure ''timeout'')) s, [])"
    by (simp add: manual_app_def manual_resume_def)
  have t: "shown (failure_message (ErrorFailure ''timeout'') (Zh ''cannot check the DNS resolution''))"
    by (simp add: failure_message_def)
  show ?thesis using manual_error_dead_end [OF s t r] by blast
qed

end
