(* ===== verification/Pagination.thy ===== *)
theory Pagination
  imports Views
begin

text \<open>
  Paging: the page links of \<^verbatim>\<open>components/ui/resource-pagination.tsx\<close> and the slice every list view
  computes. The locale \<open>paged_view\<close> is the contract between a list view and its pager; each view is
  an interpretation of it.
\<close>

subsection \<open>Page links\<close>

datatype page_item = Page nat | EllipsisLeft | EllipsisRight

definition pageSizeOptions :: "nat list" where
  "pageSizeOptions = [10, 20, 50, 100]"

definition pageItems :: "nat \<Rightarrow> nat \<Rightarrow> page_item list" where
  "pageItems page pageCount =
     (if pageCount \<le> 7 then map Page [1..<Suc pageCount]
      else
        (let start = max 2 (page - 1); stop = min (pageCount - 1) (page + 1)
         in [Page 1] @ (if start > 2 then [EllipsisLeft] else []) @
            map Page [start..<Suc stop] @
            (if stop < pageCount - 1 then [EllipsisRight] else []) @ [Page pageCount]))"

definition summary_bounds :: "nat \<Rightarrow> nat \<Rightarrow> nat \<Rightarrow> nat \<times> nat" where
  "summary_bounds page total_n pageSize =
     ((if total_n = 0 then 0 else (page - 1) * pageSize + 1), min (page * pageSize) total_n)"

definition ResourcePagination ::
    "nat \<Rightarrow> nat \<Rightarrow> nat \<Rightarrow> nat \<Rightarrow> (nat \<Rightarrow> 'e) \<Rightarrow> (nat \<Rightarrow> 'e) \<Rightarrow> 'e view" where
  "ResourcePagination page pageCount total_n pageSize onPageChange onPageSizeChange =
     (let (start, stop) = summary_bounds page total_n pageSize
      in El ''Pagination''
       ([Txt (Tr ''common.showing'' [(''start'', nat_digits start), (''end'', nat_digits stop),
            (''total'', nat_digits total_n)]),
         Txt (Tr ''common.perPage'' []),
         Choice (Tr ''common.pageSize'' []) (Some (nat_digits pageSize)) False
           (map (\<lambda>size. (nat_digits size, Tr ''common.items'' [(''count'', nat_digits size)], False))
             pageSizeOptions)
           (\<lambda>key. onPageSizeChange (key_number key)),
         Button (Tr ''common.previousPage'' []) (page \<le> 1) (onPageChange (max 1 (page - 1)))] @
        map (\<lambda>item. case item of
              Page n \<Rightarrow> Button (Raw (nat_digits n)) False (onPageChange n)
            | _ \<Rightarrow> El ''Pagination.Ellipsis'' []) (pageItems page pageCount) @
        [Button (Tr ''common.nextPage'' []) (pageCount \<le> page)
           (onPageChange (min pageCount (page + 1)))]))"

definition page_numbers :: "page_item list \<Rightarrow> nat list" where
  "page_numbers items = concat (map (\<lambda>i. case i of Page n \<Rightarrow> [n] | _ \<Rightarrow> []) items)"

lemma page_numbers_simps [simp]:
  "page_numbers [] = []"
  "page_numbers (Page n # is) = n # page_numbers is"
  "page_numbers (EllipsisLeft # is) = page_numbers is"
  "page_numbers (EllipsisRight # is) = page_numbers is"
  "page_numbers (is @ js) = page_numbers is @ page_numbers js"
  "page_numbers (map Page ns) = ns"
  by (simp_all add: page_numbers_def) (induction ns; simp)

lemma page_numbers_long:
  assumes "7 < pageCount"
  shows "page_numbers (pageItems page pageCount) =
    1 # [max 2 (page - 1)..<Suc (min (pageCount - 1) (page + 1))] @ [pageCount]"
  using assms by (simp add: pageItems_def Let_def)

text \<open>
  The page links of a pager at a valid page: the first, the last and the current page and its
  neighbours are always among them, the links are in ascending order without repetition, none
  points outside 1..pageCount, and there are never more than seven entries.
\<close>

theorem pageItems_links:
  assumes "1 \<le> page" "page \<le> pageCount"
  shows "sorted_wrt (<) (page_numbers (pageItems page pageCount)) \<and>
    set (page_numbers (pageItems page pageCount)) =
      {n \<in> {1..pageCount}. pageCount \<le> 7 \<or> n = 1 \<or> n = pageCount \<or> (page \<le> n + 1 \<and> n \<le> page + 1)} \<and>
    length (pageItems page pageCount) \<le> 7"
proof (cases "pageCount \<le> 7")
  case True
  then have "pageItems page pageCount = map Page [1..<Suc pageCount]"
    by (simp add: pageItems_def del: upt_Suc)
  with True show ?thesis
    by (auto simp del: upt_Suc)
next
  case False
  then have n: "page_numbers (pageItems page pageCount) =
      1 # [max 2 (page - 1)..<Suc (min (pageCount - 1) (page + 1))] @ [pageCount]"
    by (simp add: page_numbers_long del: upt_Suc)
  have "sorted_wrt (<) (page_numbers (pageItems page pageCount))"
    unfolding n using False by (auto simp: sorted_wrt_append simp del: upt_Suc)
  moreover have "set (page_numbers (pageItems page pageCount)) =
      {n \<in> {1..pageCount}. pageCount \<le> 7 \<or> n = 1 \<or> n = pageCount \<or> (page \<le> n + 1 \<and> n \<le> page + 1)}"
  proof (rule set_eqI)
    fix m
    show "m \<in> set (page_numbers (pageItems page pageCount)) \<longleftrightarrow>
      m \<in> {n \<in> {1..pageCount}. pageCount \<le> 7 \<or> n = 1 \<or> n = pageCount \<or> (page \<le> n + 1 \<and> n \<le> page + 1)}"
      unfolding n using False assms
      by (simp only: set_append list.set set_upt Un_iff insert_iff empty_iff mem_Collect_eq
          atLeastAtMost_iff atLeastLessThan_iff max.bounded_iff less_Suc_eq_le min.bounded_iff) arith
  qed
  moreover have "length (pageItems page pageCount) \<le> 7"
    using False assms by (auto simp: pageItems_def Let_def simp del: upt_Suc)
  ultimately show ?thesis by blast
qed

lemma pageItems_links_witness:
  "page_numbers (pageItems 5 20) = [1, 4, 5, 6, 20] \<and> length (pageItems 5 20) \<le> 7"
proof -
  have "page_numbers (pageItems 5 20) = [1, 4, 5, 6, 20]"
    by (simp add: page_numbers_long upt_rec)
  moreover have "length (pageItems 5 20) \<le> 7"
    using pageItems_links [of 5 20] by simp
  ultimately show ?thesis by blast
qed

lemma ResourcePagination_offered:
  "offered (ResourcePagination page pageCount total_n pageSize onPage onSize) =
     onSize ` set pageSizeOptions \<union>
     (if page \<le> 1 then {} else {onPage (page - 1)}) \<union>
     onPage ` set (page_numbers (pageItems page pageCount)) \<union>
     (if pageCount \<le> page then {} else {onPage (page + 1)})"
proof -
  have items: "offered_any (map (\<lambda>item. case item of
        Page n \<Rightarrow> Button (Raw (nat_digits n)) False (onPage n)
      | _ \<Rightarrow> El ''Pagination.Ellipsis'' []) is) = onPage ` set (page_numbers is)" for "is"
    by (induction "is") (auto split: page_item.splits)
  have size: "offered (Choice l sel False
      (map (\<lambda>size. (nat_digits size, lbl size, False)) pageSizeOptions)
      (\<lambda>key. onSize (key_number key))) = onSize ` set pageSizeOptions" for l sel lbl
    by (simp add: offered_Choice_map del: offered.simps)
  have prev: "offered (Button l (page \<le> 1) (onPage (max 1 (page - 1)))) =
      (if page \<le> 1 then {} else {onPage (page - 1)})" for l
    by (cases "page \<le> 1") (auto simp: max_def)
  have nxt: "offered (Button l (pageCount \<le> page) (onPage (min pageCount (page + 1)))) =
      (if pageCount \<le> page then {} else {onPage (page + 1)})" for l
    by (auto simp: min_def le_Suc_eq)
  show ?thesis
    by (simp only: ResourcePagination_def summary_bounds_def Let_def prod.case offered.simps
        set_append map_append Union_Un_distrib list.simps(9) list.set items
        size [unfolded offered.simps] prev [unfolded offered.simps] nxt [unfolded offered.simps]
        list.simps(8) Union_insert Union_empty Un_empty_left Un_empty_right Un_assoc)
qed

subsection \<open>The paging contract of a list view\<close>

definition ceil_div :: "nat \<Rightarrow> nat \<Rightarrow> nat" where
  "ceil_div n d = (n + d - 1) div d"

lemma ceil_div_le: "0 < d \<Longrightarrow> n \<le> ceil_div n d * d"
  unfolding ceil_div_def using div_mult_mod_eq [of "n + d - 1" d] mod_less_divisor [of d "n + d - 1"]
  by linarith

lemma ceil_div_pos: "0 < d \<Longrightarrow> 0 < n \<Longrightarrow> 0 < ceil_div n d"
  using ceil_div_le [of d n] by (cases "ceil_div n d") auto

lemma ceil_div_less: "0 < d \<Longrightarrow> 0 < n \<Longrightarrow> (ceil_div n d - 1) * d < n"
proof -
  assume d: "0 < d" and n: "0 < n"
  have "ceil_div n d * d \<le> n + d - 1"
    unfolding ceil_div_def by (rule div_times_less_eq_dividend)
  then have "ceil_div n d * d < n + d" using d n by linarith
  then show ?thesis using n by (cases "ceil_div n d") simp_all
qed

lemma slices_concat:
  "concat (map (\<lambda>p. slice ((p - 1) * d) (p * d) xs) [1..<Suc n]) = slice 0 (n * d) xs"
proof (induction n)
  case 0
  then show ?case by (simp add: slice_def)
next
  case (Suc n)
  then show ?case by (simp add: slice_append_slice)
qed

locale paged_view =
  fixes visible :: "'s \<Rightarrow> 'a list"
    and page :: "'s \<Rightarrow> nat"
    and pageSize :: "'s \<Rightarrow> nat"
    and pageCount :: "'s \<Rightarrow> nat"
    and currentPage :: "'s \<Rightarrow> nat"
    and paginated :: "'s \<Rightarrow> 'a list"
    and at_page :: "nat \<Rightarrow> 's \<Rightarrow> 's"
  assumes count_eq: "pageCount s = max 1 (ceil_div (length (visible s)) (pageSize s))"
    and current_eq: "currentPage s = min (page s) (pageCount s)"
    and paginated_slice:
      "paginated s = slice ((currentPage s - 1) * pageSize s) (currentPage s * pageSize s) (visible s)"
    and at_page_visible: "visible (at_page n s) = visible s"
    and at_page_page: "page (at_page n s) = n"
    and at_page_size: "pageSize (at_page n s) = pageSize s"
begin

lemma current_bounds:
  assumes "1 \<le> page s"
  shows "1 \<le> currentPage s \<and> currentPage s \<le> pageCount s"
  using assms by (simp add: current_eq count_eq)

lemma count_at_page [simp]: "pageCount (at_page n s) = pageCount s"
  by (simp add: count_eq at_page_visible at_page_size)

lemma page_visible: "set (paginated s) \<subseteq> set (visible s)"
  by (simp add: paginated_slice set_slice)

lemma page_length: "length (paginated s) \<le> pageSize s"
proof -
  have "min (currentPage s * pageSize s) (length (visible s)) - (currentPage s - 1) * pageSize s
      \<le> currentPage s * pageSize s - (currentPage s - 1) * pageSize s"
    by simp
  also have "\<dots> \<le> pageSize s"
    by (cases "currentPage s") simp_all
  finally show ?thesis by (simp add: paginated_slice)
qed

lemma page_nonempty:
  assumes "1 \<le> page s" "0 < pageSize s" "visible s \<noteq> []"
  shows "paginated s \<noteq> []"
proof -
  let ?n = "length (visible s)" and ?c = "currentPage s" and ?d = "pageSize s"
  have n: "0 < ?n" using assms(3) by simp
  have "?c \<le> ceil_div ?n ?d" "1 \<le> ?c"
    using assms ceil_div_pos [OF assms(2) n] by (auto simp: current_eq count_eq)
  then have "(?c - 1) * ?d \<le> (ceil_div ?n ?d - 1) * ?d"
    by (intro mult_le_mono1 diff_le_mono)
  with ceil_div_less [OF assms(2) n] have "(?c - 1) * ?d < ?n" by linarith
  moreover have "(?c - 1) * ?d < ?c * ?d" using \<open>1 \<le> ?c\<close> assms(2) by simp
  ultimately have "0 < length (paginated s)" by (simp add: paginated_slice)
  then show ?thesis by auto
qed

lemma pages_partition:
  assumes "0 < pageSize s"
  shows "concat (map (\<lambda>n. paginated (at_page n s)) [1..<Suc (pageCount s)]) = visible s"
proof -
  let ?d = "pageSize s" and ?c = "pageCount s"
  have "map (\<lambda>n. paginated (at_page n s)) [1..<Suc ?c] =
      map (\<lambda>n. slice ((n - 1) * ?d) (n * ?d) (visible s)) [1..<Suc ?c]"
    by (rule map_cong [OF refl])
      (auto simp: paginated_slice current_eq at_page_page at_page_size at_page_visible min_def
        simp del: upt_Suc)
  then have "concat (map (\<lambda>n. paginated (at_page n s)) [1..<Suc ?c]) = slice 0 (?c * ?d) (visible s)"
    by (simp only: slices_concat)
  moreover have "length (visible s) \<le> ?c * ?d"
    using order_trans [OF ceil_div_le [OF assms] mult_le_mono1 [OF max.cobounded2]]
    by (simp only: count_eq)
  ultimately show ?thesis by simp
qed

end

end
