(* ===== verification/Certificate_List.thy ===== *)
theory Certificate_List
  imports Certificate_Edit Certificate_Detail Pagination
begin

text \<open>
  The certificate list, \<open>CertificateList\<close> of \<^verbatim>\<open>certificate-list.tsx\<close>: filters and paging, the URL
  driven dialog with its modes, and the three mutations (save, reissue, delete) with their
  confirmation dialogs. The state holds the props, the query string and the hooks; a
  navigation takes effect when the handler that asks for it ends. \<open>cl_effect\<close> counts the runs of
  the effect that loads the detail: a reply to an earlier run finds its \<open>active\<close> flag cleared.
  The panels for the overview and the manual validation have a state of their own
  (\<^verbatim>\<open>Certificate_Detail.thy\<close>) and stand here as named leaves.
\<close>

type_synonym query = "(string \<times> string) list"

record cl_state =
  cl_certificates :: "certificate list"
  cl_acmeAccounts :: "acme_account list"
  cl_dnsAccounts :: "dns_account list"
  cl_locale :: locale_id
  cl_now :: int
  cl_params :: query
  cl_refreshes :: nat
  cl_detail :: "(string \<times> certificate_detail) option"
  cl_deleteTarget :: "certificate option"
  cl_issueTarget :: "certificate option"
  cl_pending :: bool
  cl_error :: label
  cl_query :: string
  cl_statusFilter :: string
  cl_expiryFilter :: string
  cl_page :: nat
  cl_pageSize :: nat
  cl_effect :: nat
  cl_edit :: "edit_panel option"

datatype cl_event =
    ClRefresh | ClOpenCreate | ClQuery string | ClStatus string | ClExpiry string
  | ClOpen string | ClOpenManual string | ClOpenEdit string
  | ClAskIssue certificate | ClAskDelete certificate
  | ClPage nat | ClPageSize nat | ClClearFilters
  | ClCloseDetail | ClCancelIssue | ClConfirmIssue | ClCancelDelete | ClConfirmDelete
  | ClEdit edit_event | ClSubmitEdit
  | ClNavigated query

text \<open>A waiting request with the values its continuation captured.\<close>

datatype cl_call =
    KDetail nat string
  | KSave certificate query edit_payload
  | KDelete certificate "string option" query
  | KIssue certificate

datatype cl_reply = ClFailed failure | ClDone | ClDetailIs certificate_detail

definition cl_request :: "cl_call \<Rightarrow> string \<times> string" where
  "cl_request k =
     (case k of
        KDetail n i \<Rightarrow> (''GET'', ''/api/certificates/'' @ i)
      | KSave c ps y \<Rightarrow> (''PATCH'', ''/api/certificates/'' @ cert_id c)
      | KDelete c sel ps \<Rightarrow> (''DELETE'', ''/api/certificates/'' @ cert_id c)
      | KIssue c \<Rightarrow> (''POST'', ''/api/certificates/'' @ cert_id c @ ''/issue''))"

subsection \<open>Derived values\<close>

definition cl_selectedId :: "cl_state \<Rightarrow> string option" where
  "cl_selectedId s = al_get ''selected'' (cl_params s)"

definition cl_selected :: "cl_state \<Rightarrow> certificate option" where
  "cl_selected s = List.find (\<lambda>c. Some (cert_id c) = cl_selectedId s) (cl_certificates s)"

definition cl_mode :: "cl_state \<Rightarrow> string option" where
  "cl_mode s = al_get ''mode'' (cl_params s)"

definition searchable_text :: "certificate \<Rightarrow> string" where
  "searchable_text c = js_join '' '' ([cert_name c] @ cert_domains c @
     [keyAlgorithm c, validationMode c, cert_status c, fingerprint c])"

text \<open>
  The visible certificates. The source memoises them with the clock of the last computation; \<open>cl_now\<close> is
  that clock, which the outside may set at any time.
\<close>

definition visibleCertificates :: "cl_state \<Rightarrow> certificate list" where
  "visibleCertificates s =
     (let normalized = toLowerCase (js_trim (cl_query s))
      in filter (\<lambda>c. (normalized = [] \<or> js_includes (toLowerCase (searchable_text c)) normalized) \<and>
           (cl_statusFilter s = ''all'' \<or> cert_status c = cl_statusFilter s) \<and>
           matchesExpiry (cl_now s) c (cl_expiryFilter s)) (cl_certificates s))"

definition cl_pageCount :: "cl_state \<Rightarrow> nat" where
  "cl_pageCount s = max 1 (ceil_div (length (visibleCertificates s)) (cl_pageSize s))"

definition cl_currentPage :: "cl_state \<Rightarrow> nat" where
  "cl_currentPage s = min (cl_page s) (cl_pageCount s)"

definition paginatedCertificates :: "cl_state \<Rightarrow> certificate list" where
  "paginatedCertificates s =
     slice ((cl_currentPage s - 1) * cl_pageSize s) (cl_currentPage s * cl_pageSize s) (visibleCertificates s)"

definition isIssuanceInProgress :: "string \<Rightarrow> bool" where
  "isIssuanceInProgress st = (st \<in> set [''pending'', ''issuing'', ''renewing''])"

text \<open>The detail the edit panel is mounted with, when it is mounted.\<close>

definition cl_edit_slot :: "cl_state \<Rightarrow> certificate_detail option" where
  "cl_edit_slot s =
     (case (cl_selected s, cl_detail s) of
        (Some c, Some (i, d)) \<Rightarrow> if cl_mode s = Some ''edit'' \<and> i = cert_id c then Some d else None
      | _ \<Rightarrow> None)"

subsection \<open>Navigation\<close>

definition openMode :: "string \<Rightarrow> string \<Rightarrow> cl_state \<Rightarrow> cl_state" where
  "openMode i nextMode s =
     s\<lparr>cl_error := no_text, cl_params := al_set ''mode'' nextMode (al_set ''selected'' i (cl_params s))\<rparr>"

definition open_view :: "string \<Rightarrow> cl_state \<Rightarrow> cl_state" where
  "open_view i s = s\<lparr>cl_params := al_set ''mode'' ''view'' (al_set ''selected'' i (cl_params s))\<rparr>"

definition openCreate :: "cl_state \<Rightarrow> cl_state" where
  "openCreate s = s\<lparr>cl_params := al_set ''modal'' ''create'' (cl_params s)\<rparr>"

text \<open>\<open>close\<close> works on the query string of the render it was created in.\<close>

definition close_detail :: "query \<Rightarrow> cl_state \<Rightarrow> cl_state" where
  "close_detail ps s = s\<lparr>cl_error := no_text, cl_params := al_delete ''mode'' (al_delete ''selected'' ps)\<rparr>"

definition cl_refresh :: "cl_state \<Rightarrow> cl_state" where
  "cl_refresh s = s\<lparr>cl_refreshes := cl_refreshes s + 1\<rparr>"

subsection \<open>Mutations\<close>

definition saveEdit :: "edit_payload \<Rightarrow> cl_state \<Rightarrow> cl_state \<times> cl_call list" where
  "saveEdit payload s =
     (case cl_selected s of
        None \<Rightarrow> (s, [])
      | Some c \<Rightarrow> (s\<lparr>cl_pending := True, cl_error := no_text\<rparr>, [KSave c (cl_params s) payload]))"

definition saved :: "certificate \<Rightarrow> query \<Rightarrow> cl_reply \<Rightarrow> cl_state \<Rightarrow> cl_state" where
  "saved c ps r s =
     (case r of
        ClFailed f \<Rightarrow> s\<lparr>cl_pending := False, cl_error := failure_message f (Zh ''cannot save the certificate'')\<rparr>
      | _ \<Rightarrow> cl_refresh (close_detail ps (s\<lparr>cl_pending := False, cl_issueTarget := Some c\<rparr>)))"

definition deleteCertificate :: "cl_state \<Rightarrow> cl_state \<times> cl_call list" where
  "deleteCertificate s =
     (case cl_deleteTarget s of
        None \<Rightarrow> (s, [])
      | Some c \<Rightarrow> (s\<lparr>cl_pending := True, cl_error := no_text\<rparr>, [KDelete c (cl_selectedId s) (cl_params s)]))"

definition certificate_deleted :: "certificate \<Rightarrow> string option \<Rightarrow> query \<Rightarrow> cl_reply \<Rightarrow> cl_state \<Rightarrow> cl_state" where
  "certificate_deleted c selId ps r s =
     (case r of
        ClFailed f \<Rightarrow> s\<lparr>cl_pending := False,
          cl_error := (if failure_is_conflict f then Zh ''still referenced by automations or deployments, cannot delete''
            else failure_message f (Zh ''cannot delete the certificate''))\<rparr>
      | _ \<Rightarrow>
          (let s1 = s\<lparr>cl_pending := False, cl_deleteTarget := None\<rparr>;
               s2 = (if selId = Some (cert_id c) then close_detail ps s1 else s1)
           in cl_refresh s2))"

definition issueCertificate :: "cl_state \<Rightarrow> cl_state \<times> cl_call list" where
  "issueCertificate s =
     (case cl_issueTarget s of
        None \<Rightarrow> (s, [])
      | Some c \<Rightarrow> (s\<lparr>cl_pending := True, cl_error := no_text\<rparr>, [KIssue c]))"

definition issued :: "certificate \<Rightarrow> cl_reply \<Rightarrow> cl_state \<Rightarrow> cl_state" where
  "issued c r s =
     (case r of
        ClFailed f \<Rightarrow>
          s\<lparr>cl_error := (if failure_is_conflict f then Zh ''an issue or renewal is already in progress''
              else failure_message f (Zh ''cannot start the issue task'')), cl_pending := False\<rparr>
      | _ \<Rightarrow> (cl_refresh (s\<lparr>cl_issueTarget := None\<rparr>))\<lparr>cl_pending := False\<rparr>)"

text \<open>
  The submit button of the edit form: the panel validates, and on success calls \<open>saveEdit\<close>. When
  the panel is not mounted there is no form to submit.
\<close>

definition submitEdit :: "cl_state \<Rightarrow> cl_state \<times> cl_call list" where
  "submitEdit s =
     (case cl_edit s of
        None \<Rightarrow> (s, [])
      | Some p \<Rightarrow>
          (case submit_edit p of
             (p', None) \<Rightarrow> (s\<lparr>cl_edit := Some p'\<rparr>, [])
           | (p', Some payload) \<Rightarrow> saveEdit payload (s\<lparr>cl_edit := Some p'\<rparr>)))"

subsection \<open>Rendering and effects\<close>

text \<open>
  After a change of state: the panel of the edit form is unmounted, kept or mounted afresh by its
  key, and the detail effect runs when the selected id changed.
\<close>

definition cl_sync_edit :: "cl_state \<Rightarrow> cl_state" where
  "cl_sync_edit s =
     s\<lparr>cl_edit :=
        (case cl_edit_slot s of
           None \<Rightarrow> None
         | Some d \<Rightarrow>
             (case cl_edit s of
                Some p \<Rightarrow> if edit_key p = cert_id d then Some p else Some (mount_edit_panel d)
              | None \<Rightarrow> Some (mount_edit_panel d)))\<rparr>"

definition cl_commit :: "cl_state \<Rightarrow> cl_state \<times> cl_call list \<Rightarrow> cl_state \<times> cl_call list" where
  "cl_commit before after =
     (let (s, ks) = after; s' = cl_sync_edit s
      in if cl_selectedId s = cl_selectedId before then (s', ks)
         else (s'\<lparr>cl_effect := cl_effect s + 1\<rparr>,
           ks @ (case cl_selectedId s of
                   None \<Rightarrow> []
                 | Some i \<Rightarrow> if i = [] then [] else [KDetail (cl_effect s + 1) i])))"

definition cl_act :: "cl_event \<Rightarrow> cl_state \<Rightarrow> cl_state \<times> cl_call list" where
  "cl_act e s =
     (case e of
        ClRefresh \<Rightarrow> (cl_refresh s, [])
      | ClOpenCreate \<Rightarrow> (openCreate s, [])
      | ClQuery v \<Rightarrow> (s\<lparr>cl_query := v, cl_page := 1\<rparr>, [])
      | ClStatus k \<Rightarrow> (s\<lparr>cl_statusFilter := k, cl_page := 1\<rparr>, [])
      | ClExpiry k \<Rightarrow> (s\<lparr>cl_expiryFilter := k, cl_page := 1\<rparr>, [])
      | ClOpen i \<Rightarrow> (open_view i s, [])
      | ClOpenManual i \<Rightarrow> (openMode i ''manual-validation'' s, [])
      | ClOpenEdit i \<Rightarrow> (openMode i ''edit'' s, [])
      | ClAskIssue c \<Rightarrow> (s\<lparr>cl_error := no_text, cl_issueTarget := Some c\<rparr>, [])
      | ClAskDelete c \<Rightarrow> (s\<lparr>cl_error := no_text, cl_deleteTarget := Some c\<rparr>, [])
      | ClPage n \<Rightarrow> (s\<lparr>cl_page := n\<rparr>, [])
      | ClPageSize n \<Rightarrow> (s\<lparr>cl_pageSize := n, cl_page := 1\<rparr>, [])
      | ClClearFilters \<Rightarrow>
          (s\<lparr>cl_query := [], cl_statusFilter := ''all'', cl_expiryFilter := ''all'', cl_page := 1\<rparr>, [])
      | ClCloseDetail \<Rightarrow> (close_detail (cl_params s) s, [])
      | ClCancelIssue \<Rightarrow> (s\<lparr>cl_issueTarget := None\<rparr>, [])
      | ClConfirmIssue \<Rightarrow> issueCertificate s
      | ClCancelDelete \<Rightarrow> (s\<lparr>cl_deleteTarget := None\<rparr>, [])
      | ClConfirmDelete \<Rightarrow> deleteCertificate s
      | ClEdit ev \<Rightarrow> (s\<lparr>cl_edit := map_option (edit_field ev) (cl_edit s)\<rparr>, [])
      | ClSubmitEdit \<Rightarrow> submitEdit s
      | ClNavigated ps \<Rightarrow> (s\<lparr>cl_params := ps\<rparr>, []))"

definition cl_handle :: "cl_event \<Rightarrow> cl_state \<Rightarrow> cl_state \<times> cl_call list" where
  "cl_handle e s = cl_commit s (cl_act e s)"

definition detail_loaded :: "nat \<Rightarrow> string \<Rightarrow> cl_reply \<Rightarrow> cl_state \<Rightarrow> cl_state" where
  "detail_loaded run i r s =
     (case r of
        ClDetailIs d \<Rightarrow> if run = cl_effect s then s\<lparr>cl_detail := Some (i, d)\<rparr> else s
      | _ \<Rightarrow> s)"

definition cl_continue :: "cl_call \<Rightarrow> cl_reply \<Rightarrow> cl_state \<Rightarrow> cl_state" where
  "cl_continue k r s =
     (case k of
        KDetail run i \<Rightarrow> detail_loaded run i r s
      | KSave c ps y \<Rightarrow> saved c ps r s
      | KDelete c selId ps \<Rightarrow> certificate_deleted c selId ps r s
      | KIssue c \<Rightarrow> issued c r s)"

definition cl_resume :: "cl_call \<Rightarrow> cl_reply \<Rightarrow> cl_state \<Rightarrow> cl_state \<times> cl_call list" where
  "cl_resume k r s = cl_commit s (cl_continue k r s, [])"

definition cl_answers :: "cl_call \<Rightarrow> cl_reply set" where
  "cl_answers k = range ClFailed \<union> (case k of KDetail run i \<Rightarrow> range ClDetailIs | _ \<Rightarrow> {ClDone})"

text \<open>New props after a refresh, another locale, the passing of time.\<close>

definition cl_outside :: "cl_state \<Rightarrow> cl_state set" where
  "cl_outside s =
     {cl_sync_edit (s\<lparr>cl_certificates := cs, cl_acmeAccounts := as, cl_dnsAccounts := ds,
        cl_locale := l, cl_now := t\<rparr>) | cs as ds l t. True}"


subsection \<open>The view\<close>

definition cl_toolbar :: "cl_state \<Rightarrow> cl_event view" where
  "cl_toolbar s =
     El ''div''
      [Button (Tr ''common.refresh'' []) False ClRefresh,
       Button (Tr ''certificate.create'' []) False ClOpenCreate,
       Field (Tr ''common.search'' []) (cl_query s) ClQuery,
       Choice (Tr ''certificate.statusFilter'' []) (Some (cl_statusFilter s)) False
         [(''all'', Tr ''certificate.allStatuses'' [], False), (''issued'', Tr ''status.issued'' [], False),
          (''pending'', Tr ''status.pending'' [], False), (''issuing'', Tr ''status.issuing'' [], False),
          (''failed'', Tr ''status.failed'' [], False), (''expired'', Tr ''status.expired'' [], False)] ClStatus,
       Choice (Tr ''certificate.expiryFilter'' []) (Some (cl_expiryFilter s)) False
         [(''all'', Tr ''certificate.allValidity'' [], False), (''expired'', Tr ''status.expired'' [], False),
          (''7'', Tr ''certificate.expiring7'' [], False), (''30'', Tr ''certificate.expiring30'' [], False),
          (''unissued'', Tr ''certificate.unissued'' [], False)] ClExpiry]"

definition cl_actions :: "certificate \<Rightarrow> cl_event table_action list" where
  "cl_actions c =
     [action ''details'' (Tr ''common.details'' []) (ClOpen (cert_id c)) False] @
     (if validationMode c = ''manual''
      then [action ''manual'' (Tr ''certificate.manualValidation'' []) (ClOpenManual (cert_id c)) False] else []) @
     [action ''edit'' (Tr ''dns.editAction'' []) (ClOpenEdit (cert_id c)) False,
      action ''issue'' (if cert_status c = ''failed'' then Tr ''common.retry'' [] else Tr ''certificate.reissue'' [])
        (ClAskIssue c) (isIssuanceInProgress (cert_status c)),
      action ''delete'' (Tr ''dns.deleteAction'' []) (ClAskDelete c) False]"

definition cl_row :: "cl_state \<Rightarrow> certificate \<Rightarrow> cl_event view" where
  "cl_row s c =
     El ''Table.Row''
      [Txt (Raw (cert_name c)),
       Txt (Raw (js_join '', '' (cert_domains c))),
       Txt (Raw (keyAlgorithm c)),
       Txt (if validationMode c = ''manual'' then Tr ''certificate.validationManualShort'' []
            else Tr ''certificate.validationAutoShort'' []),
       El ''div'' [StatusTag (cert_status c), show_if (cert_lastError c \<noteq> []) (Txt (Raw (cert_lastError c)))],
       El ''div''
        [Txt (if notAfter c \<notin> {None, Some []} then formatDate (notAfter c) (cl_locale s)
              else Tr ''dashboard.pendingIssuance'' []),
         show_if (notAfter c \<notin> {None, Some []})
           (El (''small '' @ expiryTone (cl_now s) (the (notAfter c))) [Txt (expiryLabel (cl_now s) (the (notAfter c)))])],
       Txt (if lastIssuedAt c \<notin> {None, Some []} then formatDate (lastIssuedAt c) (cl_locale s)
            else Tr ''certificate.noLastIssued'' []),
       TableActions (cl_actions c)]"

definition cl_table :: "cl_state \<Rightarrow> cl_event view" where
  "cl_table s =
     El ''Table''
      [El ''Table.Header'' (map (\<lambda>k. Txt (Tr k []))
         [''common.name'', ''certificate.domains'', ''certificate.keyAlgorithm'', ''certificate.validation'',
          ''common.status'', ''certificate.expiresAt'', ''certificate.lastIssued'', ''common.actions'']),
       El ''Table.Body'' (map (cl_row s) (paginatedCertificates s))]"

definition cl_list_foot :: "cl_state \<Rightarrow> cl_event view" where
  "cl_list_foot s =
     El ''div''
      [show_if (0 < length (visibleCertificates s))
         (ResourcePagination (cl_currentPage s) (cl_pageCount s) (length (visibleCertificates s)) (cl_pageSize s)
            ClPage ClPageSize),
       show_if (length (cl_certificates s) = 0)
         (ResourceEmptyState (Tr ''certificate.empty'' []) (Some (Tr ''certificate.emptyDescription'' []))
            (Some (Tr ''certificate.create'' [], ClOpenCreate)) None),
       show_if (0 < length (cl_certificates s) \<and> length (visibleCertificates s) = 0)
         (ResourceEmptyState (Tr ''certificate.noResults'' []) (Some (Tr ''certificate.noResultsDescription'' []))
            (Some (Tr ''execution.clearFilters'' [], ClClearFilters)) None)]"

definition cl_dialog_title :: "string option \<Rightarrow> certificate option \<Rightarrow> label" where
  "cl_dialog_title mode sel =
     (if mode = Some ''manual-validation'' then Zh ''manual DNS validation''
      else if mode = Some ''edit'' then
        Cat [Zh ''edit '', case sel of Some c \<Rightarrow> Raw (cert_name c) | None \<Rightarrow> Zh ''certificate'']
      else (case sel of Some c \<Rightarrow> Raw (cert_name c) | None \<Rightarrow> Zh ''certificate details''))"

definition cl_dialog_description :: "string option \<Rightarrow> label" where
  "cl_dialog_description mode =
     (if mode = Some ''manual-validation'' then Zh ''add the TXT records, then continue''
      else if mode = Some ''edit'' then Zh ''adjust the configuration and save; secrets are not shown''
      else Zh ''identity, validation mode and issue state'')"

definition cl_dialog_panels :: "cl_state \<Rightarrow> certificate \<Rightarrow> cl_event view list" where
  "cl_dialog_panels s c =
     (let mode = cl_mode s
      in [show_if (mode = Some ''edit'')
            (case cl_edit s of
               Some p \<Rightarrow> map_view ClEdit (edit_panel_view (cl_acmeAccounts s) (cl_dnsAccounts s) (cl_error s) p)
             | None \<Rightarrow> El ''div'' [Txt (Zh ''loading the certificate configuration'')]),
          show_if (mode \<noteq> Some ''manual-validation'' \<and> mode \<noteq> Some ''edit'') (El ''CertificateOverview'' []),
          show_if (mode \<noteq> Some ''manual-validation'' \<and> validationMode c = ''manual'')
            (Button (Zh ''open the manual validation'') False (ClOpenManual (cert_id c))),
          show_if (mode = Some ''view'')
            (El ''div''
              [Button (if cert_status c = ''failed'' then Zh ''retry the issue'' else Zh ''reissue now'')
                 (isIssuanceInProgress (cert_status c)) (ClAskIssue c),
               Button (Zh ''edit'') False (ClOpenEdit (cert_id c)),
               Button (Zh ''delete'') False (ClAskDelete c)]),
          show_if (mode = Some ''manual-validation'') (El ''ManualValidationPanel'' [])])"

definition cl_dialog :: "cl_state \<Rightarrow> cl_event view" where
  "cl_dialog s =
     ResourceModal (cl_selected s \<noteq> None) (cl_dialog_title (cl_mode s) (cl_selected s))
       (cl_dialog_description (cl_mode s)) ClCloseDetail
       (if cl_mode s = Some ''edit'' then
          [ModalCancelButton ClCloseDetail,
           Button (if cl_pending s then Zh ''saving'' else Zh ''save changes'') (cl_pending s) ClSubmitEdit]
        else [])
       (case cl_selected s of None \<Rightarrow> [] | Some c \<Rightarrow> cl_dialog_panels s c)"

definition cl_issue_dialog :: "cl_state \<Rightarrow> cl_event view" where
  "cl_issue_dialog s =
     ResourceModal (cl_issueTarget s \<noteq> None)
       (if map_option cert_status (cl_issueTarget s) = Some ''failed'' then Zh ''retry the issue of the certificate''
        else Zh ''reissue now'')
       (Cat [Zh ''a new version is issued of '', case cl_issueTarget s of Some c \<Rightarrow> Raw (cert_name c) | None \<Rightarrow> no_text])
       ClCancelIssue
       [ModalCancelButton ClCancelIssue,
        Button (if cl_pending s then Zh ''queueing'' else Zh ''confirm the issue'') (cl_pending s) ClConfirmIssue]
       [Txt (Zh ''the new version replaces the current one and triggers the enabled automations''),
        show_if (shown (cl_error s)) (FormError (cl_error s))]"

definition cl_delete_dialog :: "cl_state \<Rightarrow> cl_event view" where
  "cl_delete_dialog s =
     ResourceModal (cl_deleteTarget s \<noteq> None) (Zh ''delete the certificate'')
       (Cat [Zh ''will delete '', case cl_deleteTarget s of Some c \<Rightarrow> Raw (cert_name c) | None \<Rightarrow> no_text,
         Zh ''; this cannot be undone''])
       ClCancelDelete
       [ModalCancelButton ClCancelDelete,
        Button (if cl_pending s then Zh ''deleting'' else Zh ''confirm the deletion'') (cl_pending s) ClConfirmDelete]
       [Txt (Zh ''a certificate still referenced by automations or targets is not deleted''),
        show_if (shown (cl_error s)) (FormError (cl_error s))]"

definition cl_view :: "cl_state \<Rightarrow> cl_event view" where
  "cl_view s =
     El ''fragment''
      [El ''section''
        [cl_toolbar s,
         show_if (shown (cl_error s) \<and> cl_deleteTarget s = None \<and> cl_selected s = None) (FormError (cl_error s)),
         cl_table s, cl_list_foot s],
       cl_dialog s, cl_issue_dialog s, cl_delete_dialog s]"

definition certificate_list :: "(cl_state, cl_event, cl_call, cl_reply) app" where
  "certificate_list = \<lparr>app_view = cl_view, app_ambient = (\<lambda>s. range ClNavigated), app_handle = cl_handle,
     app_resume = cl_resume, app_answers = cl_answers, app_outside = cl_outside\<rparr>"

definition cl_mount :: "certificate list \<Rightarrow> acme_account list \<Rightarrow> dns_account list \<Rightarrow> locale_id \<Rightarrow> int \<Rightarrow> query \<Rightarrow>
    cl_state \<times> cl_call list" where
  "cl_mount cs as ds l t ps =
     (let s = \<lparr>cl_certificates = cs, cl_acmeAccounts = as, cl_dnsAccounts = ds, cl_locale = l, cl_now = t,
        cl_params = ps, cl_refreshes = 0, cl_detail = None, cl_deleteTarget = None, cl_issueTarget = None,
        cl_pending = False, cl_error = no_text, cl_query = [], cl_statusFilter = ''all'',
        cl_expiryFilter = ''all'', cl_page = 1, cl_pageSize = 10, cl_effect = 0, cl_edit = None\<rparr>
      in cl_commit (s\<lparr>cl_params := []\<rparr>) (s, []))"

subsection \<open>What the view offers\<close>

lemma offered_toolbar:
  "offered (cl_toolbar s) = {ClRefresh, ClOpenCreate} \<union> range ClQuery \<union>
     ClStatus ` {''all'', ''issued'', ''pending'', ''issuing'', ''failed'', ''expired''} \<union>
     ClExpiry ` {''all'', ''expired'', ''7'', ''30'', ''unissued''}"
  by (auto simp: cl_toolbar_def)

lemma offered_row:
  "offered (cl_row s c) =
     {ClOpen (cert_id c), ClOpenEdit (cert_id c), ClAskDelete c} \<union>
     (if validationMode c = ''manual'' then {ClOpenManual (cert_id c)} else {}) \<union>
     (if isIssuanceInProgress (cert_status c) then {} else {ClAskIssue c})"
proof -
  have d: "distinct (map ta_id (cl_actions c))"
    by (simp add: cl_actions_def action_def)
  have "offered (cl_row s c) = offered (TableActions (cl_actions c))"
    by (simp add: cl_row_def)
  then show ?thesis
    unfolding TableActions_offered [OF d] by (auto simp: cl_actions_def action_def)
qed

lemma offered_foot:
  "offered (cl_list_foot s) \<subseteq> range ClPage \<union> ClPageSize ` set pageSizeOptions \<union> {ClOpenCreate, ClClearFilters}"
  by (auto simp: cl_list_foot_def ResourcePagination_offered)

lemma offered_dialog:
  "offered (cl_dialog s) \<subseteq>
     {ClCloseDetail} \<union> range ClEdit \<union> range ClOpenManual \<union> range ClOpenEdit \<union> range ClAskDelete \<union>
     {ClAskIssue c | c. \<not> isIssuanceInProgress (cert_status c)} \<union>
     (if cl_selected s \<noteq> None \<and> cl_mode s = Some ''edit'' \<and> \<not> cl_pending s then {ClSubmitEdit} else {})"
proof (cases "cl_selected s")
  case None
  then show ?thesis by (simp add: cl_dialog_def)
next
  case (Some c)
  have "offered_any (cl_dialog_panels s c) \<subseteq> range ClEdit \<union> range ClOpenManual \<union> range ClOpenEdit \<union>
      range ClAskDelete \<union> {ClAskIssue c | c. \<not> isIssuanceInProgress (cert_status c)}"
    by (auto simp: cl_dialog_panels_def Let_def offered_map_view split: if_splits option.splits)
  with Some show ?thesis
    by (auto simp: cl_dialog_def split: if_splits)
qed

lemma offered_issue_dialog:
  "offered (cl_issue_dialog s) =
     (if cl_issueTarget s = None then {} else {ClCancelIssue} \<union> (if cl_pending s then {} else {ClConfirmIssue}))"
  by (auto simp: cl_issue_dialog_def)

lemma offered_delete_dialog:
  "offered (cl_delete_dialog s) =
     (if cl_deleteTarget s = None then {} else {ClCancelDelete} \<union> (if cl_pending s then {} else {ClConfirmDelete}))"
  by (auto simp: cl_delete_dialog_def)

lemma offered_cl_view:
  "offered (cl_view s) =
     offered (cl_toolbar s) \<union> offered_any (map (cl_row s) (paginatedCertificates s)) \<union> offered (cl_list_foot s) \<union>
     offered (cl_dialog s) \<union> offered (cl_issue_dialog s) \<union> offered (cl_delete_dialog s)"
proof -
  have "offered (cl_table s) = offered_any (map (cl_row s) (paginatedCertificates s))"
    by (simp add: cl_table_def)
  then show ?thesis by (simp add: cl_view_def Un_assoc)
qed

end
