(* ===== verification/Certificate_List_Facts.thy ===== *)
theory Certificate_List_Facts
  imports Certificate_List
begin

text \<open>
  Properties of the certificate list: its pages, its busy flag, what has to be confirmed before a
  mutation is sent, what a reply does, and how the edit form follows the loaded detail.
\<close>

lemmas cl_app = certificate_list_def app.simps
lemmas cl_mutation_defs = saveEdit_def deleteCertificate_def issueCertificate_def submitEdit_def
lemmas cl_reply_defs = saved_def certificate_deleted_def issued_def detail_loaded_def
lemmas cl_nav_defs = openMode_def open_view_def openCreate_def close_detail_def cl_refresh_def

definition cl_mutating :: "cl_call \<Rightarrow> bool" where
  "cl_mutating k = (case k of KDetail run i \<Rightarrow> False | _ \<Rightarrow> True)"

lemma cl_mutating_simps [simp]:
  "\<not> cl_mutating (KDetail n i)" "cl_mutating (KSave c ps y)" "cl_mutating (KDelete c x ps)" "cl_mutating (KIssue c)"
  by (simp_all add: cl_mutating_def)

subsection \<open>Effects leave the hooks alone\<close>

lemma cl_commit_fields:
  "fst (cl_commit b (s, ks)) = s\<lparr>cl_edit := cl_edit (fst (cl_commit b (s, ks))),
     cl_effect := cl_effect (fst (cl_commit b (s, ks)))\<rparr>"
  by (simp add: cl_commit_def cl_sync_edit_def Let_def)

lemma cl_commit_same [simp]:
  "cl_pending (fst (cl_commit b x)) = cl_pending (fst x)"
  "cl_page (fst (cl_commit b x)) = cl_page (fst x)"
  "cl_pageSize (fst (cl_commit b x)) = cl_pageSize (fst x)"
  "cl_issueTarget (fst (cl_commit b x)) = cl_issueTarget (fst x)"
  "cl_deleteTarget (fst (cl_commit b x)) = cl_deleteTarget (fst x)"
  "cl_error (fst (cl_commit b x)) = cl_error (fst x)"
  "cl_params (fst (cl_commit b x)) = cl_params (fst x)"
  "cl_refreshes (fst (cl_commit b x)) = cl_refreshes (fst x)"
  "cl_detail (fst (cl_commit b x)) = cl_detail (fst x)"
  "cl_certificates (fst (cl_commit b x)) = cl_certificates (fst x)"
  by (cases x; simp add: cl_commit_def cl_sync_edit_def Let_def)+

lemma cl_commit_calls [simp]: "filter cl_mutating (snd (cl_commit b x)) = filter cl_mutating (snd x)"
  by (cases x) (simp add: cl_commit_def Let_def split: option.split)

lemma cl_commit_set: "k \<in> set (snd (cl_commit b x)) \<Longrightarrow> cl_mutating k \<Longrightarrow> k \<in> set (snd x)"
  by (cases x) (auto simp: cl_commit_def Let_def split: option.splits if_splits)

lemma cl_sync_same [simp]:
  "cl_pending (cl_sync_edit s) = cl_pending s"
  "cl_page (cl_sync_edit s) = cl_page s"
  "cl_pageSize (cl_sync_edit s) = cl_pageSize s"
  by (simp_all add: cl_sync_edit_def)

subsection \<open>Paging\<close>

interpretation cl_pages: paged_view visibleCertificates cl_page cl_pageSize cl_pageCount cl_currentPage
    paginatedCertificates "\<lambda>n s. s\<lparr>cl_page := n\<rparr>"
  by unfold_locales
    (simp_all add: cl_pageCount_def cl_currentPage_def paginatedCertificates_def visibleCertificates_def)

lemma cl_page_events:
  assumes "e \<in> offered (cl_view s) \<union> range ClNavigated" "1 \<le> cl_page s" "cl_pageSize s \<in> set pageSizeOptions"
  shows "1 \<le> cl_page (fst (cl_act e s)) \<and> cl_pageSize (fst (cl_act e s)) \<in> set pageSizeOptions"
proof (cases e)
  case (ClPage n)
  have "e \<in> offered (cl_list_foot s)"
    using assms(1) ClPage offered_dialog [of s]
    by (auto simp: offered_cl_view offered_toolbar offered_row offered_issue_dialog offered_delete_dialog split: if_splits)
  then show ?thesis
    using ClPage assms(2,3) cl_pages.current_bounds [of s]
    by (auto simp: cl_list_foot_def ResourcePagination_offered cl_act_def pageItems_def Let_def split: if_splits simp del: upt_Suc)
next
  case (ClPageSize n)
  have "e \<in> offered (cl_list_foot s)"
    using assms(1) ClPageSize offered_dialog [of s]
    by (auto simp: offered_cl_view offered_toolbar offered_row offered_issue_dialog offered_delete_dialog split: if_splits)
  then show ?thesis
    using ClPageSize offered_foot [of s] by (auto simp: cl_act_def)
next
  case ClSubmitEdit
  then show ?thesis
    using assms(2,3) by (simp add: cl_act_def cl_mutation_defs split: option.split prod.split)
qed (use assms(2,3) in \<open>simp_all add: cl_act_def cl_nav_defs cl_mutation_defs pageSizeOptions_def split: option.split\<close>)

lemma cl_page_inv:
  assumes "ui_reach certificate_list (cl_mount cs as ds l t ps) x"
  shows "1 \<le> cl_page (fst x) \<and> cl_pageSize (fst x) \<in> set pageSizeOptions"
  using assms
proof (rule ui_reach_inv [where I = "\<lambda>s. 1 \<le> cl_page s \<and> cl_pageSize s \<in> set pageSizeOptions"])
  show "1 \<le> cl_page (fst (cl_mount cs as ds l t ps)) \<and> cl_pageSize (fst (cl_mount cs as ds l t ps)) \<in> set pageSizeOptions"
    by (simp add: cl_mount_def Let_def pageSizeOptions_def)
next
  fix e and s :: cl_state
  assume "1 \<le> cl_page s \<and> cl_pageSize s \<in> set pageSizeOptions"
    "e \<in> offered (app_view certificate_list s) \<union> app_ambient certificate_list s"
  then show "1 \<le> cl_page (fst (app_handle certificate_list e s)) \<and>
      cl_pageSize (fst (app_handle certificate_list e s)) \<in> set pageSizeOptions"
    using cl_page_events [of e s] by (simp add: cl_app cl_handle_def)
next
  fix k r and s :: cl_state
  assume "1 \<le> cl_page s \<and> cl_pageSize s \<in> set pageSizeOptions"
  then show "1 \<le> cl_page (fst (app_resume certificate_list k r s)) \<and>
      cl_pageSize (fst (app_resume certificate_list k r s)) \<in> set pageSizeOptions"
    by (simp add: cl_app cl_resume_def cl_continue_def cl_reply_defs cl_nav_defs Let_def
        split: cl_call.split cl_reply.split)
next
  fix s s' :: cl_state
  assume "1 \<le> cl_page s \<and> cl_pageSize s \<in> set pageSizeOptions" "s' \<in> app_outside certificate_list s"
  then show "1 \<le> cl_page s' \<and> cl_pageSize s' \<in> set pageSizeOptions"
    by (auto simp: cl_app cl_outside_def)
qed

text \<open>
  C18. In every state the certificate list can reach, its pages split the matching certificates: the
  pages 1 to the page count, one after the other, are exactly the certificates that pass the
  search text and both filters, in order; and the page on show is empty only when nothing
  matches, whatever filters, page sizes and refreshed data came before.
\<close>

theorem certificate_pages_partition:
  assumes "ui_reach certificate_list (cl_mount cs as ds l t ps) (s, q)"
  shows "concat (map (\<lambda>n. paginatedCertificates (s\<lparr>cl_page := n\<rparr>)) [1..<Suc (cl_pageCount s)]) = visibleCertificates s \<and>
    (paginatedCertificates s = []) = (visibleCertificates s = [])"
proof -
  from cl_page_inv [OF assms] have p: "1 \<le> cl_page s" "0 < cl_pageSize s"
    by (auto simp: pageSizeOptions_def)
  have "paginatedCertificates s = [] \<Longrightarrow> visibleCertificates s = []"
    using cl_pages.page_nonempty [OF p] by blast
  moreover have "visibleCertificates s = [] \<Longrightarrow> paginatedCertificates s = []"
    using cl_pages.page_visible [of s] by simp
  ultimately show ?thesis using cl_pages.pages_partition [OF p(2)] by blast
qed

definition sample_certificate :: certificate where
  "sample_certificate = \<lparr>cert_id = ''c1'', cert_name = ''site'', cert_domains = [''a.io''], cert_status = ''issued'',
     keyAlgorithm = ''ecdsa_p256'', validationMode = ''auto'', notAfter = None, fingerprint = [],
     lastIssuedAt = None, cert_lastError = [], cert_createdAt = []\<rparr>"

abbreviation sample_mount :: "cl_state \<times> cl_call list" where
  "sample_mount \<equiv> cl_mount [sample_certificate] [] [] En 0 []"

lemma sample_mount_start: "ui_reach certificate_list sample_mount (fst sample_mount, [])"
proof -
  have "sample_mount = (fst sample_mount, [])"
    by (simp add: cl_mount_def cl_commit_def Let_def cl_selectedId_def cl_sync_edit_def)
  then show ?thesis using ui_reach.start [of certificate_list sample_mount] by simp
qed

lemma sample_mount_fields:
  "cl_certificates (fst sample_mount) = [sample_certificate]" "\<not> cl_pending (fst sample_mount)"
  "cl_params (fst sample_mount) = []" "cl_page (fst sample_mount) = 1" "cl_pageSize (fst sample_mount) = 10"
  "cl_query (fst sample_mount) = []" "cl_statusFilter (fst sample_mount) = ''all''"
  "cl_expiryFilter (fst sample_mount) = ''all''" "cl_detail (fst sample_mount) = None"
  by (simp_all add: cl_mount_def cl_commit_def Let_def cl_sync_edit_def)

lemma sample_visible: "visibleCertificates (fst sample_mount) = [sample_certificate]"
  by (simp add: visibleCertificates_def sample_mount_fields matchesExpiry_def)

lemma certificate_pages_partition_witness: "paginatedCertificates (fst sample_mount) \<noteq> []"
  using certificate_pages_partition [OF sample_mount_start] by (simp add: sample_visible)

subsection \<open>The busy flag\<close>

lemma cl_offered_mutations:
  assumes "e \<in> offered (cl_view s) \<union> range ClNavigated"
  shows "(e = ClConfirmIssue \<longrightarrow> \<not> cl_pending s \<and> cl_issueTarget s \<noteq> None) \<and>
    (e = ClConfirmDelete \<longrightarrow> \<not> cl_pending s \<and> cl_deleteTarget s \<noteq> None) \<and>
    (e = ClSubmitEdit \<longrightarrow> \<not> cl_pending s \<and> cl_selected s \<noteq> None \<and> cl_mode s = Some ''edit'')"
  using assms offered_dialog [of s] offered_foot [of s]
  by (auto simp: offered_cl_view offered_toolbar offered_row offered_issue_dialog offered_delete_dialog split: if_splits)

lemma submitEdit_cases:
  obtains (quiet) s' where "submitEdit s = (s', [])" "cl_pending s' = cl_pending s"
  | (sent) s' c y where "submitEdit s = (s', [KSave c (cl_params s) y])" "cl_pending s'"
      "cl_selected s = Some c" "acceptable_payload y"
proof (cases "cl_edit s")
  case None
  then show ?thesis using quiet by (simp add: submitEdit_def)
next
  case (Some p)
  obtain p' y where y: "submit_edit p = (p', y)" by (cases "submit_edit p")
  show ?thesis
  proof (cases y)
    case None
    then show ?thesis using quiet Some y by (simp add: submitEdit_def)
  next
    case (Some pl)
    have sel: "cl_selected (s\<lparr>cl_edit := e\<rparr>) = cl_selected s" for e
      by (simp add: cl_selected_def cl_selectedId_def)
    have acc: "acceptable_payload pl" using submit_edit_acceptable [of p pl] y Some by simp
    show ?thesis
    proof (cases "cl_selected s")
      case None
      then show ?thesis using quiet y Some \<open>cl_edit s = Some p\<close> by (simp add: submitEdit_def saveEdit_def sel)
    next
      case (Some c)
      then show ?thesis using sent acc y \<open>y = Some pl\<close> \<open>cl_edit s = Some p\<close>
        by (simp add: submitEdit_def saveEdit_def sel)
    qed
  qed
qed

lemma cl_act_flight:
  assumes "e \<in> offered (cl_view s) \<union> range ClNavigated"
  shows "filter cl_mutating (snd (cl_act e s)) = [] \<and> cl_pending (fst (cl_act e s)) = cl_pending s \<or>
    \<not> cl_pending s \<and> cl_pending (fst (cl_act e s)) \<and> length (filter cl_mutating (snd (cl_act e s))) = 1"
proof (cases e)
  case ClSubmitEdit
  then show ?thesis
    using cl_offered_mutations [OF assms] by (cases s rule: submitEdit_cases) (simp_all add: cl_act_def)
next
  case ClConfirmIssue
  then show ?thesis
    using cl_offered_mutations [OF assms] by (auto simp: cl_act_def issueCertificate_def)
next
  case ClConfirmDelete
  then show ?thesis
    using cl_offered_mutations [OF assms] by (auto simp: cl_act_def deleteCertificate_def)
qed (simp_all add: cl_act_def cl_nav_defs)

interpretation cl_flight: releasing_flight certificate_list cl_pending cl_mutating
proof unfold_locales
  fix e s s' ks
  assume "e \<in> offered (app_view certificate_list s) \<union> app_ambient certificate_list s"
    "app_handle certificate_list e s = (s', ks)"
  then show "filter cl_mutating ks = [] \<and> cl_pending s' = cl_pending s \<or>
      \<not> cl_pending s \<and> cl_pending s' \<and> length (filter cl_mutating ks) = 1"
    using cl_act_flight [of e s] cl_commit_calls [of s "cl_act e s"] cl_commit_same(1) [of s "cl_act e s"]
    by (simp add: cl_app cl_handle_def)
next
  fix k r s s' ks
  assume *: "\<not> cl_mutating k" "app_resume certificate_list k r s = (s', ks)"
  have "cl_pending (cl_continue k r s) = cl_pending s"
    using *(1) by (simp add: cl_continue_def cl_mutating_def cl_reply_defs split: cl_call.splits cl_reply.splits)
  with *(2) show "filter cl_mutating ks = [] \<and> cl_pending s' = cl_pending s"
    using cl_commit_calls [of s "(cl_continue k r s, [])"] cl_commit_same(1) [of s "(cl_continue k r s, [])"]
    by (simp add: cl_app cl_resume_def)
next
  fix k r s s' ks
  assume *: "cl_mutating k" "app_resume certificate_list k r s = (s', ks)"
  then have none: "filter cl_mutating ks = []"
    using cl_commit_calls [of s "(cl_continue k r s, [])"] by (simp add: cl_app cl_resume_def)
  then show "filter cl_mutating ks = [] \<or> cl_pending s' \<and> length (filter cl_mutating ks) = 1" by simp
  have "\<not> cl_pending (cl_continue k r s)"
    using *(1) by (simp add: cl_continue_def cl_mutating_def cl_reply_defs cl_nav_defs Let_def
        split: cl_call.splits cl_reply.splits)
  with *(2) none show "cl_pending s' = (filter cl_mutating ks \<noteq> [])"
    using cl_commit_same(1) [of s "(cl_continue k r s, [])"] by (simp add: cl_app cl_resume_def)
next
  fix s s'
  assume "s' \<in> app_outside certificate_list s"
  then show "cl_pending s' = cl_pending s" by (auto simp: cl_app cl_outside_def)
qed

text \<open>
  C5. The list mutates one thing at a time and never hangs: in every reachable state at most one
  save, reissue or deletion waits for its answer, and the buttons are disabled by \<open>pending\<close>
  exactly while one does, whatever the order of clicks, navigations, refreshes and replies.
\<close>

theorem certificate_mutations_single:
  assumes "ui_reach certificate_list (cl_mount cs as ds l t ps) (s, q)"
  shows "length (filter cl_mutating q) \<le> 1 \<and> cl_pending s = (filter cl_mutating q \<noteq> [])"
proof -
  have "\<not> cl_pending (fst (cl_mount cs as ds l t ps)) \<and> filter cl_mutating (snd (cl_mount cs as ds l t ps)) = []"
    by (simp add: cl_mount_def Let_def)
  then show ?thesis
    using cl_flight.reach_flight [OF assms] cl_flight.reach_busy [OF assms] by simp
qed

lemma certificate_mutations_single_witness:
  "length (filter cl_mutating []) \<le> 1 \<and> \<not> cl_pending (fst sample_mount)"
  using certificate_mutations_single [OF sample_mount_start] by simp


subsection \<open>What has to be confirmed\<close>

definition edit_form_matches :: "cl_state \<Rightarrow> bool" where
  "edit_form_matches s =
     (case cl_edit_slot s of
        None \<Rightarrow> cl_edit s = None
      | Some d \<Rightarrow> map_option edit_key (cl_edit s) = Some (cert_id d))"

lemma slot_sync [simp]: "cl_edit_slot (s\<lparr>cl_edit := x\<rparr>) = cl_edit_slot s" "cl_edit_slot (s\<lparr>cl_effect := n\<rparr>) = cl_edit_slot s"
  by (simp_all add: cl_edit_slot_def cl_selected_def cl_selectedId_def cl_mode_def split: option.split)

lemma edit_form_sync [simp]: "edit_form_matches (cl_sync_edit s)"
  by (auto simp: edit_form_matches_def cl_sync_edit_def mount_edit_panel_def split: option.splits)

lemma edit_form_commit [simp]: "edit_form_matches (fst (cl_commit b x))"
proof -
  have "edit_form_matches ((cl_sync_edit s)\<lparr>cl_effect := n\<rparr>)" for s n
    using edit_form_sync [of s] by (simp add: edit_form_matches_def split: option.splits)
  then show ?thesis by (cases x) (simp add: cl_commit_def Let_def)
qed

lemma edit_form_inv:
  assumes "ui_reach certificate_list (cl_mount cs as ds l t ps) x"
  shows "edit_form_matches (fst x)"
  using assms
  by (rule ui_reach_inv [where I = edit_form_matches])
    (auto simp: cl_app cl_handle_def cl_resume_def cl_outside_def cl_mount_def Let_def)

lemma submitEdit_sends:
  assumes "k \<in> set (snd (submitEdit s))"
  obtains c y p where "k = KSave c (cl_params s) y" "cl_selected s = Some c" "cl_edit s = Some p"
    "snd (submit_edit p) = Some y"
proof -
  have sel: "cl_selected (s\<lparr>cl_edit := e\<rparr>) = cl_selected s" for e
    by (simp add: cl_selected_def cl_selectedId_def)
  from assms show ?thesis
    using that by (auto simp: submitEdit_def saveEdit_def sel split: option.splits prod.splits)
qed

text \<open>
  C1. No change without its confirmation: in a reachable state, a deletion is sent only by the
  confirm button of the open deletion dialog and for the certificate it names, a reissue only by
  the issue dialog for its certificate, and a save only by the submit button of the edit dialog,
  for the selected certificate, from the form whose key is that of the certificate's loaded
  detail, with a payload that passed validation.
\<close>

theorem certificate_mutation_confirmed:
  assumes "ui_reach certificate_list (cl_mount cs as ds l t ps) (s, q)"
    and "e \<in> offered (app_view certificate_list s) \<union> app_ambient certificate_list s"
    and "app_handle certificate_list e s = (s', ks)" "k \<in> set ks" "cl_mutating k"
  shows "\<not> cl_pending s \<and>
    (case k of
       KDelete c selId ps' \<Rightarrow> e = ClConfirmDelete \<and> cl_deleteTarget s = Some c
     | KIssue c \<Rightarrow> e = ClConfirmIssue \<and> cl_issueTarget s = Some c
     | KSave c ps' y \<Rightarrow> e = ClSubmitEdit \<and> cl_selected s = Some c \<and> cl_mode s = Some ''edit'' \<and>
         (\<exists>p d. cl_edit s = Some p \<and> cl_detail s = Some (cert_id c, d) \<and> edit_key p = cert_id d \<and>
            snd (submit_edit p) = Some y \<and> acceptable_payload y)
     | KDetail run i \<Rightarrow> False)"
proof -
  have o: "e \<in> offered (cl_view s) \<union> range ClNavigated" using assms(2) by (simp add: cl_app)
  have k: "k \<in> set (snd (cl_act e s))"
    using assms(3-5) cl_commit_set [of k s "cl_act e s"] by (simp add: cl_app cl_handle_def)
  note off = cl_offered_mutations [OF o]
  show ?thesis
  proof (cases "e = ClSubmitEdit")
    case True
    with k obtain c y p where y: "k = KSave c (cl_params s) y" "cl_selected s = Some c" "cl_edit s = Some p"
        "snd (submit_edit p) = Some y"
      by (auto simp: cl_act_def elim: submitEdit_sends)
    from edit_form_inv [OF assms(1)] y(2,3) obtain d where "cl_edit_slot s = Some d" "edit_key p = cert_id d"
      by (auto simp: edit_form_matches_def split: option.splits)
    then have "cl_detail s = Some (cert_id c, d)" "edit_key p = cert_id d"
      using y(2) by (auto simp: cl_edit_slot_def split: option.splits prod.splits if_splits)
    with y off True submit_edit_acceptable [OF y(4)] show ?thesis by simp
  next
    case False
    with k off show ?thesis
      by (cases e) (auto simp: cl_act_def cl_nav_defs issueCertificate_def deleteCertificate_def split: option.splits)
  qed
qed

lemma sample_ask_delete:
  "ui_reach certificate_list sample_mount (fst (cl_handle (ClAskDelete sample_certificate) (fst sample_mount)), [])"
proof -
  let ?s = "fst sample_mount"
  have p: "paginatedCertificates ?s = [sample_certificate]"
    by (simp add: paginatedCertificates_def cl_currentPage_def cl_pageCount_def sample_visible sample_mount_fields
        ceil_div_def slice_def)
  have o: "ClAskDelete sample_certificate \<in> offered (app_view certificate_list ?s) \<union> app_ambient certificate_list ?s"
    by (simp add: cl_app offered_cl_view p offered_row)
  have h: "app_handle certificate_list (ClAskDelete sample_certificate) ?s =
      (fst (cl_handle (ClAskDelete sample_certificate) ?s), [])"
    by (simp add: cl_app cl_handle_def cl_act_def cl_commit_def Let_def cl_selectedId_def)
  from ui_reach_event [OF sample_mount_start o h] show ?thesis by simp
qed

lemma certificate_mutation_confirmed_witness:
  "cl_deleteTarget (fst (cl_handle (ClAskDelete sample_certificate) (fst sample_mount))) = Some sample_certificate"
proof -
  let ?s = "fst (cl_handle (ClAskDelete sample_certificate) (fst sample_mount))"
  have f: "cl_deleteTarget ?s = Some sample_certificate" "\<not> cl_pending ?s"
    by (simp_all add: cl_handle_def cl_act_def sample_mount_fields)
  have o: "ClConfirmDelete \<in> offered (app_view certificate_list ?s) \<union> app_ambient certificate_list ?s"
    using f by (simp add: cl_app offered_cl_view offered_delete_dialog)
  have h: "app_handle certificate_list ClConfirmDelete ?s =
      (fst (cl_handle ClConfirmDelete ?s), snd (cl_handle ClConfirmDelete ?s))"
    by (simp add: cl_app)
  have k: "KDelete sample_certificate (cl_selectedId ?s) (cl_params ?s) \<in> set (snd (cl_handle ClConfirmDelete ?s))"
    using f(1) by (simp add: cl_handle_def cl_act_def deleteCertificate_def cl_commit_def Let_def)
  show ?thesis
    using certificate_mutation_confirmed [OF sample_ask_delete o h k] by simp
qed

subsection \<open>Editing again after a save\<close>

text \<open>
  C40. Editing twice shows old values: after a successful save, reopening the edit form of the same
  certificate from the list mounts it from the detail loaded before the save, and the fresh
  detail that arrives then does not change the fields, because the key of the form stays the same.
  Saving again would silently restore the old configuration.
\<close>

theorem reopened_edit_is_stale:
  assumes "cl_selected s = Some c" "cert_id c \<noteq> []" "cl_detail s = Some (cert_id c, d)" "cert_id d = cert_id c"
    and "cl_resume (KSave c (cl_params s) y) ClDone s = (s1, ks1)"
    and "cl_handle (ClOpenEdit (cert_id c)) s1 = (s2, ks2)"
    and "cl_resume (KDetail (cl_effect s2) (cert_id c)) (ClDetailIs fresh) s2 = (s3, ks3)"
    and "cert_id fresh = cert_id c"
  shows "ks2 = [KDetail (cl_effect s2) (cert_id c)] \<and> cl_detail s3 = Some (cert_id c, fresh) \<and>
    cl_edit s3 = Some (mount_edit_panel d)"
proof -
  have in_list: "List.find (\<lambda>x. Some (cert_id x) = Some (cert_id c)) (cl_certificates s) = Some c"
    using assms(1) find_Some_mem [OF assms(1) [unfolded cl_selected_def]] by (simp add: cl_selected_def)
  have nf: "List.find (\<lambda>x. False) xs = None" for xs :: "certificate list"
    by (induction xs) simp_all
  have s1: "s1 = fst (cl_commit s (cl_continue (KSave c (cl_params s) y) ClDone s, []))"
    using assms(5) by (simp add: cl_resume_def)
  have f1: "cl_selectedId s1 = None" "cl_detail s1 = Some (cert_id c, d)" "cl_certificates s1 = cl_certificates s"
      "cl_edit s1 = None"
    using assms(3)
    by (simp_all add: s1 cl_commit_def cl_continue_def saved_def cl_nav_defs Let_def cl_sync_edit_def cl_edit_slot_def
        cl_selected_def cl_selectedId_def nf split: option.split)
  define o2 where "o2 = openMode (cert_id c) ''edit'' s1"
  have id2: "cl_selectedId o2 = Some (cert_id c)" "cl_mode o2 = Some ''edit''" "cl_edit o2 = None"
      "cl_detail o2 = Some (cert_id c, d)" "cl_certificates o2 = cl_certificates s"
    using f1 by (simp_all add: o2_def openMode_def cl_selectedId_def cl_mode_def)
  have sel2: "cl_selected o2 = Some c" using id2 in_list by (simp add: cl_selected_def)
  have slot2: "cl_edit_slot o2 = Some d" using id2 sel2 by (simp add: cl_edit_slot_def)
  have h2: "s2 = o2\<lparr>cl_edit := Some (mount_edit_panel d), cl_effect := cl_effect o2 + 1\<rparr>"
      "ks2 = [KDetail (cl_effect o2 + 1) (cert_id c)]"
    using assms(2,6) f1(1) id2 slot2
    by (auto simp: cl_handle_def cl_act_def cl_commit_def o2_def [symmetric] cl_sync_edit_def Let_def)
  have c3: "cl_continue (KDetail (cl_effect s2) (cert_id c)) (ClDetailIs fresh) s2 = s2\<lparr>cl_detail := Some (cert_id c, fresh)\<rparr>"
    by (simp add: cl_continue_def detail_loaded_def)
  have slot3: "cl_edit_slot (s2\<lparr>cl_detail := Some (cert_id c, fresh)\<rparr>) = Some fresh"
    using id2 sel2 by (simp add: cl_edit_slot_def h2 cl_selected_def cl_selectedId_def cl_mode_def)
  have "s3 = s2\<lparr>cl_detail := Some (cert_id c, fresh)\<rparr>"
  proof -
    have "cl_sync_edit (s2\<lparr>cl_detail := Some (cert_id c, fresh)\<rparr>) = s2\<lparr>cl_detail := Some (cert_id c, fresh)\<rparr>"
      unfolding cl_sync_edit_def slot3 using assms(4,8) by (simp add: h2 mount_edit_panel_def)
    then show ?thesis
      using assms(7) unfolding cl_resume_def c3 cl_commit_def Let_def by (simp add: cl_selectedId_def)
  qed
  then show ?thesis by (simp add: h2)
qed

lemma reopened_edit_is_stale_witness:
  "\<exists>s3 :: cl_state. cl_detail s3 = Some (''c1'', sample_detail\<lparr>cert_name := ''renamed''\<rparr>) \<and>
     cl_edit s3 = Some (mount_edit_panel sample_detail)"
proof -
  let ?s = "(fst sample_mount)\<lparr>cl_params := [(''selected'', ''c1''), (''mode'', ''edit'')], cl_detail := Some (''c1'', sample_detail)\<rparr>"
  let ?fresh = "sample_detail\<lparr>cert_name := ''renamed''\<rparr>"
  obtain y where y: "y = the (snd (submit_edit (mount_edit_panel sample_detail)))" by simp
  obtain s1 ks1 where 1: "cl_resume (KSave sample_certificate (cl_params ?s) y) ClDone ?s = (s1, ks1)" by fastforce
  obtain s2 ks2 where 2: "cl_handle (ClOpenEdit (cert_id sample_certificate)) s1 = (s2, ks2)" by fastforce
  obtain s3 ks3 where 3: "cl_resume (KDetail (cl_effect s2) (cert_id sample_certificate)) (ClDetailIs ?fresh) s2 = (s3, ks3)"
    by fastforce
  have i: "cert_id sample_certificate = ''c1''" by (simp add: sample_certificate_def)
  have sel: "cl_selected ?s = Some sample_certificate"
    by (simp add: cl_selected_def cl_selectedId_def sample_mount_fields i)
  have ids: "cert_id sample_certificate \<noteq> []" "cl_detail ?s = Some (cert_id sample_certificate, sample_detail)"
      "cert_id sample_detail = cert_id sample_certificate" "cert_id ?fresh = cert_id sample_certificate"
    by (simp_all add: sample_certificate_def sample_detail_def)
  from reopened_edit_is_stale [OF sel ids(1-3) 1 2 3 ids(4)] show ?thesis
    by (auto simp: sample_certificate_def)
qed

end
