(* ===== verification/Certificate_Workflow.thy ===== *)
theory Certificate_Workflow
  imports Domains Resources Runtime Certificate_Edit
begin

text \<open>
  The creation wizard, \<open>CertificateWorkflow\<close> of \<^verbatim>\<open>certificate-workflow.tsx\<close>: three steps over one
  form, opened by the query parameter \<open>modal\<close>, and one request. The wizard stays mounted while
  it is closed. A navigation takes effect when its handler ends; \<open>WfNavigated\<close> is a navigation
  by another component, such as the list that opens the wizard.
\<close>

record workflow =
  wf_acmeAccounts :: "acme_account list"
  wf_dnsAccounts :: "dns_account list"
  wf_params :: "(string \<times> string) list"
  wf_refreshes :: nat
  wf_step :: nat
  wf_name :: string
  wf_domainsText :: string
  wf_keyAlgorithm :: string
  wf_acmeAccountId :: string
  wf_dnsAccountId :: string
  wf_validationMode :: string
  wf_renewBeforeDays :: string
  wf_pending :: bool
  wf_error :: label

definition stepKeys :: "string list" where
  "stepKeys = [''certificate.stepIdentity'', ''certificate.stepValidation'', ''certificate.stepRenewal'']"

definition wf_open :: "workflow \<Rightarrow> bool" where
  "wf_open s = (al_get ''modal'' (wf_params s) = Some ''create'')"

definition wf_domains :: "workflow \<Rightarrow> string list" where
  "wf_domains s = parse_domains (wf_domainsText s)"

definition wf_domainError :: "workflow \<Rightarrow> label" where
  "wf_domainError s = validateDomains (wf_domains s)"

definition wf_canSubmit :: "workflow \<Rightarrow> bool" where
  "wf_canSubmit s = (length (wf_acmeAccounts s) > 0 \<and>
     (wf_validationMode s = ''manual'' \<or> length (wf_dnsAccounts s) > 0))"

text \<open>\<open>Number\<close> of the days field; \<open>None\<close> is \<open>NaN\<close>, which JSON sends as null.\<close>

record create_payload =
  new_name :: string
  new_acmeAccountId :: string
  new_defaultDnsAccountId :: string
  new_validationMode :: string
  new_domains :: "string list"
  new_keyAlgorithm :: string
  new_renewBeforeDays :: "rat option"

datatype wf_event =
    WfClose | WfPrevious | WfNext | WfSubmit
  | WfName string | WfDomains string | WfKeyAlgorithm string
  | WfAcme string | WfDns string | WfMode string | WfRenew string
  | WfNavigated "(string \<times> string) list"

datatype wf_call = KCreate "(string \<times> string) list" create_payload

definition wf_request :: "wf_call \<Rightarrow> string \<times> string" where
  "wf_request k = (case k of KCreate ps y \<Rightarrow> (''POST'', ''/api/certificates''))"

definition close_workflow :: "(string \<times> string) list \<Rightarrow> workflow \<Rightarrow> workflow" where
  "close_workflow ps s =
     s\<lparr>wf_step := 0, wf_error := no_text, wf_name := [], wf_domainsText := [],
       wf_acmeAccountId := [], wf_dnsAccountId := [], wf_params := al_delete ''modal'' ps\<rparr>"

definition nextStep :: "workflow \<Rightarrow> workflow" where
  "nextStep s =
     (let s0 = s\<lparr>wf_error := no_text\<rparr>; fail = (\<lambda>e. s0\<lparr>wf_error := e\<rparr>);
          advance = s0\<lparr>wf_step := min (wf_step s + 1) (length stepKeys - 1)\<rparr>
      in if wf_step s = 0 \<and> js_trim (wf_name s) = [] then fail (Tr ''certificate.nameRequired'' [])
         else if wf_step s = 0 \<and> length (wf_domains s) = 0 then fail (Tr ''certificate.domainRequired'' [])
         else if wf_step s = 0 \<and> shown (wf_domainError s) then fail (wf_domainError s)
         else if wf_step s = 1 \<and> wf_acmeAccountId s = [] then fail (Tr ''certificate.acmeRequired'' [])
         else if wf_step s = 1 \<and> wf_validationMode s = ''auto'' \<and> wf_dnsAccountId s = []
           then fail (Tr ''certificate.dnsRequired'' [])
         else advance)"

definition wf_payload :: "workflow \<Rightarrow> create_payload" where
  "wf_payload s =
     \<lparr>new_name = js_trim (wf_name s), new_acmeAccountId = wf_acmeAccountId s,
      new_defaultDnsAccountId = (if wf_validationMode s = ''auto'' then wf_dnsAccountId s else []),
      new_validationMode = wf_validationMode s, new_domains = wf_domains s,
      new_keyAlgorithm = wf_keyAlgorithm s, new_renewBeforeDays = js_number (wf_renewBeforeDays s)\<rparr>"

definition submit_workflow :: "workflow \<Rightarrow> workflow \<times> wf_call list" where
  "submit_workflow s =
     (let s0 = s\<lparr>wf_error := no_text\<rparr>
      in if \<not> wf_canSubmit s then (s0\<lparr>wf_error := Tr ''certificate.requirementsMissing'' []\<rparr>, [])
         else (s0\<lparr>wf_pending := True\<rparr>, [KCreate (wf_params s) (wf_payload s)]))"

definition created :: "(string \<times> string) list \<Rightarrow> failure + unit \<Rightarrow> workflow \<Rightarrow> workflow" where
  "created ps r s =
     (case r of
        Inr _ \<Rightarrow> (let s1 = close_workflow ps s in s1\<lparr>wf_refreshes := wf_refreshes s1 + 1, wf_pending := False\<rparr>)
      | Inl f \<Rightarrow> s\<lparr>wf_error := failure_message f (Tr ''certificate.createFailed'' []), wf_pending := False\<rparr>)"

definition wf_handle :: "wf_event \<Rightarrow> workflow \<Rightarrow> workflow \<times> wf_call list" where
  "wf_handle e s =
     (case e of
        WfClose \<Rightarrow> (close_workflow (wf_params s) s, [])
      | WfPrevious \<Rightarrow> (s\<lparr>wf_error := no_text, wf_step := wf_step s - 1\<rparr>, [])
      | WfNext \<Rightarrow> (nextStep s, [])
      | WfSubmit \<Rightarrow> submit_workflow s
      | WfName v \<Rightarrow> (s\<lparr>wf_name := v\<rparr>, [])
      | WfDomains v \<Rightarrow> (s\<lparr>wf_domainsText := v\<rparr>, [])
      | WfKeyAlgorithm k \<Rightarrow> (s\<lparr>wf_keyAlgorithm := k\<rparr>, [])
      | WfAcme k \<Rightarrow> (s\<lparr>wf_acmeAccountId := k\<rparr>, [])
      | WfDns k \<Rightarrow> (s\<lparr>wf_dnsAccountId := k\<rparr>, [])
      | WfMode k \<Rightarrow> (s\<lparr>wf_validationMode := k\<rparr>, [])
      | WfRenew v \<Rightarrow> (s\<lparr>wf_renewBeforeDays := v\<rparr>, [])
      | WfNavigated ps \<Rightarrow> (s\<lparr>wf_params := ps\<rparr>, []))"

definition wf_resume :: "wf_call \<Rightarrow> failure + unit \<Rightarrow> workflow \<Rightarrow> workflow \<times> wf_call list" where
  "wf_resume k r s = (case k of KCreate ps y \<Rightarrow> (created ps r s, []))"

subsection \<open>The view\<close>

definition IdentityStep :: "workflow \<Rightarrow> wf_event view" where
  "IdentityStep s =
     El ''div''
      [Field (Tr ''common.name'' []) (wf_name s) WfName,
       Choice (Tr ''certificate.keyAlgorithm'' []) (Some (wf_keyAlgorithm s)) False key_algorithm_items WfKeyAlgorithm,
       Field (Tr ''certificate.domains'' []) (wf_domainsText s) WfDomains,
       Txt (Tr ''certificate.domainHint'' []),
       show_if (shown (wf_domainError s)) (FormError (wf_domainError s))]"

definition ValidationStep :: "workflow \<Rightarrow> wf_event view" where
  "ValidationStep s =
     El ''div''
      [Choice (Tr ''acme.tableLabel'' []) (Some (wf_acmeAccountId s)) False
         (map (\<lambda>a. (acme_id a, Raw (acme_name a), False)) (wf_acmeAccounts s)) WfAcme,
       show_if (length (wf_acmeAccounts s) = 0) (Txt (Tr ''certificate.noAcme'' [])),
       Choice (Tr ''dns.tableLabel'' []) (Some (wf_dnsAccountId s)) (wf_validationMode s = ''manual'')
         (map (\<lambda>a. (dns_id a, Raw (dns_name a), False)) (wf_dnsAccounts s)) WfDns,
       (if wf_validationMode s = ''manual'' then Txt (Tr ''certificate.manualNoDns'' [])
        else show_if (length (wf_dnsAccounts s) = 0) (Txt (Tr ''certificate.noDns'' []))),
       Choice (Tr ''certificate.validationMode'' []) (Some (wf_validationMode s)) False
         [(''auto'', Tr ''certificate.validationAuto'' [], False),
          (''manual'', Tr ''certificate.validationManual'' [], False)] WfMode,
       Txt (Tr ''certificate.validationHint'' [])]"

definition RenewalStep :: "workflow \<Rightarrow> wf_event view" where
  "RenewalStep s =
     El ''div''
      [Field (Tr ''certificate.renewBeforeDays'' []) (wf_renewBeforeDays s) WfRenew,
       Txt (Tr ''certificate.renewalHint'' [])]"

definition wf_footer :: "workflow \<Rightarrow> wf_event view list" where
  "wf_footer s =
     [if wf_step s > 0 then Button (Tr ''certificate.previous'' []) False WfPrevious else ModalCancelButton WfClose,
      if wf_step s < length stepKeys - 1 then Button (Tr ''certificate.next'' []) False WfNext
      else Button (if wf_pending s then Tr ''certificate.creating'' [] else Tr ''certificate.createAndQueue'' [])
        (wf_pending s) WfSubmit]"

definition step_mark :: "nat \<Rightarrow> nat \<Rightarrow> 'e view" where
  "step_mark current i =
     El ((if i = current then ''workflow-step-active'' else []) @ (if i < current then ''workflow-step-complete'' else []))
       [if i < current then El ''Check'' [] else Txt (Raw (nat_digits (i + 1))), Txt (Tr (stepKeys ! i) [])]"

definition wf_view :: "workflow \<Rightarrow> wf_event view" where
  "wf_view s =
     ResourceModal (wf_open s) (Tr ''certificate.create'' []) (Tr ''certificate.createDescription'' []) WfClose
       (wf_footer s)
       [El ''div'' (map (step_mark (wf_step s)) [0..<length stepKeys]),
        show_if (wf_step s = 0) (IdentityStep s),
        show_if (wf_step s = 1) (ValidationStep s),
        show_if (wf_step s = 2) (RenewalStep s),
        show_if (shown (wf_error s)) (FormError (wf_error s))]"

text \<open>New props after a refresh: other accounts.\<close>

definition wf_outside :: "workflow \<Rightarrow> workflow set" where
  "wf_outside s = {s\<lparr>wf_acmeAccounts := as, wf_dnsAccounts := ds\<rparr> | as ds. True}"

definition workflow_app :: "(workflow, wf_event, wf_call, failure + unit) app" where
  "workflow_app = \<lparr>app_view = wf_view, app_ambient = (\<lambda>s. range WfNavigated), app_handle = wf_handle,
     app_resume = wf_resume, app_answers = (\<lambda>k. UNIV), app_outside = wf_outside\<rparr>"

definition wf_mount :: "acme_account list \<Rightarrow> dns_account list \<Rightarrow> (string \<times> string) list \<Rightarrow> workflow \<times> wf_call list" where
  "wf_mount as ds ps =
     (\<lparr>wf_acmeAccounts = as, wf_dnsAccounts = ds, wf_params = ps, wf_refreshes = 0, wf_step = 0,
       wf_name = [], wf_domainsText = [], wf_keyAlgorithm = ''ecdsa_p256'', wf_acmeAccountId = [],
       wf_dnsAccountId = [], wf_validationMode = ''auto'', wf_renewBeforeDays = ''30'',
       wf_pending = False, wf_error = no_text\<rparr>, [])"

lemmas wf_app_simps = workflow_app_def app.simps
lemmas wf_handler_defs = wf_handle_def close_workflow_def nextStep_def submit_workflow_def Let_def

subsection \<open>What the steps offer\<close>

lemma offered_steps:
  "offered (IdentityStep s) = range WfName \<union> range WfDomains \<union>
     WfKeyAlgorithm ` {''ecdsa_p256'', ''ecdsa_p384'', ''rsa_2048'', ''rsa_4096''}"
  "offered (ValidationStep s) = WfAcme ` acme_id ` set (wf_acmeAccounts s) \<union>
     (if wf_validationMode s = ''manual'' then {} else WfDns ` dns_id ` set (wf_dnsAccounts s)) \<union>
     WfMode ` {''auto'', ''manual''}"
  "offered (RenewalStep s) = range WfRenew"
  by (auto simp: IdentityStep_def ValidationStep_def RenewalStep_def key_algorithm_items_def filter_map o_def)

lemma offered_wf_view:
  "offered (wf_view s) =
     (if wf_open s then {WfClose} \<union>
        (if 0 < wf_step s then {WfPrevious} else {}) \<union>
        (if wf_step s < 2 then {WfNext} else if wf_pending s then {} else {WfSubmit}) \<union>
        (if wf_step s = 0 then offered (IdentityStep s) else {}) \<union>
        (if wf_step s = 1 then offered (ValidationStep s) else {}) \<union>
        (if wf_step s = 2 then offered (RenewalStep s) else {})
      else {})"
proof -
  have m: "offered (step_mark n i) = {}" for n i by (simp add: step_mark_def)
  have f: "offered_any (wf_footer s) = (if 0 < wf_step s then {WfPrevious} else {WfClose}) \<union>
      (if wf_step s < 2 then {WfNext} else if wf_pending s then {} else {WfSubmit})"
    by (simp add: wf_footer_def stepKeys_def)
  have "offered_any [El ''div'' (map (step_mark (wf_step s)) [0..<length stepKeys]),
        show_if (wf_step s = 0) (IdentityStep s), show_if (wf_step s = 1) (ValidationStep s),
        show_if (wf_step s = 2) (RenewalStep s), show_if (shown (wf_error s)) (FormError (wf_error s))] =
      (if wf_step s = 0 then offered (IdentityStep s) else {}) \<union>
      (if wf_step s = 1 then offered (ValidationStep s) else {}) \<union>
      (if wf_step s = 2 then offered (RenewalStep s) else {})"
    by (simp add: m)
  with f show ?thesis
    unfolding wf_view_def offered_simple by auto
qed

subsection \<open>The steps guard the submission\<close>

definition wf_inv :: "workflow \<Rightarrow> bool" where
  "wf_inv s \<longleftrightarrow>
     wf_step s \<le> 2 \<and>
     wf_keyAlgorithm s \<in> {''ecdsa_p256'', ''ecdsa_p384'', ''rsa_2048'', ''rsa_4096''} \<and>
     wf_validationMode s \<in> {''auto'', ''manual''} \<and>
     (0 < wf_step s \<longrightarrow> js_trim (wf_name s) \<noteq> [] \<and> wf_domains s \<noteq> [] \<and> check_domains (wf_domains s) = None) \<and>
     (1 < wf_step s \<longrightarrow> wf_acmeAccountId s \<noteq> [] \<and> (wf_validationMode s = ''auto'' \<longrightarrow> wf_dnsAccountId s \<noteq> []))"

lemma nextStep_inv: "wf_inv s \<Longrightarrow> wf_inv (nextStep s)"
  by (auto simp: wf_inv_def nextStep_def Let_def stepKeys_def wf_domains_def wf_domainError_def
      validateDomains_no_text le_Suc_eq min_def)

lemma nextStep_pending [simp]: "wf_pending (nextStep s) = wf_pending s"
  by (simp add: nextStep_def Let_def)

lemma wf_handle_inv:
  assumes "wf_inv s" "e \<in> offered (wf_view s) \<union> range WfNavigated"
  shows "wf_inv (fst (wf_handle e s))"
proof (cases e)
  case WfNext
  then show ?thesis using nextStep_inv [OF assms(1)] by (simp add: wf_handle_def)
next
  case WfPrevious
  then show ?thesis using assms(1) by (auto simp: wf_handle_def wf_inv_def wf_domains_def)
next
  case WfSubmit
  then show ?thesis using assms(1) by (auto simp: wf_handle_def submit_workflow_def Let_def wf_inv_def wf_domains_def)
next
  case WfClose
  then show ?thesis using assms(1) by (auto simp: wf_handle_def close_workflow_def wf_inv_def)
next
  case (WfNavigated ps)
  then show ?thesis using assms(1) by (simp add: wf_handle_def wf_inv_def wf_domains_def)
qed (use assms in \<open>auto simp: wf_handle_def wf_inv_def wf_domains_def offered_wf_view offered_steps
       split: if_splits\<close>)

lemma wf_reach_inv:
  assumes "ui_reach workflow_app (wf_mount as ds ps) x"
  shows "wf_inv (fst x)"
  using assms
proof (rule ui_reach_inv [where I = wf_inv])
  show "wf_inv (fst (wf_mount as ds ps))" by (simp add: wf_mount_def wf_inv_def)
next
  fix e s
  assume "wf_inv s" "e \<in> offered (app_view workflow_app s) \<union> app_ambient workflow_app s"
  then show "wf_inv (fst (app_handle workflow_app e s))"
    using wf_handle_inv [of s e] by (simp add: wf_app_simps)
next
  fix k r s
  assume "wf_inv s"
  then show "wf_inv (fst (app_resume workflow_app k r s))"
    by (auto simp: wf_app_simps wf_resume_def created_def close_workflow_def Let_def wf_inv_def wf_domains_def
        split: wf_call.splits sum.splits)
next
  fix s s'
  assume "wf_inv s" "s' \<in> app_outside workflow_app s"
  then show "wf_inv s'" by (auto simp: wf_app_simps wf_outside_def wf_inv_def wf_domains_def)
qed

text \<open>
  C2. The wizard submits complete requests only: whatever path of steps, corrections, closings and
  replies led there, a creation request carries a trimmed name, a non-empty list of domains that
  passes validation, one of the four key algorithms, an ACME account, and a DNS account exactly
  when the validation is automatic; and it is sent only from the last step with no other
  creation waiting.
\<close>

theorem workflow_submission_complete:
  assumes "ui_reach workflow_app (wf_mount as ds ps) (s, q)"
    and "e \<in> offered (app_view workflow_app s) \<union> app_ambient workflow_app s"
    and "app_handle workflow_app e s = (s', ks)" "KCreate ps' y \<in> set ks"
  shows "e = WfSubmit \<and> wf_step s = 2 \<and> \<not> wf_pending s \<and>
    new_name y \<noteq> [] \<and> js_trim (new_name y) = new_name y \<and>
    new_domains y \<noteq> [] \<and> validateDomains (new_domains y) = no_text \<and>
    new_keyAlgorithm y \<in> {''ecdsa_p256'', ''ecdsa_p384'', ''rsa_2048'', ''rsa_4096''} \<and>
    new_acmeAccountId y \<noteq> [] \<and> new_validationMode y \<in> {''auto'', ''manual''} \<and>
    (new_validationMode y = ''auto'') = (new_defaultDnsAccountId y \<noteq> [])"
proof -
  have e: "e = WfSubmit" and y: "y = wf_payload s"
    using assms(3,4) by (auto simp: wf_app_simps wf_handler_defs split: wf_event.splits if_splits)
  have o: "WfSubmit \<in> offered (wf_view s)"
    using assms(2) e by (auto simp: wf_app_simps)
  then have last: "\<not> wf_step s < 2" "\<not> wf_pending s"
    by (auto simp: offered_wf_view offered_steps split: if_splits)
  with wf_reach_inv [OF assms(1)] have "wf_step s = 2" by (simp add: wf_inv_def)
  with wf_reach_inv [OF assms(1)] last e show ?thesis
    by (auto simp: y wf_payload_def wf_inv_def validateDomains_no_text)
qed

definition wf_sample :: "nat \<Rightarrow> string \<Rightarrow> string \<Rightarrow> string \<Rightarrow> string \<Rightarrow> workflow" where
  "wf_sample st nm domtext ac md =
     \<lparr>wf_acmeAccounts = [\<lparr>acme_id = ''m1'', acme_name = ''LE'', directoryUrl = [], accountUrl = [], acme_email = [],
        privateKeyAlgorithm = [], acme_status = ''active'', acme_lastVerifiedAt = None, acme_lastError = [],
        certificateCount = 0, automationCount = 0, acme_createdAt = []\<rparr>],
      wf_dnsAccounts = [], wf_params = [(''modal'', ''create'')], wf_refreshes = 0, wf_step = st, wf_name = nm,
      wf_domainsText = domtext, wf_keyAlgorithm = ''ecdsa_p256'', wf_acmeAccountId = ac, wf_dnsAccountId = [],
      wf_validationMode = md, wf_renewBeforeDays = ''30'', wf_pending = False, wf_error = no_text\<rparr>"

abbreviation wf_sample_mount :: "workflow \<times> wf_call list" where
  "wf_sample_mount \<equiv> wf_mount (wf_acmeAccounts (wf_sample 0 [] [] [] [])) [] [(''modal'', ''create'')]"

lemma wf_sample_reach: "ui_reach workflow_app wf_sample_mount (wf_sample 2 ''site'' ''a.io'' ''m1'' ''manual'', [])"
proof -
  note sim = wf_app_simps offered_wf_view offered_steps wf_handle_def wf_open_def wf_sample_def
  have d: "parse_domains ''a.io'' = [''a.io'']" "check_domains [''a.io''] = None" "js_trim ''site'' = ''site''"
    by code_simp+
  have 0: "ui_reach workflow_app wf_sample_mount (wf_sample 0 [] [] [] ''auto'', [])"
    using ui_reach.start [of workflow_app wf_sample_mount] by (simp add: wf_mount_def wf_sample_def)
  have 1: "ui_reach workflow_app wf_sample_mount (wf_sample 0 ''site'' [] [] ''auto'', [])"
    using ui_reach_event [OF 0, of "WfName ''site''"] by (simp add: sim)
  have 2: "ui_reach workflow_app wf_sample_mount (wf_sample 0 ''site'' ''a.io'' [] ''auto'', [])"
    using ui_reach_event [OF 1, of "WfDomains ''a.io''"] by (simp add: sim)
  have 3: "ui_reach workflow_app wf_sample_mount (wf_sample 1 ''site'' ''a.io'' [] ''auto'', [])"
    using ui_reach_event [OF 2, of WfNext]
    by (simp add: sim nextStep_def Let_def d wf_domains_def wf_domainError_def validateDomains_text stepKeys_def)
  have 4: "ui_reach workflow_app wf_sample_mount (wf_sample 1 ''site'' ''a.io'' ''m1'' ''auto'', [])"
    using ui_reach_event [OF 3, of "WfAcme ''m1''"] by (simp add: sim)
  have 5: "ui_reach workflow_app wf_sample_mount (wf_sample 1 ''site'' ''a.io'' ''m1'' ''manual'', [])"
    using ui_reach_event [OF 4, of "WfMode ''manual''"] by (simp add: sim)
  show ?thesis
    using ui_reach_event [OF 5, of WfNext] by (simp add: sim nextStep_def Let_def stepKeys_def numeral_2_eq_2)
qed

lemma wf_sample_submit:
  "app_handle workflow_app WfSubmit (wf_sample 2 ''site'' ''a.io'' ''m1'' ''manual'') =
     ((wf_sample 2 ''site'' ''a.io'' ''m1'' ''manual'')\<lparr>wf_pending := True\<rparr>,
      [KCreate [(''modal'', ''create'')] (wf_payload (wf_sample 2 ''site'' ''a.io'' ''m1'' ''manual''))])"
  by (simp add: wf_app_simps wf_handle_def submit_workflow_def wf_canSubmit_def Let_def wf_sample_def wf_payload_def
      wf_domains_def)

lemma wf_sample_offered:
  "WfSubmit \<in> offered (app_view workflow_app (wf_sample 2 ''site'' ''a.io'' ''m1'' ''manual'')) \<union>
     app_ambient workflow_app (wf_sample 2 ''site'' ''a.io'' ''m1'' ''manual'')"
  by (simp add: wf_app_simps offered_wf_view wf_open_def wf_sample_def)

lemma workflow_submission_complete_witness:
  "validateDomains (new_domains (wf_payload (wf_sample 2 ''site'' ''a.io'' ''m1'' ''manual''))) = no_text \<and>
   new_defaultDnsAccountId (wf_payload (wf_sample 2 ''site'' ''a.io'' ''m1'' ''manual'')) = []"
proof -
  have "new_validationMode (wf_payload (wf_sample 2 ''site'' ''a.io'' ''m1'' ''manual'')) = ''manual''"
    by (simp add: wf_payload_def wf_sample_def)
  moreover note workflow_submission_complete [OF wf_sample_reach wf_sample_offered wf_sample_submit list.set_intros(1)]
  ultimately show ?thesis by simp
qed

subsection \<open>One creation at a time\<close>

interpretation wf_flight: releasing_flight workflow_app wf_pending "\<lambda>k. True"
proof unfold_locales
  fix e s s' ks
  assume *: "e \<in> offered (app_view workflow_app s) \<union> app_ambient workflow_app s" "app_handle workflow_app e s = (s', ks)"
  show "filter (\<lambda>k. True) ks = [] \<and> wf_pending s' = wf_pending s \<or>
      \<not> wf_pending s \<and> wf_pending s' \<and> length (filter (\<lambda>k. True) ks) = 1"
  proof (cases "e = WfSubmit")
    case True
    with * have "\<not> wf_pending s"
      by (auto simp: wf_app_simps offered_wf_view offered_steps split: if_splits)
    with True * show ?thesis by (auto simp: wf_app_simps wf_handle_def submit_workflow_def Let_def split: if_splits)
  next
    case False
    with * show ?thesis by (cases e) (auto simp: wf_app_simps wf_handle_def close_workflow_def)
  qed
qed (auto simp: wf_app_simps wf_resume_def created_def wf_outside_def close_workflow_def Let_def
       split: wf_call.splits sum.splits)

text \<open>
  The wizard creates once: at most one creation request waits at any time, even if the wizard is
  closed and opened again meanwhile, and the submit button is free again after every reply.
\<close>

theorem workflow_creation_single:
  assumes "ui_reach workflow_app (wf_mount as ds ps) (s, q)"
  shows "length q \<le> 1 \<and> wf_pending s = (q \<noteq> [])"
proof -
  have "\<not> wf_pending (fst (wf_mount as ds ps)) \<and> snd (wf_mount as ds ps) = []"
    by (simp add: wf_mount_def)
  then show ?thesis
    using wf_flight.reach_flight [OF assms] wf_flight.reach_busy [OF assms] by simp
qed

lemma workflow_creation_single_witness:
  "\<exists>s q. ui_reach workflow_app wf_sample_mount (s, q) \<and> length q = 1 \<and> wf_pending s"
proof -
  note r = ui_reach_event [OF wf_sample_reach wf_sample_offered wf_sample_submit]
  from workflow_creation_single [OF r] show ?thesis using r by fastforce
qed

text \<open>
  A late reply closes the wrong form: a wizard that was closed while its request was waiting, and
  opened again for another certificate, loses what has been typed since and closes when the
  first request succeeds, because the reply closes the wizard it finds.
\<close>

theorem late_reply_wipes_reopened_wizard:
  assumes "wf_canSubmit s" "wf_open s"
    and "submit_workflow s = (s1, [KCreate ps y])"
    and "fst (wf_handle WfClose s1) = s2"
    and "fst (wf_handle (WfName typed) (fst (wf_handle (WfNavigated ps) s2))) = s3"
  shows "wf_open s3 \<and> wf_name s3 = typed \<and> wf_pending s3 \<and>
    \<not> wf_open (created ps (Inr ()) s3) \<and> wf_name (created ps (Inr ()) s3) = []"
proof -
  have "s1 = s\<lparr>wf_error := no_text, wf_pending := True\<rparr>" "ps = wf_params s"
    using assms(1,3) by (simp_all add: submit_workflow_def Let_def)
  with assms(2,4,5) show ?thesis
    by (auto simp: wf_handle_def close_workflow_def created_def Let_def wf_open_def)
qed

lemma late_reply_wipes_reopened_wizard_witness:
  "\<exists>s3. wf_name s3 = ''second'' \<and> wf_open s3 \<and> wf_name (created [(''modal'', ''create'')] (Inr ()) s3) = []"
proof -
  let ?s = "wf_sample 2 ''site'' ''a.io'' ''m1'' ''manual''"
  have c: "wf_canSubmit ?s" "wf_open ?s" by (simp_all add: wf_canSubmit_def wf_open_def wf_sample_def)
  have h: "submit_workflow ?s = (?s\<lparr>wf_pending := True\<rparr>, [KCreate [(''modal'', ''create'')] (wf_payload ?s)])"
    using wf_sample_submit by (simp add: wf_app_simps wf_handle_def)
  from late_reply_wipes_reopened_wizard [OF c h refl refl, of "''second''"] show ?thesis by blast
qed

end
