(* ===== verification/Deployments.thy ===== *)
theory Deployments
  imports Resources Runtime Pagination Certificate_Edit
begin

text \<open>
  The automation tasks, \<open>DeploymentManager\<close> of \<^verbatim>\<open>deployment-manager.tsx\<close>: state, handlers, effects
  and continuations. The hooks of the ALB selection are grouped in \<open>alb_form\<close>, those of the
  task editor in \<open>task_form\<close>. Each effect with an \<open>AbortController\<close> has a run counter; a reply to
  an earlier run finds its controller aborted. A reply is what the code distinguishes: a rejected
  fetch (or unreadable body), a failed response, or a successful one with its data.
\<close>

subsection \<open>Helper functions\<close>

definition actionLabels :: "action_type \<Rightarrow> string" where
  "actionLabels a = (case a of RenewCertificate \<Rightarrow> ''renew the certificate regularly''
     | UploadSsl \<Rightarrow> ''upload to the cloud certificate platform'' | DeployAlb \<Rightarrow> ''ALB configuration update'')"

definition albOperationLabels :: "(string \<times> string) list" where
  "albOperationLabels =
    [(''describe_regions'', ''read ALB regions''), (''list_load_balancers'', ''read the ALB list''),
     (''get_load_balancer'', ''read ALB attributes''), (''list_listeners'', ''read the listener list'')]"

datatype interval_unit = Weeks | Days | Hours | Minutes

definition unit_minutes :: "interval_unit \<Rightarrow> int" where
  "unit_minutes u = (case u of Weeks \<Rightarrow> 10080 | Days \<Rightarrow> 1440 | Hours \<Rightarrow> 60 | Minutes \<Rightarrow> 1)"

definition unit_text :: "interval_unit \<Rightarrow> string" where
  "unit_text u = (case u of Weeks \<Rightarrow> ''weeks'' | Days \<Rightarrow> ''days'' | Hours \<Rightarrow> ''hours'' | Minutes \<Rightarrow> ''minutes'')"

definition formatInterval :: "int \<Rightarrow> int \<times> interval_unit" where
  "formatInterval minutes =
     (if minutes mod 10080 = 0 then (minutes div 10080, Weeks)
      else if minutes mod 1440 = 0 then (minutes div 1440, Days)
      else if minutes mod 60 = 0 then (minutes div 60, Hours)
      else (minutes, Minutes))"

definition interval_label :: "int \<Rightarrow> label" where
  "interval_label minutes =
     (let (n, u) = formatInterval minutes in Cat [Raw (int_string n), Raw '' '', Zh (unit_text u)])"

definition message_or :: "response \<Rightarrow> string \<Rightarrow> label" where
  "message_or r fallback = body_message r (Zh fallback)"

definition readError :: "response \<Rightarrow> string \<Rightarrow> label" where
  "readError r fallback = message_or r fallback"

datatype alb_error = ALBPermissionError label string string | PlainError label

definition readALBError :: "response \<Rightarrow> string \<Rightarrow> alb_error" where
  "readALBError r fallback =
     (let message = message_or r fallback
      in if truthy (body_field ''requiredPermission'' r)
         then ALBPermissionError message (js_string (the (body_field ''requiredPermission'' r)))
           (js_string (nullish (body_field ''operation'' r) (JStr [])))
         else PlainError message)"

subsection \<open>State\<close>

record alb_form =
  credentialId :: string
  regionId :: string
  regions :: "alb_region list"
  loadBalancers :: "alb_load_balancer list"
  loadBalancerId :: string
  listeners :: "alb_listener list"
  listenerId :: string

definition empty_alb :: alb_form where
  "empty_alb = \<lparr>credentialId = [], regionId = [], regions = [], loadBalancers = [], loadBalancerId = [],
     listeners = [], listenerId = []\<rparr>"

record task_form =
  editingAutomationId :: string
  taskName :: string
  certificateId :: string
  form_actionType :: action_type
  form_intervalMinutes :: string
  uploadCredentialID :: string
  selectedTargetIDs :: "string list"
  useExistingTargets :: bool
  taskEnabled :: bool

definition empty_form :: "action_type \<Rightarrow> task_form" where
  "empty_form a = \<lparr>editingAutomationId = [], taskName = [], certificateId = [], form_actionType = a,
     form_intervalMinutes = ''1440'', uploadCredentialID = [], selectedTargetIDs = [],
     useExistingTargets = False, taskEnabled = True\<rparr>"

record dm_state =
  dm_credentials :: "cloud_credential list"
  dm_certificates :: "certificate list"
  dm_targets :: "deployment_target list"
  dm_initialAutomations :: "automation_task list"
  dm_params :: "(string \<times> string) list"
  dm_refreshes :: nat
  automations :: "automation_task list"
  automationOpen :: bool
  dm_form :: task_form
  dm_alb :: alb_form
  automationRuns :: "automation_run list"
  loadedRunsAutomationID :: string
  dm_error :: label
  dm_pending :: bool
  confirmDelete :: "(string \<times> string) option"
  runConfirmation :: "automation_task option"
  automationQuery :: string
  automationPage :: nat
  automationPageSize :: nat
  albPermissionError :: "(string \<times> string) option"
  run_regions :: nat
  run_balancers :: nat
  run_listeners :: nat
  run_history :: nat

subsection \<open>Requests\<close>

record inline_target =
  inline_cloudCredentialId :: string
  inline_regionId :: string
  inline_loadBalancerId :: string
  inline_listenerId :: string

text \<open>The interval is \<open>None\<close> when \<open>Number\<close> gives \<open>NaN\<close>, which JSON sends as null.\<close>

record task_payload =
  tp_name :: string
  tp_certificateId :: string
  tp_actionType :: action_type
  tp_intervalMinutes :: "rat option"
  tp_cloudCredentialId :: string
  tp_deploymentTargetIds :: "string list"
  tp_inlineDeploymentTarget :: "inline_target option"
  tp_enabled :: bool

datatype dm_call =
    KSaveTask string task_payload
  | KReloadAfterSave
  | KRun string
  | KToggle automation_task
  | KDeleteTask string "(string \<times> string) list"
  | KReload
  | KRegions nat string
  | KBalancers nat string string
  | KListeners nat string string string
  | KRuns nat string

datatype dm_reply =
    NoReply label
  | NotOk response
  | OkDone
  | OkRun "string option"
  | OkTasks "automation_task list"
  | OkRegions "alb_region list"
  | OkBalancers "alb_load_balancer list"
  | OkListeners "alb_listener list"
  | OkRuns "automation_run list"

definition toggle_payload :: "automation_task \<Rightarrow> task_payload" where
  "toggle_payload item =
     \<lparr>tp_name = task_name item, tp_certificateId = task_certificateId item, tp_actionType = actionType item,
      tp_intervalMinutes = Some (of_int (intervalMinutes item)),
      tp_cloudCredentialId = task_cloudCredentialId item, tp_deploymentTargetIds = targetIds item,
      tp_inlineDeploymentTarget = None, tp_enabled = \<not> enabled item\<rparr>"

text \<open>\<open>enc\<close> is \<open>encodeURIComponent\<close>.\<close>

definition dm_request :: "(string \<Rightarrow> string) \<Rightarrow> dm_call \<Rightarrow> string \<times> string" where
  "dm_request enc k =
     (case k of
        KSaveTask i y \<Rightarrow> if i \<noteq> [] then (''PATCH'', ''/api/automations/'' @ i) else (''POST'', ''/api/automations'')
      | KReloadAfterSave \<Rightarrow> (''GET'', ''/api/automations'')
      | KRun i \<Rightarrow> (''POST'', ''/api/automations/'' @ i @ ''/run'')
      | KToggle item \<Rightarrow> (''PATCH'', ''/api/automations/'' @ task_id item)
      | KDeleteTask i ps \<Rightarrow> (''DELETE'', ''/api/automations/'' @ i)
      | KReload \<Rightarrow> (''GET'', ''/api/automations'')
      | KRegions n c \<Rightarrow> (''GET'', ''/api/cloud-credentials/'' @ c @ ''/alb/regions'')
      | KBalancers n c r \<Rightarrow>
          (''GET'', ''/api/cloud-credentials/'' @ c @ ''/alb/load-balancers?regionId='' @ enc r)
      | KListeners n c r b \<Rightarrow>
          (''GET'', ''/api/cloud-credentials/'' @ c @ ''/alb/load-balancers/'' @ b @ ''/listeners?regionId='' @ enc r)
      | KRuns n i \<Rightarrow> (''GET'', ''/api/automations/'' @ i @ ''/runs''))"

subsection \<open>Derived values\<close>

definition automationDetail :: "dm_state \<Rightarrow> automation_task option" where
  "automationDetail s = List.find (\<lambda>t. Some (task_id t) = al_get ''automation'' (dm_params s)) (automations s)"

text \<open>The action labels are Chinese literals, so the search depends on their reading.\<close>

definition visibleAutomations :: "reading \<Rightarrow> dm_state \<Rightarrow> automation_task list" where
  "visibleAutomations rd s =
     (let q = toLowerCase (js_trim (automationQuery s))
      in if q = [] then automations s
         else filter (\<lambda>t. js_includes (toLowerCase (js_join '' ''
                [task_name t, certificateName t, zh_literal rd (actionLabels (actionType t)), lastStatus t])) q)
              (automations s))"

definition automationPageCount :: "reading \<Rightarrow> dm_state \<Rightarrow> nat" where
  "automationPageCount rd s = max 1 (ceil_div (length (visibleAutomations rd s)) (automationPageSize s))"

definition currentAutomationPage :: "reading \<Rightarrow> dm_state \<Rightarrow> nat" where
  "currentAutomationPage rd s = min (automationPage s) (automationPageCount rd s)"

definition paginatedAutomations :: "reading \<Rightarrow> dm_state \<Rightarrow> automation_task list" where
  "paginatedAutomations rd s =
     slice ((currentAutomationPage rd s - 1) * automationPageSize s) (currentAutomationPage rd s * automationPageSize s)
       (visibleAutomations rd s)"

subsection \<open>Handlers of the list and the editor\<close>

definition showALBPermissionError :: "string \<Rightarrow> string \<Rightarrow> dm_state \<Rightarrow> dm_state" where
  "showALBPermissionError permission operation s =
     s\<lparr>automationOpen := False, albPermissionError := Some (permission, operation)\<rparr>"

definition dismissALBPermissionError :: "dm_state \<Rightarrow> dm_state" where
  "dismissALBPermissionError s = s\<lparr>albPermissionError := None, automationOpen := True\<rparr>"

definition openAutomation :: "automation_task \<Rightarrow> dm_state \<Rightarrow> dm_state" where
  "openAutomation item s =
     s\<lparr>automationRuns := [], loadedRunsAutomationID := [],
       dm_params := al_set ''automation'' (task_id item) (dm_params s)\<rparr>"

definition closeAutomationDetail :: "(string \<times> string) list \<Rightarrow> dm_state \<Rightarrow> dm_state" where
  "closeAutomationDetail ps s =
     s\<lparr>automationRuns := [], loadedRunsAutomationID := [], dm_params := al_delete ''automation'' ps\<rparr>"

definition editAutomation :: "automation_task \<Rightarrow> dm_state \<Rightarrow> dm_state" where
  "editAutomation item s =
     (closeAutomationDetail (dm_params s)
       (s\<lparr>dm_form := \<lparr>editingAutomationId = task_id item, taskName = task_name item,
            certificateId = task_certificateId item, form_actionType = actionType item,
            form_intervalMinutes = int_string (intervalMinutes item),
            uploadCredentialID = task_cloudCredentialId item, selectedTargetIDs = targetIds item,
            useExistingTargets = (actionType item = DeployAlb), taskEnabled = enabled item\<rparr>\<rparr>))
     \<lparr>automationOpen := True\<rparr>"

definition handleCredentialChange :: "string \<Rightarrow> dm_state \<Rightarrow> dm_state" where
  "handleCredentialChange next s =
     s\<lparr>dm_alb := empty_alb\<lparr>credentialId := next\<rparr>, dm_error := no_text, albPermissionError := None\<rparr>"

definition handleRegionChange :: "string \<Rightarrow> dm_state \<Rightarrow> dm_state" where
  "handleRegionChange next s =
     s\<lparr>dm_alb := (dm_alb s)\<lparr>regionId := next, loadBalancers := [], loadBalancerId := [], listeners := [],
         listenerId := []\<rparr>, dm_error := no_text\<rparr>"

definition handleLoadBalancerChange :: "string \<Rightarrow> dm_state \<Rightarrow> dm_state" where
  "handleLoadBalancerChange next s =
     s\<lparr>dm_alb := (dm_alb s)\<lparr>loadBalancerId := next, listeners := [], listenerId := []\<rparr>, dm_error := no_text\<rparr>"

definition openNewAutomation :: "action_type \<Rightarrow> dm_state \<Rightarrow> dm_state" where
  "openNewAutomation a s =
     (handleCredentialChange [] (s\<lparr>dm_form := empty_form a\<rparr>))\<lparr>dm_error := no_text, automationOpen := True\<rparr>"

definition closeAutomationEditor :: "dm_state \<Rightarrow> dm_state" where
  "closeAutomationEditor s =
     s\<lparr>automationOpen := False, dm_form := (dm_form s)\<lparr>editingAutomationId := []\<rparr>, dm_error := no_text\<rparr>"

definition dm_refresh :: "dm_state \<Rightarrow> dm_state" where
  "dm_refresh s = s\<lparr>dm_refreshes := dm_refreshes s + 1\<rparr>"

subsection \<open>Saving, running, pausing, deleting\<close>

definition needs_inline :: "task_form \<Rightarrow> bool" where
  "needs_inline f = (form_actionType f = DeployAlb \<and> \<not> useExistingTargets f)"

definition task_payload_of :: "dm_state \<Rightarrow> task_payload" where
  "task_payload_of s =
     (let f = dm_form s; a = dm_alb s
      in \<lparr>tp_name = js_trim (taskName f), tp_certificateId = certificateId f, tp_actionType = form_actionType f,
          tp_intervalMinutes = (if form_actionType f = RenewCertificate then js_number (form_intervalMinutes f) else Some 60),
          tp_cloudCredentialId = (if form_actionType f = UploadSsl then uploadCredentialID f else []),
          tp_deploymentTargetIds =
            (if form_actionType f = DeployAlb \<and> useExistingTargets f then selectedTargetIDs f else []),
          tp_inlineDeploymentTarget =
            (if needs_inline f
             then Some \<lparr>inline_cloudCredentialId = credentialId a, inline_regionId = regionId a,
               inline_loadBalancerId = loadBalancerId a, inline_listenerId = listenerId a\<rparr>
             else None),
          tp_enabled = taskEnabled f\<rparr>)"

definition form_problem :: "dm_state \<Rightarrow> string option" where
  "form_problem s =
     (let f = dm_form s; a = dm_alb s
      in if js_trim (taskName f) = [] then Some ''enter a task name''
         else if certificateId f = [] then Some ''select a certificate''
         else if form_actionType f = UploadSsl \<and> uploadCredentialID f = []
           then Some ''select the credential for uploading the certificate''
         else if needs_inline f \<and>
             (credentialId a = [] \<or> regionId a = [] \<or> loadBalancerId a = [] \<or> listenerId a = [])
           then Some ''complete the ALB configuration''
         else if form_actionType f = DeployAlb \<and> useExistingTargets f \<and> length (selectedTargetIDs f) = 0
           then Some ''select a configured ALB target or configure a listener directly''
         else None)"

definition createAutomation :: "dm_state \<Rightarrow> dm_state \<times> dm_call list" where
  "createAutomation s =
     (let s0 = s\<lparr>dm_pending := True, dm_error := no_text\<rparr>
      in case form_problem s of
           Some problem \<Rightarrow> (s0\<lparr>dm_error := Zh problem, dm_pending := False\<rparr>, [])
         | None \<Rightarrow> (s0, [KSaveTask (editingAutomationId (dm_form s)) (task_payload_of s)]))"

text \<open>
  The first reply of \<open>createAutomation\<close>. A rejected fetch is not caught: the function ends there.
\<close>

definition task_saved :: "dm_reply \<Rightarrow> dm_state \<Rightarrow> dm_state \<times> dm_call list" where
  "task_saved r s =
     (case r of
        NoReply m \<Rightarrow> (s, [])
      | NotOk resp \<Rightarrow> (s\<lparr>dm_error := readError resp ''cannot create the automation task'', dm_pending := False\<rparr>, [])
      | _ \<Rightarrow> (s, [KReloadAfterSave]))"

definition reloaded_after_save :: "dm_reply \<Rightarrow> dm_state \<Rightarrow> dm_state" where
  "reloaded_after_save r s =
     (let s1 = (case r of OkTasks ts \<Rightarrow> s\<lparr>automations := ts\<rparr> | _ \<Rightarrow> s)
      in dm_refresh ((closeAutomationEditor s1)\<lparr>dm_pending := False\<rparr>))"

definition reloaded :: "dm_reply \<Rightarrow> dm_state \<Rightarrow> dm_state" where
  "reloaded r s = (case r of OkTasks ts \<Rightarrow> s\<lparr>automations := ts\<rparr> | _ \<Rightarrow> s)"

definition confirmRun :: "dm_state \<Rightarrow> dm_state \<times> dm_call list" where
  "confirmRun s =
     (case runConfirmation s of
        None \<Rightarrow> (s, [])
      | Some t \<Rightarrow> (s\<lparr>dm_pending := True, dm_error := no_text\<rparr>, [KRun (task_id t)]))"

definition run_started :: "string \<Rightarrow> dm_reply \<Rightarrow> dm_state \<Rightarrow> dm_state" where
  "run_started i r s =
     (case r of
        NoReply m \<Rightarrow> s\<lparr>dm_error := Zh ''cannot run the automation task now'', dm_pending := False\<rparr>
      | NotOk resp \<Rightarrow> s\<lparr>dm_error := readError resp ''cannot run the automation task now'', dm_pending := False\<rparr>
      | OkRun st \<Rightarrow>
          (dm_refresh (s\<lparr>automations :=
             map (\<lambda>t. if task_id t = i
                  then t\<lparr>lastStatus := (if st = Some ''waiting_for_certificate'' then ''skipped'' else ''queued'')\<rparr>
                  else t) (automations s)\<rparr>))
          \<lparr>dm_pending := False, runConfirmation := None\<rparr>
      | _ \<Rightarrow> s\<lparr>dm_pending := False\<rparr>)"

definition toggleAutomation :: "automation_task \<Rightarrow> dm_state \<Rightarrow> dm_state \<times> dm_call list" where
  "toggleAutomation item s = (s\<lparr>dm_pending := True, dm_error := no_text\<rparr>, [KToggle item])"

definition toggled :: "automation_task \<Rightarrow> dm_reply \<Rightarrow> dm_state \<Rightarrow> dm_state" where
  "toggled item r s =
     (case r of
        NoReply m \<Rightarrow> s\<lparr>dm_error := Zh ''cannot update the task status'', dm_pending := False\<rparr>
      | NotOk resp \<Rightarrow> s\<lparr>dm_error := readError resp ''cannot update the task status'', dm_pending := False\<rparr>
      | _ \<Rightarrow>
          (dm_refresh (s\<lparr>automations :=
             map (\<lambda>t. if task_id t = task_id item then t\<lparr>enabled := \<not> enabled t\<rparr> else t) (automations s)\<rparr>))
          \<lparr>dm_pending := False\<rparr>)"

definition deleteResource :: "dm_state \<Rightarrow> dm_state \<times> dm_call list" where
  "deleteResource s =
     (case confirmDelete s of
        None \<Rightarrow> (s, [])
      | Some (i, name) \<Rightarrow> (s\<lparr>dm_pending := True, dm_error := no_text\<rparr>, [KDeleteTask i (dm_params s)]))"

definition resource_deleted :: "string \<Rightarrow> (string \<times> string) list \<Rightarrow> dm_reply \<Rightarrow> dm_state \<Rightarrow> dm_state" where
  "resource_deleted i ps r s =
     (case r of
        NoReply m \<Rightarrow> s
      | NotOk resp \<Rightarrow> s\<lparr>dm_error := readError resp ''cannot delete the resource'', dm_pending := False\<rparr>
      | _ \<Rightarrow> dm_refresh
          ((closeAutomationDetail ps (s\<lparr>automations := filter (\<lambda>t. task_id t \<noteq> i) (automations s)\<rparr>))
           \<lparr>confirmDelete := None, dm_pending := False\<rparr>))"

end
