(* ===== verification/Deployment_App.thy ===== *)
theory Deployment_App
  imports Deployments
begin

text \<open>
  The automation tasks as an application: events, effects, the dispatch of replies, and the views
  of \<^verbatim>\<open>deployment-manager.tsx\<close> (table, editor, detail, permission guidance, confirmations).
\<close>

datatype dm_event =
    DmRefresh | DmNew action_type | DmQuery string | DmClearQuery | DmPage nat | DmPageSize nat
  | DmOpen automation_task | DmAskRun automation_task | DmToggle automation_task
  | DmEdit automation_task | DmAskDelete string string
  | DmCloseEditor | DmName string | DmCertificate string | DmInterval string | DmUpload string
  | DmTarget string bool | DmUseExisting bool | DmCredential string | DmRegion string
  | DmLoadBalancer string | DmListener string | DmEnabled bool | DmSave
  | DmCloseDetail | DmDetailRun automation_task
  | DmDismissPermission | DmCancelRun | DmConfirmRun | DmCancelDelete | DmConfirmDelete
  | DmRealtime string | DmNavigated "(string \<times> string) list"

subsection \<open>Effects\<close>

text \<open>
  After a change: the three ALB effects run again when one of their dependencies changed, the
  history effect when the task in the dialog is another object. \<open>fresh\<close> tells which tasks a
  handler has replaced by new objects.
\<close>

definition detail_changed :: "(string \<Rightarrow> bool) \<Rightarrow> dm_state \<Rightarrow> dm_state \<Rightarrow> bool" where
  "detail_changed fresh before s =
     (case (automationDetail before, automationDetail s) of
        (None, None) \<Rightarrow> False
      | (Some x, Some y) \<Rightarrow> task_id x \<noteq> task_id y \<or> fresh (task_id y)
      | _ \<Rightarrow> True)"

definition dm_commit :: "(string \<Rightarrow> bool) \<Rightarrow> dm_state \<Rightarrow> dm_state \<times> dm_call list \<Rightarrow> dm_state \<times> dm_call list" where
  "dm_commit fresh before after =
     (let (s, ks) = after; a = dm_alb s; b = dm_alb before;
          c1 = (credentialId a \<noteq> credentialId b);
          c2 = (c1 \<or> regionId a \<noteq> regionId b);
          c3 = (c2 \<or> loadBalancerId a \<noteq> loadBalancerId b);
          d = detail_changed fresh before s;
          n1 = (if c1 then run_regions s + 1 else run_regions s);
          n2 = (if c2 then run_balancers s + 1 else run_balancers s);
          n3 = (if c3 then run_listeners s + 1 else run_listeners s);
          n4 = (if d then run_history s + 1 else run_history s)
      in (s\<lparr>run_regions := n1, run_balancers := n2, run_listeners := n3, run_history := n4\<rparr>,
          ks @
          (if c1 \<and> credentialId a \<noteq> [] then [KRegions n1 (credentialId a)] else []) @
          (if c2 \<and> credentialId a \<noteq> [] \<and> regionId a \<noteq> []
           then [KBalancers n2 (credentialId a) (regionId a)] else []) @
          (if c3 \<and> credentialId a \<noteq> [] \<and> regionId a \<noteq> [] \<and> loadBalancerId a \<noteq> []
           then [KListeners n3 (credentialId a) (regionId a) (loadBalancerId a)] else []) @
          (case automationDetail s of
             Some t \<Rightarrow> if d then [KRuns n4 (task_id t)] else []
           | None \<Rightarrow> [])))"

definition toggle_target :: "string \<Rightarrow> bool \<Rightarrow> string list \<Rightarrow> string list" where
  "toggle_target i isSelected current = (if isSelected then current @ [i] else filter (\<lambda>x. x \<noteq> i) current)"

definition edit_form :: "(task_form \<Rightarrow> task_form) \<Rightarrow> dm_state \<Rightarrow> dm_state" where
  "edit_form f s = s\<lparr>dm_form := f (dm_form s)\<rparr>"

definition dm_act :: "dm_event \<Rightarrow> dm_state \<Rightarrow> dm_state \<times> dm_call list" where
  "dm_act e s =
     (case e of
        DmRefresh \<Rightarrow> (dm_refresh s, [])
      | DmNew a \<Rightarrow> (openNewAutomation a s, [])
      | DmQuery v \<Rightarrow> (s\<lparr>automationQuery := v, automationPage := 1\<rparr>, [])
      | DmClearQuery \<Rightarrow> (s\<lparr>automationQuery := [], automationPage := 1\<rparr>, [])
      | DmPage n \<Rightarrow> (s\<lparr>automationPage := n\<rparr>, [])
      | DmPageSize n \<Rightarrow> (s\<lparr>automationPageSize := n, automationPage := 1\<rparr>, [])
      | DmOpen t \<Rightarrow> (openAutomation t s, [])
      | DmAskRun t \<Rightarrow> (s\<lparr>runConfirmation := Some t\<rparr>, [])
      | DmToggle t \<Rightarrow> toggleAutomation t s
      | DmEdit t \<Rightarrow> (editAutomation t s, [])
      | DmAskDelete i name \<Rightarrow> (s\<lparr>confirmDelete := Some (i, name)\<rparr>, [])
      | DmCloseEditor \<Rightarrow> (closeAutomationEditor s, [])
      | DmName v \<Rightarrow> (edit_form (\<lambda>f. f\<lparr>taskName := v\<rparr>) s, [])
      | DmCertificate k \<Rightarrow> (edit_form (\<lambda>f. f\<lparr>certificateId := k\<rparr>) s, [])
      | DmInterval k \<Rightarrow> (edit_form (\<lambda>f. f\<lparr>form_intervalMinutes := k\<rparr>) s, [])
      | DmUpload k \<Rightarrow> (edit_form (\<lambda>f. f\<lparr>uploadCredentialID := k\<rparr>) s, [])
      | DmTarget i b \<Rightarrow> (edit_form (\<lambda>f. f\<lparr>selectedTargetIDs := toggle_target i b (selectedTargetIDs f)\<rparr>) s, [])
      | DmUseExisting b \<Rightarrow> (edit_form (\<lambda>f. f\<lparr>useExistingTargets := b, selectedTargetIDs := []\<rparr>) s, [])
      | DmCredential k \<Rightarrow> (handleCredentialChange k s, [])
      | DmRegion k \<Rightarrow> (handleRegionChange k s, [])
      | DmLoadBalancer k \<Rightarrow> (handleLoadBalancerChange k s, [])
      | DmListener k \<Rightarrow> (s\<lparr>dm_alb := (dm_alb s)\<lparr>listenerId := k\<rparr>\<rparr>, [])
      | DmEnabled b \<Rightarrow> (edit_form (\<lambda>f. f\<lparr>taskEnabled := b\<rparr>) s, [])
      | DmSave \<Rightarrow> createAutomation s
      | DmCloseDetail \<Rightarrow> (closeAutomationDetail (dm_params s) s, [])
      | DmDetailRun t \<Rightarrow> (closeAutomationDetail (dm_params s) (s\<lparr>runConfirmation := Some t\<rparr>), [])
      | DmDismissPermission \<Rightarrow> (dismissALBPermissionError s, [])
      | DmCancelRun \<Rightarrow> (s\<lparr>runConfirmation := None\<rparr>, [])
      | DmConfirmRun \<Rightarrow> confirmRun s
      | DmCancelDelete \<Rightarrow> (s\<lparr>confirmDelete := None\<rparr>, [])
      | DmConfirmDelete \<Rightarrow> deleteResource s
      | DmRealtime topic \<Rightarrow> (s, if topic = ''execution.status'' then [KReload] else [])
      | DmNavigated ps \<Rightarrow> (s\<lparr>dm_params := ps\<rparr>, []))"

definition dm_handle :: "dm_event \<Rightarrow> dm_state \<Rightarrow> dm_state \<times> dm_call list" where
  "dm_handle e s = dm_commit (\<lambda>i. False) s (dm_act e s)"

text \<open>The replies of the four effects; \<open>current\<close> says that the run was not aborted.\<close>

definition alb_failed :: "alb_error \<Rightarrow> dm_state \<Rightarrow> dm_state" where
  "alb_failed e s =
     (case e of
        ALBPermissionError message permission operation \<Rightarrow> showALBPermissionError permission operation s
      | PlainError message \<Rightarrow> s\<lparr>dm_error := message\<rparr>)"

definition effect_reply :: "bool \<Rightarrow> string \<Rightarrow> dm_reply \<Rightarrow> (dm_state \<Rightarrow> dm_state) \<Rightarrow> dm_state \<Rightarrow> dm_state" where
  "effect_reply current fallback r store s =
     (if \<not> current then s
      else (case r of
              NoReply m \<Rightarrow> s\<lparr>dm_error := m\<rparr>
            | NotOk resp \<Rightarrow> alb_failed (readALBError resp fallback) s
            | _ \<Rightarrow> store s))"

definition regions_loaded :: "nat \<Rightarrow> dm_reply \<Rightarrow> dm_state \<Rightarrow> dm_state" where
  "regions_loaded n r s =
     effect_reply (n = run_regions s) ''cannot read the regions'' r
       (\<lambda>s. case r of OkRegions rs \<Rightarrow> s\<lparr>dm_alb := (dm_alb s)\<lparr>regions := rs\<rparr>\<rparr> | _ \<Rightarrow> s) s"

definition balancers_loaded :: "nat \<Rightarrow> dm_reply \<Rightarrow> dm_state \<Rightarrow> dm_state" where
  "balancers_loaded n r s =
     effect_reply (n = run_balancers s) ''cannot read the ALBs'' r
       (\<lambda>s. case r of OkBalancers bs \<Rightarrow> s\<lparr>dm_alb := (dm_alb s)\<lparr>loadBalancers := bs\<rparr>\<rparr> | _ \<Rightarrow> s) s"

definition listeners_loaded :: "nat \<Rightarrow> dm_reply \<Rightarrow> dm_state \<Rightarrow> dm_state" where
  "listeners_loaded n r s =
     effect_reply (n = run_listeners s) ''cannot read the listeners'' r
       (\<lambda>s. case r of OkListeners ls \<Rightarrow> s\<lparr>dm_alb := (dm_alb s)\<lparr>listeners := ls\<rparr>\<rparr> | _ \<Rightarrow> s) s"

definition runs_loaded :: "nat \<Rightarrow> string \<Rightarrow> dm_reply \<Rightarrow> dm_state \<Rightarrow> dm_state" where
  "runs_loaded n i r s =
     (if n \<noteq> run_history s then s
      else (case r of
              OkRuns rs \<Rightarrow> s\<lparr>automationRuns := rs, loadedRunsAutomationID := i\<rparr>
            | _ \<Rightarrow> s\<lparr>automationRuns := [], loadedRunsAutomationID := i\<rparr>))"

definition replaced_tasks :: "dm_call \<Rightarrow> dm_reply \<Rightarrow> string \<Rightarrow> bool" where
  "replaced_tasks k r =
     (case (k, r) of
        (KReload, OkTasks ts) \<Rightarrow> (\<lambda>i. True)
      | (KReloadAfterSave, OkTasks ts) \<Rightarrow> (\<lambda>i. True)
      | (KRun i, OkRun st) \<Rightarrow> (\<lambda>j. j = i)
      | (KToggle t, OkDone) \<Rightarrow> (\<lambda>j. j = task_id t)
      | _ \<Rightarrow> (\<lambda>i. False))"

definition dm_continue :: "dm_call \<Rightarrow> dm_reply \<Rightarrow> dm_state \<Rightarrow> dm_state \<times> dm_call list" where
  "dm_continue k r s =
     (case k of
        KSaveTask i y \<Rightarrow> task_saved r s
      | KReloadAfterSave \<Rightarrow> (reloaded_after_save r s, [])
      | KRun i \<Rightarrow> (run_started i r s, [])
      | KToggle t \<Rightarrow> (toggled t r s, [])
      | KDeleteTask i ps \<Rightarrow> (resource_deleted i ps r s, [])
      | KReload \<Rightarrow> (reloaded r s, [])
      | KRegions n c \<Rightarrow> (regions_loaded n r s, [])
      | KBalancers n c rg \<Rightarrow> (balancers_loaded n r s, [])
      | KListeners n c rg b \<Rightarrow> (listeners_loaded n r s, [])
      | KRuns n i \<Rightarrow> (runs_loaded n i r s, []))"

definition dm_resume :: "dm_call \<Rightarrow> dm_reply \<Rightarrow> dm_state \<Rightarrow> dm_state \<times> dm_call list" where
  "dm_resume k r s = dm_commit (replaced_tasks k r) s (dm_continue k r s)"

definition dm_answers :: "dm_call \<Rightarrow> dm_reply set" where
  "dm_answers k =
     NoReply ` (range Raw \<union> range Zh) \<union> range NotOk \<union>
     (case k of
        KRun i \<Rightarrow> range OkRun
      | KReload \<Rightarrow> range OkTasks
      | KReloadAfterSave \<Rightarrow> range OkTasks
      | KRegions n c \<Rightarrow> range OkRegions
      | KBalancers n c r \<Rightarrow> range OkBalancers
      | KListeners n c r b \<Rightarrow> range OkListeners
      | KRuns n i \<Rightarrow> range OkRuns
      | _ \<Rightarrow> {OkDone})"

subsection \<open>The list\<close>

definition action_of_key :: "string \<Rightarrow> action_type option" where
  "action_of_key key = List.find (\<lambda>a. action_id a = key) [RenewCertificate, UploadSsl, DeployAlb]"

definition dm_toolbar :: "dm_state \<Rightarrow> dm_event view" where
  "dm_toolbar s =
     El ''div''
      [Button (Zh ''refresh'') False DmRefresh,
       Menu (Zh ''new task'')
         [(''renew_certificate'', Zh ''certificate renewal'', False),
          (''upload_ssl'', Zh ''upload to the cloud certificate platform'', False),
          (''deploy_alb'', Zh ''ALB configuration update'', False)]
         (\<lambda>key. map_option DmNew (action_of_key key)),
       Field (Zh ''search automation tasks'') (automationQuery s) DmQuery]"

definition task_actions :: "bool \<Rightarrow> automation_task \<Rightarrow> dm_event table_action list" where
  "task_actions pending t =
     [action ''details'' (Zh ''details'') (DmOpen t) False,
      action ''run'' (Zh ''run now'') (DmAskRun t) (pending \<or> \<not> enabled t),
      action ''toggle'' (if enabled t then Zh ''pause'' else Zh ''enable'') (DmToggle t) pending,
      action ''edit'' (Zh ''edit'') (DmEdit t) False,
      action ''delete'' (Zh ''delete'') (DmAskDelete (task_id t) (task_name t)) False]"

definition task_row :: "bool \<Rightarrow> automation_task \<Rightarrow> dm_event view" where
  "task_row pending t =
     El ''Table.Row''
      [Txt (Raw (task_name t)), Txt (Raw (certificateName t)), Txt (Zh (actionLabels (actionType t))),
       Txt (if actionType t = RenewCertificate
            then Cat [Zh ''every '', interval_label (intervalMinutes t), Zh '' checked'']
            else Zh ''on certificate update''),
       Txt (if actionType t = RenewCertificate then formatDateTime (nextRunAt t) ZhCN else Raw ''-''),
       Txt (formatDateTime (lastRunAt t) ZhCN),
       StatusTag (if enabled t then ''active'' else ''disabled''),
       El ''div'' [StatusTag (lastStatus t), show_if (task_lastError t \<noteq> []) (Txt (Raw (task_lastError t)))],
       TableActions (task_actions pending t)]"

definition AutomationTable :: "automation_task list \<Rightarrow> bool \<Rightarrow> dm_event view" where
  "AutomationTable items pending =
     El ''Table''
      [El ''Table.Header'' (map (\<lambda>g. Txt (Zh g))
         [''name'', ''certificate'', ''action'', ''trigger'', ''next check'', ''last run'', ''task state'',
          ''status'', ''actions'']),
       El ''Table.Body'' (map (task_row pending) items)]"

definition dm_list :: "reading \<Rightarrow> dm_state \<Rightarrow> dm_event view" where
  "dm_list rd s =
     El ''section''
      [show_if (length (automations s) = 0)
         (ResourceEmptyState (Zh ''no automation tasks yet'')
            (Some (Zh ''tasks renew certificates, upload them or update the ALB'')) None None),
       show_if (0 < length (automations s) \<and> length (visibleAutomations rd s) = 0)
         (ResourceEmptyState (Zh ''no matching automation tasks'')
            (Some (Zh ''try other keywords'')) (Some (Zh ''clear the search'', DmClearQuery)) None),
       show_if (0 < length (visibleAutomations rd s))
         (El ''fragment''
           [AutomationTable (paginatedAutomations rd s) (dm_pending s),
            ResourcePagination (currentAutomationPage rd s) (automationPageCount rd s)
              (length (visibleAutomations rd s)) (automationPageSize s) DmPage DmPageSize])]"

subsection \<open>The editor\<close>

definition target_picker :: "dm_state \<Rightarrow> dm_event view" where
  "target_picker s =
     El ''div role=group''
      (map (\<lambda>t. Check (Cat [Raw (target_name t), Raw (target_regionId t), Zh '' dot '', Raw (listenerProtocol t)])
              (target_id t \<in> set (selectedTargetIDs (dm_form s))) (DmTarget (target_id t))) (dm_targets s))"

definition credential_items :: "dm_state \<Rightarrow> (string \<times> label \<times> bool) list" where
  "credential_items s =
     map (\<lambda>c. (cred_id c, Raw (cred_name c @ '' ('' @ credentialHint c @ '')''), False)) (dm_credentials s)"

definition inline_fields :: "dm_state \<Rightarrow> dm_event view" where
  "inline_fields s =
     (let a = dm_alb s
      in El ''fragment''
       [Choice (Zh ''cloud credential'') (selected_key (credentialId a)) False (credential_items s) DmCredential,
        Choice (Zh ''region'') (selected_key (regionId a)) (length (regions a) = 0)
          (map (\<lambda>r. (region_id r, Raw (region_name r @ '' ('' @ region_id r @ '')''), False)) (regions a)) DmRegion,
        Choice (Raw ''ALB'') (selected_key (loadBalancerId a)) (length (loadBalancers a) = 0)
          (map (\<lambda>b. (lb_id b, Cat [Raw (if lb_name b \<noteq> [] then lb_name b else lb_id b), Zh '' dot '',
             Raw (lb_status b)], False)) (loadBalancers a)) DmLoadBalancer,
        Choice (Zh ''HTTPS / QUIC listener'') (selected_key (listenerId a)) (length (listeners a) = 0)
          (map (\<lambda>l. (listener_id l,
             Cat [Raw (listener_protocol l), Raw '':'', Raw (nat_digits (listener_port l)), Zh '' dot '',
               Raw (if listener_description l \<noteq> [] then listener_description l else listener_id l)],
             listener_protocol l \<notin> set [''HTTPS'', ''QUIC''])) (listeners a)) DmListener,
        Txt (Zh ''reading regions needs alb:DescribeRegions; saving checks the listener'')])"

definition alb_fields :: "dm_state \<Rightarrow> dm_event view" where
  "alb_fields s =
     (if editingAutomationId (dm_form s) \<noteq> [] then
        El ''div'' [Txt (Zh ''configured ALB targets''), target_picker s,
          Txt (Zh ''editing links existing targets only'')]
      else El ''fragment''
        [show_if (0 < length (dm_targets s))
           (Check (Zh ''use configured ALB targets'') (useExistingTargets (dm_form s)) DmUseExisting),
         (if useExistingTargets (dm_form s)
          then El ''div'' [Txt (Zh ''configured ALB targets''), target_picker s]
          else inline_fields s)])"

definition interval_items :: "(string \<times> label \<times> bool) list" where
  "interval_items =
     [(''60'', Zh ''hourly'', False), (''360'', Zh ''every 6 hours'', False), (''720'', Zh ''every 12 hours'', False),
      (''1440'', Zh ''daily'', False), (''10080'', Zh ''weekly'', False)]"

definition editor_fields :: "dm_state \<Rightarrow> dm_event view list" where
  "editor_fields s =
     (let f = dm_form s
      in [Field (Zh ''task name'') (taskName f) DmName,
          Choice (Zh ''certificate'') (selected_key (certificateId f)) False
            (map (\<lambda>c. (cert_id c, Raw (cert_name c), False)) (dm_certificates s)) DmCertificate,
          show_if (form_actionType f = RenewCertificate)
            (Choice (Zh ''check interval'') (Some (form_intervalMinutes f)) False interval_items DmInterval),
          show_if (form_actionType f = UploadSsl)
            (Choice (Zh ''Aliyun credential'') (selected_key (uploadCredentialID f)) False (credential_items s) DmUpload),
          show_if (form_actionType f = DeployAlb) (alb_fields s),
          Check (Zh ''enable this task'') (taskEnabled f) DmEnabled,
          show_if (shown (dm_error s)) (FormError (dm_error s)),
          ModalCancelButton DmCloseEditor,
          Button (if dm_pending s then Zh ''saving'' else Zh ''save the task'') (dm_pending s) DmSave])"

definition dm_editor :: "dm_state \<Rightarrow> dm_event view" where
  "dm_editor s =
     (let f = dm_form s; a = form_actionType f
      in ResourceModal (automationOpen s)
        (if editingAutomationId f \<noteq> [] then Cat [Zh ''edit '', Zh (actionLabels a)] else Zh (actionLabels a))
        (if a = RenewCertificate then Zh ''checks the renewal window at the set interval''
         else if a = UploadSsl then Zh ''uploads the certificate after an update''
         else Zh ''uploads the certificate and updates the listeners after an update'')
        DmCloseEditor [] [El ''form'' (editor_fields s)])"

subsection \<open>Detail, guidance and confirmations\<close>

definition run_item :: "automation_run \<Rightarrow> dm_event view" where
  "run_item r =
     El ''div''
      [Txt (if triggerType r = Manual then Zh ''manual run''
            else if triggerType r = Scheduler then Zh ''scheduled check'' else Zh ''certificate update''),
       Txt (formatDateTime (Some (run_createdAt r)) ZhCN),
       Txt (Cat [Raw (nat_digits (succeededJobs r)), Raw ''/'', Raw (nat_digits (totalJobs r)), Zh '' done'']),
       StatusTag (if run_status r = ''partial_failed'' then ''failed'' else run_status r),
       show_if (run_lastError r \<noteq> []) (Txt (Raw (run_lastError r)))]"

definition detail_view :: "dm_state \<Rightarrow> automation_task \<Rightarrow> dm_event view" where
  "detail_view s t =
     (let loaded = (loadedRunsAutomationID s = task_id t)
      in El ''div''
       [Txt (Raw (certificateName t)), Txt (Zh (actionLabels (actionType t))),
        Txt (if actionType t = RenewCertificate then interval_label (intervalMinutes t) else Zh ''on certificate update''),
        StatusTag (lastStatus t), StatusTag (if enabled t then ''active'' else ''disabled''),
        show_if (actionType t = RenewCertificate) (Txt (formatDateTime (nextRunAt t) ZhCN)),
        Txt (Raw (nat_digits (targetCount t))),
        show_if (task_lastError t \<noteq> []) (Txt (Raw (task_lastError t))),
        Txt (if loaded then Cat [Raw (nat_digits (length (automationRuns s))), Zh '' runs''] else Zh ''loading''),
        show_if (length (automationRuns s) = 0 \<and> loaded) (Txt (Zh ''no runs yet'')),
        show_if loaded (El ''fragment'' (map run_item (automationRuns s))),
        Button (Zh ''edit'') False (DmEdit t),
        Button (Zh ''run now'') (\<not> enabled t) (DmDetailRun t),
        Button (Zh ''delete'') False (DmAskDelete (task_id t) (task_name t))])"

definition dm_detail_dialog :: "dm_state \<Rightarrow> dm_event view" where
  "dm_detail_dialog s =
     ResourceModal (automationDetail s \<noteq> None)
       (case automationDetail s of Some t \<Rightarrow> Raw (task_name t) | None \<Rightarrow> Zh ''automation task details'')
       (Zh ''configuration, last status and effects'') DmCloseDetail []
       (case automationDetail s of Some t \<Rightarrow> [detail_view s t] | None \<Rightarrow> [])"

definition dm_permission_dialog :: "dm_state \<Rightarrow> dm_event view" where
  "dm_permission_dialog s =
     ResourceModal (albPermissionError s \<noteq> None) (Zh ''missing ALB permission'')
       (Zh ''the ALB resources of the credential cannot be read or updated'') DmDismissPermission
       [Button (Zh ''understood'') False DmDismissPermission]
       (case albPermissionError s of
          None \<Rightarrow> []
        | Some (permission, operation) \<Rightarrow>
            [Txt (case al_get operation albOperationLabels of Some l \<Rightarrow> Zh l | None \<Rightarrow> Zh ''read ALB resources''),
             Txt (Raw permission),
             Txt (Zh ''grant the permission to the user of the access key in RAM'')])"

definition run_effects :: "automation_task \<Rightarrow> dm_event view list" where
  "run_effects t =
     [show_if (actionType t = UploadSsl) (Txt (Zh ''uploads the certificate'')),
      show_if (actionType t = DeployAlb)
        (Txt (Cat [Zh ''updates the certificate of '', Raw (nat_digits (targetCount t)), Zh '' listeners''])),
      show_if (actionType t = RenewCertificate) (Txt (Zh ''checks the renewal window and may issue''))]"

definition dm_run_dialog :: "dm_state \<Rightarrow> dm_event view" where
  "dm_run_dialog s =
     ResourceModal (runConfirmation s \<noteq> None) (Zh ''confirm the run'')
       (Zh ''the task is queued at once and may change cloud resources'') DmCancelRun
       [ModalCancelButton DmCancelRun,
        Button (if dm_pending s then Zh ''queueing'' else Zh ''confirm the run'') (dm_pending s) DmConfirmRun]
       (case runConfirmation s of
          None \<Rightarrow> []
        | Some t \<Rightarrow>
            [Txt (Raw (task_name t)), Txt (Raw (certificateName t)), Txt (Zh (actionLabels (actionType t))),
             Txt (if actionType t = RenewCertificate
                  then Cat [Zh ''triggered by hand, planned interval '', interval_label (intervalMinutes t)]
                  else Zh ''triggered by hand'')] @
            run_effects t @ [show_if (shown (dm_error s)) (FormError (dm_error s))])"

definition dm_delete_dialog :: "dm_state \<Rightarrow> dm_event view" where
  "dm_delete_dialog s =
     ResourceModal (confirmDelete s \<noteq> None) (Zh ''confirm the deletion'')
       (Zh ''cannot be used for new automations after the deletion'') DmCancelDelete
       [ModalCancelButton DmCancelDelete,
        Button (if dm_pending s then Zh ''deleting'' else Zh ''confirm the deletion'') (dm_pending s) DmConfirmDelete]
       (case confirmDelete s of
          None \<Rightarrow> []
        | Some (i, name) \<Rightarrow> [Txt (Cat [Zh ''delete '', Raw name, Zh ''? a resource in use is not deleted''])])"

definition dm_view :: "reading \<Rightarrow> dm_state \<Rightarrow> dm_event view" where
  "dm_view rd s =
     El ''div''
      [show_if (shown (dm_error s)) (FormError (dm_error s)),
       dm_toolbar s, dm_list rd s, dm_editor s, dm_detail_dialog s, dm_permission_dialog s,
       dm_run_dialog s, dm_delete_dialog s]"

subsection \<open>The application\<close>

text \<open>New props after a refresh. The task list is a hook initialised from its prop only once.\<close>

definition dm_outside :: "dm_state \<Rightarrow> dm_state set" where
  "dm_outside s =
     {s\<lparr>dm_credentials := cs, dm_certificates := certs, dm_targets := ts, dm_initialAutomations := as\<rparr> | cs certs ts as. True}"

definition deployment_app :: "reading \<Rightarrow> (dm_state, dm_event, dm_call, dm_reply) app" where
  "deployment_app rd =
     \<lparr>app_view = dm_view rd, app_ambient = (\<lambda>s. range DmRealtime \<union> range DmNavigated), app_handle = dm_handle,
      app_resume = dm_resume, app_answers = dm_answers, app_outside = dm_outside\<rparr>"

definition dm_mount :: "cloud_credential list \<Rightarrow> certificate list \<Rightarrow> deployment_target list \<Rightarrow> automation_task list \<Rightarrow>
    (string \<times> string) list \<Rightarrow> dm_state \<times> dm_call list" where
  "dm_mount cs certs ts as ps =
     (let s = \<lparr>dm_credentials = cs, dm_certificates = certs, dm_targets = ts, dm_initialAutomations = as,
        dm_params = ps, dm_refreshes = 0, automations = as, automationOpen = False,
        dm_form = empty_form RenewCertificate, dm_alb = empty_alb, automationRuns = [],
        loadedRunsAutomationID = [], dm_error = no_text, dm_pending = False, confirmDelete = None,
        runConfirmation = None, automationQuery = [], automationPage = 1, automationPageSize = 10,
        albPermissionError = None, run_regions = 0, run_balancers = 0, run_listeners = 0, run_history = 0\<rparr>
      in dm_commit (\<lambda>i. False) (s\<lparr>automations := []\<rparr>) (s, []))"

end
