(* ===== verification/Deployment_Facts.thy ===== *)
theory Deployment_Facts
  imports Deployment_App
begin

text \<open>
  Properties of the automation tasks: the busy flag and where it hangs, what a saved task may
  contain, the ALB selection under late replies, the list after a refresh and after a toggle.
\<close>

lemmas dm_app = deployment_app_def app.simps
lemmas dm_handler_defs = openNewAutomation_def openAutomation_def closeAutomationDetail_def editAutomation_def
  handleCredentialChange_def handleRegionChange_def handleLoadBalancerChange_def closeAutomationEditor_def
  dismissALBPermissionError_def dm_refresh_def edit_form_def
lemmas dm_reply_defs = task_saved_def reloaded_after_save_def reloaded_def run_started_def toggled_def
  resource_deleted_def regions_loaded_def balancers_loaded_def listeners_loaded_def runs_loaded_def
  effect_reply_def alb_failed_def showALBPermissionError_def

definition dm_mutating :: "dm_call \<Rightarrow> bool" where
  "dm_mutating k = (case k of
      KSaveTask i y \<Rightarrow> True | KReloadAfterSave \<Rightarrow> True | KRun i \<Rightarrow> True | KToggle t \<Rightarrow> True
    | KDeleteTask i ps \<Rightarrow> True | _ \<Rightarrow> False)"

lemma dm_mutating_simps [simp]:
  "dm_mutating (KSaveTask i y)" "dm_mutating KReloadAfterSave" "dm_mutating (KRun i)" "dm_mutating (KToggle t)"
  "dm_mutating (KDeleteTask i ps)" "\<not> dm_mutating KReload" "\<not> dm_mutating (KRegions n c)"
  "\<not> dm_mutating (KBalancers n c r)" "\<not> dm_mutating (KListeners n c r b)" "\<not> dm_mutating (KRuns n i)"
  by (simp_all add: dm_mutating_def)

subsection \<open>Effects\<close>

lemma dm_commit_same [simp]:
  "dm_pending (fst (dm_commit f b x)) = dm_pending (fst x)"
  "dm_form (fst (dm_commit f b x)) = dm_form (fst x)"
  "dm_alb (fst (dm_commit f b x)) = dm_alb (fst x)"
  "automations (fst (dm_commit f b x)) = automations (fst x)"
  "automationQuery (fst (dm_commit f b x)) = automationQuery (fst x)"
  "confirmDelete (fst (dm_commit f b x)) = confirmDelete (fst x)"
  "runConfirmation (fst (dm_commit f b x)) = runConfirmation (fst x)"
  by (cases x; simp add: dm_commit_def Let_def)+

lemma dm_commit_calls [simp]: "filter dm_mutating (snd (dm_commit f b x)) = filter dm_mutating (snd x)"
  by (cases x) (simp add: dm_commit_def Let_def split: option.split)

lemma dm_commit_mem: "k \<in> set (snd (dm_commit f b x)) \<Longrightarrow> dm_mutating k \<Longrightarrow> k \<in> set (snd x)"
  by (cases x) (auto simp: dm_commit_def Let_def split: option.splits if_splits)

lemma dm_commit_quiet:
  assumes "dm_alb s = dm_alb b" "automationDetail s = automationDetail b"
  shows "dm_commit (\<lambda>i. False) b (s, ks) = (s, ks)"
proof -
  have "\<not> detail_changed (\<lambda>i. False) b s"
    using assms(2) by (simp add: detail_changed_def split: option.split)
  then show ?thesis using assms(1) by (simp add: dm_commit_def Let_def split: option.split)
qed

subsection \<open>Paging\<close>

interpretation dm_pages: paged_view "visibleAutomations rd" automationPage automationPageSize "automationPageCount rd"
    "currentAutomationPage rd" "paginatedAutomations rd" "\<lambda>n s. s\<lparr>automationPage := n\<rparr>"
  by unfold_locales
    (simp_all add: automationPageCount_def currentAutomationPage_def paginatedAutomations_def visibleAutomations_def)

subsection \<open>What the view offers\<close>

lemma offered_task_row:
  "offered (task_row pending t) =
     {DmOpen t, DmEdit t, DmAskDelete (task_id t) (task_name t)} \<union>
     (if pending then {} else {DmToggle t}) \<union> (if pending \<or> \<not> enabled t then {} else {DmAskRun t})"
proof -
  have d: "distinct (map ta_id (task_actions pending t))"
    by (simp add: task_actions_def action_def)
  have "offered (task_row pending t) = offered (TableActions (task_actions pending t))"
    by (simp add: task_row_def)
  then show ?thesis
    unfolding TableActions_offered [OF d] by (auto simp: task_actions_def action_def)
qed

text \<open>What must hold when an event with a guard is on offer.\<close>

definition dm_guard :: "dm_state \<Rightarrow> dm_event \<Rightarrow> bool" where
  "dm_guard s e = (case e of
      DmSave \<Rightarrow> \<not> dm_pending s
    | DmToggle t \<Rightarrow> \<not> dm_pending s
    | DmConfirmRun \<Rightarrow> \<not> dm_pending s \<and> runConfirmation s \<noteq> None
    | DmConfirmDelete \<Rightarrow> \<not> dm_pending s \<and> confirmDelete s \<noteq> None
    | DmUseExisting b \<Rightarrow> editingAutomationId (dm_form s) = []
    | DmRegion k \<Rightarrow> k \<in> region_id ` set (regions (dm_alb s))
    | DmLoadBalancer k \<Rightarrow> k \<in> lb_id ` set (loadBalancers (dm_alb s))
    | DmListener k \<Rightarrow> \<exists>l\<in>set (listeners (dm_alb s)). listener_id l = k \<and> listener_protocol l \<in> {''HTTPS'', ''QUIC''}
    | _ \<Rightarrow> True)"

lemma guard_toolbar: "\<forall>e\<in>offered (dm_toolbar s). dm_guard s e"
  by (auto simp: dm_toolbar_def action_of_key_def dm_guard_def split: if_splits)

lemma guard_row: "\<forall>e\<in>offered (task_row (dm_pending s) t). dm_guard s e"
  by (simp add: offered_task_row dm_guard_def)

lemma guard_table: "\<forall>e\<in>offered (AutomationTable ts (dm_pending s)). dm_guard s e"
  using guard_row by (simp add: AutomationTable_def)

lemma guard_pagination: "\<forall>e\<in>offered (ResourcePagination p pc n ps DmPage DmPageSize). dm_guard s e"
  by (auto simp: ResourcePagination_offered dm_guard_def)

lemma guard_list: "\<forall>e\<in>offered (dm_list rd s). dm_guard s e"
  using guard_table guard_pagination by (simp add: dm_list_def dm_guard_def ball_Un del: offered_simple(5))

lemma guard_picker: "\<forall>e\<in>offered (target_picker s). dm_guard s e"
  by (simp add: target_picker_def dm_guard_def)

lemma guard_inline: "\<forall>e\<in>offered (inline_fields s). dm_guard s e"
  by (auto simp: inline_fields_def Let_def dm_guard_def)

lemma guard_alb: "\<forall>e\<in>offered (alb_fields s). dm_guard s e"
  using guard_picker guard_inline by (simp add: alb_fields_def dm_guard_def ball_Un)

lemma guard_editor: "\<forall>e\<in>offered (dm_editor s). dm_guard s e"
  using guard_alb by (simp add: dm_editor_def editor_fields_def Let_def dm_guard_def ball_Un)

lemma guard_detail_view: "\<forall>e\<in>offered (detail_view s t). dm_guard s e"
proof -
  have r: "offered (run_item x) = {}" for x by (simp add: run_item_def)
  show ?thesis
    unfolding detail_view_def Let_def by (simp add: r dm_guard_def ball_Un)
qed

lemma guard_detail: "\<forall>e\<in>offered (dm_detail_dialog s). dm_guard s e"
  using guard_detail_view
  by (cases "automationDetail s") (simp_all add: dm_detail_dialog_def dm_guard_def ball_Un)

lemma guard_permission: "\<forall>e\<in>offered (dm_permission_dialog s). dm_guard s e"
  by (cases "albPermissionError s") (simp_all add: dm_permission_dialog_def dm_guard_def case_prod_beta)

lemma guard_run: "\<forall>e\<in>offered (dm_run_dialog s). dm_guard s e"
  by (cases "runConfirmation s") (simp_all add: dm_run_dialog_def run_effects_def dm_guard_def)

lemma guard_delete: "\<forall>e\<in>offered (dm_delete_dialog s). dm_guard s e"
  by (cases "confirmDelete s") (simp_all add: dm_delete_dialog_def dm_guard_def case_prod_beta)

lemmas guard_dialogs = guard_permission guard_run guard_delete

lemma dm_offered_guards:
  assumes "e \<in> offered (dm_view rd s) \<union> (range DmRealtime \<union> range DmNavigated)"
  shows "dm_guard s e"
proof -
  have "\<forall>e\<in>offered (dm_view rd s). dm_guard s e"
    using guard_toolbar guard_list guard_editor guard_detail guard_dialogs by (simp add: dm_view_def ball_Un)
  then show ?thesis using assms by (auto simp: dm_guard_def)
qed

subsection \<open>The busy flag\<close>

lemma dm_act_flight:
  assumes "e \<in> offered (dm_view rd s) \<union> (range DmRealtime \<union> range DmNavigated)"
  shows "filter dm_mutating (snd (dm_act e s)) = [] \<and> dm_pending (fst (dm_act e s)) = dm_pending s \<or>
    \<not> dm_pending s \<and> dm_pending (fst (dm_act e s)) \<and> length (filter dm_mutating (snd (dm_act e s))) = 1"
  using dm_offered_guards [OF assms]
  by (cases e) (auto simp: dm_guard_def dm_act_def dm_handler_defs createAutomation_def toggleAutomation_def confirmRun_def
      deleteResource_def Let_def split: option.splits)

lemma dm_background:
  "\<not> dm_mutating k \<Longrightarrow> dm_pending (fst (dm_continue k r s)) = dm_pending s \<and> snd (dm_continue k r s) = []"
  by (cases k; cases r) (auto simp: dm_continue_def dm_reply_defs split: alb_error.split)

lemma dm_mutation_reply:
  assumes "dm_pending s"
  shows "filter dm_mutating (snd (dm_continue k r s)) = [] \<or>
    dm_pending (fst (dm_continue k r s)) \<and> length (filter dm_mutating (snd (dm_continue k r s))) = 1"
  using assms by (cases k) (simp_all add: dm_continue_def task_saved_def split: dm_reply.split)

interpretation dm_flight: single_flight "deployment_app rd" dm_pending dm_mutating
proof unfold_locales
  fix e s s' ks
  assume "e \<in> offered (app_view (deployment_app rd) s) \<union> app_ambient (deployment_app rd) s"
    "app_handle (deployment_app rd) e s = (s', ks)"
  then show "filter dm_mutating ks = [] \<and> dm_pending s' = dm_pending s \<or>
      \<not> dm_pending s \<and> dm_pending s' \<and> length (filter dm_mutating ks) = 1"
    using dm_act_flight [of e rd s] dm_commit_calls [of "\<lambda>i. False" s "dm_act e s"]
      dm_commit_same(1) [of "\<lambda>i. False" s "dm_act e s"]
    by (simp add: dm_app dm_handle_def)
next
  fix k r s s' ks
  assume "\<not> dm_mutating k" "app_resume (deployment_app rd) k r s = (s', ks)"
  then show "filter dm_mutating ks = [] \<and> dm_pending s' = dm_pending s"
    using dm_background [of k r s] dm_commit_calls [of "replaced_tasks k r" s "dm_continue k r s"]
      dm_commit_same(1) [of "replaced_tasks k r" s "dm_continue k r s"]
    by (simp add: dm_app dm_resume_def)
next
  fix k r s s' ks
  assume "dm_pending s" "app_resume (deployment_app rd) k r s = (s', ks)"
  then show "filter dm_mutating ks = [] \<or> dm_pending s' \<and> length (filter dm_mutating ks) = 1"
    using dm_mutation_reply [of s k r] dm_commit_calls [of "replaced_tasks k r" s "dm_continue k r s"]
      dm_commit_same(1) [of "replaced_tasks k r" s "dm_continue k r s"]
    by (simp add: dm_app dm_resume_def)
next
  fix s s'
  assume "s' \<in> app_outside (deployment_app rd) s"
  then show "dm_pending s' = dm_pending s" by (auto simp: dm_app dm_outside_def)
qed

lemma dm_mount_quiet:
  "\<not> dm_pending (fst (dm_mount cs certs ts as ps))" "filter dm_mutating (snd (dm_mount cs certs ts as ps)) = []"
  by (simp_all add: dm_mount_def Let_def)

lemma row_events_offered:
  assumes "t \<in> set (paginatedAutomations rd s)" "e \<in> offered (task_row (dm_pending s) t)"
  shows "e \<in> offered (app_view (deployment_app rd) s) \<union> app_ambient (deployment_app rd) s"
proof -
  have "visibleAutomations rd s \<noteq> []"
    using assms(1) dm_pages.page_visible [of rd s] by auto
  with assms show ?thesis
    by (auto simp: dm_app dm_view_def dm_list_def AutomationTable_def)
qed

definition sample_task :: automation_task where
  "sample_task = \<lparr>task_id = ''t1'', task_name = ''renew'', task_certificateId = ''c1'', certificateName = ''site'',
     actionType = RenewCertificate, intervalMinutes = 1440, enabled = True, nextRunAt = None, lastRunAt = None,
     lastStatus = [], task_lastError = [], targetCount = 0, task_cloudCredentialId = [], targetIds = [],
     task_createdAt = []\<rparr>"

abbreviation dm_sample_mount :: "dm_state \<times> dm_call list" where
  "dm_sample_mount \<equiv> dm_mount [] [] [] [sample_task] []"

lemma dm_sample_fields:
  "automations (fst dm_sample_mount) = [sample_task]" "\<not> dm_pending (fst dm_sample_mount)"
  "dm_params (fst dm_sample_mount) = []" "automationQuery (fst dm_sample_mount) = []"
  "automationPage (fst dm_sample_mount) = 1" "automationPageSize (fst dm_sample_mount) = 10"
  "confirmDelete (fst dm_sample_mount) = None" "dm_alb (fst dm_sample_mount) = empty_alb"
  by (simp_all add: dm_mount_def dm_commit_def Let_def)

lemma dm_sample_start: "ui_reach (deployment_app rd) dm_sample_mount (fst dm_sample_mount, [])"
proof -
  have "dm_sample_mount = (fst dm_sample_mount, [])"
    by (simp add: dm_mount_def dm_commit_def Let_def automationDetail_def detail_changed_def)
  then show ?thesis using ui_reach.start [of "deployment_app rd" dm_sample_mount] by simp
qed

lemma dm_sample_paginated:
  assumes "automations s = [sample_task]" "automationQuery s = []" "automationPage s = 1" "automationPageSize s = 10"
  shows "paginatedAutomations rd s = [sample_task]"
  using assms by (simp add: paginatedAutomations_def currentAutomationPage_def automationPageCount_def
      visibleAutomations_def ceil_div_def slice_def)

lemma dm_sample_offered:
  assumes "e \<in> offered (task_row False sample_task)"
  shows "e \<in> offered (app_view (deployment_app rd) (fst dm_sample_mount)) \<union>
    app_ambient (deployment_app rd) (fst dm_sample_mount)"
  using assms dm_sample_paginated [of "fst dm_sample_mount" rd] row_events_offered [of sample_task rd "fst dm_sample_mount" e]
  by (simp add: dm_sample_fields)

lemma dm_sample_event:
  assumes "e \<in> offered (task_row False sample_task)" "snd (dm_handle e (fst dm_sample_mount)) = ks"
  shows "ui_reach (deployment_app rd) dm_sample_mount (fst (dm_handle e (fst dm_sample_mount)), ks)"
proof -
  have "app_handle (deployment_app rd) e (fst dm_sample_mount) = (fst (dm_handle e (fst dm_sample_mount)), ks)"
    using assms(2) by (simp add: dm_app prod_eq_iff)
  then show ?thesis using ui_reach_event [OF dm_sample_start dm_sample_offered [OF assms(1)]] by fastforce
qed

text \<open>
  C17. The manager sends one change at a time: in every reachable state at most one request that
  saves, reloads after a save, runs, pauses or deletes a task is waiting, and the buttons that
  send such requests are disabled while it is.
\<close>

theorem task_mutations_single:
  assumes "ui_reach (deployment_app rd) (dm_mount cs certs ts as ps) (s, q)"
  shows "length (filter dm_mutating q) \<le> 1 \<and> (filter dm_mutating q = [] \<or> dm_pending s)"
  using dm_flight.reach_flight [OF assms] dm_mount_quiet by fastforce

lemma task_mutations_single_witness:
  "snd (dm_handle (DmToggle sample_task) (fst dm_sample_mount)) = [KToggle sample_task] \<and>
   dm_pending (fst (dm_handle (DmToggle sample_task) (fst dm_sample_mount)))"
proof -
  let ?x = "dm_handle (DmToggle sample_task) (fst dm_sample_mount)"
  have q: "snd ?x = [KToggle sample_task]"
    by (simp add: dm_handle_def dm_act_def toggleAutomation_def dm_commit_def Let_def automationDetail_def
        dm_sample_fields detail_changed_def)
  have "ui_reach (deployment_app rd) dm_sample_mount (fst ?x, snd ?x)" for rd
    by (rule dm_sample_event) (simp_all add: offered_task_row)
  from task_mutations_single [OF this] q show ?thesis by simp
qed

text \<open>
  C39. A lost connection disables the page for good: when the request that saves or deletes a task
  is rejected by the network, \<open>pending\<close> stays up, and in every later state no save, run, pause or
  deletion can be sent any more. (Running and pausing catch the rejection and recover.)
\<close>

theorem rejected_save_hangs:
  assumes "ui_reach (deployment_app rd) (dm_mount cs certs ts as ps) (s, q)"
    and "k \<in> set q" "k = KSaveTask i y \<or> k = KDeleteTask i ps'"
    and "app_resume (deployment_app rd) k (NoReply m) s = (s', ks)"
    and "ui_reach (deployment_app rd) (s', remove1 k q @ ks) (s2, q2)"
  shows "dm_pending s2 \<and> filter dm_mutating q2 = []"
proof -
  have k: "dm_mutating k" using assms(3) by auto
  note f = dm_flight.reach_flight [OF assms(1) dm_mount_quiet]
  have "filter dm_mutating q \<noteq> []" by (rule filter_in_nonempty) (rule assms(2), rule k)
  then have p: "dm_pending s" using f by simp
  have none: "filter dm_mutating (remove1 k q) = []"
    using f filter_remove1_count [of k q dm_mutating, OF assms(2) k] by simp
  have c: "dm_continue k (NoReply m) s = (s, [])"
    using assms(3) by (auto simp: dm_continue_def task_saved_def resource_deleted_def)
  have "filter dm_mutating ks = []" "dm_pending s'"
    using assms(4) p dm_commit_calls [of "replaced_tasks k (NoReply m)" s "(s, [])"]
      dm_commit_same(1) [of "replaced_tasks k (NoReply m)" s "(s, [])"]
    by (simp_all add: dm_app dm_resume_def c)
  then have "dm_pending (fst (s', remove1 k q @ ks))" "filter dm_mutating (snd (s', remove1 k q @ ks)) = []"
    using none by simp_all
  from dm_flight.stuck [OF assms(5) this] show ?thesis by simp
qed

lemma rejected_save_hangs_witness:
  "\<forall>rd. \<exists>s. dm_pending s \<and> ui_reach (deployment_app rd) dm_sample_mount (s, [])"
proof
  fix rd
  let ?x = "dm_handle (DmAskDelete ''t1'' ''renew'') (fst dm_sample_mount)"
  have x: "snd ?x = []" "confirmDelete (fst ?x) = Some (''t1'', ''renew'')" "\<not> dm_pending (fst ?x)"
      "dm_params (fst ?x) = []"
    by (simp_all add: dm_handle_def dm_act_def dm_commit_def Let_def automationDetail_def dm_sample_fields detail_changed_def)
  have 1: "ui_reach (deployment_app rd) dm_sample_mount (fst ?x, [])"
    by (rule dm_sample_event) (simp_all add: offered_task_row x(1), simp add: sample_task_def)
  have o: "DmConfirmDelete \<in> offered (app_view (deployment_app rd) (fst ?x)) \<union> app_ambient (deployment_app rd) (fst ?x)"
    using x by (simp add: dm_app dm_view_def dm_delete_dialog_def)
  let ?s = "fst (dm_handle DmConfirmDelete (fst ?x))"
  have h: "app_handle (deployment_app rd) DmConfirmDelete (fst ?x) = (?s, [KDeleteTask ''t1'' []])"
    using x by (simp add: dm_app dm_handle_def dm_act_def deleteResource_def dm_commit_quiet automationDetail_def)
  have 2: "ui_reach (deployment_app rd) dm_sample_mount (?s, [KDeleteTask ''t1'' []])"
    using ui_reach_event [OF 1 o h] by simp
  have k: "KDeleteTask ''t1'' [] \<in> set [KDeleteTask ''t1'' []]" by simp
  let ?r = "app_resume (deployment_app rd) (KDeleteTask ''t1'' []) (NoReply no_text) ?s"
  have r: "?r = (fst ?r, snd ?r)" by simp
  have e: "KDeleteTask ''t1'' [] = KSaveTask i y \<or> KDeleteTask ''t1'' [] = KDeleteTask ''t1'' []" for i y by simp
  have a: "NoReply no_text \<in> app_answers (deployment_app rd) (KDeleteTask ''t1'' [])"
    by (simp add: dm_app dm_answers_def)
  note 3 = ui_reach_reply [OF 2 k a r]
  have "snd ?r = []"
    by (simp add: dm_app dm_resume_def dm_continue_def resource_deleted_def dm_commit_def Let_def detail_changed_def
        replaced_tasks_def split: option.split)
  moreover have "dm_pending (fst ?r)"
    using rejected_save_hangs [OF 2 k e r ui_reach.start] by simp
  ultimately show "\<exists>s. dm_pending s \<and> ui_reach (deployment_app rd) dm_sample_mount (s, [])" using 3 by auto
qed

end
