(* ===== verification/Deployment_Editor_Facts.thy ===== *)
theory Deployment_Editor_Facts
  imports Deployment_Facts
begin

text \<open>
  The editor of automation tasks: what it saves and which late replies it ignores; and two ways the
  list on the page departs from the server.
\<close>

subsection \<open>What is saved\<close>

definition dm_form_inv :: "dm_state \<Rightarrow> bool" where
  "dm_form_inv s \<longleftrightarrow>
     editingAutomationId (dm_form s) = [] \<or> form_actionType (dm_form s) \<noteq> DeployAlb \<or> useExistingTargets (dm_form s)"

lemma dm_act_form_inv:
  assumes "dm_form_inv s" "dm_guard s e"
  shows "dm_form_inv (fst (dm_act e s))"
  using assms
  by (cases e) (auto simp: dm_form_inv_def dm_guard_def dm_act_def dm_handler_defs empty_form_def createAutomation_def
      toggleAutomation_def confirmRun_def deleteResource_def Let_def split: option.splits)

lemma dm_continue_form:
  "dm_form (fst (dm_continue k r s)) = dm_form s \<or>
   dm_form (fst (dm_continue k r s)) = (dm_form s)\<lparr>editingAutomationId := []\<rparr>"
  by (cases k; cases r) (auto simp: dm_continue_def dm_reply_defs dm_handler_defs Let_def split: alb_error.split)

lemma dm_form_reach:
  assumes "ui_reach (deployment_app rd) (dm_mount cs certs ts as ps) x"
  shows "dm_form_inv (fst x)"
  using assms
proof (rule ui_reach_inv [where I = dm_form_inv])
  show "dm_form_inv (fst (dm_mount cs certs ts as ps))"
    by (simp add: dm_mount_def dm_form_inv_def empty_form_def Let_def)
next
  fix e and s :: dm_state
  assume "dm_form_inv s" "e \<in> offered (app_view (deployment_app rd) s) \<union> app_ambient (deployment_app rd) s"
  then show "dm_form_inv (fst (app_handle (deployment_app rd) e s))"
    using dm_act_form_inv [OF _ dm_offered_guards [of e rd s]] by (simp add: dm_app dm_handle_def dm_form_inv_def)
next
  fix k r and s :: dm_state
  assume "dm_form_inv s"
  then show "dm_form_inv (fst (app_resume (deployment_app rd) k r s))"
    using dm_continue_form [of k r s] by (auto simp: dm_app dm_resume_def dm_form_inv_def)
next
  fix s s' :: dm_state
  assume "dm_form_inv s" "s' \<in> app_outside (deployment_app rd) s"
  then show "dm_form_inv s'" by (auto simp: dm_app dm_outside_def dm_form_inv_def)
qed

definition complete_target :: "inline_target \<Rightarrow> bool" where
  "complete_target x \<longleftrightarrow> inline_cloudCredentialId x \<noteq> [] \<and> inline_regionId x \<noteq> [] \<and>
     inline_loadBalancerId x \<noteq> [] \<and> inline_listenerId x \<noteq> []"

text \<open>Which parts of a payload an action needs, and which it must not carry.\<close>

definition coherent_payload :: "task_payload \<Rightarrow> bool" where
  "coherent_payload y =
     (case tp_actionType y of
        RenewCertificate \<Rightarrow> tp_cloudCredentialId y = [] \<and> tp_deploymentTargetIds y = [] \<and> tp_inlineDeploymentTarget y = None
      | UploadSsl \<Rightarrow> tp_cloudCredentialId y \<noteq> [] \<and> tp_deploymentTargetIds y = [] \<and>
          tp_inlineDeploymentTarget y = None \<and> tp_intervalMinutes y = Some 60
      | DeployAlb \<Rightarrow> tp_cloudCredentialId y = [] \<and> tp_intervalMinutes y = Some 60 \<and>
          (case tp_inlineDeploymentTarget y of
             None \<Rightarrow> tp_deploymentTargetIds y \<noteq> []
           | Some x \<Rightarrow> tp_deploymentTargetIds y = [] \<and> complete_target x))"

lemma form_problem_None:
  "form_problem s = None \<Longrightarrow>
     tp_name (task_payload_of s) \<noteq> [] \<and> js_trim (tp_name (task_payload_of s)) = tp_name (task_payload_of s) \<and>
     tp_certificateId (task_payload_of s) \<noteq> [] \<and> coherent_payload (task_payload_of s)"
  by (cases "form_actionType (dm_form s)")
    (auto simp: form_problem_def task_payload_of_def Let_def coherent_payload_def complete_target_def needs_inline_def
      split: if_splits)

text \<open>
  C3. A task is saved only complete and only from the save button with nothing else waiting: it has
  a trimmed name and a certificate; an upload names its credential, an ALB update names existing
  targets or one complete new target but not both, and no action carries the settings of
  another; and changing an existing task never creates a target in passing.
\<close>

theorem task_save_coherent:
  assumes "ui_reach (deployment_app rd) (dm_mount cs certs ts as ps) (s, q)"
    and "e \<in> offered (app_view (deployment_app rd) s) \<union> app_ambient (deployment_app rd) s"
    and "app_handle (deployment_app rd) e s = (s', ks)" "KSaveTask i y \<in> set ks"
  shows "e = DmSave \<and> \<not> dm_pending s \<and> tp_name y \<noteq> [] \<and> js_trim (tp_name y) = tp_name y \<and>
    tp_certificateId y \<noteq> [] \<and> coherent_payload y \<and> (i = [] \<or> tp_inlineDeploymentTarget y = None)"
proof -
  have k: "KSaveTask i y \<in> set (snd (dm_act e s))"
    using assms(3,4) dm_commit_mem [of "KSaveTask i y" "\<lambda>i. False" s "dm_act e s"] by (simp add: dm_app dm_handle_def)
  then have e: "e = DmSave"
    by (cases e) (auto simp: dm_act_def toggleAutomation_def confirmRun_def deleteResource_def split: option.splits if_splits)
  have g: "dm_guard s e" using assms(2) by (intro dm_offered_guards [of e rd s]) (simp add: dm_app)
  from k e have f: "form_problem s = None" and y: "i = editingAutomationId (dm_form s)" "y = task_payload_of s"
    by (auto simp: dm_act_def createAutomation_def Let_def split: option.splits)
  have "i = [] \<or> tp_inlineDeploymentTarget y = None"
    using dm_form_reach [OF assms(1)] by (auto simp: y dm_form_inv_def task_payload_of_def needs_inline_def Let_def)
  with form_problem_None [OF f] e g y show ?thesis by (simp add: dm_guard_def)
qed

lemma dm_sample_edit:
  "snd (dm_handle (DmEdit sample_task) (fst dm_sample_mount)) = []"
  "automationOpen (fst (dm_handle (DmEdit sample_task) (fst dm_sample_mount)))"
  "\<not> dm_pending (fst (dm_handle (DmEdit sample_task) (fst dm_sample_mount)))"
  "dm_form (fst (dm_handle (DmEdit sample_task) (fst dm_sample_mount))) =
     \<lparr>editingAutomationId = ''t1'', taskName = ''renew'', certificateId = ''c1'', form_actionType = RenewCertificate,
      form_intervalMinutes = int_string 1440, uploadCredentialID = [], selectedTargetIDs = [],
      useExistingTargets = False, taskEnabled = True\<rparr>"
  by (simp_all add: dm_handle_def dm_act_def editAutomation_def closeAutomationDetail_def dm_commit_def Let_def
      automationDetail_def dm_sample_fields detail_changed_def sample_task_def dm_mount_def empty_alb_def)

lemma task_save_coherent_witness:
  "coherent_payload (task_payload_of (fst (dm_handle (DmEdit sample_task) (fst dm_sample_mount))))"
proof -
  let ?s = "fst (dm_handle (DmEdit sample_task) (fst dm_sample_mount))"
  have 1: "ui_reach (deployment_app rd) dm_sample_mount (?s, [])" for rd
    by (rule dm_sample_event) (simp_all add: offered_task_row dm_sample_edit(1))
  have o: "DmSave \<in> offered (app_view (deployment_app rd) ?s) \<union> app_ambient (deployment_app rd) ?s" for rd
    using dm_sample_edit(2,3) by (simp add: dm_app dm_view_def dm_editor_def editor_fields_def Let_def)
  have t: "js_trim ''renew'' = ''renew''" by code_simp
  have h: "app_handle (deployment_app rd) DmSave ?s = (fst (dm_handle DmSave ?s), snd (dm_handle DmSave ?s))" for rd
    by (simp add: dm_app)
  have "form_problem ?s = None"
    by (simp add: form_problem_def Let_def dm_sample_edit(4) needs_inline_def t)
  then have "KSaveTask (editingAutomationId (dm_form ?s)) (task_payload_of ?s) \<in> set (snd (dm_handle DmSave ?s))"
    by (simp add: dm_handle_def dm_act_def createAutomation_def Let_def dm_commit_def)
  from task_save_coherent [OF 1 o h this] show ?thesis by simp
qed

subsection \<open>Late replies of the effects\<close>

text \<open>Whether what a request was made for is still selected.\<close>

definition still_selected :: "dm_call \<Rightarrow> dm_state \<Rightarrow> bool" where
  "still_selected k s =
     (case k of
        KRegions n c \<Rightarrow> c = credentialId (dm_alb s)
      | KBalancers n c r \<Rightarrow> c = credentialId (dm_alb s) \<and> r = regionId (dm_alb s)
      | KListeners n c r b \<Rightarrow> c = credentialId (dm_alb s) \<and> r = regionId (dm_alb s) \<and> b = loadBalancerId (dm_alb s)
      | KRuns n i \<Rightarrow> map_option task_id (automationDetail s) = Some i
      | _ \<Rightarrow> True)"

definition effect_run :: "dm_call \<Rightarrow> dm_state \<Rightarrow> (nat \<times> nat) option" where
  "effect_run k s =
     (case k of
        KRegions n c \<Rightarrow> Some (n, run_regions s)
      | KBalancers n c r \<Rightarrow> Some (n, run_balancers s)
      | KListeners n c r b \<Rightarrow> Some (n, run_listeners s)
      | KRuns n i \<Rightarrow> Some (n, run_history s)
      | _ \<Rightarrow> None)"

definition in_date :: "dm_state \<Rightarrow> dm_call \<Rightarrow> bool" where
  "in_date s k = (case effect_run k s of None \<Rightarrow> True | Some (n, m) \<Rightarrow> n < m \<or> n = m \<and> still_selected k s)"

lemma automationDetail_runs [simp]:
  "automationDetail (s\<lparr>run_regions := n\<rparr>) = automationDetail s"
  "automationDetail (s\<lparr>run_balancers := n\<rparr>) = automationDetail s"
  "automationDetail (s\<lparr>run_listeners := n\<rparr>) = automationDetail s"
  "automationDetail (s\<lparr>run_history := n\<rparr>) = automationDetail s"
  by (simp_all add: automationDetail_def)

lemma in_date_commit_old:
  assumes "in_date before k"
    and "run_regions s = run_regions before" "run_balancers s = run_balancers before"
    and "run_listeners s = run_listeners before" "run_history s = run_history before"
  shows "in_date (fst (dm_commit f before (s, ks))) k"
proof (cases k)
  case (KRuns n i)
  then show ?thesis
    using assms
    by (auto simp: in_date_def effect_run_def still_selected_def dm_commit_def Let_def detail_changed_def
        split: option.splits)
qed (use assms in \<open>auto simp: in_date_def effect_run_def still_selected_def dm_commit_def Let_def\<close>)

lemma in_date_commit_new:
  assumes "k \<in> set (snd (dm_commit f before (s, ks)))" "k \<in> set ks \<Longrightarrow> effect_run k s = None"
  shows "in_date (fst (dm_commit f before (s, ks))) k"
proof (cases "k \<in> set ks")
  case True
  with assms(2) show ?thesis by (cases k) (simp_all add: in_date_def effect_run_def)
next
  case False
  with assms(1) show ?thesis
    by (cases "automationDetail s")
      (auto simp: dm_commit_def Let_def in_date_def effect_run_def still_selected_def split: if_splits)
qed

lemma dm_act_runs:
  "run_regions (fst (dm_act e s)) = run_regions s \<and> run_balancers (fst (dm_act e s)) = run_balancers s \<and>
   run_listeners (fst (dm_act e s)) = run_listeners s \<and> run_history (fst (dm_act e s)) = run_history s \<and>
   (\<forall>k\<in>set (snd (dm_act e s)). \<forall>z. effect_run k z = None)"
  by (cases e) (auto simp: dm_act_def dm_handler_defs createAutomation_def toggleAutomation_def confirmRun_def
      deleteResource_def effect_run_def Let_def split: option.splits)

lemma dm_continue_runs:
  "run_regions (fst (dm_continue k r s)) = run_regions s \<and> run_balancers (fst (dm_continue k r s)) = run_balancers s \<and>
   run_listeners (fst (dm_continue k r s)) = run_listeners s \<and> run_history (fst (dm_continue k r s)) = run_history s \<and>
   (\<forall>k'\<in>set (snd (dm_continue k r s)). \<forall>z. effect_run k' z = None)"
  by (cases k; cases r) (auto simp: dm_continue_def dm_reply_defs dm_handler_defs effect_run_def Let_def
      split: alb_error.split)

lemma in_date_step:
  assumes "\<forall>k\<in>set q. in_date s k" "dm_commit f s x = (s', ks)"
    and "run_regions (fst x) = run_regions s" "run_balancers (fst x) = run_balancers s"
    and "run_listeners (fst x) = run_listeners s" "run_history (fst x) = run_history s"
    and "\<forall>k\<in>set (snd x). \<forall>z. effect_run k z = None"
  shows "\<forall>k\<in>set q \<union> set ks. in_date s' k"
proof -
  have x: "dm_commit f s (fst x, snd x) = (s', ks)" using assms(2) by simp
  show ?thesis
    using in_date_commit_old [of s _ "fst x" f "snd x"] in_date_commit_new [of _ f s "fst x" "snd x"] assms x by auto
qed

lemma in_date_reach:
  assumes "ui_reach (deployment_app rd) (dm_mount cs certs ts as ps) x"
  shows "\<forall>k\<in>set (snd x). in_date (fst x) k"
  using assms
proof (rule ui_reach_sys_inv [where J = "\<lambda>s q. \<forall>k\<in>set q. in_date s k"])
  show "\<forall>k\<in>set (snd (dm_mount cs certs ts as ps)). in_date (fst (dm_mount cs certs ts as ps)) k"
    unfolding dm_mount_def Let_def by (intro ballI in_date_commit_new) simp_all
next
  fix e s q s' ks
  assume *: "\<forall>k\<in>set q. in_date s k" "app_handle (deployment_app rd) e s = (s', ks)"
  then have "dm_commit (\<lambda>i. False) s (dm_act e s) = (s', ks)" by (simp add: dm_app dm_handle_def)
  from in_date_step [OF *(1) this] dm_act_runs [of e s] show "\<forall>k\<in>set (q @ ks). in_date s' k" by simp
next
  fix k r s q s' ks
  assume *: "\<forall>k\<in>set q. in_date s k" "app_resume (deployment_app rd) k r s = (s', ks)"
  then have "dm_commit (replaced_tasks k r) s (dm_continue k r s) = (s', ks)" by (simp add: dm_app dm_resume_def)
  from in_date_step [OF *(1) this] dm_continue_runs [of k r s]
  show "\<forall>k\<in>set (remove1 k q @ ks). in_date s' k"
    using set_remove1_subset [of k q] by auto
next
  fix s q s'
  assume "\<forall>k\<in>set q. in_date s k" "s' \<in> app_outside (deployment_app rd) s"
  then show "\<forall>k\<in>set q. in_date s' k"
    by (auto simp: dm_app dm_outside_def in_date_def effect_run_def still_selected_def automationDetail_def
        split: dm_call.splits)
qed

text \<open>
  A server for the effects: \<open>R c\<close> are the regions it lists for a credential, \<open>B c r\<close> the load balancers
  of a region, \<open>L c r b\<close> the listeners of a load balancer and \<open>H i\<close> the runs of a task. Its answers
  may come in any order, be parts of these lists, or be errors.
\<close>

definition dm_serving :: "(string \<Rightarrow> alb_region set) \<Rightarrow> (string \<Rightarrow> string \<Rightarrow> alb_load_balancer set) \<Rightarrow>
    (string \<Rightarrow> string \<Rightarrow> string \<Rightarrow> alb_listener set) \<Rightarrow> (string \<Rightarrow> automation_run set) \<Rightarrow> dm_call \<Rightarrow> dm_reply \<Rightarrow> bool" where
  "dm_serving R B L H k r \<longleftrightarrow>
     (case (k, r) of
        (KRegions n c, OkRegions xs) \<Rightarrow> set xs \<subseteq> R c
      | (KBalancers n c g, OkBalancers xs) \<Rightarrow> set xs \<subseteq> B c g
      | (KListeners n c g b, OkListeners xs) \<Rightarrow> set xs \<subseteq> L c g b
      | (KRuns n i, OkRuns xs) \<Rightarrow> set xs \<subseteq> H i
      | _ \<Rightarrow> True)"

text \<open>The lists on offer and what was chosen from them belong to the selection above them.\<close>

definition alb_belongs :: "(string \<Rightarrow> alb_region set) \<Rightarrow> (string \<Rightarrow> string \<Rightarrow> alb_load_balancer set) \<Rightarrow>
    (string \<Rightarrow> string \<Rightarrow> string \<Rightarrow> alb_listener set) \<Rightarrow> alb_form \<Rightarrow> bool" where
  "alb_belongs R B L a \<longleftrightarrow>
     set (regions a) \<subseteq> R (credentialId a) \<and>
     set (loadBalancers a) \<subseteq> B (credentialId a) (regionId a) \<and>
     set (listeners a) \<subseteq> L (credentialId a) (regionId a) (loadBalancerId a) \<and>
     (regionId a = [] \<or> regionId a \<in> region_id ` R (credentialId a)) \<and>
     (loadBalancerId a = [] \<or> loadBalancerId a \<in> lb_id ` B (credentialId a) (regionId a)) \<and>
     (listenerId a = [] \<or> (\<exists>l\<in>L (credentialId a) (regionId a) (loadBalancerId a).
        listener_id l = listenerId a \<and> listener_protocol l \<in> {''HTTPS'', ''QUIC''}))"

lemma dm_act_belongs:
  assumes "alb_belongs R B L (dm_alb s)" "dm_guard s e"
  shows "alb_belongs R B L (dm_alb (fst (dm_act e s)))"
  using assms
  by (cases e) (auto simp: alb_belongs_def dm_guard_def dm_act_def dm_handler_defs empty_alb_def createAutomation_def
      toggleAutomation_def confirmRun_def deleteResource_def Let_def split: option.splits)

lemma dm_act_runs_shown:
  assumes "set (automationRuns s) \<subseteq> H (loadedRunsAutomationID s)"
  shows "set (automationRuns (fst (dm_act e s))) \<subseteq> H (loadedRunsAutomationID (fst (dm_act e s)))"
  using assms
  by (cases e) (auto simp: dm_act_def dm_handler_defs createAutomation_def
      toggleAutomation_def confirmRun_def deleteResource_def Let_def split: option.splits)

lemma dm_continue_belongs:
  assumes "alb_belongs R B L (dm_alb s)" "in_date s k" "dm_serving R B L H k r"
  shows "alb_belongs R B L (dm_alb (fst (dm_continue k r s)))"
  using assms
  by (cases k; cases r) (auto simp: alb_belongs_def in_date_def effect_run_def still_selected_def dm_serving_def
      dm_continue_def dm_reply_defs dm_handler_defs Let_def split: alb_error.split)

lemma dm_continue_runs_shown:
  assumes "set (automationRuns s) \<subseteq> H (loadedRunsAutomationID s)" "dm_serving R B L H k r"
  shows "set (automationRuns (fst (dm_continue k r s))) \<subseteq> H (loadedRunsAutomationID (fst (dm_continue k r s)))"
  using assms
  by (cases k; cases r) (auto simp: dm_serving_def dm_continue_def dm_reply_defs dm_handler_defs Let_def
      split: alb_error.split)

lemma dm_commit_shown [simp]:
  "automationRuns (fst (dm_commit f b x)) = automationRuns (fst x)"
  "loadedRunsAutomationID (fst (dm_commit f b x)) = loadedRunsAutomationID (fst x)"
  by (cases x; simp add: dm_commit_def Let_def)+

definition shown_belongs :: "(string \<Rightarrow> alb_region set) \<Rightarrow> (string \<Rightarrow> string \<Rightarrow> alb_load_balancer set) \<Rightarrow>
    (string \<Rightarrow> string \<Rightarrow> string \<Rightarrow> alb_listener set) \<Rightarrow> (string \<Rightarrow> automation_run set) \<Rightarrow> dm_state \<Rightarrow> bool" where
  "shown_belongs R B L H s \<longleftrightarrow>
     alb_belongs R B L (dm_alb s) \<and> set (automationRuns s) \<subseteq> H (loadedRunsAutomationID s)"

lemma belongs_reach:
  assumes "ui_reach (answering (dm_serving R B L H) (deployment_app rd)) (dm_mount cs certs ts as ps) x"
  shows "(\<forall>k\<in>set (snd x). in_date (fst x) k) \<and> shown_belongs R B L H (fst x)"
  using assms
proof (induction rule: ui_reach.induct)
  case start
  show ?case using in_date_reach [OF ui_reach.start]
    by (simp add: dm_mount_def shown_belongs_def alb_belongs_def empty_alb_def Let_def)
next
  case (step x y)
  have d: "\<forall>k\<in>set (snd y). in_date (fst y) k"
    using in_date_reach [OF answering_reach [OF ui_reach.step [OF step.hyps]]] .
  have b: "shown_belongs R B L H (fst x)" using step.IH ..
  from step.hyps(2) have "shown_belongs R B L H (fst y)"
  proof (cases rule: ui_step.cases)
    case (event e s s' ks q)
    have "dm_guard s e" using event(3) by (intro dm_offered_guards [of e rd s]) (simp add: dm_app)
    moreover have "fst y = fst (dm_commit (\<lambda>i. False) s (dm_act e s))"
      using event(2,4) by (simp add: dm_app dm_handle_def)
    ultimately show ?thesis
      using b event(1) dm_act_belongs [of R B L s e] dm_act_runs_shown [of s H e] by (simp add: shown_belongs_def)
  next
    case (reply k q r s s' ks)
    have "in_date s k" "dm_serving R B L H k r" using step.IH reply(1,3,4) by auto
    moreover have "fst y = fst (dm_commit (replaced_tasks k r) s (dm_continue k r s))"
      using reply(2,5) by (simp add: dm_app dm_resume_def)
    ultimately show ?thesis
      using b reply(1) dm_continue_belongs [of R B L s k H r] dm_continue_runs_shown [of s H R B L k r]
      by (simp add: shown_belongs_def)
  next
    case (outside s' s q)
    with b show ?thesis by (auto simp: dm_app dm_outside_def shown_belongs_def)
  qed
  with d show ?case ..
qed

lemma stale_reply:
  assumes "in_date s k" "\<not> still_selected k s"
  shows "app_resume (deployment_app rd) k r s = (s, [])"
proof -
  have c: "dm_continue k r s = (s, [])" "replaced_tasks k r = (\<lambda>i. False)"
    using assms
    by (cases k; auto simp: in_date_def effect_run_def still_selected_def dm_continue_def regions_loaded_def
        balancers_loaded_def listeners_loaded_def runs_loaded_def effect_reply_def replaced_tasks_def)+
  have "detail_changed (\<lambda>i. False) s s = False"
    by (simp add: detail_changed_def split: option.split)
  then show ?thesis
    by (simp add: dm_app dm_resume_def c dm_commit_def Let_def split: option.split)
qed

text \<open>
  C4. A late reply cannot mix resources. Let the server list the regions \<open>R c\<close> for a credential, the load
  balancers \<open>B c r\<close>, the listeners \<open>L c r b\<close> and the runs \<open>H i\<close> of a task. Then, whatever the order of
  selections and replies: a reply to a request made for a credential, region, load balancer or
  task that is no longer the selected one changes nothing; the regions on offer are regions of the
  selected credential, the load balancers on offer belong to the selected credential and region,
  the listeners on offer to the selected load balancer; a selected region, load balancer or
  listener is one of these, the listener an HTTPS or QUIC one; and the run history held is that of
  the task whose identifier is held with it, the only task the dialog shows it for.
\<close>

theorem late_reply_ignored:
  assumes "ui_reach (answering (dm_serving R B L H) (deployment_app rd)) (dm_mount cs certs ts as ps) (s, q)"
  shows "(\<forall>k\<in>set q. \<forall>r. \<not> still_selected k s \<longrightarrow> app_resume (deployment_app rd) k r s = (s, [])) \<and>
    alb_belongs R B L (dm_alb s) \<and> set (automationRuns s) \<subseteq> H (loadedRunsAutomationID s)"
  using belongs_reach [OF assms] stale_reply by (simp add: shown_belongs_def)

lemma late_reply_ignored_witness:
  "\<forall>rd r R B L H. \<exists>s q. ui_reach (answering (dm_serving R B L H) (deployment_app rd)) dm_sample_mount (s, q) \<and>
     KRuns 1 ''t1'' \<in> set q \<and> app_resume (deployment_app rd) (KRuns 1 ''t1'') r s = (s, []) \<and> alb_belongs R B L (dm_alb s)"
proof (intro allI)
  fix rd r R B L H
  let ?a = "answering (dm_serving R B L H) (deployment_app rd)"
  let ?s = "fst dm_sample_mount"
  let ?x = "dm_handle (DmOpen sample_task) ?s"
  let ?y = "dm_handle DmCloseDetail (fst ?x)"
  have id: "task_id sample_task = ''t1''" by (simp add: sample_task_def)
  have rh: "run_history ?s = 0"
    by (simp add: dm_mount_def dm_commit_def Let_def automationDetail_def detail_changed_def)
  have x: "snd ?x = [KRuns 1 ''t1'']" "automationDetail (fst ?x) = Some sample_task"
    by (simp_all add: dm_handle_def dm_act_def openAutomation_def dm_commit_def Let_def automationDetail_def
        dm_sample_fields detail_changed_def id rh)
  have m: "dm_sample_mount = (?s, [])"
    by (simp add: dm_mount_def dm_commit_def Let_def automationDetail_def detail_changed_def)
  have 0: "ui_reach ?a dm_sample_mount (?s, [])"
    by (rule subst [where P = "ui_reach ?a dm_sample_mount", OF m]) (rule ui_reach.start)
  have o1: "DmOpen sample_task \<in> offered (app_view ?a ?s) \<union> app_ambient ?a ?s"
    using dm_sample_offered [of "DmOpen sample_task" rd] by (simp add: offered_task_row)
  have h1: "app_handle ?a (DmOpen sample_task) ?s = (fst ?x, snd ?x)" by (simp add: dm_app)
  have 1: "ui_reach ?a dm_sample_mount (fst ?x, [KRuns 1 ''t1''])"
    using ui_reach_event [OF 0 o1 h1] x(1) by simp
  have o: "DmCloseDetail \<in> offered (app_view ?a (fst ?x)) \<union> app_ambient ?a (fst ?x)"
    using x(2) by (simp add: dm_app dm_view_def dm_detail_dialog_def)
  have h: "app_handle ?a DmCloseDetail (fst ?x) = (fst ?y, snd ?y)" by (simp add: dm_app)
  have 2: "ui_reach ?a dm_sample_mount (fst ?y, [KRuns 1 ''t1''] @ snd ?y)" by (rule ui_reach_event [OF 1 o h])
  have n: "List.find (\<lambda>t. False) ts = None" for ts :: "automation_task list" by (induction ts) simp_all
  have "automationDetail (fst ?y) = None"
    by (simp add: dm_handle_def dm_act_def closeAutomationDetail_def dm_commit_def Let_def automationDetail_def n)
  then have s: "\<not> still_selected (KRuns 1 ''t1'') (fst ?y)" by (simp add: still_selected_def)
  have k: "KRuns 1 ''t1'' \<in> set ([KRuns 1 ''t1''] @ snd ?y)" by simp
  from late_reply_ignored [OF 2] 2 k s
  show "\<exists>s q. ui_reach ?a dm_sample_mount (s, q) \<and> KRuns 1 ''t1'' \<in> set q \<and>
     app_resume (deployment_app rd) (KRuns 1 ''t1'') r s = (s, []) \<and> alb_belongs R B L (dm_alb s)" by blast
qed

subsection \<open>The list and the server\<close>

text \<open>
  The refresh button does not refresh the tasks: whatever new task list the server sends after
  it, the page goes on showing the tasks it had, because the list is a hook that reads its prop
  only when the page is mounted.
\<close>

theorem refresh_keeps_old_tasks:
  "dm_refreshes (fst (dm_handle DmRefresh s)) = dm_refreshes s + 1 \<and>
   visibleAutomations rd ((fst (dm_handle DmRefresh s))\<lparr>dm_initialAutomations := fresh\<rparr>) = visibleAutomations rd s"
  by (simp add: dm_handle_def dm_act_def dm_commit_def dm_refresh_def Let_def visibleAutomations_def)

text \<open>
  A pause can show as undone: when the list is reloaded after the server has switched a task and
  before the reply to the switch arrives, the reply flips the reloaded value back, and the page
  shows the task in its old state while the server has the new one.
\<close>

theorem toggle_race:
  "item \<in> set (automations (fst (dm_resume (KToggle item) OkDone
     (fst (dm_resume KReload (OkTasks (pre @ item\<lparr>enabled := \<not> enabled item\<rparr> # post)) s)))))"
  by (simp add: dm_resume_def dm_continue_def reloaded_def toggled_def dm_refresh_def)

text \<open>
  An interval is shown without loss: the number and the unit shown multiply to the minutes of
  the task, and no larger unit divides them.
\<close>

theorem formatInterval_exact:
  assumes "minutes mod unit_minutes u = 0"
  shows "fst (formatInterval minutes) * unit_minutes (snd (formatInterval minutes)) = minutes \<and>
    unit_minutes u \<le> unit_minutes (snd (formatInterval minutes))"
  using assms by (cases u) (auto simp: formatInterval_def unit_minutes_def)

lemma formatInterval_exact_witness: "formatInterval 2880 = (2, Days) \<and> 60 \<le> unit_minutes Days"
  using formatInterval_exact [of 2880 Hours] by (simp add: formatInterval_def unit_minutes_def)

end
