(* ===== verification/Executions.thy ===== *)
theory Executions
  imports Resources Views Pagination "HOL-Library.Multiset"
begin

text \<open>
  The execution history, \<open>ExecutionList\<close> of \<^verbatim>\<open>execution-list.tsx\<close>: tabs, search, sorting and paging
  of the executions the page was given. The collator of \<open>Intl\<close> is a parameter, a comparison that
  is consistent by its documentation; the sort is a stable insertion sort, which for a consistent
  comparison gives the only result \<open>Array.prototype.sort\<close> may give. The texts searched and sorted
  are the rendered ones, so they depend on the reading of the labels.
\<close>

subsection \<open>Stable sorting by a comparison\<close>

definition consistent_compare :: "('a \<Rightarrow> 'a \<Rightarrow> int) \<Rightarrow> bool" where
  "consistent_compare cmp \<longleftrightarrow>
     (\<forall>x y. (cmp x y \<le> 0) = (0 \<le> cmp y x)) \<and> (\<forall>x y z. cmp x y \<le> 0 \<longrightarrow> cmp y z \<le> 0 \<longrightarrow> cmp x z \<le> 0)"

fun insert_stable :: "('a \<Rightarrow> 'a \<Rightarrow> int) \<Rightarrow> 'a \<Rightarrow> 'a list \<Rightarrow> 'a list" where
  "insert_stable cmp x [] = [x]"
| "insert_stable cmp x (y # ys) = (if cmp x y \<le> 0 then x # y # ys else y # insert_stable cmp x ys)"

definition js_sort :: "('a \<Rightarrow> 'a \<Rightarrow> int) \<Rightarrow> 'a list \<Rightarrow> 'a list" where
  "js_sort cmp xs = foldr (insert_stable cmp) xs []"

lemma js_sort_simps [simp]: "js_sort cmp [] = []" "js_sort cmp (x # xs) = insert_stable cmp x (js_sort cmp xs)"
  by (simp_all add: js_sort_def)

lemma mset_insert_stable [simp]: "mset (insert_stable cmp x ys) = add_mset x (mset ys)"
  by (induction ys) auto

lemma mset_js_sort [simp]: "mset (js_sort cmp xs) = mset xs"
  by (induction xs) auto

lemma length_js_sort [simp]: "length (js_sort cmp xs) = length xs"
  by (metis mset_js_sort size_mset)

lemma set_js_sort [simp]: "set (js_sort cmp xs) = set xs"
  by (metis mset_js_sort set_mset_mset)

lemma compare_facts:
  assumes "consistent_compare cmp"
  shows "cmp x y \<le> 0 \<or> cmp y x \<le> 0" and "cmp x y \<le> 0 \<Longrightarrow> cmp y z \<le> 0 \<Longrightarrow> cmp x z \<le> 0"
    and "(cmp y x = 0) = (cmp x y = 0)"
proof -
  have s: "(cmp x y \<le> 0) = (0 \<le> cmp y x)" for x y using assms by (simp add: consistent_compare_def)
  show "cmp x y \<le> 0 \<or> cmp y x \<le> 0" using s [of x y] by linarith
  show "(cmp y x = 0) = (cmp x y = 0)" using s [of x y] s [of y x] by linarith
  show "cmp x y \<le> 0 \<Longrightarrow> cmp y z \<le> 0 \<Longrightarrow> cmp x z \<le> 0" using assms unfolding consistent_compare_def by blast
qed

lemma sorted_insert_stable:
  assumes "consistent_compare cmp"
  shows "sorted_wrt (\<lambda>x y. cmp x y \<le> 0) ys \<Longrightarrow> sorted_wrt (\<lambda>x y. cmp x y \<le> 0) (insert_stable cmp x ys)"
proof (induction ys)
  case Nil
  then show ?case by simp
next
  case (Cons y ys)
  have set: "set (insert_stable cmp x ys) = insert x (set ys)"
    by (metis mset_insert_stable set_mset_add_mset_insert set_mset_mset)
  show ?case
    using Cons compare_facts(1) [OF assms, of x y] compare_facts(2) [OF assms, of x y] by (auto simp: set)
qed

lemma sorted_js_sort: "consistent_compare cmp \<Longrightarrow> sorted_wrt (\<lambda>x y. cmp x y \<le> 0) (js_sort cmp xs)"
  by (induction xs) (auto intro: sorted_insert_stable)

text \<open>Stability: elements of which each may stand before the other keep their order.\<close>

lemma stable_insert:
  assumes "\<And>x y. P x \<Longrightarrow> P y \<Longrightarrow> cmp x y \<le> 0"
  shows "filter P (insert_stable cmp x ys) = filter P (x # ys)"
  using assms by (induction ys) auto

lemma stable_js_sort:
  assumes "\<And>x y. P x \<Longrightarrow> P y \<Longrightarrow> cmp x y \<le> 0"
  shows "filter P (js_sort cmp xs) = filter P xs"
  by (induction xs) (simp_all add: stable_insert [OF assms])

lemma consistent_compare_on:
  assumes "consistent_compare cmp"
  shows "consistent_compare (\<lambda>x y. cmp (f x) (f y))"
  unfolding consistent_compare_def using assms [unfolded consistent_compare_def] by blast

lemma consistent_compare_neg:
  assumes "consistent_compare cmp"
  shows "consistent_compare (\<lambda>x y. - cmp x y)"
  unfolding consistent_compare_def
proof (intro conjI allI impI)
  fix x y z
  have s: "(cmp x y \<le> 0) = (0 \<le> cmp y x)" for x y using assms by (simp add: consistent_compare_def)
  show "(- cmp x y \<le> 0) = (0 \<le> - cmp y x)" using s [of y x] by simp
  show "- cmp x z \<le> 0" if "- cmp x y \<le> 0" "- cmp y z \<le> 0"
    using that s [of y x] s [of z y] s [of z x] compare_facts(2) [OF assms, of z y x] by simp
qed

subsection \<open>Labels\<close>

definition executionLabels :: "(string \<times> string) list" where
  "executionLabels =
    [(''issue'', ''execution.issue''), (''renew'', ''execution.renew''), (''upload'', ''execution.upload''),
     (''deploy'', ''execution.deploy''), (''cleanup'', ''execution.cleanup'')]"

definition triggerLabels :: "(string \<times> string) list" where
  "triggerLabels =
    [(''manual'', ''execution.manual''), (''scheduler'', ''execution.scheduler''),
     (''automation'', ''execution.automation''), (''certificate_issued'', ''execution.certificateIssued'')]"

definition executionLabel :: "string \<Rightarrow> label" where
  "executionLabel kind = (case al_get kind executionLabels of Some key \<Rightarrow> Tr key [] | None \<Rightarrow> Raw kind)"

definition triggerLabel :: "string \<Rightarrow> label" where
  "triggerLabel trigger =
     (case al_get trigger triggerLabels of
        Some key \<Rightarrow> Tr key []
      | None \<Rightarrow> Raw (if trigger \<noteq> [] then trigger else ''-''))"

definition errorLabel :: "execution \<Rightarrow> label" where
  "errorLabel x = translateErrorCode (errorCode x) (exec_error x)"

subsection \<open>State\<close>

record ex_state =
  ex_executions :: "execution list"
  ex_locale :: locale_id
  ex_refreshes :: nat
  ex_query :: string
  ex_filter :: string
  ex_page :: nat
  ex_pageSize :: nat
  ex_selected :: "execution option"
  sort_column :: string
  sort_ascending :: bool

definition ex_mount :: "locale_id \<Rightarrow> execution list \<Rightarrow> ex_state" where
  "ex_mount loc xs =
     \<lparr>ex_executions = xs, ex_locale = loc, ex_refreshes = 0, ex_query = [], ex_filter = ''all'', ex_page = 1,
      ex_pageSize = 10, ex_selected = None, sort_column = ''startedAt'', sort_ascending = False\<rparr>"

record ex_env =
  env_reading :: reading
  env_compare :: "locale_id \<Rightarrow> string \<Rightarrow> string \<Rightarrow> int"

definition active_statuses :: "string list" where
  "active_statuses = [''queued'', ''running'', ''waiting_user'']"

definition completed_statuses :: "string list" where
  "completed_statuses = [''succeeded'', ''cancelled'']"

record filter_counts =
  count_all :: nat
  count_active :: nat
  count_failed :: nat
  count_completed :: nat

definition filterCounts :: "ex_state \<Rightarrow> filter_counts" where
  "filterCounts s =
     (let xs = ex_executions s
      in \<lparr>count_all = length xs,
          count_active = length (filter (\<lambda>x. exec_status x \<in> set active_statuses) xs),
          count_failed = length (filter (\<lambda>x. exec_status x = ''failed'') xs),
          count_completed = length (filter (\<lambda>x. exec_status x \<in> set completed_statuses) xs)\<rparr>)"

definition matches_filter :: "string \<Rightarrow> execution \<Rightarrow> bool" where
  "matches_filter f x \<longleftrightarrow>
     f = ''all'' \<or> (f = ''active'' \<and> exec_status x \<in> set active_statuses) \<or>
     (f = ''failed'' \<and> exec_status x = ''failed'') \<or>
     (f = ''completed'' \<and> exec_status x \<in> set completed_statuses)"

definition exec_search_text :: "ex_env \<Rightarrow> locale_id \<Rightarrow> execution \<Rightarrow> string" where
  "exec_search_text env loc x =
     (let txt = show_text (env_reading env) loc
      in js_join '' '' [txt (executionLabel (exec_kind x)), exec_certificate x, exec_target x,
           txt (triggerLabel (exec_trigger x)), exec_status x, txt (errorLabel x)])"

definition visibleExecutions :: "ex_env \<Rightarrow> ex_state \<Rightarrow> execution list" where
  "visibleExecutions env s =
     (let v = toLowerCase (js_trim (ex_query s))
      in filter (\<lambda>x. matches_filter (ex_filter s) x \<and>
           (v = [] \<or> js_includes (toLowerCase (exec_search_text env (ex_locale s) x)) v)) (ex_executions s))"

definition or_empty :: "string option \<Rightarrow> string" where
  "or_empty v = (case v of Some x \<Rightarrow> x | None \<Rightarrow> [])"

definition column_value :: "ex_env \<Rightarrow> locale_id \<Rightarrow> string \<Rightarrow> execution \<Rightarrow> string" where
  "column_value env loc column x =
     (let txt = show_text (env_reading env) loc
      in if column = ''kind'' then txt (executionLabel (exec_kind x))
         else if column = ''certificate'' then exec_certificate x
         else if column = ''target'' then exec_target x
         else if column = ''trigger'' then txt (triggerLabel (exec_trigger x))
         else if column = ''startedAt'' then or_empty (startedAt x)
         else if column = ''finishedAt'' then or_empty (finishedAt x)
         else exec_status x)"

definition compare_executions :: "ex_env \<Rightarrow> ex_state \<Rightarrow> execution \<Rightarrow> execution \<Rightarrow> int" where
  "compare_executions env s left right =
     (let v = column_value env (ex_locale s) (sort_column s);
          result = env_compare env (ex_locale s) (v left) (v right)
      in if sort_ascending s then result else - result)"

definition sortedExecutions :: "ex_env \<Rightarrow> ex_state \<Rightarrow> execution list" where
  "sortedExecutions env s = js_sort (compare_executions env s) (visibleExecutions env s)"

definition ex_pageCount :: "ex_env \<Rightarrow> ex_state \<Rightarrow> nat" where
  "ex_pageCount env s = max 1 (ceil_div (length (visibleExecutions env s)) (ex_pageSize s))"

definition ex_currentPage :: "ex_env \<Rightarrow> ex_state \<Rightarrow> nat" where
  "ex_currentPage env s = min (ex_page s) (ex_pageCount env s)"

definition paginatedExecutions :: "ex_env \<Rightarrow> ex_state \<Rightarrow> execution list" where
  "paginatedExecutions env s =
     slice ((ex_currentPage env s - 1) * ex_pageSize s) (ex_currentPage env s * ex_pageSize s) (sortedExecutions env s)"

subsection \<open>Handlers and view\<close>

datatype ex_event =
    ExRefresh | ExQuery string | ExFilter string | ExClear | ExSort string bool
  | ExPage nat | ExPageSize nat | ExSelect execution | ExClose

definition ex_handle :: "ex_event \<Rightarrow> ex_state \<Rightarrow> ex_state" where
  "ex_handle e s =
     (case e of
        ExRefresh \<Rightarrow> s\<lparr>ex_refreshes := ex_refreshes s + 1\<rparr>
      | ExQuery v \<Rightarrow> s\<lparr>ex_query := v, ex_page := 1\<rparr>
      | ExFilter f \<Rightarrow> s\<lparr>ex_filter := f, ex_page := 1\<rparr>
      | ExClear \<Rightarrow> s\<lparr>ex_query := [], ex_filter := ''all'', ex_page := 1\<rparr>
      | ExSort c asc \<Rightarrow> s\<lparr>sort_column := c, sort_ascending := asc\<rparr>
      | ExPage n \<Rightarrow> s\<lparr>ex_page := n\<rparr>
      | ExPageSize n \<Rightarrow> s\<lparr>ex_pageSize := n, ex_page := 1\<rparr>
      | ExSelect x \<Rightarrow> s\<lparr>ex_selected := Some x\<rparr>
      | ExClose \<Rightarrow> s\<lparr>ex_selected := None\<rparr>)"

definition or_dash :: "string \<Rightarrow> label" where
  "or_dash v = Raw (if v \<noteq> [] then v else ''-'')"

definition ex_toolbar :: "ex_state \<Rightarrow> ex_event view" where
  "ex_toolbar s =
     (let c = filterCounts s; tab = (\<lambda>key n. Tr key [(''count'', nat_digits n)])
      in El ''div''
       [Button (Tr ''common.refresh'' []) False ExRefresh,
        Field (Tr ''common.search'' []) (ex_query s) ExQuery,
        Choice (Tr ''dashboard.executionHistory'' []) (Some (ex_filter s)) False
          [(''all'', tab ''execution.filterAll'' (count_all c), False),
           (''active'', tab ''execution.filterActive'' (count_active c), False),
           (''failed'', tab ''execution.filterFailed'' (count_failed c), False),
           (''completed'', tab ''execution.filterCompleted'' (count_completed c), False)] ExFilter])"

definition sortable_columns :: "(string \<times> string) list" where
  "sortable_columns =
    [(''kind'', ''dashboard.task''), (''certificate'', ''execution.certificate''), (''target'', ''execution.target''),
     (''trigger'', ''execution.trigger''), (''startedAt'', ''execution.startedAt''),
     (''finishedAt'', ''execution.finishedAt''), (''status'', ''common.status'')]"

definition ex_row :: "ex_state \<Rightarrow> execution \<Rightarrow> ex_event view" where
  "ex_row s x =
     El ''Table.Row''
      [Txt (executionLabel (exec_kind x)), Txt (or_dash (exec_certificate x)), Txt (or_dash (exec_target x)),
       Txt (triggerLabel (exec_trigger x)), Txt (formatDateTime (startedAt x) (ex_locale s)),
       Txt (formatDateTime (finishedAt x) (ex_locale s)),
       El ''div'' [StatusTag (exec_status x), show_if (exec_error x \<noteq> []) (Txt (errorLabel x))],
       TableActions [action ''details'' (Tr ''common.details'' []) (ExSelect x) False]]"

text \<open>A header offers both directions; the table component decides which one a press means.\<close>

definition ex_table :: "ex_env \<Rightarrow> ex_state \<Rightarrow> ex_event view" where
  "ex_table env s =
     El ''Table''
      [El ''Table.Header'' (map (\<lambda>(c, key). El ''Table.Column''
          [Button (Tr key []) False (ExSort c True), Button (Tr key []) False (ExSort c False)]) sortable_columns),
       El ''Table.Body'' (map (ex_row s) (paginatedExecutions env s))]"

definition ex_list :: "ex_env \<Rightarrow> ex_state \<Rightarrow> ex_event view" where
  "ex_list env s =
     El ''section''
      [show_if (length (ex_executions s) = 0)
         (ResourceEmptyState (Tr ''execution.empty'' []) (Some (Tr ''execution.emptyDescription'' [])) None None),
       show_if (0 < length (ex_executions s) \<and> length (visibleExecutions env s) = 0)
         (ResourceEmptyState (Tr ''execution.noResults'' []) (Some (Tr ''execution.noResultsDescription'' []))
            (Some (Tr ''execution.clearFilters'' [], ExClear)) None),
       show_if (0 < length (visibleExecutions env s))
         (El ''fragment'' [ex_table env s,
            ResourcePagination (ex_currentPage env s) (ex_pageCount env s) (length (visibleExecutions env s))
              (ex_pageSize s) ExPage ExPageSize])]"

definition ex_detail :: "ex_state \<Rightarrow> ex_event view" where
  "ex_detail s =
     ResourceModal (ex_selected s \<noteq> None)
       (case ex_selected s of Some x \<Rightarrow> executionLabel (exec_kind x) | None \<Rightarrow> Tr ''execution.details'' [])
       (Tr ''execution.detailsDescription'' []) ExClose []
       (case ex_selected s of
          None \<Rightarrow> []
        | Some x \<Rightarrow>
            [Txt (executionLabel (exec_kind x)), Txt (triggerLabel (exec_trigger x)), Txt (or_dash (exec_certificate x)),
             Txt (or_dash (exec_target x)), Txt (formatDateTime (startedAt x) (ex_locale s)),
             Txt (formatDateTime (finishedAt x) (ex_locale s)), StatusTag (exec_status x),
             show_if (exec_error x \<noteq> []) (Txt (errorLabel x))])"

definition ex_view :: "ex_env \<Rightarrow> ex_state \<Rightarrow> ex_event view" where
  "ex_view env s = El ''div'' [ex_toolbar s, ex_list env s, ex_detail s]"

subsection \<open>Properties\<close>

lemma length_sorted [simp]: "length (sortedExecutions env s) = length (visibleExecutions env s)"
  by (simp add: sortedExecutions_def)

lemma compare_executions_page [simp]: "compare_executions env (s\<lparr>ex_page := n\<rparr>) = compare_executions env s"
  by (intro ext) (simp add: compare_executions_def)

interpretation ex_pages: paged_view "sortedExecutions env" ex_page ex_pageSize "ex_pageCount env" "ex_currentPage env"
    "paginatedExecutions env" "\<lambda>n s. s\<lparr>ex_page := n\<rparr>"
  for env :: ex_env
proof unfold_locales
  fix n and s :: ex_state
  show "sortedExecutions env (s\<lparr>ex_page := n\<rparr>) = sortedExecutions env s"
    by (simp add: sortedExecutions_def visibleExecutions_def)
qed (simp_all add: ex_pageCount_def ex_currentPage_def paginatedExecutions_def)

lemma consistent_executions:
  assumes "consistent_compare (env_compare env (ex_locale s))"
  shows "consistent_compare (compare_executions env s)"
proof -
  let ?c = "\<lambda>x y. env_compare env (ex_locale s) (column_value env (ex_locale s) (sort_column s) x)
    (column_value env (ex_locale s) (sort_column s) y)"
  have c: "consistent_compare ?c" by (rule consistent_compare_on [OF assms])
  have "compare_executions env s = (if sort_ascending s then ?c else (\<lambda>x y. - ?c x y))"
    by (intro ext) (simp add: compare_executions_def Let_def)
  then show ?thesis using c consistent_compare_neg [OF c] by simp
qed

text \<open>What the table must show: which statuses a tab stands for, what a search finds, the text of each column.\<close>

definition tab_statuses :: "(string \<times> string list) list" where
  "tab_statuses =
    [(''active'', [''queued'', ''running'', ''waiting_user'']), (''failed'', [''failed'']),
     (''completed'', [''succeeded'', ''cancelled''])]"

definition on_tab :: "string \<Rightarrow> execution \<Rightarrow> bool" where
  "on_tab tab x \<longleftrightarrow> tab = ''all'' \<or> (\<exists>sts. (tab, sts) \<in> set tab_statuses \<and> exec_status x \<in> set sts)"

definition found_by :: "ex_env \<Rightarrow> locale_id \<Rightarrow> string \<Rightarrow> execution \<Rightarrow> bool" where
  "found_by env loc query x \<longleftrightarrow>
     sublist (toLowerCase (js_trim query))
       (toLowerCase (show_text (env_reading env) loc (executionLabel (exec_kind x)) @ '' '' @ exec_certificate x @ '' '' @
          exec_target x @ '' '' @ show_text (env_reading env) loc (triggerLabel (exec_trigger x)) @ '' '' @
          exec_status x @ '' '' @ show_text (env_reading env) loc (errorLabel x)))"

definition column_texts :: "ex_env \<Rightarrow> locale_id \<Rightarrow> (string \<times> (execution \<Rightarrow> string)) list" where
  "column_texts env loc =
    [(''kind'', \<lambda>x. show_text (env_reading env) loc (executionLabel (exec_kind x))), (''certificate'', exec_certificate),
     (''target'', exec_target), (''trigger'', \<lambda>x. show_text (env_reading env) loc (triggerLabel (exec_trigger x))),
     (''startedAt'', \<lambda>x. case startedAt x of Some t \<Rightarrow> t | None \<Rightarrow> []),
     (''finishedAt'', \<lambda>x. case finishedAt x of Some t \<Rightarrow> t | None \<Rightarrow> []), (''status'', exec_status)]"

lemma toLowerCase_empty [simp]: "toLowerCase [] = []"
  by code_simp

lemma on_tab_filter: "matches_filter tab x \<longleftrightarrow> on_tab tab x"
proof -
  have "on_tab tab x \<longleftrightarrow> tab = ''all'' \<or> list_ex (\<lambda>(t, sts). tab = t \<and> exec_status x \<in> set sts) tab_statuses"
    by (auto simp: on_tab_def list_ex_iff)
  then show ?thesis
    by (simp add: tab_statuses_def matches_filter_def active_statuses_def completed_statuses_def)
qed

lemma visible_spec:
  "visibleExecutions env s =
     filter (\<lambda>x. on_tab (ex_filter s) x \<and> found_by env (ex_locale s) (ex_query s) x) (ex_executions s)"
  unfolding visibleExecutions_def Let_def
  by (intro filter_cong refl) (auto simp: on_tab_filter found_by_def exec_search_text_def Let_def js_includes_sublist)

lemma column_texts_value: "(c, f) \<in> set (column_texts env loc) \<Longrightarrow> column_value env loc c = f"
  by (auto simp: column_texts_def column_value_def or_empty_def Let_def)

lemma compare_spec:
  assumes "(sort_column s, f) \<in> set (column_texts env (ex_locale s))"
  shows "compare_executions env s x y =
    (if sort_ascending s then env_compare env (ex_locale s) (f x) (f y) else - env_compare env (ex_locale s) (f x) (f y))"
  by (simp add: compare_executions_def column_texts_value [OF assms] Let_def)

text \<open>
  C29. The pages of the table, read one after the other, show exactly the executions that the chosen
  tab stands for and whose kind, certificate, target, trigger, status and error texts, joined with
  blanks, contain the trimmed query, letter case aside, each as many times as the page was given
  it. They are in the order the collator gives to the texts of the chosen column, from the least when the
  direction is ascending and from the greatest when it is not; executions whose texts the collator
  cannot tell apart keep the order the server gave them, in either direction.
\<close>

theorem executions_sorted_stably:
  assumes "consistent_compare (env_compare env (ex_locale s))" and "0 < ex_pageSize s"
    and "(sort_column s, f) \<in> set (column_texts env (ex_locale s))"
    and "rows = concat (map (\<lambda>n. paginatedExecutions env (s\<lparr>ex_page := n\<rparr>)) [1..<Suc (ex_pageCount env s)])"
  shows "mset rows =
      mset (filter (\<lambda>x. on_tab (ex_filter s) x \<and> found_by env (ex_locale s) (ex_query s) x) (ex_executions s)) \<and>
    sorted_wrt (\<lambda>x y. if sort_ascending s then env_compare env (ex_locale s) (f x) (f y) \<le> 0
      else env_compare env (ex_locale s) (f y) (f x) \<le> 0) rows \<and>
    filter (\<lambda>x. env_compare env (ex_locale s) v (f x) = 0) rows =
      filter (\<lambda>x. env_compare env (ex_locale s) v (f x) = 0)
        (filter (\<lambda>x. on_tab (ex_filter s) x \<and> found_by env (ex_locale s) (ex_query s) x) (ex_executions s))"
proof (intro conjI)
  let ?c = "env_compare env (ex_locale s)"
  have rows: "rows = js_sort (compare_executions env s) (visibleExecutions env s)"
    unfolding assms(4) sortedExecutions_def [symmetric] by (rule ex_pages.pages_partition [OF assms(2)])
  note cmp = compare_spec [OF assms(3)] and collator = compare_facts [OF assms(1)]
  show "mset rows =
      mset (filter (\<lambda>x. on_tab (ex_filter s) x \<and> found_by env (ex_locale s) (ex_query s) x) (ex_executions s))"
    by (simp add: rows flip: visible_spec)
  have neg: "- ?c a b \<le> 0 \<longleftrightarrow> ?c b a \<le> 0" for a b
    using assms(1) unfolding consistent_compare_def by (simp add: neg_le_0_iff_le)
  then show "sorted_wrt (\<lambda>x y. if sort_ascending s then ?c (f x) (f y) \<le> 0 else ?c (f y) (f x) \<le> 0) rows"
    using sorted_js_sort [OF consistent_executions [OF assms(1)], of "visibleExecutions env s"]
    unfolding rows cmp by (cases "sort_ascending s") simp_all
  have "?c (f x) (f y) \<le> 0" if "?c v (f x) = 0" "?c v (f y) = 0" for x y
    using that collator(2) [of "f x" v "f y"] collator(3) [of "f x" v] by simp
  then have "compare_executions env s x y \<le> 0" if "?c v (f x) = 0" "?c v (f y) = 0" for x y
    using that unfolding cmp by (simp only: neg split: if_split) blast
  from stable_js_sort [of "\<lambda>x. ?c v (f x) = 0", OF this] show "filter (\<lambda>x. ?c v (f x) = 0) rows =
      filter (\<lambda>x. ?c v (f x) = 0)
        (filter (\<lambda>x. on_tab (ex_filter s) x \<and> found_by env (ex_locale s) (ex_query s) x) (ex_executions s))"
    by (simp add: rows flip: visible_spec)
qed

text \<open>A concrete history, sorted by length of the column as a collator that ignores the letters would.\<close>

definition sample_execution :: "string \<Rightarrow> string \<Rightarrow> execution" where
  "sample_execution certificate status =
     \<lparr>exec_id = certificate, exec_kind = ''issue'', exec_status = status, exec_trigger = ''manual'',
      exec_certificate = certificate, exec_target = [], startedAt = None, finishedAt = None,
      errorCode = [], exec_error = []\<rparr>"

definition length_env :: ex_env where
  "length_env =
     \<lparr>env_reading = \<lparr>messages = (\<lambda>k l. k), zh_literal = id, format_date = (\<lambda>l v. v), format_date_time = (\<lambda>l v. v)\<rparr>,
      env_compare = (\<lambda>l x y. int (length x) - int (length y))\<rparr>"

definition sample_history :: ex_state where
  "sample_history = (ex_mount ZhCN
     [sample_execution ''aaa'' ''failed'', sample_execution ''b'' ''queued'', sample_execution ''c'' ''failed''])
     \<lparr>sort_column := ''certificate'', sort_ascending := True\<rparr>"

lemma executions_sorted_stably_witness:
  "mset (sortedExecutions length_env sample_history) = mset (ex_executions sample_history) \<and>
   map exec_certificate (sortedExecutions length_env sample_history) = [''b'', ''c'', ''aaa'']"
proof
  let ?rows = "concat (map (\<lambda>n. paginatedExecutions length_env (sample_history\<lparr>ex_page := n\<rparr>))
    [1..<Suc (ex_pageCount length_env sample_history)])"
  have c: "consistent_compare (env_compare length_env (ex_locale sample_history))"
    by (simp add: length_env_def consistent_compare_def)
  have p: "0 < ex_pageSize sample_history" by (simp add: sample_history_def ex_mount_def)
  have f: "(sort_column sample_history, exec_certificate) \<in> set (column_texts length_env (ex_locale sample_history))"
    by (simp add: sample_history_def column_texts_def)
  have rows: "?rows = sortedExecutions length_env sample_history" by (rule ex_pages.pages_partition [OF p])
  have "on_tab (ex_filter sample_history) x" "found_by length_env loc (ex_query sample_history) x" for x loc
    unfolding found_by_def by (simp_all add: sample_history_def ex_mount_def on_tab_def)
  then show "mset (sortedExecutions length_env sample_history) = mset (ex_executions sample_history)"
    using executions_sorted_stably [OF c p f refl] unfolding rows by simp
  show "map exec_certificate (sortedExecutions length_env sample_history) = [''b'', ''c'', ''aaa'']"
    by code_simp
qed

text \<open>
  The numbers on the tabs are the truth: each tab announces exactly as many executions as it
  lists when nothing is searched for, and no execution of a known status is on two of the tabs of
  a status or on none.
\<close>

theorem tab_counts:
  "count_all (filterCounts s) = length (visibleExecutions env (s\<lparr>ex_query := [], ex_filter := ''all''\<rparr>)) \<and>
   count_active (filterCounts s) = length (visibleExecutions env (s\<lparr>ex_query := [], ex_filter := ''active''\<rparr>)) \<and>
   count_failed (filterCounts s) = length (visibleExecutions env (s\<lparr>ex_query := [], ex_filter := ''failed''\<rparr>)) \<and>
   count_completed (filterCounts s) = length (visibleExecutions env (s\<lparr>ex_query := [], ex_filter := ''completed''\<rparr>)) \<and>
   count_active (filterCounts s) + count_failed (filterCounts s) + count_completed (filterCounts s) =
     length (filter (\<lambda>x. exec_status x \<in>
       {''queued'', ''running'', ''waiting_user'', ''failed'', ''succeeded'', ''cancelled''}) (ex_executions s))"
proof -
  have trim: "toLowerCase (js_trim []) = []" by code_simp
  have sum: "length (filter (\<lambda>x. exec_status x \<in> set active_statuses) xs) + length (filter (\<lambda>x. exec_status x = ''failed'') xs)
      + length (filter (\<lambda>x. exec_status x \<in> set completed_statuses) xs) =
     length (filter (\<lambda>x. exec_status x \<in>
       {''queued'', ''running'', ''waiting_user'', ''failed'', ''succeeded'', ''cancelled''}) xs)" for xs
    by (induction xs) (auto simp: active_statuses_def completed_statuses_def)
  show ?thesis
    unfolding sum [symmetric] by (simp add: filterCounts_def visibleExecutions_def matches_filter_def trim Let_def)
qed

end
