(* ===== verification/Managers.thy ===== *)
theory Managers
  imports Runtime Resources Pagination
begin

text \<open>
  What the three resource managers of \<^verbatim>\<open>features/credentials/components\<close> have in common, word for
  word: the hooks, the opening and closing of the form, the search and the pager, the four mutations
  with their replies, the toolbar, the empty states and the frames of the dialogs. Each manager
  instantiates these definitions with its own resource, form, texts and requests.
\<close>

subsection \<open>State\<close>

datatype 'r form_target = CreateNew | EditOf 'r

record 'r manager =
  mg_items :: "'r list"
  mg_locale :: locale_id
  mg_refreshes :: nat
  formTarget :: "'r form_target option"
  detailsTarget :: "'r option"
  deleteTarget :: "'r option"
  mg_pending :: bool
  verifyingId :: "string option"
  mg_error :: label
  mg_query :: string
  mg_page :: nat
  mg_pageSize :: nat

definition isEditing :: "('r, 'x) manager_scheme \<Rightarrow> bool" where
  "isEditing s = (case formTarget s of Some (EditOf r) \<Rightarrow> True | _ \<Rightarrow> False)"

text \<open>The React key of the form: the form is mounted anew whenever it changes.\<close>

definition form_key :: "('r \<Rightarrow> string) \<Rightarrow> 'r form_target option \<Rightarrow> string" where
  "form_key ident t =
     (case t of None \<Rightarrow> ''closed'' | Some CreateNew \<Rightarrow> ''create'' | Some (EditOf r) \<Rightarrow> ident r)"

definition edited :: "'r form_target option \<Rightarrow> 'r option" where
  "edited t = (case t of Some (EditOf r) \<Rightarrow> Some r | _ \<Rightarrow> None)"

definition mg_search :: "('r \<Rightarrow> string list) \<Rightarrow> ('r, 'x) manager_scheme \<Rightarrow> 'r list" where
  "mg_search texts s =
     (let normalized = toLowerCase (js_trim (mg_query s))
      in if normalized = [] then mg_items s
         else filter (\<lambda>r. js_includes (toLowerCase (js_join '' '' (texts r))) normalized) (mg_items s))"

definition mg_pageCount :: "('r \<Rightarrow> string list) \<Rightarrow> ('r, 'x) manager_scheme \<Rightarrow> nat" where
  "mg_pageCount texts s = max 1 (ceil_div (length (mg_search texts s)) (mg_pageSize s))"

definition mg_currentPage :: "('r \<Rightarrow> string list) \<Rightarrow> ('r, 'x) manager_scheme \<Rightarrow> nat" where
  "mg_currentPage texts s = min (mg_page s) (mg_pageCount texts s)"

definition mg_paginated :: "('r \<Rightarrow> string list) \<Rightarrow> ('r, 'x) manager_scheme \<Rightarrow> 'r list" where
  "mg_paginated texts s =
     slice ((mg_currentPage texts s - 1) * mg_pageSize s) (mg_currentPage texts s * mg_pageSize s) (mg_search texts s)"

subsection \<open>Handlers\<close>

datatype ('r, 'f) mg_event =
    MRefresh | MCreate | MQuery string | MClear | MPage nat | MPageSize nat
  | MDetails 'r | MVerify 'r | MToggle 'r | MEdit 'r | MAskDelete 'r
  | MCloseForm | MForm 'f | MSubmit | MCloseDelete | MConfirmDelete | MCloseDetails

text \<open>A waiting mutation, with the target its continuation captured.\<close>

datatype ('r, 'p) mg_call =
    SaveCall "'r form_target" 'p
  | DeleteCall 'r
  | VerifyCall 'r
  | ToggleCall 'r bool

definition openCreate_form :: "('r, 'x) manager_scheme \<Rightarrow> ('r, 'x) manager_scheme" where
  "openCreate_form s = s\<lparr>mg_error := no_text, formTarget := Some CreateNew\<rparr>"

definition closeForm :: "('r, 'x) manager_scheme \<Rightarrow> ('r, 'x) manager_scheme" where
  "closeForm s = s\<lparr>mg_error := no_text, formTarget := None\<rparr>"

definition router_refresh :: "('r, 'x) manager_scheme \<Rightarrow> ('r, 'x) manager_scheme" where
  "router_refresh s = s\<lparr>mg_refreshes := mg_refreshes s + 1\<rparr>"

definition mg_start :: "('r, 'x) manager_scheme \<Rightarrow> ('r, 'x) manager_scheme" where
  "mg_start s = s\<lparr>mg_pending := True, mg_error := no_text\<rparr>"

text \<open>Saving: the first failed check, or the request with its payload.\<close>

definition mg_save :: "(label + 'p) \<Rightarrow> ('r, 'x) manager_scheme \<Rightarrow> ('r, 'x) manager_scheme \<times> ('r, 'p) mg_call list" where
  "mg_save checked s =
     (case formTarget s of
        None \<Rightarrow> (s, [])
      | Some t \<Rightarrow>
          (case checked of
             Inl problem \<Rightarrow> (s\<lparr>mg_error := problem\<rparr>, [])
           | Inr payload \<Rightarrow> (mg_start s, [SaveCall t payload])))"

definition mg_delete :: "('r, 'x) manager_scheme \<Rightarrow> ('r, 'x) manager_scheme \<times> ('r, 'p) mg_call list" where
  "mg_delete s =
     (case deleteTarget s of None \<Rightarrow> (s, []) | Some r \<Rightarrow> (mg_start s, [DeleteCall r]))"

definition mg_verify :: "('r \<Rightarrow> string) \<Rightarrow> 'r \<Rightarrow> ('r, 'x) manager_scheme \<Rightarrow>
    ('r, 'x) manager_scheme \<times> ('r, 'p) mg_call list" where
  "mg_verify ident r s = ((mg_start s)\<lparr>verifyingId := Some (ident r)\<rparr>, [VerifyCall r])"

definition mg_toggle :: "bool \<Rightarrow> 'r \<Rightarrow> ('r, 'x) manager_scheme \<Rightarrow> ('r, 'x) manager_scheme \<times> ('r, 'p) mg_call list" where
  "mg_toggle enable r s = (mg_start s, [ToggleCall r enable])"

subsection \<open>Replies\<close>

definition mg_saved :: "label \<Rightarrow> failure + unit \<Rightarrow> ('r, 'x) manager_scheme \<Rightarrow> ('r, 'x) manager_scheme" where
  "mg_saved fallback r s =
     (case r of
        Inr _ \<Rightarrow> router_refresh (closeForm (s\<lparr>mg_pending := False\<rparr>))
      | Inl f \<Rightarrow> s\<lparr>mg_pending := False, mg_error := failure_message f fallback\<rparr>)"

definition mg_deleted :: "(failure \<Rightarrow> label) \<Rightarrow> failure + unit \<Rightarrow> ('r, 'x) manager_scheme \<Rightarrow> ('r, 'x) manager_scheme" where
  "mg_deleted text_of r s =
     (case r of
        Inr _ \<Rightarrow> router_refresh (s\<lparr>mg_pending := False, deleteTarget := None\<rparr>)
      | Inl f \<Rightarrow> s\<lparr>mg_pending := False, mg_error := text_of f\<rparr>)"

definition mg_verified :: "label \<Rightarrow> failure + unit \<Rightarrow> ('r, 'x) manager_scheme \<Rightarrow> ('r, 'x) manager_scheme" where
  "mg_verified fallback r s =
     (case r of
        Inr _ \<Rightarrow> (router_refresh s)\<lparr>mg_pending := False, verifyingId := None\<rparr>
      | Inl f \<Rightarrow> s\<lparr>mg_error := failure_message f fallback, mg_pending := False, verifyingId := None\<rparr>)"

definition mg_toggled :: "label \<Rightarrow> failure + unit \<Rightarrow> ('r, 'x) manager_scheme \<Rightarrow> ('r, 'x) manager_scheme" where
  "mg_toggled fallback r s =
     (case r of
        Inr _ \<Rightarrow> router_refresh (s\<lparr>mg_pending := False\<rparr>)
      | Inl f \<Rightarrow> s\<lparr>mg_pending := False, mg_error := failure_message f fallback\<rparr>)"

text \<open>The events that every manager handles alike; the four mutations and the form are its own.\<close>

definition mg_act :: "('r, 'f) mg_event \<Rightarrow> ('r, 'x) manager_scheme \<Rightarrow> ('r, 'x) manager_scheme" where
  "mg_act e s =
     (case e of
        MRefresh \<Rightarrow> router_refresh s
      | MCreate \<Rightarrow> openCreate_form s
      | MQuery v \<Rightarrow> s\<lparr>mg_query := v, mg_page := 1\<rparr>
      | MClear \<Rightarrow> s\<lparr>mg_query := [], mg_page := 1\<rparr>
      | MPage n \<Rightarrow> s\<lparr>mg_page := n\<rparr>
      | MPageSize n \<Rightarrow> s\<lparr>mg_pageSize := n, mg_page := 1\<rparr>
      | MDetails r \<Rightarrow> s\<lparr>detailsTarget := Some r\<rparr>
      | MEdit r \<Rightarrow> s\<lparr>mg_error := no_text, formTarget := Some (EditOf r)\<rparr>
      | MAskDelete r \<Rightarrow> s\<lparr>mg_error := no_text, deleteTarget := Some r\<rparr>
      | MCloseForm \<Rightarrow> closeForm s
      | MCloseDelete \<Rightarrow> s\<lparr>mg_error := no_text, deleteTarget := None\<rparr>
      | MCloseDetails \<Rightarrow> s\<lparr>detailsTarget := None\<rparr>
      | _ \<Rightarrow> s)"

subsection \<open>Views\<close>

definition mg_toolbar :: "label \<Rightarrow> ('r, 'x) manager_scheme \<Rightarrow> ('r, 'f) mg_event view" where
  "mg_toolbar create s =
     El ''div''
      [Button (Tr ''common.refresh'' []) False MRefresh,
       Button create False MCreate,
       Field (Tr ''common.search'' []) (mg_query s) MQuery]"

definition mg_error_line :: "('r, 'x) manager_scheme \<Rightarrow> ('r, 'f) mg_event view" where
  "mg_error_line s =
     show_if (shown (mg_error s) \<and> formTarget s = None \<and> deleteTarget s = None) (FormError (mg_error s))"

definition mg_table :: "label list \<Rightarrow> ('r \<Rightarrow> ('r, 'f) mg_event view) \<Rightarrow> 'r list \<Rightarrow> ('r, 'f) mg_event view" where
  "mg_table headers row items =
     El ''Table'' [El ''Table.Header'' (map Txt headers), El ''Table.Body'' (map row items)]"

record empty_texts =
  empty_title :: label
  empty_description :: label
  empty_action :: label
  none_title :: label
  none_description :: label
  none_action :: label

definition mg_foot :: "empty_texts \<Rightarrow> ('r \<Rightarrow> string list) \<Rightarrow> ('r, 'x) manager_scheme \<Rightarrow> ('r, 'f) mg_event view" where
  "mg_foot l texts s =
     (let n = length (mg_search texts s)
      in El ''div''
       [show_if (0 < n)
          (ResourcePagination (mg_currentPage texts s) (mg_pageCount texts s) n (mg_pageSize s) MPage MPageSize),
        show_if (length (mg_items s) = 0)
          (ResourceEmptyState (empty_title l) (Some (empty_description l)) (Some (empty_action l, MCreate)) None),
        show_if (0 < length (mg_items s) \<and> n = 0)
          (ResourceEmptyState (none_title l) (Some (none_description l)) (Some (none_action l, MClear)) None)])"

text \<open>The form dialog; \<open>blocked\<close> disables its save button.\<close>

definition mg_form_dialog :: "label \<Rightarrow> label \<Rightarrow> bool \<Rightarrow> 'f view list \<Rightarrow> ('r, 'x) manager_scheme \<Rightarrow>
    ('r, 'f) mg_event view" where
  "mg_form_dialog title description blocked inputs s =
     Dialog (formTarget s \<noteq> None) title description MCloseForm
       (map (map_view MForm) inputs @ [show_if (shown (mg_error s)) (FormError (mg_error s))])
       [Button (Tr ''dns.cancel'' []) False MCloseForm,
        Button (Tr (if mg_pending s then ''dns.saving'' else ''dns.save'') []) blocked MSubmit]"

definition mg_delete_dialog :: "label \<Rightarrow> label \<Rightarrow> label list \<Rightarrow> ('r, 'x) manager_scheme \<Rightarrow> ('r, 'f) mg_event view" where
  "mg_delete_dialog title description notes s =
     Dialog (deleteTarget s \<noteq> None) title description MCloseDelete
       (map Txt notes @ [show_if (shown (mg_error s)) (FormError (mg_error s))])
       [Button (Tr ''dns.cancel'' []) False MCloseDelete,
        Button (Tr (if mg_pending s then ''dns.deleting'' else ''dns.confirmDelete'') []) (mg_pending s) MConfirmDelete]"

definition mg_details_dialog :: "label \<Rightarrow> label \<Rightarrow> ('r \<Rightarrow> label list) \<Rightarrow> ('r, 'x) manager_scheme \<Rightarrow>
    ('r, 'f) mg_event view" where
  "mg_details_dialog title description rows s =
     Dialog (detailsTarget s \<noteq> None) title description MCloseDetails
       (case detailsTarget s of None \<Rightarrow> [] | Some r \<Rightarrow> map Txt (rows r))
       [Button (Tr ''dns.close'' []) False MCloseDetails]"

definition name_or :: "('r \<Rightarrow> string) \<Rightarrow> 'r option \<Rightarrow> label \<Rightarrow> label" where
  "name_or name r fallback = (case r of Some x \<Rightarrow> Raw (name x) | None \<Rightarrow> fallback)"

definition value_or :: "string \<Rightarrow> label \<Rightarrow> label" where
  "value_or v fallback = (if v \<noteq> [] then Raw v else fallback)"

definition verified_at :: "string option \<Rightarrow> locale_id \<Rightarrow> label" where
  "verified_at v l = (if v \<notin> {None, Some []} then formatDateTime v l else Tr ''dns.notVerified'' [])"

subsection \<open>What the shared views offer\<close>

text \<open>
  A guard tells when an event may be offered: the mutations only while nothing is pending, the
  targets a row hands out only from the rows shown, the form events only from the form's own controls.
\<close>

definition mg_guard :: "('f \<Rightarrow> bool) \<Rightarrow> bool \<Rightarrow> ('r \<Rightarrow> bool) \<Rightarrow> ('r, 'x) manager_scheme \<Rightarrow> ('r, 'f) mg_event \<Rightarrow> bool" where
  "mg_guard editor submit listed s e =
     (case e of
        MVerify r \<Rightarrow> \<not> mg_pending s \<and> listed r
      | MToggle r \<Rightarrow> \<not> mg_pending s \<and> listed r
      | MConfirmDelete \<Rightarrow> \<not> mg_pending s \<and> deleteTarget s \<noteq> None
      | MSubmit \<Rightarrow> submit \<and> formTarget s \<noteq> None
      | MForm f \<Rightarrow> editor f \<and> formTarget s \<noteq> None
      | MEdit r \<Rightarrow> listed r
      | MAskDelete r \<Rightarrow> listed r
      | MDetails r \<Rightarrow> listed r
      | _ \<Rightarrow> True)"

lemma mg_guard_simps [simp]:
  "mg_guard ed sub lst s MRefresh" "mg_guard ed sub lst s MCreate" "mg_guard ed sub lst s (MQuery v)"
  "mg_guard ed sub lst s MClear" "mg_guard ed sub lst s (MPage n)" "mg_guard ed sub lst s (MPageSize n)"
  "mg_guard ed sub lst s MCloseForm" "mg_guard ed sub lst s MCloseDelete" "mg_guard ed sub lst s MCloseDetails"
  "mg_guard ed sub lst s (MVerify r) = (\<not> mg_pending s \<and> lst r)"
  "mg_guard ed sub lst s (MToggle r) = (\<not> mg_pending s \<and> lst r)"
  "mg_guard ed sub lst s (MEdit r) = lst r" "mg_guard ed sub lst s (MAskDelete r) = lst r"
  "mg_guard ed sub lst s (MDetails r) = lst r"
  "mg_guard ed sub lst s MConfirmDelete = (\<not> mg_pending s \<and> deleteTarget s \<noteq> None)"
  "mg_guard ed sub lst s MSubmit = (sub \<and> formTarget s \<noteq> None)"
  "mg_guard ed sub lst s (MForm f) = (ed f \<and> formTarget s \<noteq> None)"
  by (simp_all add: mg_guard_def)

lemma guard_mg_toolbar: "\<forall>e\<in>offered (mg_toolbar l s). mg_guard ed sub lst s e"
  by (auto simp: mg_toolbar_def)

lemma guard_mg_error: "\<forall>e\<in>offered (mg_error_line s). mg_guard ed sub lst s e"
  by (simp add: mg_error_line_def)

lemma guard_mg_table:
  assumes "\<forall>r\<in>set items. \<forall>e\<in>offered (row r). mg_guard ed sub lst s e"
  shows "\<forall>e\<in>offered (mg_table hs row items). mg_guard ed sub lst s e"
  using assms by (auto simp: mg_table_def)

lemma guard_mg_foot: "\<forall>e\<in>offered (mg_foot l texts s). mg_guard ed sub lst s e"
  by (auto simp: mg_foot_def Let_def ResourcePagination_offered)

lemma guard_mg_form:
  "\<forall>e\<in>offered (mg_form_dialog t d blocked fs s). mg_guard (\<lambda>f. f \<in> offered_any fs) (\<not> blocked) lst s e"
  by (auto simp: mg_form_dialog_def offered_map_view)

lemma guard_mg_delete: "\<forall>e\<in>offered (mg_delete_dialog t d ns s). mg_guard ed sub lst s e"
  by (auto simp: mg_delete_dialog_def)

lemma guard_mg_details: "\<forall>e\<in>offered (mg_details_dialog t d rows s). mg_guard ed sub lst s e"
proof -
  have "offered_any (map Txt ls) = {}" for ls by (induction ls) auto
  then show ?thesis by (auto simp: mg_details_dialog_def split: option.splits)
qed

lemmas mg_guards = guard_mg_toolbar guard_mg_error guard_mg_foot guard_mg_form guard_mg_delete guard_mg_details

subsection \<open>Frame facts\<close>

lemma mg_act_pending [simp]: "mg_pending (mg_act e s) = mg_pending s"
  by (cases e) (simp_all add: mg_act_def router_refresh_def openCreate_form_def closeForm_def)

lemma mg_act_more [simp]: "manager.more (mg_act e s) = manager.more s"
  by (cases e) (simp_all add: mg_act_def router_refresh_def openCreate_form_def closeForm_def)

lemma mg_start_fields [simp]:
  "mg_pending (mg_start s)" "formTarget (mg_start s) = formTarget s" "manager.more (mg_start s) = manager.more s"
  "deleteTarget (mg_start s) = deleteTarget s" "mg_items (mg_start s) = mg_items s"
  by (simp_all add: mg_start_def)

lemma mg_start_call:
  "mg_save c s = (s', ks) \<Longrightarrow> ks = [] \<and> mg_pending s' = mg_pending s \<or> mg_pending s' \<and> length ks = 1"
  "mg_delete s = (s', ks) \<Longrightarrow> ks = [] \<and> mg_pending s' = mg_pending s \<or> mg_pending s' \<and> length ks = 1"
  "mg_verify i r s = (s', ks) \<Longrightarrow> mg_pending s' \<and> length ks = 1"
  "mg_toggle b r s = (s', ks) \<Longrightarrow> mg_pending s' \<and> length ks = 1"
  by (auto simp: mg_save_def mg_delete_def mg_verify_def mg_toggle_def split: option.splits sum.splits)

lemma mg_replies_pending [simp]:
  "\<not> mg_pending (mg_saved l r s)" "\<not> mg_pending (mg_deleted tx r s)"
  "\<not> mg_pending (mg_verified l r s)" "\<not> mg_pending (mg_toggled l r s)"
  by (simp_all add: mg_saved_def mg_deleted_def mg_verified_def mg_toggled_def router_refresh_def closeForm_def
      split: sum.splits)

lemma mg_replies_more [simp]:
  "manager.more (mg_saved l r s) = manager.more s" "manager.more (mg_deleted tx r s) = manager.more s"
  "manager.more (mg_verified l r s) = manager.more s" "manager.more (mg_toggled l r s) = manager.more s"
  by (simp_all add: mg_saved_def mg_deleted_def mg_verified_def mg_toggled_def router_refresh_def closeForm_def
      split: sum.splits)

lemma mg_start_more [simp]:
  "manager.more (fst (mg_save c s)) = manager.more s" "manager.more (fst (mg_delete s)) = manager.more s"
  "manager.more (fst (mg_verify i a s)) = manager.more s" "manager.more (fst (mg_toggle b a s)) = manager.more s"
  by (simp_all add: mg_save_def mg_delete_def mg_verify_def mg_toggle_def split: option.splits sum.splits)

lemma mg_search_page [simp]: "mg_search texts (s\<lparr>mg_page := n\<rparr>) = mg_search texts s"
  by (simp add: mg_search_def)

interpretation mg_pages: paged_view "mg_search texts" mg_page mg_pageSize "mg_pageCount texts"
    "mg_currentPage texts" "mg_paginated texts" "\<lambda>n s. s\<lparr>mg_page := n\<rparr>"
  for texts :: "'r \<Rightarrow> string list"
  by unfold_locales (simp_all add: mg_pageCount_def mg_currentPage_def mg_paginated_def)

end
