(* ===== verification/Cloud_Credentials.thy ===== *)
theory Cloud_Credentials
  imports Managers
begin

text \<open>
  The cloud credentials, \<open>CloudCredentialManager\<close> of
  \<^verbatim>\<open>features/credentials/components/cloud-credential-manager.tsx\<close>: its form with the values the
  browser keeps in the inputs, the checks and the payload of a save, the requests, the views.
\<close>

subsection \<open>Form and requests\<close>

record cc_form =
  cc_name :: string
  cc_description :: string
  cc_provider :: string
  cc_keyId :: string
  cc_secret :: string

record cc_state = "cloud_credential manager" +
  cc_inputs :: cc_form

record credential_draft =
  draft_name :: string
  draft_description :: string
  draft_provider :: string
  draft_accessKeyId :: string
  draft_accessKeySecret :: string

record credential_payload =
  cp_name :: string
  cp_description :: string
  cp_provider :: string
  cp_credentials :: "(string \<times> string) option"

datatype cc_field = CcName string | CcDescription string | CcProvider string | CcKeyId string | CcSecret string

type_synonym cc_call = "(cloud_credential, credential_payload) mg_call"
type_synonym cc_event = "(cloud_credential, cc_field) mg_event"

definition availableProviders :: "(string \<times> label \<times> bool) list" where
  "availableProviders = [(''aliyun'', Tr ''cloud.aliyun'' [], False)]"

definition mount_cc_form :: "cloud_credential option \<Rightarrow> cc_form" where
  "mount_cc_form c =
     \<lparr>cc_name = (case c of Some x \<Rightarrow> cred_name x | None \<Rightarrow> []),
      cc_description = (case c of Some x \<Rightarrow> cred_description x | None \<Rightarrow> []),
      cc_provider = (case c of Some x \<Rightarrow> cred_provider x | None \<Rightarrow> []),
      cc_keyId = [], cc_secret = []\<rparr>"

definition edit_cc_form :: "cc_field \<Rightarrow> cc_form \<Rightarrow> cc_form" where
  "edit_cc_form e f =
     (case e of
        CcName v \<Rightarrow> f\<lparr>cc_name := v\<rparr>
      | CcDescription v \<Rightarrow> f\<lparr>cc_description := v\<rparr>
      | CcProvider k \<Rightarrow> f\<lparr>cc_provider := k\<rparr>
      | CcKeyId v \<Rightarrow> f\<lparr>cc_keyId := v\<rparr>
      | CcSecret v \<Rightarrow> f\<lparr>cc_secret := v\<rparr>)"

text \<open>\<open>submit\<close> of the form: the key inputs do not exist while editing, so they read as empty.\<close>

definition cc_draft :: "cc_state \<Rightarrow> credential_draft" where
  "cc_draft s =
     (let f = cc_inputs s; editing = isEditing s
      in \<lparr>draft_name = cc_name f, draft_description = cc_description f, draft_provider = cc_provider f,
          draft_accessKeyId = js_trim (if editing then [] else cc_keyId f),
          draft_accessKeySecret = js_trim (if editing then [] else cc_secret f)\<rparr>)"

definition check_credential :: "bool \<Rightarrow> credential_draft \<Rightarrow> label + credential_payload" where
  "check_credential editing d =
     (let isRotating = (draft_accessKeyId d \<noteq> [] \<or> draft_accessKeySecret d \<noteq> [])
      in if js_trim (draft_name d) = [] then Inl (Tr ''cloud.nameRequired'' [])
         else if draft_provider d = [] then Inl (Tr ''cloud.providerRequired'' [])
         else if \<not> editing \<and> \<not> isRotating then Inl (Tr ''cloud.keysRequired'' [])
         else if isRotating \<and> (draft_accessKeyId d = [] \<or> draft_accessKeySecret d = [])
           then Inl (Tr ''cloud.keysRequired'' [])
         else Inr \<lparr>cp_name = js_trim (draft_name d), cp_description = js_trim (draft_description d),
           cp_provider = draft_provider d,
           cp_credentials = (if isRotating then Some (draft_accessKeyId d, draft_accessKeySecret d) else None)\<rparr>)"

definition saveCredential :: "cc_state \<Rightarrow> cc_state \<times> cc_call list" where
  "saveCredential s = mg_save (check_credential (isEditing s) (cc_draft s)) s"

definition cc_request :: "cc_call \<Rightarrow> string \<times> string" where
  "cc_request k =
     (case k of
        SaveCall t y \<Rightarrow>
          (case t of
             EditOf c \<Rightarrow> (''PATCH'', ''/api/cloud-credentials/'' @ cred_id c)
           | CreateNew \<Rightarrow> (''POST'', ''/api/cloud-credentials''))
      | DeleteCall c \<Rightarrow> (''DELETE'', ''/api/cloud-credentials/'' @ cred_id c)
      | VerifyCall c \<Rightarrow> (''POST'', ''/api/cloud-credentials/'' @ cred_id c @ ''/verify'')
      | ToggleCall c enable \<Rightarrow>
          (''POST'', ''/api/cloud-credentials/'' @ cred_id c @ ''/'' @ (if enable then ''enable'' else ''disable'')))"

definition deleteCredential :: "cc_state \<Rightarrow> cc_state \<times> cc_call list" where
  "deleteCredential s = mg_delete s"

definition verifyCredential :: "cloud_credential \<Rightarrow> cc_state \<Rightarrow> cc_state \<times> cc_call list" where
  "verifyCredential c s = mg_verify cred_id c s"

definition toggleCredential :: "cloud_credential \<Rightarrow> cc_state \<Rightarrow> cc_state \<times> cc_call list" where
  "toggleCredential c s = mg_toggle (cred_status c = ''disabled'') c s"

definition credential_delete_error :: "failure \<Rightarrow> label" where
  "credential_delete_error f =
     (if failure_is_conflict f then Tr ''cloud.deleteBlocked'' [] else failure_message f (Tr ''cloud.deleteFailed'' []))"

definition cc_act :: "cc_event \<Rightarrow> cc_state \<Rightarrow> cc_state \<times> cc_call list" where
  "cc_act e s =
     (case e of
        MVerify c \<Rightarrow> verifyCredential c s
      | MToggle c \<Rightarrow> toggleCredential c s
      | MForm x \<Rightarrow> (s\<lparr>cc_inputs := edit_cc_form x (cc_inputs s)\<rparr>, [])
      | MSubmit \<Rightarrow> saveCredential s
      | MConfirmDelete \<Rightarrow> deleteCredential s
      | _ \<Rightarrow> (mg_act e s, []))"

definition cc_continue :: "cc_call \<Rightarrow> failure + unit \<Rightarrow> cc_state \<Rightarrow> cc_state" where
  "cc_continue k r s =
     (case k of
        SaveCall t y \<Rightarrow> mg_saved (Tr ''cloud.saveFailed'' []) r s
      | DeleteCall c \<Rightarrow> mg_deleted credential_delete_error r s
      | VerifyCall c \<Rightarrow> mg_verified (Tr ''cloud.verifyFailed'' []) r s
      | ToggleCall c enable \<Rightarrow> mg_toggled (Tr ''cloud.statusUpdateFailed'' []) r s)"

text \<open>The form is mounted anew when its key changes.\<close>

definition cc_remount :: "cc_state \<Rightarrow> cc_state \<Rightarrow> cc_state" where
  "cc_remount before s =
     (if form_key cred_id (formTarget s) \<noteq> form_key cred_id (formTarget before)
      then s\<lparr>cc_inputs := mount_cc_form (edited (formTarget s))\<rparr> else s)"

definition cc_handle :: "cc_event \<Rightarrow> cc_state \<Rightarrow> cc_state \<times> cc_call list" where
  "cc_handle e s = (let (s', ks) = cc_act e s in (cc_remount s s', ks))"

definition cc_resume :: "cc_call \<Rightarrow> failure + unit \<Rightarrow> cc_state \<Rightarrow> cc_state \<times> cc_call list" where
  "cc_resume k r s = (cc_remount s (cc_continue k r s), [])"

subsection \<open>Views\<close>

definition credential_texts :: "cloud_credential \<Rightarrow> string list" where
  "credential_texts c =
     [cred_name c, cred_description c, cred_provider c, accessKeyId c, credentialHint c, cred_status c]"

definition providerLabel :: "string \<Rightarrow> label" where
  "providerLabel p = (if p = ''aliyun'' then Tr ''cloud.aliyun'' [] else Raw p)"

definition credential_status_label :: "string \<Rightarrow> label" where
  "credential_status_label st =
     (if st = ''active'' then Tr ''status.active'' [] else if st = ''disabled'' then Tr ''status.disabled'' []
      else if st = ''invalid'' then Tr ''status.invalid'' [] else if st = ''rotating'' then Tr ''cloud.status.rotating'' []
      else Raw st)"

definition cc_actions :: "cc_state \<Rightarrow> cloud_credential \<Rightarrow> cc_event table_action list" where
  "cc_actions s c =
     [action ''details'' (Tr ''common.details'' []) (MDetails c) False,
      (action ''verify'' (Tr ''common.verify'' []) (MVerify c) (mg_pending s))
        \<lparr>ta_pending := (verifyingId s = Some (cred_id c)), ta_pendingLabel := Some (Tr ''cloud.verifyPending'' [])\<rparr>,
      action ''toggle'' (Tr (if cred_status c = ''disabled'' then ''common.enable'' else ''common.disable'') [])
        (MToggle c) (mg_pending s),
      action ''edit'' (Tr ''dns.editAction'' []) (MEdit c) False,
      action ''delete'' (Tr ''dns.deleteAction'' []) (MAskDelete c) False]"

definition cc_row :: "cc_state \<Rightarrow> cloud_credential \<Rightarrow> cc_event view" where
  "cc_row s c =
     El ''Table.Row''
      [Txt (Raw (cred_name c)), Txt (value_or (cred_description c) (Raw ''-'')), Txt (providerLabel (cred_provider c)),
       Txt (value_or (accessKeyId c) (Tr ''cloud.notRecorded'' [])), Txt (Raw (credentialHint c)),
       StatusTag (cred_status c), TableActions (cc_actions s c)]"

definition cc_form_fields :: "cc_state \<Rightarrow> cc_field view list" where
  "cc_form_fields s =
     (let f = cc_inputs s; editing = isEditing s
      in [Field (Tr ''common.name'' []) (cc_name f) CcName,
          Field (Tr ''common.description'' []) (cc_description f) CcDescription,
          Choice (Tr ''cloud.provider'' []) (if cc_provider f = [] then None else Some (cc_provider f)) editing
            availableProviders CcProvider,
          show_if editing (Txt (Tr ''cloud.providerImmutable'' []))] @
         (if editing
          then [Txt (case edited (formTarget s) of Some c \<Rightarrow> value_or (accessKeyId c) (Tr ''cloud.notRecorded'' [])
                     | None \<Rightarrow> no_text),
                Txt (Tr ''cloud.secretImmutable'' [])]
          else [Field (Raw ''AccessKey ID'') (cc_keyId f) CcKeyId,
                Field (Raw ''AccessKey Secret'') (cc_secret f) CcSecret]))"

definition CloudCredentialFormModal :: "cc_state \<Rightarrow> cc_event view" where
  "CloudCredentialFormModal s =
     mg_form_dialog (Tr (if isEditing s then ''cloud.edit'' else ''cloud.create'') [])
       (Tr (if isEditing s then ''cloud.formEditDescription'' else ''cloud.formCreateDescription'') [])
       (mg_pending s) (cc_form_fields s) s"

definition DeleteCredentialModal :: "cc_state \<Rightarrow> cc_event view" where
  "DeleteCredentialModal s =
     mg_delete_dialog (Tr ''cloud.deleteTitle'' [])
       (Tr ''cloud.deleteDescription'' [(''name'', case deleteTarget s of Some c \<Rightarrow> cred_name c | None \<Rightarrow> [])])
       [Tr ''cloud.deleteHint'' []] s"

definition CredentialDetailsModal :: "cc_state \<Rightarrow> cc_event view" where
  "CredentialDetailsModal s =
     mg_details_dialog (name_or cred_name (detailsTarget s) (Tr ''cloud.details'' [])) (Tr ''cloud.detailDescription'' [])
       (\<lambda>c. [Raw (cred_name c), providerLabel (cred_provider c),
          value_or (accessKeyId c) (Tr ''cloud.notRecordedRotate'' []),
          value_or (cred_description c) (Tr ''cloud.notProvided'' []), Raw (credentialHint c),
          credential_status_label (cred_status c), formatDateTime (cred_lastVerifiedAt c) (mg_locale s)] @
         (if cred_lastError c \<noteq> [] then [Raw (cred_lastError c)] else []) @
         [formatDate (Some (cred_createdAt c)) (mg_locale s)]) s"

definition cc_view :: "cc_state \<Rightarrow> cc_event view" where
  "cc_view s =
     El ''section''
      [mg_toolbar (Tr ''cloud.create'' []) s, mg_error_line s,
       mg_table [Tr ''common.name'' [], Tr ''common.description'' [], Tr ''cloud.provider'' [], Raw ''AccessKey ID'',
         Tr ''cloud.credentialHint'' [], Tr ''common.status'' [], Tr ''common.actions'' []]
         (cc_row s) (mg_paginated credential_texts s),
       mg_foot \<lparr>empty_title = Tr ''cloud.empty'' [], empty_description = Tr ''cloud.emptyDescription'' [],
           empty_action = Tr ''cloud.create'' [], none_title = Tr ''cloud.noResults'' [],
           none_description = Tr ''cloud.noResultsDescription'' [], none_action = Tr ''cloud.clearSearch'' []\<rparr>
         credential_texts s,
       CloudCredentialFormModal s, DeleteCredentialModal s, CredentialDetailsModal s]"

definition cloud_app :: "(cc_state, cc_event, cc_call, failure + unit) app" where
  "cloud_app = \<lparr>app_view = cc_view, app_ambient = (\<lambda>s. {}), app_handle = cc_handle, app_resume = cc_resume,
     app_answers = (\<lambda>k. UNIV), app_outside = (\<lambda>s. {s\<lparr>mg_items := xs\<rparr> | xs. True})\<rparr>"

definition cc_mount :: "cloud_credential list \<Rightarrow> locale_id \<Rightarrow> cc_state \<times> cc_call list" where
  "cc_mount cs l =
     (\<lparr>mg_items = cs, mg_locale = l, mg_refreshes = 0, formTarget = None, detailsTarget = None, deleteTarget = None,
       mg_pending = False, verifyingId = None, mg_error = no_text, mg_query = [], mg_page = 1, mg_pageSize = 10,
       cc_inputs = mount_cc_form None\<rparr>, [])"

subsection \<open>What the view offers\<close>

lemmas cloud_simps = cloud_app_def app.simps

lemma guard_cc_row:
  "listed c \<Longrightarrow> \<forall>e\<in>offered (cc_row s c). mg_guard ed sub listed s e"
proof -
  assume l: "listed c"
  have d: "distinct (map ta_id (cc_actions s c))" by (simp add: cc_actions_def action_def)
  have "offered (cc_row s c) = offered (TableActions (cc_actions s c))" by (simp add: cc_row_def)
  then show ?thesis
    unfolding TableActions_offered [OF d] using l by (auto simp: cc_actions_def action_def)
qed

lemma guard_cc_view:
  assumes "e \<in> offered (cc_view s)"
  shows "mg_guard (\<lambda>f. f \<in> offered_any (cc_form_fields s)) (\<not> mg_pending s) (\<lambda>c. c \<in> set (mg_items s)) s e"
proof -
  have sub: "set (mg_paginated credential_texts s) \<subseteq> set (mg_items s)"
    using mg_pages.page_visible [of credential_texts s] by (auto simp: mg_search_def Let_def split: if_splits)
  have "\<forall>e\<in>offered (cc_view s). mg_guard (\<lambda>f. f \<in> offered_any (cc_form_fields s)) (\<not> mg_pending s) (\<lambda>c. c \<in> set (mg_items s)) s e"
    unfolding cc_view_def offered.simps list.map list.set Union_insert ball_Un Union_empty
      CloudCredentialFormModal_def DeleteCredentialModal_def CredentialDetailsModal_def
    using sub by (intro conjI mg_guards guard_mg_table) (auto intro!: guard_cc_row [rule_format])
  with assms show ?thesis by blast
qed

lemma provider_offered:
  assumes "MForm (CcProvider k) \<in> offered (cc_view s)"
  shows "\<not> isEditing s \<and> k = ''aliyun''"
  using guard_cc_view [OF assms]
  by (auto simp: cc_form_fields_def Let_def availableProviders_def image_iff split: if_splits)

subsection \<open>The busy flag\<close>

lemma cc_remount_fields [simp]:
  "mg_pending (cc_remount b s) = mg_pending s" "formTarget (cc_remount b s) = formTarget s"
  by (simp_all add: cc_remount_def)

lemma cc_act_flight:
  assumes "mg_guard ed (\<not> mg_pending s) listed s e" "cc_act e s = (s', ks)"
  shows "ks = [] \<and> mg_pending s' = mg_pending s \<or> \<not> mg_pending s \<and> mg_pending s' \<and> length ks = 1"
  using assms mg_start_call
  by (cases e) (fastforce simp: cc_act_def saveCredential_def deleteCredential_def verifyCredential_def toggleCredential_def)+

lemma cc_continue_pending [simp]: "\<not> mg_pending (cc_continue k r s)"
  by (cases k) (simp_all add: cc_continue_def)

lemma cc_handle_flight:
  assumes "e \<in> offered (cc_view s)" "cc_handle e s = (s', ks)"
  shows "ks = [] \<and> mg_pending s' = mg_pending s \<or> \<not> mg_pending s \<and> mg_pending s' \<and> length ks = 1"
proof -
  obtain s1 where s1: "cc_act e s = (s1, ks)" "s' = cc_remount s s1"
    using assms(2) by (auto simp: cc_handle_def split: prod.splits)
  from cc_act_flight [OF guard_cc_view [OF assms(1)] s1(1)] s1(2) show ?thesis by simp
qed

interpretation cc_flight: releasing_flight cloud_app mg_pending "\<lambda>k. True"
proof unfold_locales
  fix e s s' ks
  assume "e \<in> offered (app_view cloud_app s) \<union> app_ambient cloud_app s" "app_handle cloud_app e s = (s', ks)"
  then have "e \<in> offered (cc_view s)" "cc_handle e s = (s', ks)" by (simp_all add: cloud_simps)
  from cc_handle_flight [OF this]
  show "filter (\<lambda>k. True) ks = [] \<and> mg_pending s' = mg_pending s \<or>
      \<not> mg_pending s \<and> mg_pending s' \<and> length (filter (\<lambda>k. True) ks) = 1" by simp
qed (auto simp: cloud_simps cc_resume_def)

subsection \<open>What is saved\<close>

text \<open>
  C19. A credential request is sent only for what the user confirmed, with nothing else waiting: a
  save from the save button, with a trimmed name that is not empty and a provider, a new one with both halves of
  the key, trimmed and not empty, an edited one with no key material at all, so that an edit never
  rotates a key; a deletion from its dialog; a verification or a toggle from a listed credential,
  a toggle that enables exactly the disabled.
\<close>

theorem credential_requests_complete:
  assumes "e \<in> offered (app_view cloud_app s)" "app_handle cloud_app e s = (s', ks)" "k \<in> set ks"
  shows "\<not> mg_pending s \<and>
    (case k of
       SaveCall t y \<Rightarrow> e = MSubmit \<and> formTarget s = Some t \<and>
         cp_name y \<noteq> [] \<and> js_trim (cp_name y) = cp_name y \<and> cp_provider y \<noteq> [] \<and>
         (case t of
            EditOf c \<Rightarrow> cp_credentials y = None
          | CreateNew \<Rightarrow> (\<exists>i v. cp_credentials y = Some (i, v) \<and> i \<noteq> [] \<and> v \<noteq> [] \<and> js_trim i = i \<and> js_trim v = v))
     | DeleteCall c \<Rightarrow> e = MConfirmDelete \<and> deleteTarget s = Some c
     | VerifyCall c \<Rightarrow> e = MVerify c \<and> c \<in> set (mg_items s)
     | ToggleCall c b \<Rightarrow> e = MToggle c \<and> c \<in> set (mg_items s) \<and> b = (cred_status c = ''disabled''))"
proof -
  have g: "mg_guard (\<lambda>f. f \<in> offered_any (cc_form_fields s)) (\<not> mg_pending s) (\<lambda>c. c \<in> set (mg_items s)) s e"
    using assms(1) by (intro guard_cc_view) (simp add: cloud_simps)
  from assms(2,3) have ks: "k \<in> set (snd (cc_act e s))" by (auto simp: cloud_simps cc_handle_def split: prod.splits)
  show ?thesis
  proof (cases "e = MSubmit")
    case True
    then obtain t y where k: "k = SaveCall t y" "formTarget s = Some t" "check_credential (isEditing s) (cc_draft s) = Inr y"
      using ks by (auto simp: cc_act_def saveCredential_def mg_save_def split: option.splits sum.splits)
    with g True show ?thesis
      by (cases t) (auto simp: check_credential_def cc_draft_def isEditing_def Let_def split: if_splits)
  next
    case False
    with g ks show ?thesis
      by (cases e) (auto simp: cc_act_def verifyCredential_def toggleCredential_def deleteCredential_def mg_verify_def
          mg_toggle_def mg_delete_def split: option.splits)
  qed
qed

definition cc_sample :: cc_state where
  "cc_sample = (fst (cc_mount [] En))\<lparr>formTarget := Some CreateNew,
     cc_inputs := \<lparr>cc_name = '' prod'', cc_description = [], cc_provider = ''aliyun'', cc_keyId = ''LTAI'', cc_secret = ''x''\<rparr>\<rparr>"

lemma cc_sample_submit:
  "app_handle cloud_app MSubmit cc_sample = (mg_start cc_sample,
     [SaveCall CreateNew \<lparr>cp_name = ''prod'', cp_description = [], cp_provider = ''aliyun'', cp_credentials = Some (''LTAI'', ''x'')\<rparr>])"
  "MSubmit \<in> offered (app_view cloud_app cc_sample)"
proof -
  have f: "formTarget cc_sample = Some CreateNew" "\<not> mg_pending cc_sample"
    by (simp_all add: cc_sample_def cc_mount_def)
  have c: "check_credential (isEditing cc_sample) (cc_draft cc_sample) =
      Inr \<lparr>cp_name = ''prod'', cp_description = [], cp_provider = ''aliyun'', cp_credentials = Some (''LTAI'', ''x'')\<rparr>"
    by code_simp
  have r: "cc_remount cc_sample (mg_start cc_sample) = mg_start cc_sample" by (simp add: cc_remount_def)
  show "app_handle cloud_app MSubmit cc_sample = (mg_start cc_sample,
      [SaveCall CreateNew \<lparr>cp_name = ''prod'', cp_description = [], cp_provider = ''aliyun'', cp_credentials = Some (''LTAI'', ''x'')\<rparr>])"
    by (simp add: cloud_simps cc_handle_def cc_act_def saveCredential_def mg_save_def c f r)
  show "MSubmit \<in> offered (app_view cloud_app cc_sample)"
    using f by (simp add: cloud_simps cc_view_def CloudCredentialFormModal_def mg_form_dialog_def)
qed

lemma credential_requests_complete_witness:
  "snd (app_handle cloud_app MSubmit cc_sample) =
     [SaveCall CreateNew \<lparr>cp_name = ''prod'', cp_description = [], cp_provider = ''aliyun'', cp_credentials = Some (''LTAI'', ''x'')\<rparr>] \<and>
   \<not> mg_pending cc_sample"
proof
  show "snd (app_handle cloud_app MSubmit cc_sample) =
     [SaveCall CreateNew \<lparr>cp_name = ''prod'', cp_description = [], cp_provider = ''aliyun'', cp_credentials = Some (''LTAI'', ''x'')\<rparr>]"
    by (simp add: cc_sample_submit(1))
  show "\<not> mg_pending cc_sample"
    using credential_requests_complete [OF cc_sample_submit(2,1)] by simp
qed

end
