(* ===== verification/Acme_Accounts.thy ===== *)
theory Acme_Accounts
  imports Managers
begin

text \<open>
  The ACME accounts, \<open>ACMEAccountManager\<close> of
  \<^verbatim>\<open>features/credentials/components/acme-account-manager.tsx\<close>: its form, the checks and the payload
  of a save, the requests, the views.
\<close>

subsection \<open>Form and requests\<close>

record acme_form =
  af_name :: string
  af_directoryUrl :: string
  af_email :: string
  af_algorithm :: string
  af_privateKey :: string

record acme_state = "acme_account manager" +
  acme_inputs :: acme_form

record acme_payload =
  ap_name :: string
  ap_directoryUrl :: string
  ap_email :: string
  ap_privateKeyAlgorithm :: string
  ap_privateKey :: "string option"

datatype acme_field =
    AfName string | AfDirectory string | AfEmail string | AfAlgorithm string | AfPrivateKey string

type_synonym acme_call = "(acme_account, acme_payload) mg_call"
type_synonym acme_event = "(acme_account, acme_field) mg_event"

definition acme_keyAlgorithms :: "(string \<times> string) list" where
  "acme_keyAlgorithms =
     [(''ecdsa_p256'', ''ECDSA P-256''), (''ecdsa_p384'', ''ECDSA P-384''), (''rsa_2048'', ''RSA 2048''),
      (''rsa_4096'', ''RSA 4096'')]"

definition mount_acme_form :: "acme_account option \<Rightarrow> acme_form" where
  "mount_acme_form a =
     (case a of
        None \<Rightarrow> \<lparr>af_name = [], af_directoryUrl = ''https://acme-v02.api.letsencrypt.org/directory'', af_email = [],
          af_algorithm = ''ecdsa_p256'', af_privateKey = []\<rparr>
      | Some x \<Rightarrow> \<lparr>af_name = acme_name x, af_directoryUrl = directoryUrl x, af_email = acme_email x,
          af_algorithm = privateKeyAlgorithm x, af_privateKey = []\<rparr>)"

definition edit_acme_form :: "acme_field \<Rightarrow> acme_form \<Rightarrow> acme_form" where
  "edit_acme_form e f =
     (case e of
        AfName v \<Rightarrow> f\<lparr>af_name := v\<rparr>
      | AfDirectory v \<Rightarrow> f\<lparr>af_directoryUrl := v\<rparr>
      | AfEmail v \<Rightarrow> f\<lparr>af_email := v\<rparr>
      | AfAlgorithm k \<Rightarrow> f\<lparr>af_algorithm := k\<rparr>
      | AfPrivateKey v \<Rightarrow> f\<lparr>af_privateKey := v\<rparr>)"

definition check_acme :: "acme_form \<Rightarrow> label + acme_payload" where
  "check_acme d =
     (if js_trim (af_name d) = [] then Inl (Tr ''acme.nameRequired'' [])
      else if js_trim (af_directoryUrl d) = [] then Inl (Tr ''acme.directoryRequired'' [])
      else if js_trim (af_email d) = [] then Inl (Tr ''acme.emailRequired'' [])
      else Inr \<lparr>ap_name = js_trim (af_name d), ap_directoryUrl = js_trim (af_directoryUrl d),
        ap_email = js_trim (af_email d), ap_privateKeyAlgorithm = af_algorithm d,
        ap_privateKey = (if js_trim (af_privateKey d) \<noteq> [] then Some (js_trim (af_privateKey d)) else None)\<rparr>)"

definition acme_saveAccount :: "acme_state \<Rightarrow> acme_state \<times> acme_call list" where
  "acme_saveAccount s = mg_save (check_acme (acme_inputs s)) s"

definition acme_request :: "acme_call \<Rightarrow> string \<times> string" where
  "acme_request k =
     (case k of
        SaveCall t y \<Rightarrow>
          (case t of
             EditOf a \<Rightarrow> (''PATCH'', ''/api/acme-accounts/'' @ acme_id a)
           | CreateNew \<Rightarrow> (''POST'', ''/api/acme-accounts''))
      | DeleteCall a \<Rightarrow> (''DELETE'', ''/api/acme-accounts/'' @ acme_id a)
      | VerifyCall a \<Rightarrow> (''POST'', ''/api/acme-accounts/'' @ acme_id a @ ''/verify'')
      | ToggleCall a enable \<Rightarrow> (''POST'', ''/api/acme-accounts/'' @ acme_id a))"

definition acme_deleteAccount :: "acme_state \<Rightarrow> acme_state \<times> acme_call list" where
  "acme_deleteAccount s = mg_delete s"

definition acme_verifyAccount :: "acme_account \<Rightarrow> acme_state \<Rightarrow> acme_state \<times> acme_call list" where
  "acme_verifyAccount a s = mg_verify acme_id a s"

definition acme_delete_error :: "failure \<Rightarrow> label" where
  "acme_delete_error f =
     (if failure_is_conflict f then Tr ''acme.deleteBlocked'' [] else failure_message f (Tr ''acme.deleteFailed'' []))"

text \<open>An ACME account has no toggle: no control offers it, and nothing handles it.\<close>

definition acme_act :: "acme_event \<Rightarrow> acme_state \<Rightarrow> acme_state \<times> acme_call list" where
  "acme_act e s =
     (case e of
        MVerify a \<Rightarrow> acme_verifyAccount a s
      | MForm x \<Rightarrow> (s\<lparr>acme_inputs := edit_acme_form x (acme_inputs s)\<rparr>, [])
      | MSubmit \<Rightarrow> acme_saveAccount s
      | MConfirmDelete \<Rightarrow> acme_deleteAccount s
      | _ \<Rightarrow> (mg_act e s, []))"

definition acme_continue :: "acme_call \<Rightarrow> failure + unit \<Rightarrow> acme_state \<Rightarrow> acme_state" where
  "acme_continue k r s =
     (case k of
        SaveCall t y \<Rightarrow> mg_saved (Tr ''acme.saveFailed'' []) r s
      | DeleteCall a \<Rightarrow> mg_deleted acme_delete_error r s
      | VerifyCall a \<Rightarrow> mg_verified (Tr ''acme.verifyFailed'' []) r s
      | ToggleCall a enable \<Rightarrow> mg_toggled no_text r s)"

definition acme_remount :: "acme_state \<Rightarrow> acme_state \<Rightarrow> acme_state" where
  "acme_remount before s =
     (if form_key acme_id (formTarget s) \<noteq> form_key acme_id (formTarget before)
      then s\<lparr>acme_inputs := mount_acme_form (edited (formTarget s))\<rparr> else s)"

definition acme_handle :: "acme_event \<Rightarrow> acme_state \<Rightarrow> acme_state \<times> acme_call list" where
  "acme_handle e s = (let (s', ks) = acme_act e s in (acme_remount s s', ks))"

definition acme_resume :: "acme_call \<Rightarrow> failure + unit \<Rightarrow> acme_state \<Rightarrow> acme_state \<times> acme_call list" where
  "acme_resume k r s = (acme_remount s (acme_continue k r s), [])"

subsection \<open>Views\<close>

definition acme_texts :: "acme_account \<Rightarrow> string list" where
  "acme_texts a = [acme_name a, acme_email a, directoryUrl a, privateKeyAlgorithm a, acme_status a]"

definition algorithmLabel :: "string \<Rightarrow> label" where
  "algorithmLabel algorithm =
     (case al_get algorithm acme_keyAlgorithms of Some l \<Rightarrow> Raw l | None \<Rightarrow> Raw algorithm)"

definition acme_status_label :: "string \<Rightarrow> label" where
  "acme_status_label st =
     (if st = ''active'' then Tr ''status.active'' [] else if st = ''disabled'' then Tr ''status.disabled'' []
      else if st = ''error'' then Tr ''acme.status.error'' [] else Raw st)"

definition acme_actions :: "acme_state \<Rightarrow> acme_account \<Rightarrow> acme_event table_action list" where
  "acme_actions s a =
     [action ''details'' (Tr ''common.details'' []) (MDetails a) False,
      (action ''verify'' (Tr ''common.verify'' []) (MVerify a) (mg_pending s))
        \<lparr>ta_pending := (verifyingId s = Some (acme_id a)), ta_pendingLabel := Some (Tr ''acme.verifyPending'' [])\<rparr>,
      action ''edit'' (Tr ''dns.editAction'' []) (MEdit a) False,
      action ''delete'' (Tr ''dns.deleteAction'' []) (MAskDelete a) False]"

definition acme_row :: "acme_state \<Rightarrow> acme_account \<Rightarrow> acme_event view" where
  "acme_row s a =
     El ''Table.Row''
      [Txt (Raw (acme_name a)), Txt (Raw (acme_email a)), Txt (Raw (directoryUrl a)),
       Txt (algorithmLabel (privateKeyAlgorithm a)), StatusTag (acme_status a),
       Txt (if acme_lastError a \<noteq> [] then Tr ''status.failed'' [] else verified_at (acme_lastVerifiedAt a) (mg_locale s)),
       Txt (formatDate (Some (acme_createdAt a)) (mg_locale s)), TableActions (acme_actions s a)]"

definition acme_form_fields :: "acme_state \<Rightarrow> acme_field view list" where
  "acme_form_fields s =
     (let f = acme_inputs s
      in [Field (Tr ''common.name'' []) (af_name f) AfName,
          Field (Raw ''ACME Directory URL'') (af_directoryUrl f) AfDirectory,
          Field (Tr ''acme.email'' []) (af_email f) AfEmail,
          Choice (Tr ''acme.keyAlgorithm'' []) (Some (af_algorithm f)) False
            (map (\<lambda>(i, l). (i, Raw l, False)) acme_keyAlgorithms) AfAlgorithm,
          Field (Tr ''acme.privateKey'' []) (af_privateKey f) AfPrivateKey,
          Txt (Tr ''acme.privateKeyHint'' [])])"

definition ACMEAccountFormModal :: "acme_state \<Rightarrow> acme_event view" where
  "ACMEAccountFormModal s =
     mg_form_dialog (Tr (if isEditing s then ''acme.edit'' else ''acme.create'') [])
       (Tr (if isEditing s then ''acme.formEditDescription'' else ''acme.formCreateDescription'') [])
       (mg_pending s) (acme_form_fields s) s"

definition DeleteACMEAccountModal :: "acme_state \<Rightarrow> acme_event view" where
  "DeleteACMEAccountModal s =
     mg_delete_dialog (Tr ''acme.deleteTitle'' [])
       (Tr ''acme.deleteDescription'' [(''name'', case deleteTarget s of Some a \<Rightarrow> acme_name a | None \<Rightarrow> [])])
       [Tr ''acme.deleteHint'' [],
        (case deleteTarget s of
           Some a \<Rightarrow>
             if 0 < certificateCount a \<or> 0 < automationCount a
             then Tr ''acme.relationships'' [(''certificates'', nat_digits (certificateCount a)),
               (''automations'', nat_digits (automationCount a))]
             else Tr ''acme.noRelationships'' []
         | None \<Rightarrow> Tr ''acme.noRelationships'' [])] s"

definition ACMEAccountDetailsModal :: "acme_state \<Rightarrow> acme_event view" where
  "ACMEAccountDetailsModal s =
     mg_details_dialog (name_or acme_name (detailsTarget s) (Tr ''acme.details'' [])) (Tr ''acme.detailDescription'' [])
       (\<lambda>a. [Raw (acme_name a), Raw (directoryUrl a), value_or (accountUrl a) (Tr ''acme.notRegistered'' []),
          Raw (acme_email a), algorithmLabel (privateKeyAlgorithm a), acme_status_label (acme_status a),
          formatDate (Some (acme_createdAt a)) (mg_locale s), verified_at (acme_lastVerifiedAt a) (mg_locale s),
          Tr ''common.items'' [(''count'', nat_digits (certificateCount a))],
          Tr ''common.items'' [(''count'', nat_digits (automationCount a))]] @
         (if acme_lastError a \<noteq> [] then [Tr ''acme.lastVerificationFailed'' [(''error'', acme_lastError a)]] else []) @
         [Tr ''acme.privateKeyProtected'' []]) s"

definition acme_view :: "acme_state \<Rightarrow> acme_event view" where
  "acme_view s =
     El ''section''
      [mg_toolbar (Tr ''acme.create'' []) s, mg_error_line s,
       mg_table [Tr ''common.name'' [], Tr ''acme.email'' [], Raw ''Directory'', Tr ''acme.keyAlgorithm'' [],
         Tr ''common.status'' [], Tr ''acme.lastVerified'' [], Tr ''common.createdAt'' [], Tr ''common.actions'' []]
         (acme_row s) (mg_paginated acme_texts s),
       mg_foot \<lparr>empty_title = Tr ''acme.empty'' [], empty_description = Tr ''acme.emptyDescription'' [],
           empty_action = Tr ''acme.create'' [], none_title = Tr ''acme.noResults'' [],
           none_description = Tr ''acme.noResultsDescription'' [], none_action = Tr ''cloud.clearSearch'' []\<rparr>
         acme_texts s,
       ACMEAccountFormModal s, DeleteACMEAccountModal s, ACMEAccountDetailsModal s]"

definition acme_app :: "(acme_state, acme_event, acme_call, failure + unit) app" where
  "acme_app = \<lparr>app_view = acme_view, app_ambient = (\<lambda>s. {}), app_handle = acme_handle, app_resume = acme_resume,
     app_answers = (\<lambda>k. UNIV), app_outside = (\<lambda>s. {s\<lparr>mg_items := xs\<rparr> | xs. True})\<rparr>"

definition acme_mount :: "acme_account list \<Rightarrow> locale_id \<Rightarrow> acme_state \<times> acme_call list" where
  "acme_mount xs l =
     (\<lparr>mg_items = xs, mg_locale = l, mg_refreshes = 0, formTarget = None, detailsTarget = None, deleteTarget = None,
       mg_pending = False, verifyingId = None, mg_error = no_text, mg_query = [], mg_page = 1, mg_pageSize = 10,
       acme_inputs = mount_acme_form None\<rparr>, [])"

subsection \<open>What the view offers\<close>

lemmas acme_simps = acme_app_def app.simps

lemma offered_acme_row:
  "offered (acme_row s a) =
     {MDetails a, MEdit a, MAskDelete a} \<union> (if mg_pending s then {} else {MVerify a})"
proof -
  have d: "distinct (map ta_id (acme_actions s a))" by (simp add: acme_actions_def action_def)
  have "offered (acme_row s a) = offered (TableActions (acme_actions s a))" by (simp add: acme_row_def)
  then show ?thesis
    unfolding TableActions_offered [OF d] by (auto simp: acme_actions_def action_def)
qed

lemma guard_acme_view:
  assumes "e \<in> offered (acme_view s)"
  shows "mg_guard (\<lambda>f. f \<in> offered_any (acme_form_fields s)) (\<not> mg_pending s) (\<lambda>a. a \<in> set (mg_items s)) s e"
proof -
  have sub: "set (mg_paginated acme_texts s) \<subseteq> set (mg_items s)"
    using mg_pages.page_visible [of acme_texts s] by (auto simp: mg_search_def Let_def split: if_splits)
  have "\<forall>e\<in>offered (acme_view s). mg_guard (\<lambda>f. f \<in> offered_any (acme_form_fields s)) (\<not> mg_pending s) (\<lambda>a. a \<in> set (mg_items s)) s e"
    unfolding acme_view_def offered.simps list.map list.set Union_insert ball_Un Union_empty
      ACMEAccountFormModal_def DeleteACMEAccountModal_def ACMEAccountDetailsModal_def
    using sub by (intro conjI mg_guards guard_mg_table) (auto simp: offered_acme_row)
  with assms show ?thesis by blast
qed

subsection \<open>The busy flag\<close>

lemma acme_remount_fields [simp]:
  "mg_pending (acme_remount b s) = mg_pending s" "formTarget (acme_remount b s) = formTarget s"
  by (simp_all add: acme_remount_def)

lemma acme_act_flight:
  assumes "mg_guard ed (\<not> mg_pending s) listed s e" "acme_act e s = (s', ks)"
  shows "ks = [] \<and> mg_pending s' = mg_pending s \<or> \<not> mg_pending s \<and> mg_pending s' \<and> length ks = 1"
  using assms mg_start_call
  by (cases e) (fastforce simp: acme_act_def acme_saveAccount_def acme_deleteAccount_def acme_verifyAccount_def)+

lemma acme_continue_pending [simp]: "\<not> mg_pending (acme_continue k r s)"
  by (cases k) (simp_all add: acme_continue_def)

lemma acme_handle_flight:
  assumes "e \<in> offered (acme_view s)" "acme_handle e s = (s', ks)"
  shows "ks = [] \<and> mg_pending s' = mg_pending s \<or> \<not> mg_pending s \<and> mg_pending s' \<and> length ks = 1"
proof -
  obtain s1 where s1: "acme_act e s = (s1, ks)" "s' = acme_remount s s1"
    using assms(2) by (auto simp: acme_handle_def split: prod.splits)
  from acme_act_flight [OF guard_acme_view [OF assms(1)] s1(1)] s1(2) show ?thesis by simp
qed

interpretation acme_flight: releasing_flight acme_app mg_pending "\<lambda>k. True"
proof unfold_locales
  fix e s s' ks
  assume "e \<in> offered (app_view acme_app s) \<union> app_ambient acme_app s" "app_handle acme_app e s = (s', ks)"
  then have "e \<in> offered (acme_view s)" "acme_handle e s = (s', ks)" by (simp_all add: acme_simps)
  from acme_handle_flight [OF this]
  show "filter (\<lambda>k. True) ks = [] \<and> mg_pending s' = mg_pending s \<or>
      \<not> mg_pending s \<and> mg_pending s' \<and> length (filter (\<lambda>k. True) ks) = 1" by simp
qed (auto simp: acme_simps acme_resume_def)

subsection \<open>What is saved\<close>

text \<open>
  An account is saved only complete: name, directory and e-mail trimmed and not empty, the private
  key trimmed when there is one. An ACME account is never toggled.
\<close>

lemma acme_save_complete:
  assumes "e \<in> offered (acme_view s)" "k \<in> set (snd (acme_handle e s))"
  shows "\<not> mg_pending s \<and>
    (case k of
       SaveCall t y \<Rightarrow> e = MSubmit \<and> formTarget s = Some t \<and>
         ap_name y \<noteq> [] \<and> js_trim (ap_name y) = ap_name y \<and>
         ap_directoryUrl y \<noteq> [] \<and> js_trim (ap_directoryUrl y) = ap_directoryUrl y \<and>
         ap_email y \<noteq> [] \<and> js_trim (ap_email y) = ap_email y \<and>
         (\<forall>p. ap_privateKey y = Some p \<longrightarrow> p \<noteq> [] \<and> js_trim p = p)
     | DeleteCall a \<Rightarrow> e = MConfirmDelete \<and> deleteTarget s = Some a
     | VerifyCall a \<Rightarrow> e = MVerify a \<and> a \<in> set (mg_items s)
     | ToggleCall a b \<Rightarrow> False)"
proof -
  have ks: "k \<in> set (snd (acme_act e s))"
    using assms(2) by (auto simp: acme_handle_def split: prod.splits)
  from guard_acme_view [OF assms(1)] ks show ?thesis
    by (cases e) (auto simp: acme_act_def acme_saveAccount_def acme_deleteAccount_def acme_verifyAccount_def mg_save_def
        mg_delete_def mg_verify_def check_acme_def split: option.splits sum.splits if_splits)
qed

end
