(* ===== verification/Dns_Accounts.thy ===== *)
theory Dns_Accounts
  imports Managers
begin

text \<open>
  The DNS accounts, \<open>DNSAccountManager\<close> of
  \<^verbatim>\<open>features/credentials/components/dns-account-manager.tsx\<close>, with the zone picker of its form: an
  effect loads the zones of the chosen credential, a reply of an earlier choice is dropped. The
  account under verification is kept by its id, the only part that is read. \<open>formatMessage\<close> is the
  interpolation of the translation function.
\<close>

subsection \<open>State and requests\<close>

record dns_form =
  df_name :: string
  df_description :: string
  df_credentialId :: string
  df_zones :: "string list"
  df_selected :: "string list"
  df_loading :: bool
  df_zoneError :: label
  df_zoneQuery :: string
  df_fetchedAt :: "string option"

record dns_state = "dns_account manager" +
  dns_credentials :: "cloud_credential list"
  dns_unavailable :: bool
  dns_inputs :: dns_form
  zone_run :: nat

record dns_payload =
  dp_name :: string
  dp_description :: string
  dp_cloudCredentialId :: string
  dp_allowedZones :: "string list"

datatype dns_field =
    DfName string | DfDescription string | DfCredential string | DfZoneQuery string
  | DfSelectAll | DfClearVisible | DfRefreshZones | DfZone string bool

datatype dns_call =
    Mutation "(dns_account, dns_payload) mg_call"
  | LoadZones nat string

datatype dns_reply =
    MutationDone "failure + unit"
  | ZonesFailed label
  | ZonesAre "string list" string

type_synonym dns_event = "(dns_account, dns_field) mg_event"

definition dns_request :: "dns_call \<Rightarrow> string \<times> string" where
  "dns_request k =
     (case k of
        LoadZones n c \<Rightarrow> (''GET'', ''/api/cloud-credentials/'' @ c @ ''/dns/zones'')
      | Mutation m \<Rightarrow>
          (case m of
             SaveCall t y \<Rightarrow>
               (case t of
                  EditOf a \<Rightarrow> (''PATCH'', ''/api/dns-accounts/'' @ dns_id a)
                | CreateNew \<Rightarrow> (''POST'', ''/api/dns-accounts''))
           | DeleteCall a \<Rightarrow> (''DELETE'', ''/api/dns-accounts/'' @ dns_id a)
           | VerifyCall a \<Rightarrow> (''POST'', ''/api/dns-accounts/'' @ dns_id a @ ''/verify'')
           | ToggleCall a enable \<Rightarrow>
               (''POST'', ''/api/dns-accounts/'' @ dns_id a @ ''/'' @ (if enable then ''enable'' else ''disable''))))"

subsection \<open>The form\<close>

definition mount_dns_form :: "dns_account option \<Rightarrow> dns_form" where
  "mount_dns_form a =
     (case a of
        None \<Rightarrow> \<lparr>df_name = [], df_description = [], df_credentialId = [], df_zones = [], df_selected = [],
          df_loading = False, df_zoneError = no_text, df_zoneQuery = [], df_fetchedAt = None\<rparr>
      | Some x \<Rightarrow> \<lparr>df_name = dns_name x, df_description = dns_description x,
          df_credentialId = dns_cloudCredentialId x, df_zones = [], df_selected = allowedZones x,
          df_loading = (dns_cloudCredentialId x \<noteq> []), df_zoneError = no_text, df_zoneQuery = [],
          df_fetchedAt = None\<rparr>)"

definition selectableCredentials :: "dns_state \<Rightarrow> cloud_credential list" where
  "selectableCredentials s =
     filter (\<lambda>c. cred_status c = ''active'' \<or>
         Some (cred_id c) = map_option dns_cloudCredentialId (edited (formTarget s))) (dns_credentials s)"

definition filteredZones :: "dns_form \<Rightarrow> string list" where
  "filteredZones f =
     filter (\<lambda>z. js_includes (toLowerCase z) (toLowerCase (js_trim (df_zoneQuery f)))) (df_zones f)"

definition hasZoneOverlap :: "string list \<Rightarrow> bool" where
  "hasZoneOverlap zs =
     list_ex (\<lambda>i. list_ex (\<lambda>j. i \<noteq> j \<and>
        (suffix (CHR ''.'' # zs ! j) (zs ! i) \<or> suffix (CHR ''.'' # zs ! i) (zs ! j))) [0..<length zs]) [0..<length zs]"

text \<open>\<open>Array.from(new Set(xs))\<close>: each value where it first stands.\<close>

definition js_unique :: "'a list \<Rightarrow> 'a list" where
  "js_unique xs = rev (remdups (rev xs))"

definition changeCredential :: "string \<Rightarrow> dns_form \<Rightarrow> dns_form" where
  "changeCredential next f =
     f\<lparr>df_credentialId := next, df_zones := [], df_selected := [], df_zoneError := no_text,
       df_loading := (next \<noteq> []), df_fetchedAt := None\<rparr>"

definition selectAllZones :: "dns_form \<Rightarrow> dns_form" where
  "selectAllZones f = f\<lparr>df_selected := js_unique (df_selected f @ filteredZones f)\<rparr>"

definition clearVisibleZones :: "dns_form \<Rightarrow> dns_form" where
  "clearVisibleZones f = f\<lparr>df_selected := filter (\<lambda>z. \<not> list_ex (\<lambda>x. x = z) (filteredZones f)) (df_selected f)\<rparr>"

definition toggleZone :: "string \<Rightarrow> bool \<Rightarrow> dns_form \<Rightarrow> dns_form" where
  "toggleZone zone selected f =
     f\<lparr>df_selected := (if selected then js_unique (df_selected f @ [zone])
        else filter (\<lambda>z. z \<noteq> zone) (df_selected f))\<rparr>"

definition edit_dns_form :: "dns_field \<Rightarrow> dns_form \<Rightarrow> dns_form" where
  "edit_dns_form e f =
     (case e of
        DfName v \<Rightarrow> f\<lparr>df_name := v\<rparr>
      | DfDescription v \<Rightarrow> f\<lparr>df_description := v\<rparr>
      | DfCredential k \<Rightarrow> changeCredential k f
      | DfZoneQuery v \<Rightarrow> f\<lparr>df_zoneQuery := v\<rparr>
      | DfSelectAll \<Rightarrow> selectAllZones f
      | DfClearVisible \<Rightarrow> clearVisibleZones f
      | DfRefreshZones \<Rightarrow> changeCredential (df_credentialId f) f
      | DfZone z b \<Rightarrow> toggleZone z b f)"

text \<open>The reply of the zone effect, unless it was cancelled.\<close>

definition zones_loaded :: "nat \<Rightarrow> dns_reply \<Rightarrow> dns_state \<Rightarrow> dns_state" where
  "zones_loaded n r s =
     (if n \<noteq> zone_run s then s
      else s\<lparr>dns_inputs :=
        (case r of
           ZonesAre available now \<Rightarrow> (dns_inputs s)\<lparr>df_zones := available, df_fetchedAt := Some now,
             df_selected := filter (\<lambda>z. list_ex (\<lambda>x. x = z) available) (df_selected (dns_inputs s)), df_loading := False\<rparr>
         | ZonesFailed m \<Rightarrow> (dns_inputs s)\<lparr>df_zoneError := m, df_loading := False\<rparr>
         | MutationDone d \<Rightarrow> dns_inputs s)\<rparr>)"

text \<open>The text of a failed zone request that was answered.\<close>

definition zone_failure :: "response \<Rightarrow> label" where
  "zone_failure r = body_message r (Tr ''dns.loadZonesFailed'' [])"

subsection \<open>Mutations\<close>

definition check_dns :: "dns_form \<Rightarrow> label + dns_payload" where
  "check_dns f =
     (if js_trim (df_name f) = [] then Inl (Tr ''dns.nameRequired'' [])
      else if df_credentialId f = [] then Inl (Tr ''dns.credentialRequired'' [])
      else if length (df_selected f) = 0 then Inl (Tr ''dns.zoneRequired'' [])
      else Inr \<lparr>dp_name = js_trim (df_name f), dp_description = js_trim (df_description f),
        dp_cloudCredentialId = df_credentialId f, dp_allowedZones = df_selected f\<rparr>)"

definition dns_saveAccount :: "dns_state \<Rightarrow> dns_state \<times> (dns_account, dns_payload) mg_call list" where
  "dns_saveAccount s = mg_save (check_dns (dns_inputs s)) s"

definition dns_deleteAccount :: "dns_state \<Rightarrow> dns_state \<times> (dns_account, dns_payload) mg_call list" where
  "dns_deleteAccount s = mg_delete s"

definition dns_verifyAccount :: "dns_account \<Rightarrow> dns_state \<Rightarrow> dns_state \<times> (dns_account, dns_payload) mg_call list" where
  "dns_verifyAccount a s = mg_verify dns_id a s"

definition dns_toggleAccount :: "dns_account \<Rightarrow> dns_state \<Rightarrow> dns_state \<times> (dns_account, dns_payload) mg_call list" where
  "dns_toggleAccount a s = mg_toggle (dns_status a = ''disabled'') a s"

definition deleteImpactMessage :: "api_error \<Rightarrow> label" where
  "deleteImpactMessage e =
     (case al_get ''referenceCount'' (err_details e) of
        Some (JNum n) \<Rightarrow> Cat [Raw (err_message e), Zh '' (referenced '', Raw (int_string n), Zh '' times now)'']
      | _ \<Rightarrow> Raw (err_message e))"

definition dns_delete_error :: "failure \<Rightarrow> label" where
  "dns_delete_error f =
     (case f of
        ApiFailure e \<Rightarrow> if err_status e = 409 then deleteImpactMessage e else failure_message f (Tr ''dns.deleteFailed'' [])
      | _ \<Rightarrow> failure_message f (Tr ''dns.deleteFailed'' []))"

definition dns_act :: "dns_event \<Rightarrow> dns_state \<Rightarrow> dns_state \<times> (dns_account, dns_payload) mg_call list" where
  "dns_act e s =
     (case e of
        MVerify a \<Rightarrow> dns_verifyAccount a s
      | MToggle a \<Rightarrow> dns_toggleAccount a s
      | MForm x \<Rightarrow> (s\<lparr>dns_inputs := edit_dns_form x (dns_inputs s)\<rparr>, [])
      | MSubmit \<Rightarrow> dns_saveAccount s
      | MConfirmDelete \<Rightarrow> dns_deleteAccount s
      | _ \<Rightarrow> (mg_act e s, []))"

definition dns_mutated :: "(dns_account, dns_payload) mg_call \<Rightarrow> failure + unit \<Rightarrow> dns_state \<Rightarrow> dns_state" where
  "dns_mutated k r s =
     (case k of
        SaveCall t y \<Rightarrow> mg_saved (Tr ''dns.saveFailed'' []) r s
      | DeleteCall a \<Rightarrow> mg_deleted dns_delete_error r s
      | VerifyCall a \<Rightarrow> mg_verified (Tr ''dns.verifyFailed'' []) r s
      | ToggleCall a enable \<Rightarrow> mg_toggled (Tr ''dns.statusUpdateFailed'' []) r s)"

text \<open>
  After a change: the form is mounted anew when its key changes; the zone effect runs again when
  the form is new or its credential another one. Its other dependency, the translation function,
  is a new one only after a change of the language, which is fixed here while the page is shown.
\<close>

definition dns_commit :: "dns_state \<Rightarrow> dns_state \<Rightarrow> dns_state \<times> dns_call list" where
  "dns_commit before after =
     (let remount = (form_key dns_id (formTarget after) \<noteq> form_key dns_id (formTarget before));
          s = (if remount then after\<lparr>dns_inputs := mount_dns_form (edited (formTarget after))\<rparr> else after);
          c = df_credentialId (dns_inputs s)
      in if remount \<or> c \<noteq> df_credentialId (dns_inputs before)
         then (s\<lparr>zone_run := zone_run s + 1\<rparr>, if c \<noteq> [] then [LoadZones (zone_run s + 1) c] else [])
         else (s, []))"

definition dns_handle :: "dns_event \<Rightarrow> dns_state \<Rightarrow> dns_state \<times> dns_call list" where
  "dns_handle e s =
     (let (s1, ms) = dns_act e s; (s2, ks) = dns_commit s s1 in (s2, map Mutation ms @ ks))"

definition dns_resume :: "dns_call \<Rightarrow> dns_reply \<Rightarrow> dns_state \<Rightarrow> dns_state \<times> dns_call list" where
  "dns_resume k r s =
     dns_commit s
       (case k of
          Mutation m \<Rightarrow> (case r of MutationDone d \<Rightarrow> dns_mutated m d s | _ \<Rightarrow> s)
        | LoadZones n c \<Rightarrow> zones_loaded n r s)"

definition dns_answers :: "dns_call \<Rightarrow> dns_reply set" where
  "dns_answers k =
     (case k of
        Mutation m \<Rightarrow> range MutationDone
      | LoadZones n c \<Rightarrow> ZonesFailed ` (insert (Tr ''dns.loadZonesFailed'' []) (range Raw)) \<union>
          range (\<lambda>(zs, now). ZonesAre zs now))"

subsection \<open>Views\<close>

definition dns_texts :: "dns_account \<Rightarrow> string list" where
  "dns_texts a = [dns_name a, dns_description a, dns_provider a, dns_cloudCredentialId a] @ allowedZones a"

definition dns_status_label :: "string \<Rightarrow> label" where
  "dns_status_label st =
     (if st = ''active'' then Zh ''active'' else if st = ''disabled'' then Zh ''disabled''
      else if st = ''invalid'' then Zh ''verification failed'' else Raw st)"

definition credentialByID :: "dns_state \<Rightarrow> string \<Rightarrow> cloud_credential option" where
  "credentialByID s i = List.find (\<lambda>c. cred_id c = i) (rev (dns_credentials s))"

definition credential_line :: "cloud_credential \<Rightarrow> label" where
  "credential_line c =
     Cat [Raw (cred_name c), Raw '' ('', value_or (accessKeyId c) (Raw (credentialHint c)), Raw '')'']"

definition zones_line :: "dns_account \<Rightarrow> label" where
  "zones_line a = value_or (js_join '', '' (allowedZones a)) (Tr ''dns.unconfigured'' [])"

definition dns_actions :: "dns_state \<Rightarrow> dns_account \<Rightarrow> dns_event table_action list" where
  "dns_actions s a =
     [action ''details'' (Tr ''dns.details'' []) (MDetails a) False,
      (action ''verify'' (Tr ''common.verify'' []) (MVerify a) (mg_pending s))
        \<lparr>ta_pending := (verifyingId s = Some (dns_id a)), ta_pendingLabel := Some (Tr ''dns.verifying'' [])\<rparr>,
      action ''toggle'' (Tr (if dns_status a = ''disabled'' then ''common.enable'' else ''common.disable'') [])
        (MToggle a) (mg_pending s),
      action ''edit'' (Tr ''dns.editAction'' []) (MEdit a) False,
      action ''delete'' (Tr ''dns.deleteAction'' []) (MAskDelete a) False]"

definition dns_row :: "dns_state \<Rightarrow> dns_account \<Rightarrow> dns_event view" where
  "dns_row s a =
     El ''Table.Row''
      [Txt (Raw (dns_name a)), Txt (value_or (dns_description a) (Raw ''-'')),
       Txt (name_or cred_name (credentialByID s (dns_cloudCredentialId a)) (Raw (dns_cloudCredentialId a))),
       Txt (zones_line a), StatusTag (dns_status a),
       show_if (dns_lastError a \<noteq> []) (Txt (Raw (dns_lastError a))),
       Txt (verified_at (dns_lastVerifiedAt a) ZhCN), Txt (formatDate (Some (dns_createdAt a)) ZhCN),
       TableActions (dns_actions s a)]"

definition zone_toolbar :: "dns_form \<Rightarrow> dns_field view" where
  "zone_toolbar f =
     show_if (\<not> df_loading f \<and> 0 < length (df_zones f))
      (El ''div''
        [Field (Tr ''dns.searchZone'' []) (df_zoneQuery f) DfZoneQuery,
         Button (Tr ''dns.selectAll'' []) False DfSelectAll,
         Button (Tr ''dns.clearSelection'' []) False DfClearVisible,
         Button (Tr ''common.refresh'' []) False DfRefreshZones])"

definition zone_picker :: "dns_form \<Rightarrow> dns_field view list" where
  "zone_picker f =
     [show_if (df_loading f) (Txt (Tr ''dns.loadingZones'' [])),
      show_if (\<not> df_loading f \<and> \<not> shown (df_zoneError f) \<and> df_credentialId f = [])
        (Txt (Tr ''dns.selectCredentialHint'' [])),
      show_if (\<not> df_loading f \<and> \<not> shown (df_zoneError f) \<and> df_credentialId f \<noteq> [] \<and> length (df_zones f) = 0)
        (Txt (Tr ''dns.noZones'' [])),
      zone_toolbar f] @
     map (\<lambda>z. Check (Raw z) (list_ex (\<lambda>x. x = z) (df_selected f)) (DfZone z)) (filteredZones f)"

definition zone_help :: "dns_form \<Rightarrow> dns_field view list" where
  "zone_help f =
     (if shown (df_zoneError f) then [Txt (df_zoneError f)]
      else [Txt (Cat [Tr ''dns.zoneHint'' [], Zh '' middle dot '',
              Tr ''dns.selectedCount'' [(''count'', nat_digits (length (df_selected f)))],
              (case df_fetchedAt f of
                 None \<Rightarrow> no_text
               | Some now \<Rightarrow> if now = [] then no_text else Cat [Zh '' middle dot '', formatDateTime (Some now) ZhCN])]),
            show_if (hasZoneOverlap (df_selected f)) (Txt (Tr ''dns.zoneOverlap'' []))])"

definition dns_form_fields :: "dns_state \<Rightarrow> dns_field view list" where
  "dns_form_fields s =
     (let f = dns_inputs s; choices = selectableCredentials s
      in [Field (Tr ''common.name'' []) (df_name f) DfName,
          Field (Tr ''common.description'' []) (df_description f) DfDescription,
          Choice (Tr ''dns.credential'' []) (if df_credentialId f = [] then None else Some (df_credentialId f)) False
            (map (\<lambda>c. (cred_id c, credential_line c, False)) choices) DfCredential,
          show_if (length choices = 0) (Txt (Tr ''dns.noCredential'' []))] @
         zone_picker f @ zone_help f)"

definition DNSAccountFormModal :: "dns_state \<Rightarrow> dns_event view" where
  "DNSAccountFormModal s =
     mg_form_dialog (Tr (if isEditing s then ''dns.edit'' else ''dns.create'') []) (Tr ''dns.formDescription'' [])
       (mg_pending s \<or> df_loading (dns_inputs s)) (dns_form_fields s) s"

definition DeleteDNSAccountModal :: "dns_state \<Rightarrow> dns_event view" where
  "DeleteDNSAccountModal s =
     mg_delete_dialog (Tr ''dns.deleteTitle'' [])
       (Tr ''dns.deleteDescription'' [(''name'', case deleteTarget s of Some a \<Rightarrow> dns_name a | None \<Rightarrow> [])])
       [Tr ''dns.deleteHint'' []] s"

definition DNSAccountDetailsModal :: "dns_state \<Rightarrow> dns_event view" where
  "DNSAccountDetailsModal s =
     mg_details_dialog (name_or dns_name (detailsTarget s) (Tr ''dns.detailTitle'' [])) (Tr ''dns.detailDescription'' [])
       (\<lambda>a. [Raw (dns_name a),
          (case credentialByID s (dns_cloudCredentialId a) of
             Some c \<Rightarrow> credential_line c | None \<Rightarrow> Raw (dns_cloudCredentialId a)),
          Raw (dns_provider a), zones_line a, dns_status_label (dns_status a), verified_at (dns_lastVerifiedAt a) ZhCN,
          formatDate (Some (dns_createdAt a)) ZhCN, value_or (dns_description a) (Raw ''-''),
          value_or (dns_lastError a) (Raw ''-''), value_or (verifiedCredentialVersionId a) (Raw ''-'')]) s"

definition dns_view :: "dns_state \<Rightarrow> dns_event view" where
  "dns_view s =
     El ''section''
      [mg_toolbar (Tr ''dns.create'' []) s,
       show_if (dns_unavailable s)
         (El ''div'' [Txt (Tr ''common.apiUnavailable'' []), Button (Tr ''common.retry'' []) False MRefresh]),
       mg_error_line s,
       mg_table [Tr ''common.name'' [], Tr ''common.description'' [], Tr ''dns.credential'' [], Tr ''dns.allowedZones'' [],
         Tr ''common.status'' [], Tr ''dns.lastVerified'' [], Tr ''common.createdAt'' [], Tr ''common.actions'' []]
         (dns_row s) (mg_paginated dns_texts s),
       mg_foot \<lparr>empty_title = Tr ''dns.empty'' [], empty_description = Zh ''DNS accounts verify domains for ACME'',
           empty_action = Tr ''dns.create'' [], none_title = Tr ''common.noResults'' [],
           none_description = Zh ''adjust the name, zone or credential'', none_action = Zh ''clear search''\<rparr>
         dns_texts s,
       DNSAccountFormModal s, DeleteDNSAccountModal s, DNSAccountDetailsModal s]"

definition dns_app :: "(dns_state, dns_event, dns_call, dns_reply) app" where
  "dns_app = \<lparr>app_view = dns_view, app_ambient = (\<lambda>s. {}), app_handle = dns_handle, app_resume = dns_resume,
     app_answers = dns_answers,
     app_outside = (\<lambda>s. {s\<lparr>mg_items := xs, dns_credentials := cs, dns_unavailable := u\<rparr> | xs cs u. True})\<rparr>"

definition dns_mount :: "dns_account list \<Rightarrow> cloud_credential list \<Rightarrow> bool \<Rightarrow> locale_id \<Rightarrow> dns_state \<times> dns_call list" where
  "dns_mount xs cs u l =
     (\<lparr>mg_items = xs, mg_locale = l, mg_refreshes = 0, formTarget = None, detailsTarget = None, deleteTarget = None,
       mg_pending = False, verifyingId = None, mg_error = no_text, mg_query = [], mg_page = 1, mg_pageSize = 10,
       dns_credentials = cs, dns_unavailable = u, dns_inputs = mount_dns_form None, zone_run = 0\<rparr>, [])"

subsection \<open>What the view offers\<close>

lemmas dns_simps = dns_app_def app.simps

abbreviation dns_guard :: "dns_state \<Rightarrow> dns_event \<Rightarrow> bool" where
  "dns_guard s \<equiv> mg_guard (\<lambda>f. f \<in> offered_any (dns_form_fields s))
     (\<not> (mg_pending s \<or> df_loading (dns_inputs s))) (\<lambda>a. a \<in> set (mg_items s)) s"

lemma guard_dns_row:
  assumes "listed a"
  shows "\<forall>e\<in>offered (dns_row s a). mg_guard ed sub listed s e"
proof -
  have d: "distinct (map ta_id (dns_actions s a))" by (simp add: dns_actions_def action_def)
  have "offered (dns_row s a) = offered (TableActions (dns_actions s a))" by (simp add: dns_row_def)
  then show ?thesis
    unfolding TableActions_offered [OF d] using assms by (auto simp: dns_actions_def action_def)
qed

lemma guard_dns_view:
  assumes "e \<in> offered (dns_view s)"
  shows "dns_guard s e"
proof -
  have sub: "set (mg_paginated dns_texts s) \<subseteq> set (mg_items s)"
    using mg_pages.page_visible [of dns_texts s] by (auto simp: mg_search_def Let_def split: if_splits)
  have "\<forall>e\<in>offered (dns_view s). dns_guard s e"
    unfolding dns_view_def offered.simps list.map list.set Union_insert ball_Un Union_empty
      DNSAccountFormModal_def DeleteDNSAccountModal_def DNSAccountDetailsModal_def
    using sub by (intro conjI mg_guards guard_mg_table) (auto intro!: guard_dns_row [rule_format])
  with assms show ?thesis by blast
qed

lemma zone_offered:
  "DfZone z b \<in> offered_any (dns_form_fields s) \<Longrightarrow> z \<in> set (df_zones (dns_inputs s))"
  by (auto simp: dns_form_fields_def zone_picker_def zone_toolbar_def zone_help_def filteredZones_def Let_def image_iff
      split: if_splits)

subsection \<open>The busy flag\<close>

abbreviation is_mutation :: "dns_call \<Rightarrow> bool" where
  "is_mutation k \<equiv> (case k of Mutation m \<Rightarrow> True | LoadZones n c \<Rightarrow> False)"

lemma dns_commit_same [simp]:
  "mg_pending (fst (dns_commit b s)) = mg_pending s" "formTarget (fst (dns_commit b s)) = formTarget s"
  by (simp_all add: dns_commit_def Let_def)

lemma dns_commit_calls:
  "k \<in> set (snd (dns_commit b s)) \<Longrightarrow> \<exists>c. k = LoadZones (zone_run s + 1) c \<and> c \<noteq> []"
  by (auto simp: dns_commit_def Let_def split: if_splits)

lemma dns_commit_quiet [simp]: "filter is_mutation (snd (dns_commit b s)) = []"
  by (auto simp: filter_empty_conv dest: dns_commit_calls)

lemma filter_Mutation [simp]: "filter is_mutation (map Mutation ms) = map Mutation ms"
  by (induction ms) simp_all

lemma zones_loaded_same [simp]:
  "mg_pending (zones_loaded n r s) = mg_pending s" "zone_run (zones_loaded n r s) = zone_run s"
  "formTarget (zones_loaded n r s) = formTarget s"
  by (simp_all add: zones_loaded_def)

lemma dns_mutated_pending [simp]: "\<not> mg_pending (dns_mutated m d s)"
  by (cases m) (simp_all add: dns_mutated_def)

lemma dns_handle_split:
  assumes "dns_handle e s = (s', ks)"
  obtains s1 ms where "dns_act e s = (s1, ms)" "s' = fst (dns_commit s s1)" "ks = map Mutation ms @ snd (dns_commit s s1)"
  using assms by (auto simp: dns_handle_def split: prod.splits)

lemma dns_act_flight:
  assumes "mg_guard ed (\<not> (mg_pending s \<or> b)) listed s e" "dns_act e s = (s', ks)"
  shows "ks = [] \<and> mg_pending s' = mg_pending s \<or> \<not> mg_pending s \<and> mg_pending s' \<and> length ks = 1"
  using assms mg_start_call
  by (cases e) (fastforce simp: dns_act_def dns_saveAccount_def dns_deleteAccount_def dns_verifyAccount_def dns_toggleAccount_def)+

lemma dns_handle_flight:
  assumes "e \<in> offered (dns_view s)" "dns_handle e s = (s', ks)"
  shows "filter is_mutation ks = [] \<and> mg_pending s' = mg_pending s \<or>
    \<not> mg_pending s \<and> mg_pending s' \<and> length (filter is_mutation ks) = 1"
proof -
  obtain s1 ms where s1: "dns_act e s = (s1, ms)" "s' = fst (dns_commit s s1)" "ks = map Mutation ms @ snd (dns_commit s s1)"
    using assms(2) by (rule dns_handle_split)
  from dns_act_flight [OF guard_dns_view [OF assms(1)] s1(1)] s1(2,3) show ?thesis by simp
qed

lemma dns_resume_flight:
  assumes "dns_resume k r s = (s', ks)" "r \<in> dns_answers k"
  shows "filter is_mutation ks = [] \<and> mg_pending s' = (\<not> is_mutation k \<and> mg_pending s)"
proof -
  let ?s1 = "case k of
      Mutation m \<Rightarrow> (case r of MutationDone d \<Rightarrow> dns_mutated m d s | _ \<Rightarrow> s)
    | LoadZones n c \<Rightarrow> zones_loaded n r s"
  have "mg_pending ?s1 = (\<not> is_mutation k \<and> mg_pending s)"
    using assms(2) by (auto simp: dns_answers_def split: dns_call.splits)
  moreover have "dns_commit s ?s1 = (s', ks)" using assms(1) by (simp add: dns_resume_def)
  ultimately show ?thesis using dns_commit_same(1) [of s ?s1] dns_commit_quiet [of s ?s1] by simp
qed

interpretation dns_flight: releasing_flight dns_app mg_pending is_mutation
proof unfold_locales
  fix e s s' ks
  assume "e \<in> offered (app_view dns_app s) \<union> app_ambient dns_app s" "app_handle dns_app e s = (s', ks)"
  then have "e \<in> offered (dns_view s)" "dns_handle e s = (s', ks)" by (simp_all add: dns_simps)
  from dns_handle_flight [OF this]
  show "filter is_mutation ks = [] \<and> mg_pending s' = mg_pending s \<or>
      \<not> mg_pending s \<and> mg_pending s' \<and> length (filter is_mutation ks) = 1" .
qed (auto simp: dns_simps dest: dns_resume_flight)

subsection \<open>The zone picker\<close>

text \<open>
  The form in every reachable state: zones are listed, and loaded, only for a chosen credential,
  and once they are listed every selected zone is one of them. Of the current run of the effect at most one
  request waits, and while it waits the form is loading.
\<close>

definition form_ok :: "dns_form \<Rightarrow> bool" where
  "form_ok f \<longleftrightarrow>
     (df_fetchedAt f \<noteq> None \<longrightarrow> set (df_selected f) \<subseteq> set (df_zones f)) \<and>
     (df_loading f \<or> df_zones f \<noteq> [] \<longrightarrow> df_credentialId f \<noteq> [])"

abbreviation current_load :: "dns_state \<Rightarrow> dns_call \<Rightarrow> bool" where
  "current_load s k \<equiv> (case k of Mutation m \<Rightarrow> False | LoadZones n c \<Rightarrow> n = zone_run s)"

definition picker_ok :: "dns_state \<Rightarrow> dns_call list \<Rightarrow> bool" where
  "picker_ok s q \<longleftrightarrow> form_ok (dns_inputs s) \<and>
     (\<forall>n c. LoadZones n c \<in> set q \<longrightarrow> n \<le> zone_run s) \<and>
     length (filter (current_load s) q) \<le> (if df_loading (dns_inputs s) then 1 else 0)"

lemma set_js_unique [simp]: "set (js_unique xs) = set xs"
  by (simp add: js_unique_def)

lemma mount_form_ok [simp]: "form_ok (mount_dns_form a)"
  by (simp add: form_ok_def mount_dns_form_def split: option.splits)

lemma edit_form_ok:
  assumes "form_ok f" "\<And>z b. x = DfZone z b \<Longrightarrow> z \<in> set (df_zones f)"
  shows "form_ok (edit_dns_form x f)"
  using assms
  by (cases x) (auto simp: form_ok_def edit_dns_form_def changeCredential_def selectAllZones_def clearVisibleZones_def
      toggleZone_def filteredZones_def)

lemma edit_same_credential:
  "df_credentialId (edit_dns_form x f) = df_credentialId f \<Longrightarrow> form_ok f \<Longrightarrow> df_loading f \<Longrightarrow> df_loading (edit_dns_form x f)"
  by (cases x) (auto simp: form_ok_def edit_dns_form_def changeCredential_def selectAllZones_def clearVisibleZones_def
      toggleZone_def)

lemma edit_new_credential:
  "df_credentialId (edit_dns_form x f) \<noteq> df_credentialId f \<Longrightarrow>
     df_loading (edit_dns_form x f) = (df_credentialId (edit_dns_form x f) \<noteq> [])"
  by (cases x) (auto simp: edit_dns_form_def changeCredential_def selectAllZones_def clearVisibleZones_def toggleZone_def)

lemma dns_act_inputs:
  assumes "dns_act e s = (s1, ms)"
  shows "dns_inputs s1 = (case e of MForm x \<Rightarrow> edit_dns_form x (dns_inputs s) | _ \<Rightarrow> dns_inputs s)" "zone_run s1 = zone_run s"
proof -
  have more: "manager.more (fst (dns_act e s)) = manager.more s \<or> (\<exists>x. e = MForm x)"
    by (cases e) (simp_all add: dns_act_def dns_saveAccount_def dns_deleteAccount_def dns_verifyAccount_def dns_toggleAccount_def)
  have "dns_inputs s1 = (case e of MForm x \<Rightarrow> edit_dns_form x (dns_inputs s) | _ \<Rightarrow> dns_inputs s) \<and> zone_run s1 = zone_run s"
  proof (cases "\<exists>x. e = MForm x")
    case True
    with assms show ?thesis by (auto simp: dns_act_def)
  next
    case False
    with more assms have "manager.more s1 = manager.more s" by simp
    then have "dns_inputs s1 = dns_inputs s" "zone_run s1 = zone_run s" by (cases s1; cases s; simp)+
    with False show ?thesis by (cases e) simp_all
  qed
  then show "dns_inputs s1 = (case e of MForm x \<Rightarrow> edit_dns_form x (dns_inputs s) | _ \<Rightarrow> dns_inputs s)"
    "zone_run s1 = zone_run s" by simp_all
qed

lemma dns_mutated_inputs [simp]:
  "dns_inputs (dns_mutated m d s) = dns_inputs s" "zone_run (dns_mutated m d s) = zone_run s"
proof -
  have "manager.more (dns_mutated m d s) = manager.more s" by (cases m) (simp_all add: dns_mutated_def)
  then show "dns_inputs (dns_mutated m d s) = dns_inputs s" "zone_run (dns_mutated m d s) = zone_run s"
    by (cases "dns_mutated m d s"; cases s; simp)+
qed

lemma commit_picker:
  assumes "form_ok (dns_inputs s1)" "\<forall>n c. LoadZones n c \<in> set q \<longrightarrow> n \<le> zone_run s1"
    and "df_credentialId (dns_inputs s1) \<noteq> df_credentialId (dns_inputs s) \<Longrightarrow>
      df_loading (dns_inputs s1) = (df_credentialId (dns_inputs s1) \<noteq> [])"
    and "df_credentialId (dns_inputs s1) = df_credentialId (dns_inputs s) \<Longrightarrow>
      length (filter (current_load s1) q) \<le> (if df_loading (dns_inputs s1) then 1 else 0)"
  shows "picker_ok (fst (dns_commit s s1)) (q @ snd (dns_commit s s1))"
proof -
  have old: "filter (\<lambda>k. case k of Mutation m \<Rightarrow> False | LoadZones n c \<Rightarrow> n = Suc (zone_run s1)) q = []"
    using assms(2) by (fastforce simp: filter_empty_conv split: dns_call.splits)
  have mount: "df_loading (mount_dns_form a) = (df_credentialId (mount_dns_form a) \<noteq> [])" for a
    by (simp add: mount_dns_form_def split: option.splits)
  show ?thesis
    using assms old mount by (auto simp: dns_commit_def picker_ok_def Let_def le_Suc_eq)
qed

lemma picker_event:
  assumes "picker_ok s q" "e \<in> offered (dns_view s)" "dns_handle e s = (s', ks)"
  shows "picker_ok s' (q @ ks)"
proof -
  obtain s1 ms where s1: "dns_act e s = (s1, ms)" "s' = fst (dns_commit s s1)" "ks = map Mutation ms @ snd (dns_commit s s1)"
    using assms(3) by (rule dns_handle_split)
  note inputs = dns_act_inputs [OF s1(1)]
  have ok: "form_ok (dns_inputs s)" using assms(1) by (simp add: picker_ok_def)
  have zones: "z \<in> set (df_zones (dns_inputs s))" if "e = MForm (DfZone z b)" for z b
  proof -
    have "DfZone z b \<in> offered_any (dns_form_fields s)" using guard_dns_view [OF assms(2)] that by simp
    then show ?thesis by (rule zone_offered)
  qed
  have "form_ok (dns_inputs s1)"
    using ok zones edit_form_ok [OF ok] by (simp add: inputs(1) split: mg_event.splits)
  moreover have "filter (current_load s1) (map Mutation ms) = []" by (induction ms) simp_all
  moreover have "df_loading (dns_inputs s1) = (df_credentialId (dns_inputs s1) \<noteq> [])"
    if "df_credentialId (dns_inputs s1) \<noteq> df_credentialId (dns_inputs s)"
    using that edit_new_credential by (simp add: inputs(1) split: mg_event.splits)
  moreover have "df_loading (dns_inputs s1)"
    if "df_credentialId (dns_inputs s1) = df_credentialId (dns_inputs s)" "df_loading (dns_inputs s)"
    using that edit_same_credential [OF _ ok] by (simp add: inputs(1) split: mg_event.splits)
  ultimately have "picker_ok (fst (dns_commit s s1)) ((q @ map Mutation ms) @ snd (dns_commit s s1))"
    using assms(1) inputs(2) by (intro commit_picker) (auto simp: picker_ok_def split: if_splits)
  then show ?thesis by (simp add: s1(2,3))
qed

lemma filter_remove1_length:
  "k \<in> set q \<Longrightarrow> length (filter P (remove1 k q)) = length (filter P q) - (if P k then 1 else 0)"
  using filter_remove1_count [of k q P] filter_remove1_other [of P k q] by auto

lemma picker_reply:
  assumes "picker_ok s q" "k \<in> set q" "r \<in> dns_answers k" "dns_resume k r s = (s', ks)"
  shows "picker_ok s' (remove1 k q @ ks)"
proof -
  define s1 where "s1 = (case k of
      Mutation m \<Rightarrow> (case r of MutationDone d \<Rightarrow> dns_mutated m d s | _ \<Rightarrow> s)
    | LoadZones n c \<Rightarrow> zones_loaded n r s)"
  have c: "dns_commit s s1 = (s', ks)" using assms(4) by (simp add: dns_resume_def s1_def)
  have ok: "form_ok (dns_inputs s)" and count: "length (filter (current_load s) q) \<le> (if df_loading (dns_inputs s) then 1 else 0)"
    using assms(1) by (simp_all add: picker_ok_def)
  have run: "zone_run s1 = zone_run s" by (simp add: s1_def split: dns_call.splits dns_reply.splits)
  have cred: "df_credentialId (dns_inputs s1) = df_credentialId (dns_inputs s)"
    by (simp add: s1_def zones_loaded_def split: dns_call.splits dns_reply.splits)
  have loading: "df_loading (dns_inputs s)" if "current_load s k"
    using count assms(2) that filter_in_nonempty [of k q "current_load s"] by (auto split: if_splits)
  have "form_ok (dns_inputs s1)"
    using ok loading by (auto simp: s1_def form_ok_def zones_loaded_def list_ex_iff split: dns_call.splits dns_reply.splits)
  moreover have "length (filter (current_load s1) (remove1 k q)) \<le> (if df_loading (dns_inputs s1) then 1 else 0)"
  proof -
    have "df_loading (dns_inputs s1) = (df_loading (dns_inputs s) \<and> \<not> current_load s k)"
      using loading assms(3) by (auto simp: s1_def zones_loaded_def dns_answers_def split: dns_call.splits)
    with count loading show ?thesis unfolding run filter_remove1_length [OF assms(2)] by (cases "current_load s k") simp_all
  qed
  moreover have "\<forall>n c. LoadZones n c \<in> set (remove1 k q) \<longrightarrow> n \<le> zone_run s1"
    using assms(1) run by (auto simp: picker_ok_def dest: notin_set_remove1 [THEN contrapos_nn] in_set_remove1 [THEN iffD1] set_remove1_subset [THEN subsetD])
  ultimately show ?thesis
    using commit_picker [of s1 "remove1 k q" s] cred c by simp
qed

lemma picker_reach:
  assumes "ui_reach dns_app (dns_mount xs cs u l) (s, q)"
  shows "picker_ok s q"
proof -
  have "picker_ok (fst (s, q)) (snd (s, q))"
    using assms
  proof (rule ui_reach_sys_inv)
    show "picker_ok (fst (dns_mount xs cs u l)) (snd (dns_mount xs cs u l))"
      by (simp add: dns_mount_def picker_ok_def)
  next
    fix s q s' assume "picker_ok s q" "s' \<in> app_outside dns_app s"
    then obtain ys ds v where "s' = s\<lparr>mg_items := ys, dns_credentials := ds, dns_unavailable := v\<rparr>" by (auto simp: dns_simps)
    then have "dns_inputs s' = dns_inputs s" "zone_run s' = zone_run s" by simp_all
    with \<open>picker_ok s q\<close> show "picker_ok s' q" unfolding picker_ok_def by simp
  qed (auto simp: dns_simps intro: picker_event picker_reply)
  then show ?thesis by simp
qed

subsection \<open>Whose zones are listed\<close>

text \<open>A server of zones: \<open>Z c\<close> are the zones of a credential; its answers are parts of them, or errors.\<close>

definition dns_serving :: "(string \<Rightarrow> string set) \<Rightarrow> dns_call \<Rightarrow> dns_reply \<Rightarrow> bool" where
  "dns_serving Z k r \<longleftrightarrow> (case (k, r) of (LoadZones n c, ZonesAre zs now) \<Rightarrow> set zs \<subseteq> Z c | _ \<Rightarrow> True)"

text \<open>The request of the current run is for the chosen credential, and the zones listed are its zones.\<close>

definition zones_belong :: "(string \<Rightarrow> string set) \<Rightarrow> dns_state \<Rightarrow> dns_call list \<Rightarrow> bool" where
  "zones_belong Z s q \<longleftrightarrow>
     (\<forall>n c. LoadZones n c \<in> set q \<longrightarrow> n < zone_run s \<or> n = zone_run s \<and> c = df_credentialId (dns_inputs s)) \<and>
     set (df_zones (dns_inputs s)) \<subseteq> Z (df_credentialId (dns_inputs s))"

lemma edit_zones:
  "df_zones (edit_dns_form x f) = [] \<or>
     df_zones (edit_dns_form x f) = df_zones f \<and> df_credentialId (edit_dns_form x f) = df_credentialId f"
  by (cases x) (simp_all add: edit_dns_form_def changeCredential_def selectAllZones_def clearVisibleZones_def toggleZone_def)

lemma commit_belong:
  assumes "\<forall>n c. LoadZones n c \<in> set q \<longrightarrow> n < zone_run s1 \<or> n = zone_run s1 \<and> c = df_credentialId (dns_inputs s)"
    and "set (df_zones (dns_inputs s1)) \<subseteq> Z (df_credentialId (dns_inputs s1))"
  shows "zones_belong Z (fst (dns_commit s s1)) (q @ snd (dns_commit s s1))"
proof -
  have "df_zones (mount_dns_form a) = []" for a by (simp add: mount_dns_form_def split: option.splits)
  moreover have "\<forall>n c. LoadZones n c \<in> set q \<longrightarrow> n < zone_run s1 + 1" using assms(1) by fastforce
  ultimately show ?thesis using assms by (auto simp: dns_commit_def zones_belong_def Let_def)
qed

lemma belong_event:
  assumes "zones_belong Z s q" "dns_handle e s = (s', ks)"
  shows "zones_belong Z s' (q @ ks)"
proof -
  obtain s1 ms where s1: "dns_act e s = (s1, ms)" "s' = fst (dns_commit s s1)" "ks = map Mutation ms @ snd (dns_commit s s1)"
    using assms(2) by (rule dns_handle_split)
  note inputs = dns_act_inputs [OF s1(1)]
  have edited_zones: "set (df_zones (edit_dns_form x (dns_inputs s))) \<subseteq> Z (df_credentialId (edit_dns_form x (dns_inputs s)))" for x
    using assms(1) edit_zones [of x "dns_inputs s"] by (auto simp: zones_belong_def)
  have "set (df_zones (dns_inputs s1)) \<subseteq> Z (df_credentialId (dns_inputs s1))"
    using assms(1) edited_zones by (simp add: inputs(1) zones_belong_def split: mg_event.split)
  then have "zones_belong Z (fst (dns_commit s s1)) ((q @ map Mutation ms) @ snd (dns_commit s s1))"
    using assms(1) inputs(2) by (intro commit_belong) (auto simp: zones_belong_def)
  then show ?thesis by (simp add: s1(2,3))
qed

lemma belong_reply:
  assumes "zones_belong Z s q" "k \<in> set q" "dns_serving Z k r" "dns_resume k r s = (s', ks)"
  shows "zones_belong Z s' (remove1 k q @ ks)"
proof -
  define s1 where "s1 = (case k of
      Mutation m \<Rightarrow> (case r of MutationDone d \<Rightarrow> dns_mutated m d s | _ \<Rightarrow> s)
    | LoadZones n c \<Rightarrow> zones_loaded n r s)"
  have c: "dns_commit s s1 = (s', ks)" using assms(4) by (simp add: dns_resume_def s1_def)
  have run: "zone_run s1 = zone_run s" by (simp add: s1_def split: dns_call.splits dns_reply.splits)
  have "set (df_zones (dns_inputs s1)) \<subseteq> Z (df_credentialId (dns_inputs s1))"
    using assms(1,2,3)
    by (auto simp: s1_def zones_belong_def zones_loaded_def dns_serving_def split: dns_call.splits dns_reply.splits)
  moreover have "\<forall>n c. LoadZones n c \<in> set (remove1 k q) \<longrightarrow> n < zone_run s1 \<or> n = zone_run s1 \<and> c = df_credentialId (dns_inputs s)"
    using assms(1) set_remove1_subset [of k q] unfolding run zones_belong_def by blast
  ultimately show ?thesis using commit_belong [of "remove1 k q" s1 s Z] c by simp
qed

lemma belong_reach:
  assumes "ui_reach (answering (dns_serving Z) dns_app) (dns_mount xs cs u l) (s, q)"
  shows "zones_belong Z s q"
proof -
  have "zones_belong Z (fst (s, q)) (snd (s, q))"
    using assms
  proof (rule ui_reach_sys_inv)
    show "zones_belong Z (fst (dns_mount xs cs u l)) (snd (dns_mount xs cs u l))"
      by (simp add: dns_mount_def zones_belong_def mount_dns_form_def)
  next
    fix s q s' assume "zones_belong Z s q" "s' \<in> app_outside (answering (dns_serving Z) dns_app) s"
    then obtain ys ds v where "s' = s\<lparr>mg_items := ys, dns_credentials := ds, dns_unavailable := v\<rparr>" by (auto simp: dns_simps)
    then have "dns_inputs s' = dns_inputs s" "zone_run s' = zone_run s" by simp_all
    with \<open>zones_belong Z s q\<close> show "zones_belong Z s' q" unfolding zones_belong_def by simp
  qed (auto simp: dns_simps intro: belong_event belong_reply)
  then show ?thesis by simp
qed

subsection \<open>What is saved\<close>

text \<open>
  C20. A DNS account request is sent only for what the user confirmed. Let \<open>Z c\<close> be the zones the server has for
  a credential. A save comes from the save button with nothing pending and no zones loading, with a
  trimmed name that is not empty, a credential and at least one zone; and once zones were fetched
  for the form, all of the zones saved are listed in it and are zones of the very credential that is
  saved with them, however the replies for several choices were ordered. A deletion comes from its
  dialog; a verification or a toggle from a listed account.
\<close>

theorem dns_requests_complete:
  assumes "ui_reach (answering (dns_serving Z) dns_app) (dns_mount xs cs u l) (s, q)" "e \<in> offered (app_view dns_app s)"
    "app_handle dns_app e s = (s', ks)" "Mutation k \<in> set ks"
  shows "\<not> mg_pending s \<and>
    (case k of
       SaveCall t y \<Rightarrow> e = MSubmit \<and> formTarget s = Some t \<and> \<not> df_loading (dns_inputs s) \<and>
         dp_name y \<noteq> [] \<and> js_trim (dp_name y) = dp_name y \<and> dp_cloudCredentialId y \<noteq> [] \<and> dp_allowedZones y \<noteq> [] \<and>
         (df_fetchedAt (dns_inputs s) = None \<or>
          set (dp_allowedZones y) \<subseteq> set (df_zones (dns_inputs s)) \<and> set (dp_allowedZones y) \<subseteq> Z (dp_cloudCredentialId y))
     | DeleteCall a \<Rightarrow> e = MConfirmDelete \<and> deleteTarget s = Some a
     | VerifyCall a \<Rightarrow> e = MVerify a \<and> a \<in> set (mg_items s)
     | ToggleCall a b \<Rightarrow> e = MToggle a \<and> a \<in> set (mg_items s) \<and> b = (dns_status a = ''disabled''))"
proof -
  have e: "e \<in> offered (dns_view s)" and h: "dns_handle e s = (s', ks)" using assms(2,3) by (simp_all add: dns_simps)
  let ?f = "dns_inputs s"
  have zones: "df_fetchedAt ?f = None \<or> set (df_selected ?f) \<subseteq> set (df_zones ?f) \<and> set (df_selected ?f) \<subseteq> Z (df_credentialId ?f)"
    using picker_reach [OF answering_reach [OF assms(1)]] belong_reach [OF assms(1)]
    by (auto simp: picker_ok_def form_ok_def zones_belong_def)
  obtain s1 ms where s1: "dns_act e s = (s1, ms)" "ks = map Mutation ms @ snd (dns_commit s s1)"
    using h by (rule dns_handle_split)
  have "k \<in> set (snd (dns_act e s))" using assms(4) s1 by (auto dest: dns_commit_calls)
  with guard_dns_view [OF e] zones show ?thesis
    by (cases e) (auto simp: dns_act_def dns_saveAccount_def dns_deleteAccount_def dns_verifyAccount_def dns_toggleAccount_def
        mg_save_def mg_delete_def mg_verify_def mg_toggle_def check_dns_def split: option.splits sum.splits if_splits)
qed

subsection \<open>The refresh button of the zone picker\<close>

text \<open>
  Loading with no request of the current run left: as long as the effect does not run again, no
  reply can end it.
\<close>

definition hung :: "nat \<Rightarrow> dns_state \<Rightarrow> dns_call list \<Rightarrow> bool" where
  "hung n s q \<longleftrightarrow> n < zone_run s \<or>
     n = zone_run s \<and> form_ok (dns_inputs s) \<and> df_loading (dns_inputs s) \<and> filter (current_load s) q = []"

lemma dns_commit_run: "zone_run (fst (dns_commit b s)) = zone_run s \<or> zone_run (fst (dns_commit b s)) = zone_run s + 1"
  by (simp add: dns_commit_def Let_def)

lemma dns_commit_same_run:
  "zone_run (fst (dns_commit b s)) = zone_run s \<Longrightarrow>
     dns_commit b s = (s, []) \<and> df_credentialId (dns_inputs s) = df_credentialId (dns_inputs b)"
  by (cases "form_key dns_id (formTarget s) \<noteq> form_key dns_id (formTarget b)";
      cases "df_credentialId (dns_inputs s) = df_credentialId (dns_inputs b)") (simp_all add: dns_commit_def Let_def)

lemma hung_event:
  assumes "hung n s q" "dns_handle e s = (s', ks)" "e \<in> offered (dns_view s)"
  shows "hung n s' (q @ ks)"
proof -
  obtain s1 ms where s1: "dns_act e s = (s1, ms)" "s' = fst (dns_commit s s1)" "ks = map Mutation ms @ snd (dns_commit s s1)"
    using assms(2) by (rule dns_handle_split)
  note inputs = dns_act_inputs [OF s1(1)]
  show ?thesis
  proof (cases "zone_run s' = zone_run s1 \<and> zone_run s = n")
    case True
    then have same: "s' = s1" "ks = map Mutation ms" and cred: "df_credentialId (dns_inputs s1) = df_credentialId (dns_inputs s)"
      using dns_commit_same_run [of s s1] s1(2,3) by auto
    have old: "form_ok (dns_inputs s)" "df_loading (dns_inputs s)" "filter (current_load s) q = []"
      using assms(1) True by (simp_all add: hung_def)
    have "z \<in> set (df_zones (dns_inputs s))" if "e = MForm (DfZone z b)" for z b
    proof -
      have "DfZone z b \<in> offered_any (dns_form_fields s)" using guard_dns_view [OF assms(3)] that by simp
      then show ?thesis by (rule zone_offered)
    qed
    then have "form_ok (dns_inputs s1)" "df_loading (dns_inputs s1)"
      using old edit_form_ok [OF old(1)] edit_same_credential [OF _ old(1,2)] cred
      by (simp_all add: inputs(1) split: mg_event.splits)
    moreover have "filter (current_load s1) (map Mutation ms) = []" by (induction ms) simp_all
    moreover have "filter (current_load s1) q = []" using old(3) unfolding inputs(2) .
    ultimately show ?thesis using True inputs(2) by (simp add: hung_def same)
  next
    case False
    then show ?thesis using assms(1) dns_commit_run [of s s1] s1(2) inputs(2) by (auto simp: hung_def)
  qed
qed

lemma hung_reply:
  assumes "hung n s q" "k \<in> set q" "dns_resume k r s = (s', ks)"
  shows "hung n s' (remove1 k q @ ks)"
proof -
  define s1 where "s1 = (case k of
      Mutation m \<Rightarrow> (case r of MutationDone d \<Rightarrow> dns_mutated m d s | _ \<Rightarrow> s)
    | LoadZones n c \<Rightarrow> zones_loaded n r s)"
  have c: "dns_commit s s1 = (s', ks)" using assms(3) by (simp add: dns_resume_def s1_def)
  have run: "zone_run s1 = zone_run s" by (simp add: s1_def split: dns_call.splits dns_reply.splits)
  show ?thesis
  proof (cases "zone_run s' = zone_run s1 \<and> zone_run s = n")
    case True
    then have same: "s' = s1" "ks = []" using dns_commit_same_run [of s s1] c by auto
    have old: "form_ok (dns_inputs s)" "df_loading (dns_inputs s)" "filter (current_load s) q = []"
      using assms(1) True by (simp_all add: hung_def)
    have "\<not> current_load s k" using old(3) assms(2) by (auto simp: filter_empty_conv)
    then have "dns_inputs s1 = dns_inputs s"
      by (auto simp: s1_def zones_loaded_def split: dns_call.splits dns_reply.splits)
    moreover have "filter (current_load s1) (remove1 k q) = []"
      using filter_remove1_other [of "current_load s" k q] \<open>\<not> current_load s k\<close> old(3) unfolding run by simp
    ultimately show ?thesis using old True run by (simp add: hung_def same)
  next
    case False
    then show ?thesis using assms(1) dns_commit_run [of s s1] c run by (auto simp: hung_def)
  qed
qed

lemma hung_reach:
  assumes "ui_reach dns_app (s1, q1) (s2, q2)" "hung n s1 q1"
  shows "hung n s2 q2"
proof -
  have "hung n (fst (s2, q2)) (snd (s2, q2))"
    using assms(1)
  proof (rule ui_reach_sys_inv)
    fix s q s' assume "hung n s q" "s' \<in> app_outside dns_app s"
    then obtain ys ds v where "s' = s\<lparr>mg_items := ys, dns_credentials := ds, dns_unavailable := v\<rparr>" by (auto simp: dns_simps)
    then have "dns_inputs s' = dns_inputs s" "zone_run s' = zone_run s" by simp_all
    with \<open>hung n s q\<close> show "hung n s' q" unfolding hung_def by simp
  qed (auto simp: assms(2) dns_simps intro: hung_event hung_reply)
  then show ?thesis by simp
qed

text \<open>
  C28. The refresh button of the zone picker hangs the form. It sets the same credential again, so the effect that loads the zones does
  not run: no request is sent, the form is loading from then on, and its save button stays
  disabled whatever happens, until the effect runs for another reason (another credential, or the
  form opened anew).
\<close>

theorem zone_refresh_hangs:
  assumes "ui_reach dns_app (dns_mount xs cs u l) (s, q)" "MForm DfRefreshZones \<in> offered (app_view dns_app s)"
    "app_handle dns_app (MForm DfRefreshZones) s = (s1, ks)" "ui_reach dns_app (s1, q @ ks) (s2, q2)" "zone_run s2 = zone_run s1"
  shows "ks = [] \<and> df_loading (dns_inputs s2) \<and> MSubmit \<notin> offered (app_view dns_app s2)"
proof -
  have picker: "picker_ok s q" using assms(1) by (rule picker_reach)
  have "DfRefreshZones \<in> offered_any (dns_form_fields s)"
    using guard_dns_view [of "MForm DfRefreshZones" s] assms(2) by (simp add: dns_simps)
  then have f: "\<not> df_loading (dns_inputs s)" "df_zones (dns_inputs s) \<noteq> []"
    by (auto simp: dns_form_fields_def zone_picker_def zone_toolbar_def zone_help_def Let_def split: if_splits)
  with picker have c: "df_credentialId (dns_inputs s) \<noteq> []" "filter (current_load s) q = []"
    by (simp_all add: picker_ok_def form_ok_def)
  have s1: "s1 = s\<lparr>dns_inputs := changeCredential (df_credentialId (dns_inputs s)) (dns_inputs s)\<rparr>" "ks = []"
    using assms(3) by (auto simp: dns_simps dns_handle_def dns_act_def edit_dns_form_def dns_commit_def changeCredential_def)
  have "hung (zone_run s1) s1 (q @ ks)"
    using c by (simp add: s1 hung_def changeCredential_def form_ok_def)
  with assms(4) have "hung (zone_run s1) s2 q2" by (rule hung_reach)
  then have loading: "df_loading (dns_inputs s2)" using assms(5) by (simp add: hung_def)
  with guard_dns_view [of MSubmit s2] s1(2) show ?thesis by (auto simp: dns_simps)
qed

subsection \<open>A run: an account is edited, its zones arrive, they are refreshed\<close>

definition dns_sample :: dns_account where
  "dns_sample = \<lparr>dns_id = ''d'', dns_name = ''dns'', dns_description = [], dns_provider = ''aliyun'',
     dns_cloudCredentialId = ''c'', allowedZones = [''a.cn''], dns_status = ''active'', dns_lastVerifiedAt = None,
     dns_lastError = [], verifiedCredentialVersionId = [], dns_createdAt = ''2026''\<rparr>"

definition dns_listed :: dns_state where
  "dns_listed = fst (dns_mount [dns_sample] [] False En)"

definition dns_loading :: dns_state where
  "dns_loading = dns_listed\<lparr>formTarget := Some (EditOf dns_sample), dns_inputs := mount_dns_form (Some dns_sample), zone_run := 1\<rparr>"

definition dns_ready :: dns_state where
  "dns_ready = dns_loading\<lparr>dns_inputs := (mount_dns_form (Some dns_sample))\<lparr>df_zones := [''a.cn''], df_fetchedAt := Some ''now'',
     df_loading := False\<rparr>\<rparr>"

definition dns_stuck :: dns_state where
  "dns_stuck = dns_ready\<lparr>dns_inputs := changeCredential ''c'' (dns_inputs dns_ready)\<rparr>"

lemma dns_sample_run:
  "dns_handle (MEdit dns_sample) dns_listed = (dns_loading, [LoadZones 1 ''c''])"
  "dns_resume (LoadZones 1 ''c'') (ZonesAre [''a.cn''] ''now'') dns_loading = (dns_ready, [])"
  "dns_handle (MForm DfRefreshZones) dns_ready = (dns_stuck, [])"
  "dns_handle MSubmit dns_ready = (mg_start dns_ready, [Mutation (SaveCall (EditOf dns_sample)
     \<lparr>dp_name = ''dns'', dp_description = [], dp_cloudCredentialId = ''c'', dp_allowedZones = [''a.cn'']\<rparr>)])"
  by code_simp+

lemma dns_sample_offered:
  "MEdit dns_sample \<in> offered (dns_view dns_listed)"
  "MForm DfRefreshZones \<in> offered (dns_view dns_ready)" "MSubmit \<in> offered (dns_view dns_ready)"
proof -
  have page: "mg_paginated dns_texts dns_listed = [dns_sample]" by code_simp
  have d: "distinct (map ta_id (dns_actions s a))" for s a by (simp add: dns_actions_def action_def)
  show "MEdit dns_sample \<in> offered (dns_view dns_listed)"
    using TableActions_offered [OF d] by (simp add: dns_view_def mg_table_def page dns_row_def dns_actions_def action_def)
  have open_form: "formTarget dns_ready = Some (EditOf dns_sample)" "\<not> mg_pending dns_ready" "\<not> df_loading (dns_inputs dns_ready)"
      "df_zones (dns_inputs dns_ready) = [''a.cn'']" by code_simp+
  show "MForm DfRefreshZones \<in> offered (dns_view dns_ready)" "MSubmit \<in> offered (dns_view dns_ready)"
    using open_form by (simp_all add: dns_view_def DNSAccountFormModal_def mg_form_dialog_def offered_map_view dns_form_fields_def
        zone_picker_def zone_toolbar_def Let_def image_iff)
qed

lemma zones_answer: "ZonesAre zs now \<in> dns_answers (LoadZones n c)"
  by (auto simp: dns_answers_def intro!: image_eqI [where x = "(zs, now)"])

lemma dns_sample_served:
  assumes "P (LoadZones 1 ''c'') (ZonesAre [''a.cn''] ''now'')"
  shows "ui_reach (answering P dns_app) (dns_mount [dns_sample] [] False En) (dns_ready, [])"
proof -
  have m: "dns_mount [dns_sample] [] False En = (dns_listed, [])" by (simp add: dns_listed_def dns_mount_def)
  have "ui_reach (answering P dns_app) (dns_listed, []) (dns_loading, [] @ [LoadZones 1 ''c''])"
    by (rule ui_reach_event [OF ui_reach.start, where e = "MEdit dns_sample"])
      (simp_all add: dns_simps dns_sample_run [unfolded One_nat_def] dns_sample_offered)
  then have "ui_reach (answering P dns_app) (dns_listed, []) (dns_ready, remove1 (LoadZones 1 ''c'') ([] @ [LoadZones 1 ''c'']) @ [])"
    by (rule ui_reach_reply [where r = "ZonesAre [''a.cn''] ''now''"])
      (use assms in \<open>simp_all add: dns_simps dns_sample_run [unfolded One_nat_def] zones_answer\<close>)
  then show ?thesis by (simp add: m)
qed

lemma dns_sample_reach: "ui_reach dns_app (dns_mount [dns_sample] [] False En) (dns_ready, [])"
  by (rule answering_reach [OF dns_sample_served [where P = "\<lambda>k r. True"]]) simp

lemma dns_requests_complete_witness:
  "\<not> mg_pending dns_ready \<and> snd (dns_handle MSubmit dns_ready) = [Mutation (SaveCall (EditOf dns_sample)
     \<lparr>dp_name = ''dns'', dp_description = [], dp_cloudCredentialId = ''c'', dp_allowedZones = [''a.cn'']\<rparr>)]"
proof -
  have "dns_serving (\<lambda>c. {''a.cn''}) (LoadZones 1 ''c'') (ZonesAre [''a.cn''] ''now'')" by (simp add: dns_serving_def)
  then show ?thesis
    using dns_requests_complete [OF dns_sample_served, of "\<lambda>c. {''a.cn''}" MSubmit "mg_start dns_ready" _
      "SaveCall (EditOf dns_sample) \<lparr>dp_name = ''dns'', dp_description = [], dp_cloudCredentialId = ''c'', dp_allowedZones = [''a.cn'']\<rparr>"]
    by (simp add: dns_simps dns_sample_run dns_sample_offered)
qed

lemma zone_refresh_hangs_witness:
  "ui_reach dns_app (dns_mount [dns_sample] [] False En) (dns_ready, []) \<and> MSubmit \<notin> offered (dns_view dns_stuck)"
  using dns_sample_reach zone_refresh_hangs [OF dns_sample_reach, of dns_stuck "[]", OF _ _ ui_reach.start]
  by (simp add: dns_simps dns_sample_run dns_sample_offered)

end
