(* ===== verification/Credentials.thy ===== *)
theory Credentials
  imports Routing Cloud_Credentials Acme_Accounts Dns_Accounts
begin

text \<open>
  What the three credential managers have in common: one mutation at a time, and requests that a
  route file of the console forwards.
\<close>

subsection \<open>One mutation at a time\<close>

text \<open>
  C21. In each of the three managers the flag that disables its mutating controls is up exactly while one of its mutating requests is
  waiting, and there is never a second one, whatever the user does and in whatever order the
  replies come (the zone requests of the DNS form run beside it).
\<close>

theorem credential_mutations_single:
  "(ui_reach cloud_app (cc_mount cs l) (s, q) \<longrightarrow> length q \<le> 1 \<and> mg_pending s = (q \<noteq> [])) \<and>
   (ui_reach acme_app (acme_mount as l) (sa, qa) \<longrightarrow> length qa \<le> 1 \<and> mg_pending sa = (qa \<noteq> [])) \<and>
   (ui_reach dns_app (dns_mount ds cs u l) (sd, qd) \<longrightarrow>
      length (filter is_mutation qd) \<le> 1 \<and> mg_pending sd = (filter is_mutation qd \<noteq> []))"
proof (intro conjI impI)
  assume r: "ui_reach cloud_app (cc_mount cs l) (s, q)"
  show "length q \<le> 1" "mg_pending s = (q \<noteq> [])"
    using cc_flight.reach_flight [OF r] cc_flight.reach_busy [OF r] by (simp_all add: cc_mount_def)
next
  assume r: "ui_reach acme_app (acme_mount as l) (sa, qa)"
  show "length qa \<le> 1" "mg_pending sa = (qa \<noteq> [])"
    using acme_flight.reach_flight [OF r] acme_flight.reach_busy [OF r] by (simp_all add: acme_mount_def)
next
  assume r: "ui_reach dns_app (dns_mount ds cs u l) (sd, qd)"
  show "length (filter is_mutation qd) \<le> 1" "mg_pending sd = (filter is_mutation qd \<noteq> [])"
    using dns_flight.reach_flight [OF r] dns_flight.reach_busy [OF r] by (simp_all add: dns_mount_def)
qed

lemma credential_mutations_single_witness:
  "ui_reach cloud_app (cc_mount [] En) (fst (cc_mount [] En), []) \<and> \<not> mg_pending (fst (cc_mount [] En))"
proof -
  have "cc_mount [] En = (fst (cc_mount [] En), [])" by (simp add: cc_mount_def)
  then have r: "ui_reach cloud_app (cc_mount [] En) (fst (cc_mount [] En), [])" using ui_reach.start by metis
  then show ?thesis using credential_mutations_single [of "[]" En "fst (cc_mount [] En)" "[]"] by simp
qed

subsection \<open>Requests\<close>

definition mg_call_id :: "('r \<Rightarrow> string) \<Rightarrow> ('r, 'p) mg_call \<Rightarrow> string option" where
  "mg_call_id ident k =
     (case k of
        SaveCall t y \<Rightarrow> map_option ident (edited (Some t))
      | DeleteCall r \<Rightarrow> Some (ident r)
      | VerifyCall r \<Rightarrow> Some (ident r)
      | ToggleCall r b \<Rightarrow> Some (ident r))"

definition dns_call_id :: "dns_call \<Rightarrow> string option" where
  "dns_call_id k = (case k of Mutation m \<Rightarrow> mg_call_id dns_id m | LoadZones n c \<Rightarrow> Some c)"

lemma api_segments_items:
  assumes "path_segment i"
  shows "api_segments (''/api/cloud-credentials/'' @ i) = Some [''cloud-credentials'', i]"
    and "api_segments (''/api/acme-accounts/'' @ i) = Some [''acme-accounts'', i]"
    and "api_segments (''/api/dns-accounts/'' @ i) = Some [''dns-accounts'', i]"
    and "api_segments (''/api/cloud-credentials/'' @ i @ ''/verify'') = Some [''cloud-credentials'', i, ''verify'']"
    and "api_segments (''/api/cloud-credentials/'' @ i @ ''/enable'') = Some [''cloud-credentials'', i, ''enable'']"
    and "api_segments (''/api/cloud-credentials/'' @ i @ ''/disable'') = Some [''cloud-credentials'', i, ''disable'']"
    and "api_segments (''/api/acme-accounts/'' @ i @ ''/verify'') = Some [''acme-accounts'', i, ''verify'']"
    and "api_segments (''/api/dns-accounts/'' @ i @ ''/verify'') = Some [''dns-accounts'', i, ''verify'']"
    and "api_segments (''/api/dns-accounts/'' @ i @ ''/enable'') = Some [''dns-accounts'', i, ''enable'']"
    and "api_segments (''/api/dns-accounts/'' @ i @ ''/disable'') = Some [''dns-accounts'', i, ''disable'']"
    and "api_segments (''/api/cloud-credentials/'' @ i @ ''/dns/zones'') = Some [''cloud-credentials'', i, ''dns'', ''zones'']"
  using api_segments_url [of "[''cloud-credentials'', i]" "[]"] api_segments_url [of "[''acme-accounts'', i]" "[]"]
    api_segments_url [of "[''dns-accounts'', i]" "[]"] api_segments_url [of "[''cloud-credentials'', i, ''verify'']" "[]"]
    api_segments_url [of "[''cloud-credentials'', i, ''enable'']" "[]"]
    api_segments_url [of "[''cloud-credentials'', i, ''disable'']" "[]"]
    api_segments_url [of "[''acme-accounts'', i, ''verify'']" "[]"] api_segments_url [of "[''dns-accounts'', i, ''verify'']" "[]"]
    api_segments_url [of "[''dns-accounts'', i, ''enable'']" "[]"] api_segments_url [of "[''dns-accounts'', i, ''disable'']" "[]"]
    api_segments_url [of "[''cloud-credentials'', i, ''dns'', ''zones'']" "[]"] path_segment_chars [OF assms]
  by simp_all

lemma api_segments_collections:
  "api_segments ''/api/cloud-credentials'' = Some [''cloud-credentials'']"
  "api_segments ''/api/acme-accounts'' = Some [''acme-accounts'']" "api_segments ''/api/dns-accounts'' = Some [''dns-accounts'']"
  using api_segments_url [of "[''cloud-credentials'']" "[]"] api_segments_url [of "[''acme-accounts'']" "[]"]
    api_segments_url [of "[''dns-accounts'']" "[]"] by simp_all

lemmas reach_item_simps = reaches_api_def api_segments_collections route_of_def serve_route_def route_defs Let_def
  resources_def credential_actions_def dns_account_actions_def

lemma reaches_cloud:
  assumes "path_segment i"
  shows "in_method r \<in> {PATCH, DELETE} \<Longrightarrow> reaches_api r (''/api/cloud-credentials/'' @ i)"
    and "in_method r = POST \<Longrightarrow> reaches_api r (''/api/cloud-credentials/'' @ i @ ''/verify'')"
    and "in_method r = POST \<Longrightarrow> reaches_api r (''/api/cloud-credentials/'' @ i @ ''/enable'')"
    and "in_method r = POST \<Longrightarrow> reaches_api r (''/api/cloud-credentials/'' @ i @ ''/disable'')"
    and "in_method r = GET \<Longrightarrow> reaches_api r (''/api/cloud-credentials/'' @ i @ ''/dns/zones'')"
    and "in_method r = POST \<Longrightarrow> reaches_api r ''/api/cloud-credentials''"
  by (auto simp: reach_item_simps api_segments_items [OF assms, unfolded append_Cons append_Nil])

lemma reaches_acme:
  assumes "path_segment i"
  shows "in_method r \<in> {PATCH, DELETE} \<Longrightarrow> reaches_api r (''/api/acme-accounts/'' @ i)"
    and "in_method r = POST \<Longrightarrow> reaches_api r (''/api/acme-accounts/'' @ i @ ''/verify'')"
    and "in_method r = POST \<Longrightarrow> reaches_api r ''/api/acme-accounts''"
  by (auto simp: reach_item_simps api_segments_items [OF assms, unfolded append_Cons append_Nil])

lemma reaches_dns:
  assumes "path_segment i"
  shows "in_method r \<in> {PATCH, DELETE} \<Longrightarrow> reaches_api r (''/api/dns-accounts/'' @ i)"
    and "in_method r = POST \<Longrightarrow> reaches_api r (''/api/dns-accounts/'' @ i @ ''/verify'')"
    and "in_method r = POST \<Longrightarrow> reaches_api r (''/api/dns-accounts/'' @ i @ ''/enable'')"
    and "in_method r = POST \<Longrightarrow> reaches_api r (''/api/dns-accounts/'' @ i @ ''/disable'')"
    and "in_method r = POST \<Longrightarrow> reaches_api r ''/api/dns-accounts''"
  by (auto simp: reach_item_simps api_segments_items [OF assms, unfolded append_Cons append_Nil])

text \<open>
  C22. Every request of the three managers reaches the control plane: for a resource whose
  identifier is one path segment, a route file exports the method of the request and forwards it to the same path; the ACME
  requests are those a handler sends for a control on the screen.
\<close>

theorem credential_requests_reach_api:
  assumes "path_segment i"
    and "(\<exists>k. mg_call_id cred_id k \<in> {None, Some i} \<and> cc_request k = (method_name (in_method r), v)) \<or>
      (\<exists>k. dns_call_id k \<in> {None, Some i} \<and> dns_request k = (method_name (in_method r), v)) \<or>
      (\<exists>k s e. e \<in> offered (acme_view s) \<and> k \<in> set (snd (acme_handle e s)) \<and> mg_call_id acme_id k \<in> {None, Some i} \<and>
        acme_request k = (method_name (in_method r), v))"
  shows "reaches_api r v"
  using assms(2)
proof (elim disjE exE conjE)
  note simps = mg_call_id_def edited_def dns_call_id_def eq_commute [of _ "method_name _"]
  {
    fix k
    assume "mg_call_id cred_id k \<in> {None, Some i}" "cc_request k = (method_name (in_method r), v)"
    then show ?thesis
      using reaches_cloud [OF assms(1), of r]
      by (cases k) (auto simp: simps cc_request_def split: form_target.splits if_splits)
  next
    fix k
    assume "dns_call_id k \<in> {None, Some i}" "dns_request k = (method_name (in_method r), v)"
    then show ?thesis
      using reaches_dns [OF assms(1), of r] reaches_cloud(5) [OF assms(1), of r]
      by (auto simp: simps dns_request_def split: dns_call.splits mg_call.splits form_target.splits if_splits)
  next
    fix k s e
    assume k: "e \<in> offered (acme_view s)" "k \<in> set (snd (acme_handle e s))" "mg_call_id acme_id k \<in> {None, Some i}"
      "acme_request k = (method_name (in_method r), v)"
    from acme_save_complete [OF k(1,2)] k(3,4) show ?thesis
      using reaches_acme [OF assms(1), of r]
      by (cases k) (auto simp: simps acme_request_def split: form_target.splits)
  }
qed

lemma credential_requests_reach_api_witness:
  "reaches_api \<lparr>in_method = GET, in_segments = [], in_query = [], in_headers = [], in_text = []\<rparr>
     ''/api/cloud-credentials/c1/dns/zones''"
proof (rule credential_requests_reach_api)
  show "path_segment ''c1''" by code_simp
  have "dns_call_id (LoadZones 1 ''c1'') \<in> {None, Some ''c1''} \<and>
      dns_request (LoadZones 1 ''c1'') = (method_name (in_method
        \<lparr>in_method = GET, in_segments = [], in_query = [], in_headers = [], in_text = []\<rparr>), ''/api/cloud-credentials/c1/dns/zones'')"
    by (simp add: dns_call_id_def dns_request_def method_name_def)
  then show "(\<exists>k. mg_call_id cred_id k \<in> {None, Some ''c1''} \<and> cc_request k = (method_name (in_method
        \<lparr>in_method = GET, in_segments = [], in_query = [], in_headers = [], in_text = []\<rparr>), ''/api/cloud-credentials/c1/dns/zones'')) \<or>
      (\<exists>k. dns_call_id k \<in> {None, Some ''c1''} \<and> dns_request k = (method_name (in_method
        \<lparr>in_method = GET, in_segments = [], in_query = [], in_headers = [], in_text = []\<rparr>), ''/api/cloud-credentials/c1/dns/zones'')) \<or>
      (\<exists>k s e. e \<in> offered (acme_view s) \<and> k \<in> set (snd (acme_handle e s)) \<and> mg_call_id acme_id k \<in> {None, Some ''c1''} \<and>
        acme_request k = (method_name (in_method
          \<lparr>in_method = GET, in_segments = [], in_query = [], in_headers = [], in_text = []\<rparr>), ''/api/cloud-credentials/c1/dns/zones''))"
    by blast
qed

end
