(* ===== verification/Auth.thy ===== *)
theory Auth
  imports Runtime Session
begin

text \<open>
  The login and the registration form of \<^verbatim>\<open>features/auth/components/auth-forms.tsx\<close>: their hooks (last
  e-mail address, cooldown of the verification code, redirect of a visitor who has a session), their
  handlers, requests and views. A form has its own copy of each hook. The two browser storages are
  one record; \<open>st_works\<close> tells whether reading and writing them succeeds. The 20 second abort of a
  request is one of its answers; the locale does not change while a form is on the screen.
\<close>

subsection \<open>State\<close>

datatype auth_mode = PasswordMode | CodeMode

record browser_storage =
  st_works :: bool
  st_email :: "string option"
  st_until :: "int option"

record auth_form =
  au_locale :: locale_id
  au_search :: "(string \<times> string) list"
  au_clock :: int
  au_storage :: browser_storage
  au_email :: string
  au_code :: string
  au_password :: string
  au_message :: label
  au_error :: label
  au_pending :: bool
  au_sending :: bool
  au_cooldown :: nat
  au_mailTimer :: "string option"
  au_coolTimer :: "nat option"
  au_replaced :: "string list"

record login_state = auth_form +
  au_mode :: auth_mode
  au_rememberMe :: bool
  au_visible :: bool

record register_state = auth_form +
  au_confirm :: string
  au_shown :: bool
  au_confirmShown :: bool

datatype auth_body =
    CodeFor string
  | PasswordLogin string string bool
  | CodeLogin string string bool
  | Registration string string string

datatype auth_call =
    KMe | KRefresh | KMeAgain
  | KSend string auth_body
  | KSubmit string auth_body

datatype auth_reply = AuthReplied response | AuthTimedOut | AuthRejected string

datatype auth_event =
    AMode auth_mode | AEmail string | APassword string | AConfirm string | ACode string
  | AVisible | AConfirmVisible | ARemember bool | ASend | ASubmit
  | TMail | TCool | TTick

definition auth_request :: "auth_call \<Rightarrow> string \<times> string" where
  "auth_request k =
     (case k of
        KMe \<Rightarrow> (''GET'', ''/api/auth/me'')
      | KRefresh \<Rightarrow> (''POST'', ''/api/auth/refresh'')
      | KMeAgain \<Rightarrow> (''GET'', ''/api/auth/me'')
      | KSend path b \<Rightarrow> (''POST'', ''/api/auth/'' @ path)
      | KSubmit path b \<Rightarrow> (''POST'', ''/api/auth/'' @ path))"

subsection \<open>Hooks\<close>

text \<open>\<open>request\<close>: what its promise becomes. Everything it throws is an \<open>Error\<close>.\<close>

definition auth_result :: "label \<Rightarrow> auth_reply \<Rightarrow> label + unit" where
  "auth_result timeoutMessage r =
     (case r of
        AuthReplied a \<Rightarrow> if resp_ok a then Inr () else Inl (body_message a (Tr ''auth.requestFailed'' []))
      | AuthTimedOut \<Rightarrow> Inl timeoutMessage
      | AuthRejected m \<Rightarrow> Inl (Raw m))"

definition next_path :: "('x) auth_form_scheme \<Rightarrow> string" where
  "next_path s = sanitizeNextPath (al_get ''next'' (au_search s))"

definition router_replace :: "string \<Rightarrow> ('x) auth_form_scheme \<Rightarrow> ('x) auth_form_scheme" where
  "router_replace path s = s\<lparr>au_replaced := au_replaced s @ [path]\<rparr>"

definition checkSession :: "auth_call \<Rightarrow> auth_reply \<Rightarrow> ('x) auth_form_scheme \<Rightarrow> ('x) auth_form_scheme \<times> auth_call list" where
  "checkSession k r s =
     (case r of
        AuthReplied a \<Rightarrow>
          (if k = KMe \<and> status a = 401 then (s, [KRefresh])
           else if k = KRefresh then (s, if resp_ok a then [KMeAgain] else [])
           else (if resp_ok a then router_replace (next_path s) s else s, []))
      | _ \<Rightarrow> (s, []))"

definition remember :: "string \<Rightarrow> ('x) auth_form_scheme \<Rightarrow> ('x) auth_form_scheme" where
  "remember value s =
     (if st_works (au_storage s) then s\<lparr>au_storage := (au_storage s)\<lparr>st_email := Some value\<rparr>\<rparr> else s)"

text \<open>The timers the two mount effects set: the stored address, the seconds left of a stored cooldown.\<close>

definition mail_timer :: "browser_storage \<Rightarrow> string option" where
  "mail_timer st =
     (if \<not> st_works st then None
      else case st_email st of None \<Rightarrow> None | Some v \<Rightarrow> if v = [] then None else Some v)"

definition cool_timer :: "int \<Rightarrow> browser_storage \<Rightarrow> nat option" where
  "cool_timer now st =
     (if \<not> st_works st then None
      else let until = (case st_until st of None \<Rightarrow> 0 | Some u \<Rightarrow> u);
               remaining = max 0 ((until - now + 999) div 1000)
           in if remaining > 0 then Some (nat remaining) else None)"

definition startCooldown :: "('x) auth_form_scheme \<Rightarrow> ('x) auth_form_scheme" where
  "startCooldown s =
     (let s' = s\<lparr>au_cooldown := 60\<rparr>
      in if st_works (au_storage s) then s'\<lparr>au_storage := (au_storage s)\<lparr>st_until := Some (au_clock s + 60000)\<rparr>\<rparr> else s')"

text \<open>One second of the interval: the stored end is removed when the count reaches zero.\<close>

definition cooldown_tick :: "('x) auth_form_scheme \<Rightarrow> ('x) auth_form_scheme" where
  "cooldown_tick s =
     (let next = au_cooldown s - 1; s' = s\<lparr>au_cooldown := next\<rparr>
      in if next = 0 \<and> st_works (au_storage s) then s'\<lparr>au_storage := (au_storage s)\<lparr>st_until := None\<rparr>\<rparr> else s')"

subsection \<open>Handlers\<close>

definition clearFeedback :: "('x) auth_form_scheme \<Rightarrow> ('x) auth_form_scheme" where
  "clearFeedback s = s\<lparr>au_error := no_text, au_message := no_text\<rparr>"

text \<open>\<open>value.replace(/\D/g, "").slice(0, 6)\<close>\<close>

definition code_digits :: "string \<Rightarrow> string" where
  "code_digits v = take 6 (filter is_digit v)"

definition sendCode :: "string \<Rightarrow> ('x) auth_form_scheme \<Rightarrow> ('x) auth_form_scheme \<times> auth_call list" where
  "sendCode path s =
     (let normalizedEmail = normalizeEmail (au_email s)
      in if \<not> isValidEmail normalizedEmail then (s\<lparr>au_error := Tr ''auth.invalidEmailForCode'' []\<rparr>, [])
         else if au_cooldown s > 0 \<or> au_sending s then (s, [])
         else ((clearFeedback s)\<lparr>au_sending := True\<rparr>, [KSend path (CodeFor normalizedEmail)]))"

definition code_sent :: "auth_reply \<Rightarrow> ('x) auth_form_scheme \<Rightarrow> ('x) auth_form_scheme" where
  "code_sent r s =
     (case auth_result (Tr ''auth.codeTimeout'' []) r of
        Inr _ \<Rightarrow> (startCooldown (s\<lparr>au_message := Tr ''auth.codeSent'' []\<rparr>))\<lparr>au_sending := False\<rparr>
      | Inl m \<Rightarrow> s\<lparr>au_error := m, au_sending := False\<rparr>)"

definition login :: "login_state \<Rightarrow> login_state \<times> auth_call list" where
  "login s =
     (let normalizedEmail = normalizeEmail (au_email s)
      in if \<not> isValidEmail normalizedEmail then (s\<lparr>au_error := Tr ''auth.invalidEmail'' []\<rparr>, [])
         else if au_mode s = CodeMode \<and> length (au_code s) \<noteq> 6 then (s\<lparr>au_error := Tr ''auth.invalidCode'' []\<rparr>, [])
         else ((clearFeedback s)\<lparr>au_pending := True\<rparr>,
           [if au_mode s = PasswordMode
            then KSubmit ''login/password'' (PasswordLogin normalizedEmail (au_password s) (au_rememberMe s))
            else KSubmit ''login/code'' (CodeLogin normalizedEmail (au_code s) (au_rememberMe s))]))"

definition register :: "register_state \<Rightarrow> register_state \<times> auth_call list" where
  "register s =
     (let normalizedEmail = normalizeEmail (au_email s)
      in if \<not> isValidEmail normalizedEmail then (s\<lparr>au_error := Tr ''auth.invalidEmail'' []\<rparr>, [])
         else if length (au_code s) \<noteq> 6 then (s\<lparr>au_error := Tr ''auth.invalidCode'' []\<rparr>, [])
         else if au_password s \<noteq> au_confirm s then (s\<lparr>au_error := Tr ''auth.passwordMismatch'' []\<rparr>, [])
         else ((clearFeedback s)\<lparr>au_pending := True\<rparr>,
           [KSubmit ''register'' (Registration normalizedEmail (au_code s) (au_password s))]))"

definition body_email :: "auth_body \<Rightarrow> string" where
  "body_email b =
     (case b of CodeFor e \<Rightarrow> e | PasswordLogin e p m \<Rightarrow> e | CodeLogin e c m \<Rightarrow> e | Registration e c p \<Rightarrow> e)"

text \<open>After the reply to a login or a registration; \<open>arrive\<close> is the page to go to.\<close>

definition submitted :: "label \<Rightarrow> string \<Rightarrow> auth_body \<Rightarrow> auth_reply \<Rightarrow> ('x) auth_form_scheme \<Rightarrow> ('x) auth_form_scheme" where
  "submitted timeoutMessage arrive b r s =
     (case auth_result timeoutMessage r of
        Inr _ \<Rightarrow> (router_replace arrive (remember (body_email b) s))\<lparr>au_pending := False\<rparr>
      | Inl m \<Rightarrow> s\<lparr>au_error := m, au_pending := False\<rparr>)"

text \<open>The inputs and timers both forms have.\<close>

definition auth_act :: "auth_event \<Rightarrow> ('x) auth_form_scheme \<Rightarrow> ('x) auth_form_scheme" where
  "auth_act e s =
     (case e of
        AEmail v \<Rightarrow> clearFeedback (s\<lparr>au_email := v\<rparr>)
      | APassword v \<Rightarrow> clearFeedback (s\<lparr>au_password := v\<rparr>)
      | ACode v \<Rightarrow> clearFeedback (s\<lparr>au_code := code_digits v\<rparr>)
      | TMail \<Rightarrow> (case au_mailTimer s of Some v \<Rightarrow> s\<lparr>au_email := v, au_mailTimer := None\<rparr> | None \<Rightarrow> s)
      | TCool \<Rightarrow> (case au_coolTimer s of Some n \<Rightarrow> s\<lparr>au_cooldown := n, au_coolTimer := None\<rparr> | None \<Rightarrow> s)
      | TTick \<Rightarrow> cooldown_tick s
      | _ \<Rightarrow> s)"

definition login_handle :: "auth_event \<Rightarrow> login_state \<Rightarrow> login_state \<times> auth_call list" where
  "login_handle e s =
     (case e of
        AMode m \<Rightarrow> (clearFeedback (s\<lparr>au_mode := m, au_visible := (m = au_mode s \<and> au_visible s)\<rparr>), [])
      | AVisible \<Rightarrow> (s\<lparr>au_visible := \<not> au_visible s\<rparr>, [])
      | ARemember b \<Rightarrow> (s\<lparr>au_rememberMe := b\<rparr>, [])
      | ASend \<Rightarrow> sendCode ''login/request-code'' s
      | ASubmit \<Rightarrow> login s
      | _ \<Rightarrow> (auth_act e s, []))"

definition register_handle :: "auth_event \<Rightarrow> register_state \<Rightarrow> register_state \<times> auth_call list" where
  "register_handle e s =
     (case e of
        AConfirm v \<Rightarrow> (clearFeedback (s\<lparr>au_confirm := v\<rparr>), [])
      | AVisible \<Rightarrow> (s\<lparr>au_shown := \<not> au_shown s\<rparr>, [])
      | AConfirmVisible \<Rightarrow> (s\<lparr>au_confirmShown := \<not> au_confirmShown s\<rparr>, [])
      | ASend \<Rightarrow> sendCode ''register/request-code'' s
      | ASubmit \<Rightarrow> register s
      | _ \<Rightarrow> (auth_act e s, []))"

definition login_resume :: "auth_call \<Rightarrow> auth_reply \<Rightarrow> login_state \<Rightarrow> login_state \<times> auth_call list" where
  "login_resume k r s =
     (case k of
        KSend path b \<Rightarrow> (code_sent r s, [])
      | KSubmit path b \<Rightarrow> (submitted (Tr ''auth.loginTimeout'' []) (next_path s) b r s, [])
      | _ \<Rightarrow> checkSession k r s)"

definition register_resume :: "auth_call \<Rightarrow> auth_reply \<Rightarrow> register_state \<Rightarrow> register_state \<times> auth_call list" where
  "register_resume k r s =
     (case k of
        KSend path b \<Rightarrow> (code_sent r s, [])
      | KSubmit path b \<Rightarrow> (submitted (Tr ''auth.registerTimeout'' []) ''/dashboard'' b r s, [])
      | _ \<Rightarrow> checkSession k r s)"

text \<open>Only the requests that \<open>request\<close> sends are aborted.\<close>

definition auth_answers :: "auth_call \<Rightarrow> auth_reply set" where
  "auth_answers k =
     (case k of
        KSend path b \<Rightarrow> UNIV
      | KSubmit path b \<Rightarrow> UNIV
      | _ \<Rightarrow> range AuthReplied \<union> range AuthRejected)"

subsection \<open>Views\<close>

definition AuthFeedback :: "label \<Rightarrow> label \<Rightarrow> auth_event view" where
  "AuthFeedback message err =
     El ''div'' [show_if (shown message) (El ''div role=status'' [Txt message]), show_if (shown err) (FormError err)]"

definition PasswordField :: "label \<Rightarrow> string \<Rightarrow> (string \<Rightarrow> auth_event) \<Rightarrow> label \<Rightarrow> bool \<Rightarrow> auth_event \<Rightarrow> auth_event view" where
  "PasswordField l v change showLabel visible toggle =
     El ''div'' [Field l v change, Button (if visible then Tr ''auth.hidePassword'' [] else showLabel) False toggle]"

definition VerificationField :: "bool \<Rightarrow> ('x) auth_form_scheme \<Rightarrow> auth_event view" where
  "VerificationField blocked s =
     (let retryLabel = (case au_locale s of
          ZhCN \<Rightarrow> Cat [Raw (nat_digits (au_cooldown s)), Raw '' '', Tr ''auth.retryCode'' []]
        | En \<Rightarrow> Cat [Raw (nat_digits (au_cooldown s)), Tr ''auth.retryCode'' []])
      in El ''div''
       [Field (Tr ''auth.code'' []) (au_code s) ACode,
        Button (if au_cooldown s > 0 then retryLabel else Tr ''auth.sendCode'' [])
          (blocked \<or> au_cooldown s > 0 \<or> \<not> isValidEmail (au_email s)) ASend])"

definition RememberMe :: "bool \<Rightarrow> auth_event view" where
  "RememberMe v = El ''div'' [Check (Tr ''auth.rememberMe'' []) v ARemember, Txt (Tr ''auth.rememberHint'' [])]"

definition mode_of_key :: "string \<Rightarrow> auth_mode" where
  "mode_of_key k = (if k = ''password'' then PasswordMode else CodeMode)"

definition mode_key :: "auth_mode \<Rightarrow> string" where
  "mode_key m = (case m of PasswordMode \<Rightarrow> ''password'' | CodeMode \<Rightarrow> ''code'')"

definition LoginForm :: "login_state \<Rightarrow> auth_event view" where
  "LoginForm s =
     El ''section''
      [Txt (Tr ''auth.loginTitle'' []), Txt (Tr ''auth.loginSubtitle'' []),
       Choice (Tr ''auth.methodLabel'' []) (Some (mode_key (au_mode s))) False
         [(''password'', Tr ''auth.passwordLogin'' [], False), (''code'', Tr ''auth.codeLogin'' [], False)]
         (\<lambda>k. AMode (mode_of_key k)),
       El ''form''
        [Field (Tr ''auth.email'' []) (au_email s) AEmail,
         (case au_mode s of
            PasswordMode \<Rightarrow> PasswordField (Tr ''auth.password'' []) (au_password s) APassword (Tr ''auth.showPassword'' [])
              (au_visible s) AVisible
          | CodeMode \<Rightarrow> VerificationField (au_sending s \<or> au_pending s) s),
         RememberMe (au_rememberMe s), AuthFeedback (au_message s) (au_error s),
         Button (Tr (if au_pending s then ''auth.loggingIn'' else ''auth.login'') []) (au_pending s) ASubmit],
       Txt (Tr ''auth.noAccount'' []), Txt (Tr ''auth.registerLink'' [])]"

definition RegisterForm :: "register_state \<Rightarrow> auth_event view" where
  "RegisterForm s =
     El ''section''
      [Txt (Tr ''auth.registerTitle'' []), Txt (Tr ''auth.registerSubtitle'' []),
       El ''form''
        [Field (Tr ''auth.email'' []) (au_email s) AEmail, VerificationField (au_sending s \<or> au_pending s) s,
         PasswordField (Tr ''auth.password'' []) (au_password s) APassword (Tr ''auth.showPassword'' []) (au_shown s) AVisible,
         PasswordField (Tr ''auth.confirmPassword'' []) (au_confirm s) AConfirm (Tr ''auth.showPassword'' [])
           (au_confirmShown s) AConfirmVisible,
         AuthFeedback (au_message s) (au_error s),
         Button (Tr (if au_pending s then ''auth.registering'' else ''auth.register'') []) (au_pending s) ASubmit],
       Txt (Tr ''auth.hasAccount'' []), Txt (Tr ''auth.loginLink'' [])]"

text \<open>The page around a form: the language menu and the form.\<close>

definition locale_of_key :: "string \<Rightarrow> locale_id" where
  "locale_of_key k = (if k = ''en'' then En else ZhCN)"

definition AuthPage :: "locale_state \<Rightarrow> 'e view \<Rightarrow> (locale_id + 'e) view" where
  "AuthPage l child =
     El ''main''
      [Menu (case cur_locale l of ZhCN \<Rightarrow> Zh ''zh'' | En \<Rightarrow> Raw ''EN'')
         [(''zh-CN'', Tr ''language.zh-CN'' [], False), (''en'', Tr ''language.en'' [], False)]
         (\<lambda>k. Some (Inl (locale_of_key k))),
       Txt (Tr ''auth.asideEyebrow'' []), Txt (Tr ''auth.asideTitle'' []), Txt (Tr ''auth.asideBody'' []),
       Txt (Tr ''auth.asideFooter'' []), map_view Inr child]"

definition timers :: "('x) auth_form_scheme \<Rightarrow> auth_event set" where
  "timers s = (if au_mailTimer s = None then {} else {TMail}) \<union> (if au_coolTimer s = None then {} else {TCool}) \<union>
     (if au_cooldown s = 0 then {} else {TTick})"

definition login_app :: "(login_state, auth_event, auth_call, auth_reply) app" where
  "login_app = \<lparr>app_view = LoginForm, app_ambient = timers, app_handle = login_handle, app_resume = login_resume,
     app_answers = auth_answers, app_outside = (\<lambda>s. {s\<lparr>au_clock := now\<rparr> | now. au_clock s \<le> now})\<rparr>"

definition register_app :: "(register_state, auth_event, auth_call, auth_reply) app" where
  "register_app = \<lparr>app_view = RegisterForm, app_ambient = timers, app_handle = register_handle,
     app_resume = register_resume, app_answers = auth_answers,
     app_outside = (\<lambda>s. {s\<lparr>au_clock := now\<rparr> | now. au_clock s \<le> now})\<rparr>"

definition login_mount :: "locale_id \<Rightarrow> (string \<times> string) list \<Rightarrow> int \<Rightarrow> browser_storage \<Rightarrow> login_state \<times> auth_call list" where
  "login_mount l search now st =
     (\<lparr>au_locale = l, au_search = search, au_clock = now, au_storage = st, au_email = [], au_code = [], au_password = [],
       au_message = no_text, au_error = no_text, au_pending = False, au_sending = False, au_cooldown = 0,
       au_mailTimer = mail_timer st, au_coolTimer = cool_timer now st, au_replaced = [],
       au_mode = PasswordMode, au_rememberMe = False, au_visible = False\<rparr>, [KMe])"

definition register_mount :: "locale_id \<Rightarrow> (string \<times> string) list \<Rightarrow> int \<Rightarrow> browser_storage \<Rightarrow>
    register_state \<times> auth_call list" where
  "register_mount l search now st =
     (\<lparr>au_locale = l, au_search = search, au_clock = now, au_storage = st, au_email = [], au_code = [], au_password = [],
       au_message = no_text, au_error = no_text, au_pending = False, au_sending = False, au_cooldown = 0,
       au_mailTimer = mail_timer st, au_coolTimer = cool_timer now st, au_replaced = [],
       au_confirm = [], au_shown = False, au_confirmShown = False\<rparr>, [KMe])"

end
