(* ===== verification/Auth_Facts.thy ===== *)
theory Auth_Facts
  imports Auth
begin

text \<open>
  Properties of the login and the registration form: what they send, that each of them has at most
  one login and one code request waiting, and that the cooldown of the code outlives the page.
\<close>

subsection \<open>What the views offer\<close>

lemma offered_verification:
  "e \<in> offered (VerificationField b s) \<Longrightarrow>
     (\<exists>v. e = ACode v) \<or> e = ASend \<and> \<not> b \<and> au_cooldown s = 0 \<and> isValidEmail (au_email s)"
  by (auto simp: VerificationField_def Let_def split: if_splits)

lemma offered_login:
  assumes "e \<in> offered (LoginForm s) \<union> timers s"
  shows "(e = ASubmit \<longrightarrow> \<not> au_pending s) \<and> (e = ASend \<longrightarrow> \<not> au_sending s \<and> \<not> au_pending s \<and> au_cooldown s = 0)"
  using assms
  by (auto simp: LoginForm_def PasswordField_def RememberMe_def AuthFeedback_def timers_def
      split: auth_mode.splits if_splits dest!: offered_verification)

lemma offered_register:
  assumes "e \<in> offered (RegisterForm s) \<union> timers s"
  shows "(e = ASubmit \<longrightarrow> \<not> au_pending s) \<and> (e = ASend \<longrightarrow> \<not> au_sending s \<and> \<not> au_pending s \<and> au_cooldown s = 0)"
  using assms
  by (auto simp: RegisterForm_def PasswordField_def AuthFeedback_def timers_def split: if_splits dest!: offered_verification)

subsection \<open>Frames\<close>

lemma hook_frames [simp]:
  "au_pending (clearFeedback s) = au_pending s" "au_sending (clearFeedback s) = au_sending s"
  "au_code (clearFeedback s) = au_code s" "au_cooldown (clearFeedback s) = au_cooldown s"
  "au_pending (remember v s) = au_pending s" "au_sending (remember v s) = au_sending s" "au_code (remember v s) = au_code s"
  "au_pending (router_replace p s) = au_pending s" "au_sending (router_replace p s) = au_sending s"
  "au_code (router_replace p s) = au_code s"
  "au_pending (startCooldown s) = au_pending s" "au_sending (startCooldown s) = au_sending s"
  "au_code (startCooldown s) = au_code s"
  "au_pending (cooldown_tick s) = au_pending s" "au_sending (cooldown_tick s) = au_sending s"
  "au_code (cooldown_tick s) = au_code s"
  by (simp_all add: clearFeedback_def remember_def router_replace_def startCooldown_def cooldown_tick_def Let_def)

lemma auth_act_frames [simp]:
  "au_pending (auth_act e s) = au_pending s" "au_sending (auth_act e s) = au_sending s"
  by (cases e; simp add: auth_act_def split: option.splits)+

lemma sendCode_frames [simp]:
  "au_pending (fst (sendCode p s)) = au_pending s" "au_code (fst (sendCode p s)) = au_code s"
  by (simp_all add: sendCode_def Let_def)

lemma code_sent_frames [simp]:
  "au_pending (code_sent r s) = au_pending s" "\<not> au_sending (code_sent r s)" "au_code (code_sent r s) = au_code s"
  by (simp_all add: code_sent_def split: sum.splits)

lemma submitted_frames [simp]:
  "\<not> au_pending (submitted l p b r s)" "au_sending (submitted l p b r s) = au_sending s"
  "au_code (submitted l p b r s) = au_code s"
  by (simp_all add: submitted_def split: sum.splits)

lemma checkSession_frames [simp]:
  "au_pending (fst (checkSession k r s)) = au_pending s" "au_sending (fst (checkSession k r s)) = au_sending s"
  "au_code (fst (checkSession k r s)) = au_code s"
  by (auto simp: checkSession_def split: auth_reply.splits)

subsection \<open>The two busy flags\<close>

abbreviation is_submit :: "auth_call \<Rightarrow> bool" where
  "is_submit k \<equiv> (case k of KSubmit p b \<Rightarrow> True | _ \<Rightarrow> False)"

abbreviation is_send :: "auth_call \<Rightarrow> bool" where
  "is_send k \<equiv> (case k of KSend p b \<Rightarrow> True | _ \<Rightarrow> False)"

lemma checkSession_quiet [simp]:
  "filter is_submit (snd (checkSession k r s)) = []" "filter is_send (snd (checkSession k r s)) = []"
  by (auto simp: checkSession_def split: auth_reply.splits)

lemma sendCode_calls:
  assumes "sendCode p s = (s', ks)"
  shows "filter is_submit ks = []" "au_pending s' = au_pending s"
    "ks = [] \<and> au_sending s' = au_sending s \<or> \<not> au_sending s \<and> au_sending s' \<and> length (filter is_send ks) = 1"
  using assms by (auto simp: sendCode_def Let_def split: if_splits)

lemma login_calls:
  assumes "login s = (s', ks)"
  shows "filter is_send ks = []" "au_sending s' = au_sending s"
    "ks = [] \<and> au_pending s' = au_pending s \<or> au_pending s' \<and> length (filter is_submit ks) = 1"
  using assms by (auto simp: login_def Let_def split: if_splits)

lemma register_calls:
  assumes "register s = (s', ks)"
  shows "filter is_send ks = []" "au_sending s' = au_sending s"
    "ks = [] \<and> au_pending s' = au_pending s \<or> au_pending s' \<and> length (filter is_submit ks) = 1"
  using assms by (auto simp: register_def Let_def split: if_splits)

lemma login_handle_flight:
  assumes "e \<in> offered (LoginForm s) \<union> timers s" "login_handle e s = (s', ks)"
  shows "filter is_submit ks = [] \<and> au_pending s' = au_pending s \<or>
      \<not> au_pending s \<and> au_pending s' \<and> length (filter is_submit ks) = 1"
    and "filter is_send ks = [] \<and> au_sending s' = au_sending s \<or>
      \<not> au_sending s \<and> au_sending s' \<and> length (filter is_send ks) = 1"
proof -
  note offer = offered_login [OF assms(1)]
  show "filter is_submit ks = [] \<and> au_pending s' = au_pending s \<or>
      \<not> au_pending s \<and> au_pending s' \<and> length (filter is_submit ks) = 1"
    using assms(2) offer sendCode_calls [of "''login/request-code''" s s' ks] login_calls [of s s' ks]
    by (cases e) (auto simp: login_handle_def)
  show "filter is_send ks = [] \<and> au_sending s' = au_sending s \<or>
      \<not> au_sending s \<and> au_sending s' \<and> length (filter is_send ks) = 1"
    using assms(2) offer sendCode_calls [of "''login/request-code''" s s' ks] login_calls [of s s' ks]
    by (cases e) (auto simp: login_handle_def)
qed

lemma register_handle_flight:
  assumes "e \<in> offered (RegisterForm s) \<union> timers s" "register_handle e s = (s', ks)"
  shows "filter is_submit ks = [] \<and> au_pending s' = au_pending s \<or>
      \<not> au_pending s \<and> au_pending s' \<and> length (filter is_submit ks) = 1"
    and "filter is_send ks = [] \<and> au_sending s' = au_sending s \<or>
      \<not> au_sending s \<and> au_sending s' \<and> length (filter is_send ks) = 1"
proof -
  note offer = offered_register [OF assms(1)]
  show "filter is_submit ks = [] \<and> au_pending s' = au_pending s \<or>
      \<not> au_pending s \<and> au_pending s' \<and> length (filter is_submit ks) = 1"
    using assms(2) offer sendCode_calls [of "''register/request-code''" s s' ks] register_calls [of s s' ks]
    by (cases e) (auto simp: register_handle_def)
  show "filter is_send ks = [] \<and> au_sending s' = au_sending s \<or>
      \<not> au_sending s \<and> au_sending s' \<and> length (filter is_send ks) = 1"
    using assms(2) offer sendCode_calls [of "''register/request-code''" s s' ks] register_calls [of s s' ks]
    by (cases e) (auto simp: register_handle_def)
qed

lemma login_resume_flight:
  assumes "login_resume k r s = (s', ks)"
  shows "filter is_submit ks = [] \<and> filter is_send ks = [] \<and>
    au_pending s' = (au_pending s \<and> \<not> is_submit k) \<and> au_sending s' = (au_sending s \<and> \<not> is_send k)"
  using assms checkSession_quiet [of k r s] checkSession_frames [of k r s]
  by (cases k) (auto simp: login_resume_def simp del: checkSession_quiet checkSession_frames)

lemma register_resume_flight:
  assumes "register_resume k r s = (s', ks)"
  shows "filter is_submit ks = [] \<and> filter is_send ks = [] \<and>
    au_pending s' = (au_pending s \<and> \<not> is_submit k) \<and> au_sending s' = (au_sending s \<and> \<not> is_send k)"
  using assms checkSession_quiet [of k r s] checkSession_frames [of k r s]
  by (cases k) (auto simp: register_resume_def simp del: checkSession_quiet checkSession_frames)

lemmas auth_simps = login_app_def register_app_def app.simps

interpretation login_flight: releasing_flight login_app au_pending is_submit
  by (unfold_locales; unfold auth_simps) (erule (1) login_handle_flight(1), auto dest!: login_resume_flight)

interpretation login_code_flight: releasing_flight login_app au_sending is_send
  by (unfold_locales; unfold auth_simps) (erule (1) login_handle_flight(2), auto dest!: login_resume_flight)

interpretation register_flight: releasing_flight register_app au_pending is_submit
  by (unfold_locales; unfold auth_simps) (erule (1) register_handle_flight(1), auto dest!: register_resume_flight)

interpretation register_code_flight: releasing_flight register_app au_sending is_send
  by (unfold_locales; unfold auth_simps) (erule (1) register_handle_flight(2), auto dest!: register_resume_flight)

text \<open>
  Of each form at most one login (or registration) and at most one request for a code are
  waiting, and the two flags that disable the buttons are up exactly while theirs is.
\<close>

theorem auth_requests_single:
  "(ui_reach login_app (login_mount l search now st) (s, q) \<longrightarrow>
      length (filter is_submit q) \<le> 1 \<and> au_pending s = (filter is_submit q \<noteq> []) \<and>
      length (filter is_send q) \<le> 1 \<and> au_sending s = (filter is_send q \<noteq> [])) \<and>
   (ui_reach register_app (register_mount l search now st) (r, p) \<longrightarrow>
      length (filter is_submit p) \<le> 1 \<and> au_pending r = (filter is_submit p \<noteq> []) \<and>
      length (filter is_send p) \<le> 1 \<and> au_sending r = (filter is_send p \<noteq> []))"
proof (intro conjI impI)
  assume r: "ui_reach login_app (login_mount l search now st) (s, q)"
  show "length (filter is_submit q) \<le> 1" "au_pending s = (filter is_submit q \<noteq> [])"
    using login_flight.reach_flight [OF r] login_flight.reach_busy [OF r] by (simp_all add: login_mount_def)
  show "length (filter is_send q) \<le> 1" "au_sending s = (filter is_send q \<noteq> [])"
    using login_code_flight.reach_flight [OF r] login_code_flight.reach_busy [OF r] by (simp_all add: login_mount_def)
next
  assume r: "ui_reach register_app (register_mount l search now st) (r, p)"
  show "length (filter is_submit p) \<le> 1" "au_pending r = (filter is_submit p \<noteq> [])"
    using register_flight.reach_flight [OF r] register_flight.reach_busy [OF r] by (simp_all add: register_mount_def)
  show "length (filter is_send p) \<le> 1" "au_sending r = (filter is_send p \<noteq> [])"
    using register_code_flight.reach_flight [OF r] register_code_flight.reach_busy [OF r]
    by (simp_all add: register_mount_def)
qed

definition empty_storage :: browser_storage where
  "empty_storage = \<lparr>st_works = True, st_email = None, st_until = None\<rparr>"

lemma auth_requests_single_witness:
  "\<not> au_pending (fst (login_mount En [] 0 empty_storage)) \<and> \<not> au_sending (fst (login_mount En [] 0 empty_storage))"
proof -
  have "login_mount En [] 0 empty_storage = (fst (login_mount En [] 0 empty_storage), [KMe])" by (simp add: login_mount_def)
  then have "ui_reach login_app (login_mount En [] 0 empty_storage) (fst (login_mount En [] 0 empty_storage), [KMe])"
    using ui_reach.start by metis
  then show ?thesis using auth_requests_single [of En "[]" 0 empty_storage "fst (login_mount En [] 0 empty_storage)" "[KMe]"]
    by simp
qed

subsection \<open>What is sent\<close>

definition valid_address :: "string \<Rightarrow> bool" where
  "valid_address a \<longleftrightarrow> isValidEmail a \<and> normalizeEmail a = a"

definition six_digits :: "string \<Rightarrow> bool" where
  "six_digits c \<longleftrightarrow> length c = 6 \<and> list_all is_digit c"

lemma normalizeEmail_idem [simp]: "normalizeEmail (normalizeEmail a) = normalizeEmail a"
  by (simp add: normalizeEmail_def js_trim_toLowerCase)

lemma valid_normalized: "isValidEmail (normalizeEmail a) \<Longrightarrow> valid_address (normalizeEmail a)"
  by (simp add: valid_address_def)

lemma code_digits_all: "list_all is_digit (code_digits v)"
  by (auto simp: code_digits_def list_all_iff dest: in_set_takeD)

lemma auth_act_code: "list_all is_digit (au_code s) \<Longrightarrow> list_all is_digit (au_code (auth_act e s))"
  by (cases e) (auto simp: auth_act_def code_digits_all clearFeedback_def split: option.splits)

lemma login_code_digits:
  assumes "ui_reach login_app (login_mount l search now st) x"
  shows "list_all is_digit (au_code (fst x))"
  using assms
proof (rule ui_reach_inv)
  fix e and s :: login_state assume "list_all is_digit (au_code s)"
  then show "list_all is_digit (au_code (fst (app_handle login_app e s)))"
    using auth_act_code [of s e] by (cases e) (auto simp: auth_simps login_handle_def login_def Let_def)
next
  fix k r and s :: login_state assume "list_all is_digit (au_code s)"
  then show "list_all is_digit (au_code (fst (app_resume login_app k r s)))"
    by (cases k) (simp_all add: auth_simps login_resume_def)
qed (auto simp: login_mount_def auth_simps)

lemma register_code_digits:
  assumes "ui_reach register_app (register_mount l search now st) x"
  shows "list_all is_digit (au_code (fst x))"
  using assms
proof (rule ui_reach_inv)
  fix e and s :: register_state assume "list_all is_digit (au_code s)"
  then show "list_all is_digit (au_code (fst (app_handle register_app e s)))"
    using auth_act_code [of s e] by (cases e) (auto simp: auth_simps register_handle_def register_def Let_def)
next
  fix k r and s :: register_state assume "list_all is_digit (au_code s)"
  then show "list_all is_digit (au_code (fst (app_resume register_app k r s)))"
    by (cases k) (simp_all add: auth_simps register_resume_def)
qed (auto simp: register_mount_def auth_simps)

text \<open>What a call may hold, given the state and the event that sent it.\<close>

definition send_ok :: "string \<Rightarrow> auth_event \<Rightarrow> ('x) auth_form_scheme \<Rightarrow> string \<Rightarrow> auth_body \<Rightarrow> bool" where
  "send_ok path e s p b \<longleftrightarrow> e = ASend \<and> \<not> au_pending s \<and> \<not> au_sending s \<and> au_cooldown s = 0 \<and> p = path \<and>
     (\<exists>a. b = CodeFor a \<and> valid_address a)"

text \<open>
  C23. Everything a form sends comes from its own button while nothing of the kind is waiting: a request for
  a code only with the cooldown at zero and for a normalized, valid address; a login with such an
  address, and in the code mode exactly six digits; a registration with such an address, six
  digits and the password that was typed twice.
\<close>

theorem auth_requests_valid:
  "(ui_reach login_app (login_mount l search now st) (s, q) \<and> e \<in> offered (LoginForm s) \<union> timers s \<and>
      k \<in> set (snd (login_handle e s)) \<longrightarrow>
      (case k of
         KSend p b \<Rightarrow> send_ok ''login/request-code'' e s p b
       | KSubmit p b \<Rightarrow> e = ASubmit \<and> \<not> au_pending s \<and>
           (case b of
              PasswordLogin a w m \<Rightarrow> p = ''login/password'' \<and> valid_address a
            | CodeLogin a c m \<Rightarrow> p = ''login/code'' \<and> valid_address a \<and> six_digits c
            | _ \<Rightarrow> False)
       | _ \<Rightarrow> False)) \<and>
   (ui_reach register_app (register_mount l search now st) (t, p) \<and> d \<in> offered (RegisterForm t) \<union> timers t \<and>
      j \<in> set (snd (register_handle d t)) \<longrightarrow>
      (case j of
         KSend p b \<Rightarrow> send_ok ''register/request-code'' d t p b
       | KSubmit p b \<Rightarrow> d = ASubmit \<and> \<not> au_pending t \<and> p = ''register'' \<and>
           (case b of
              Registration a c w \<Rightarrow> valid_address a \<and> six_digits c \<and> w = au_password t \<and> w = au_confirm t
            | _ \<Rightarrow> False)
       | _ \<Rightarrow> False))"
proof (intro conjI impI, goal_cases)
  case 1
  then have digits: "list_all is_digit (au_code s)" using login_code_digits [of l search now st "(s, q)"] by simp
  from 1 offered_login [of e s] have k: "k \<in> set (snd (login_handle e s))"
    "(e = ASubmit \<longrightarrow> \<not> au_pending s) \<and> (e = ASend \<longrightarrow> \<not> au_sending s \<and> \<not> au_pending s \<and> au_cooldown s = 0)" by simp_all
  then show ?case
    using digits valid_normalized [of "au_email s"]
    by (cases e; cases "au_mode s") (auto simp: login_handle_def login_def sendCode_def send_ok_def six_digits_def Let_def split: if_splits)
next
  case 2
  then have digits: "list_all is_digit (au_code t)" using register_code_digits [of l search now st "(t, p)"] by simp
  from 2 offered_register [of d t] have k: "j \<in> set (snd (register_handle d t))"
    "(d = ASubmit \<longrightarrow> \<not> au_pending t) \<and> (d = ASend \<longrightarrow> \<not> au_sending t \<and> \<not> au_pending t \<and> au_cooldown t = 0)" by simp_all
  then show ?case
    using digits valid_normalized [of "au_email t"]
    by (cases d) (auto simp: register_handle_def register_def sendCode_def send_ok_def six_digits_def Let_def split: if_splits)
qed

subsection \<open>A registration that is filled in\<close>

definition reg_empty :: register_state where
  "reg_empty = fst (register_mount En [] 0 empty_storage)"

definition reg_filled :: "string \<Rightarrow> register_state" where
  "reg_filled w = reg_empty\<lparr>au_email := ''a@b.cn'', au_code := ''123456'', au_password := w, au_confirm := w\<rparr>"

lemma reg_empty_fields:
  "au_pending reg_empty = False" "au_error reg_empty = no_text" "au_message reg_empty = no_text" "au_code reg_empty = []"
  by (simp_all add: reg_empty_def register_mount_def)

lemma register_inputs_offered:
  "AEmail v \<in> offered (RegisterForm s)" "APassword v \<in> offered (RegisterForm s)" "AConfirm v \<in> offered (RegisterForm s)"
  "ACode v \<in> offered (RegisterForm s)" "\<not> au_pending s \<Longrightarrow> ASubmit \<in> offered (RegisterForm s)"
  by (auto simp: RegisterForm_def PasswordField_def VerificationField_def Let_def)

lemma reg_step:
  "ui_reach register_app x (s, q) \<Longrightarrow> register_handle e s = (s', []) \<Longrightarrow> e \<in> offered (RegisterForm s) \<Longrightarrow>
     ui_reach register_app x (s', q)"
  using ui_reach_event [of register_app x s q e s' "[]"] by (simp add: auth_simps)

lemma reg_filled_reach: "ui_reach register_app (register_mount En [] 0 empty_storage) (reg_filled w, [KMe])"
proof -
  have m: "register_mount En [] 0 empty_storage = (reg_empty, [KMe])" by (simp add: reg_empty_def register_mount_def)
  have code: "code_digits ''123456'' = ''123456''" by code_simp
  have clear: "clearFeedback x = x" if "au_error x = no_text" "au_message x = no_text" for x :: register_state
    using that by (cases x) (simp add: clearFeedback_def)
  note h = register_handle_def auth_act_def
  have s1: "register_handle (AEmail ''a@b.cn'') reg_empty = (reg_empty\<lparr>au_email := ''a@b.cn''\<rparr>, [])"
    by (simp add: h clear reg_empty_fields)
  have s2: "register_handle (ACode ''123456'') (reg_empty\<lparr>au_email := ''a@b.cn''\<rparr>) =
      (reg_empty\<lparr>au_email := ''a@b.cn'', au_code := ''123456''\<rparr>, [])"
    by (simp add: h clear reg_empty_fields code)
  have s3: "register_handle (APassword w) (reg_empty\<lparr>au_email := ''a@b.cn'', au_code := ''123456''\<rparr>) =
      (reg_empty\<lparr>au_email := ''a@b.cn'', au_code := ''123456'', au_password := w\<rparr>, [])"
    by (simp add: h clear reg_empty_fields)
  have s4: "register_handle (AConfirm w) (reg_empty\<lparr>au_email := ''a@b.cn'', au_code := ''123456'', au_password := w\<rparr>) =
      (reg_filled w, [])"
    by (simp add: h clear reg_empty_fields reg_filled_def)
  note off = register_inputs_offered
  have "ui_reach register_app (reg_empty, [KMe]) (reg_filled w, [KMe])"
    using reg_step [OF reg_step [OF reg_step [OF reg_step [OF ui_reach.start s1 off(1)] s2 off(4)] s3 off(2)] s4 off(3)] .
  then show ?thesis by (simp add: m)
qed

lemma reg_filled_submit:
  "snd (register_handle ASubmit (reg_filled w)) = [KSubmit ''register'' (Registration ''a@b.cn'' ''123456'' w)]"
  "ASubmit \<in> offered (RegisterForm (reg_filled w))"
proof -
  have e: "normalizeEmail ''a@b.cn'' = ''a@b.cn''" "isValidEmail ''a@b.cn''" by code_simp+
  show "snd (register_handle ASubmit (reg_filled w)) = [KSubmit ''register'' (Registration ''a@b.cn'' ''123456'' w)]"
    by (simp add: register_handle_def register_def reg_filled_def e Let_def)
  show "ASubmit \<in> offered (RegisterForm (reg_filled w))"
    by (rule register_inputs_offered(5)) (simp add: reg_filled_def reg_empty_fields)
qed

lemma auth_requests_valid_witness: "valid_address ''a@b.cn'' \<and> six_digits ''123456''"
  using auth_requests_valid [of En "[]" 0 empty_storage _ _ _ _ "reg_filled ''x''" "[KMe]" ASubmit
      "KSubmit ''register'' (Registration ''a@b.cn'' ''123456'' ''x'')"]
  by (simp add: reg_filled_reach reg_filled_submit)

text \<open>
  The length of a new password is not checked by the form: its inputs carry \<open>minLength={8}\<close>, but the form is
  \<open>noValidate\<close> and \<open>register\<close> does not look, so any password typed twice, the empty one
  included, is sent.
\<close>

theorem registration_password_unchecked:
  "\<exists>s q. ui_reach register_app (register_mount En [] 0 empty_storage) (s, q) \<and> ASubmit \<in> offered (RegisterForm s) \<and>
     snd (register_handle ASubmit s) = [KSubmit ''register'' (Registration ''a@b.cn'' ''123456'' w)]"
  using reg_filled_reach reg_filled_submit by blast

subsection \<open>The cooldown outlives the page\<close>

text \<open>
  After a code was sent the cooldown holds for a minute across pages: whichever form is mounted within sixty
  seconds of the reply counts down the seconds that are left, rounded up, and at most sixty, as
  long as the session storage works.
\<close>

theorem cooldown_survives_reload:
  assumes "st_works (au_storage s)" "resp_ok a" "au_clock s \<le> now" "now < au_clock s + 60000"
  shows "\<exists>n. au_coolTimer (fst (login_mount l search now (au_storage (code_sent (AuthReplied a) s)))) = Some n \<and>
    au_coolTimer (fst (register_mount l search now (au_storage (code_sent (AuthReplied a) s)))) = Some n \<and>
    1 \<le> n \<and> n \<le> 60 \<and> 1000 * (int n - 1) < au_clock s + 60000 - now \<and> au_clock s + 60000 - now \<le> 1000 * int n"
proof -
  define d where "d = au_clock s + 60000 - now"
  have st: "au_storage (code_sent (AuthReplied a) s) = (au_storage s)\<lparr>st_until := Some (au_clock s + 60000)\<rparr>"
    using assms(1,2) by (simp add: code_sent_def auth_result_def startCooldown_def Let_def)
  have d: "0 < d" "d \<le> 60000" using assms(3,4) by (simp_all add: d_def)
  define n where "n = (d + 999) div 1000"
  have n: "1 \<le> n" "n \<le> 60" "1000 * (n - 1) < d" "d \<le> 1000 * n" using d by (simp_all add: n_def)
  have "cool_timer now (au_storage (code_sent (AuthReplied a) s)) = Some (nat n)"
    using assms(1) n(1) by (simp add: st cool_timer_def n_def d_def Let_def)
  with n show ?thesis
    by (intro exI [of _ "nat n"]) (auto simp: login_mount_def register_mount_def d_def)
qed

lemma cooldown_survives_reload_witness:
  "au_coolTimer (fst (login_mount En [] 500 (au_storage (code_sent (AuthReplied \<lparr>status = 200, body = None\<rparr>) reg_empty)))) =
     Some 60"
proof -
  have s: "st_works (au_storage reg_empty)" "au_clock reg_empty = 0"
    by (simp_all add: reg_empty_def register_mount_def empty_storage_def)
  have "resp_ok \<lparr>status = 200, body = None\<rparr>" by (simp add: resp_ok_def)
  from cooldown_survives_reload [OF s(1) this, of 500 En "[]"] s(2) obtain n where
    "au_coolTimer (fst (login_mount En [] 500 (au_storage (code_sent (AuthReplied \<lparr>status = 200, body = None\<rparr>) reg_empty)))) = Some n"
    "n \<le> 60" "59500 \<le> 1000 * int n" by auto
  then show ?thesis by simp
qed

end
