(* ===== verification/Theme.thy ===== *)
theory Theme
  imports Runtime
begin

text \<open>
  The colour theme, \<open>ThemeProvider\<close> of \<^verbatim>\<open>components/providers/theme-provider.tsx\<close>: the chosen theme,
  the theme that is applied to the document, the browser storage and the cookie. The two zero-delay timers are
  ambient events; so is a change of the system preference, whose listener runs at once.
\<close>

datatype theme_name = Light | Dark | SystemTheme

record theme_state =
  th_theme :: theme_name
  th_resolved :: "theme_name option"
  th_document :: "theme_name option"
  th_system :: theme_name
  th_works :: bool
  th_stored :: "string option"
  th_cookie :: "string option"
  th_storedTimer :: "theme_name option"
  th_resolvedTimer :: "theme_name option"

definition theme_key :: "theme_name \<Rightarrow> string" where
  "theme_key t = (case t of Light \<Rightarrow> ''light'' | Dark \<Rightarrow> ''dark'' | SystemTheme \<Rightarrow> ''system'')"

text \<open>\<open>isTheme\<close>, with the theme it names.\<close>

definition isTheme :: "string \<Rightarrow> theme_name option" where
  "isTheme v =
     (if v = ''light'' then Some Light else if v = ''dark'' then Some Dark
      else if v = ''system'' then Some SystemTheme else None)"

definition resolve_theme :: "theme_name \<Rightarrow> theme_name \<Rightarrow> theme_name" where
  "resolve_theme systemTheme t = (if t = SystemTheme then systemTheme else t)"

definition applyTheme :: "theme_name \<Rightarrow> theme_state \<Rightarrow> theme_state" where
  "applyTheme t s = s\<lparr>th_document := Some (resolve_theme (th_system s) t)\<rparr>"

text \<open>The effect of a theme: it is applied, and its resolution is stored a moment later.\<close>

definition theme_effect :: "theme_state \<Rightarrow> theme_state" where
  "theme_effect s =
     (applyTheme (th_theme s) s)\<lparr>th_resolvedTimer := Some (resolve_theme (th_system s) (th_theme s))\<rparr>"

definition setThemeState :: "theme_name \<Rightarrow> theme_state \<Rightarrow> theme_state" where
  "setThemeState t s = (if t = th_theme s then s else theme_effect (s\<lparr>th_theme := t\<rparr>))"

definition setTheme :: "string \<Rightarrow> theme_state \<Rightarrow> theme_state" where
  "setTheme nextTheme s =
     (case isTheme nextTheme of
        None \<Rightarrow> s
      | Some t \<Rightarrow>
          (let s1 = (applyTheme t s)\<lparr>th_resolved := Some (resolve_theme (th_system s) t)\<rparr>;
               s2 = (if th_works s1 then s1\<lparr>th_stored := Some nextTheme,
                       th_cookie := Some (''certflow.theme='' @ nextTheme @ ''; Path=/; Max-Age=31536000; SameSite=Lax'')\<rparr>
                     else s1)
           in setThemeState t s2))"

definition handleSystemThemeChange :: "theme_state \<Rightarrow> theme_state" where
  "handleSystemThemeChange s =
     (if th_theme s = SystemTheme
      then (applyTheme SystemTheme s)\<lparr>th_resolved := Some (resolve_theme (th_system s) SystemTheme)\<rparr> else s)"

datatype theme_event = ThStored | ThResolved | ThSystem theme_name | ThSet string

definition theme_handle :: "theme_event \<Rightarrow> theme_state \<Rightarrow> theme_state \<times> unit list" where
  "theme_handle e s =
     (case e of
        ThStored \<Rightarrow> (case th_storedTimer s of Some t \<Rightarrow> setThemeState t (s\<lparr>th_storedTimer := None\<rparr>) | None \<Rightarrow> s, [])
      | ThResolved \<Rightarrow>
          (case th_resolvedTimer s of Some t \<Rightarrow> s\<lparr>th_resolved := Some t, th_resolvedTimer := None\<rparr> | None \<Rightarrow> s, [])
      | ThSystem v \<Rightarrow> (handleSystemThemeChange (s\<lparr>th_system := v\<rparr>), [])
      | ThSet v \<Rightarrow> (setTheme v s, []))"

definition theme_app :: "(theme_state, theme_event, unit, unit) app" where
  "theme_app = \<lparr>app_view = (\<lambda>s. El [] []),
     app_ambient = (\<lambda>s. {ThStored, ThResolved} \<union> ThSystem ` {Light, Dark} \<union> range ThSet),
     app_handle = theme_handle, app_resume = (\<lambda>k r s. (s, [])), app_answers = (\<lambda>k. {}), app_outside = (\<lambda>s. {})\<rparr>"

text \<open>The first render and its two effects.\<close>

definition theme_mount :: "theme_name \<Rightarrow> bool \<Rightarrow> string option \<Rightarrow> theme_state \<times> unit list" where
  "theme_mount systemTheme works stored =
     (let s = \<lparr>th_theme = SystemTheme, th_resolved = None, th_document = None, th_system = systemTheme, th_works = works,
        th_stored = stored, th_cookie = None,
        th_storedTimer = Some (if works then (case Option.bind stored isTheme of Some t \<Rightarrow> t | None \<Rightarrow> SystemTheme) else SystemTheme),
        th_resolvedTimer = None\<rparr>
      in (theme_effect s, []))"

lemma isTheme_key [simp]: "isTheme (theme_key t) = Some t"
  by (cases t) (simp_all add: isTheme_def theme_key_def)

lemma isTheme_Some: "isTheme v = Some t \<Longrightarrow> v = theme_key t"
  by (auto simp: isTheme_def theme_key_def split: if_splits)

text \<open>
  The document always shows the chosen theme: in every reachable state the theme applied to the
  document is the chosen one, or the preference of the system when the system theme is chosen, whatever the timers do; and it is
  light or dark.
\<close>

theorem theme_applied:
  assumes "ui_reach theme_app (theme_mount systemTheme works stored) (s, q)" "systemTheme \<noteq> SystemTheme"
  shows "th_document s = Some (resolve_theme (th_system s) (th_theme s)) \<and> th_document s \<noteq> Some SystemTheme"
proof -
  let ?I = "\<lambda>s. th_document s = Some (resolve_theme (th_system s) (th_theme s)) \<and> th_system s \<noteq> SystemTheme"
  have "?I (fst (s, q))"
    using assms(1)
  proof (rule ui_reach_inv)
    show "?I (fst (theme_mount systemTheme works stored))"
      using assms(2) by (simp add: theme_mount_def theme_effect_def applyTheme_def)
  next
    fix e s
    assume "?I s" "e \<in> offered (app_view theme_app s) \<union> app_ambient theme_app s"
    then show "?I (fst (app_handle theme_app e s))"
      by (cases e) (auto simp: theme_app_def theme_handle_def setTheme_def setThemeState_def theme_effect_def applyTheme_def
          handleSystemThemeChange_def resolve_theme_def Let_def split: option.splits)
  qed (auto simp: theme_app_def)
  then show ?thesis by (auto simp: resolve_theme_def)
qed

lemma theme_applied_witness:
  "th_document (fst (theme_mount Dark True (Some ''light''))) = Some Dark"
proof -
  have "theme_mount Dark True (Some ''light'') = (fst (theme_mount Dark True (Some ''light'')), [])"
    by (simp add: theme_mount_def Let_def)
  then have r: "ui_reach theme_app (theme_mount Dark True (Some ''light'')) (fst (theme_mount Dark True (Some ''light'')), [])"
    using ui_reach.start by metis
  have t: "th_system (fst (theme_mount Dark True (Some ''light''))) = Dark" "th_theme (fst (theme_mount Dark True (Some ''light''))) = SystemTheme"
    by code_simp+
  from theme_applied [OF r] t show ?thesis by (simp add: resolve_theme_def)
qed

text \<open>
  The chosen theme survives a reload: when the storage works, the next mount reads the key that
  \<open>setTheme\<close> wrote and, once its timer has run, has the same theme and shows it.
\<close>

theorem theme_survives_reload:
  assumes "th_works s" "isTheme v = Some t" "v2 \<noteq> SystemTheme"
  shows "let s' = fst (theme_handle ThStored (fst (theme_mount v2 True (th_stored (setTheme v s)))))
    in th_theme s' = t \<and> th_document s' = Some (resolve_theme v2 t) \<and> th_stored s' = Some v"
  using assms
  by (auto simp: setTheme_def setThemeState_def theme_effect_def applyTheme_def theme_mount_def theme_handle_def Let_def)

lemma theme_survives_reload_witness:
  "th_document (fst (theme_handle ThStored (fst (theme_mount Light True
     (th_stored (setTheme ''dark'' (fst (theme_mount Light True None)))))))) = Some Dark"
proof -
  have s: "th_works (fst (theme_mount Light True None))" "isTheme ''dark'' = Some Dark" by code_simp+
  from theme_survives_reload [OF s, of Light] show ?thesis by (simp add: Let_def resolve_theme_def)
qed

subsection \<open>The colour accent\<close>

text \<open>
  The accent of \<^verbatim>\<open>app/profile/page.tsx\<close> (\<open>changeThemeColor\<close>) and its restoring in
  \<^verbatim>\<open>components/providers/app-providers.tsx\<close> (\<open>ThemeColorSync\<close>): the attribute of the document, the
  storage and the cookie, and the attribute that reveals the page one frame later.
\<close>

datatype theme_color = Teal | Blue | Violet | Orange

definition color_key :: "theme_color \<Rightarrow> string" where
  "color_key c = (case c of Teal \<Rightarrow> ''teal'' | Blue \<Rightarrow> ''blue'' | Violet \<Rightarrow> ''violet'' | Orange \<Rightarrow> ''orange'')"

definition color_of :: "string \<Rightarrow> theme_color option" where
  "color_of v =
     (if v = ''teal'' then Some Teal else if v = ''blue'' then Some Blue
      else if v = ''violet'' then Some Violet else if v = ''orange'' then Some Orange else None)"

record accent_state =
  ac_document :: "theme_color option"
  ac_works :: bool
  ac_stored :: "string option"
  ac_cookie :: "string option"
  ac_frame :: bool
  ac_ready :: bool

definition color_cookie :: "string \<Rightarrow> string" where
  "color_cookie v = ''certflow.themeColor='' @ v @ ''; Path=/; Max-Age=31536000; SameSite=Lax''"

definition changeThemeColor :: "string \<Rightarrow> accent_state \<Rightarrow> accent_state" where
  "changeThemeColor v s =
     (case color_of v of
        None \<Rightarrow> s
      | Some c \<Rightarrow>
          (let s' = s\<lparr>ac_document := Some c\<rparr>
           in if ac_works s then s'\<lparr>ac_stored := Some v, ac_cookie := Some (color_cookie v)\<rparr> else s'))"

text \<open>The effect of \<open>ThemeColorSync\<close> for a resolved theme, and the frame it asks for.\<close>

definition ThemeColorSync :: "theme_name option \<Rightarrow> accent_state \<Rightarrow> accent_state" where
  "ThemeColorSync resolvedTheme s =
     (let s' = (if ac_works s then
                  (case Option.bind (ac_stored s) color_of of
                     None \<Rightarrow> s
                   | Some c \<Rightarrow> s\<lparr>ac_document := Some c, ac_cookie := Some (color_cookie (color_key c))\<rparr>)
                else s)
      in if resolvedTheme = None then s' else s'\<lparr>ac_frame := True\<rparr>)"

definition reveal :: "accent_state \<Rightarrow> accent_state" where
  "reveal s = (if ac_frame s then s\<lparr>ac_frame := False, ac_ready := True\<rparr> else s)"

text \<open>A fresh document with the storage of an old one.\<close>

definition accent_mount :: "accent_state \<Rightarrow> accent_state" where
  "accent_mount s = s\<lparr>ac_document := None, ac_frame := False, ac_ready := False\<rparr>"

lemma color_of_key [simp]: "color_of (color_key c) = Some c"
  by (cases c) (simp_all add: color_of_def color_key_def)

lemma color_of_Some: "color_of v = Some c \<Longrightarrow> v = color_key c"
  by (auto simp: color_of_def color_key_def split: if_splits)

text \<open>
  The accent survives a reload, where the storage works: the next document gets the colour that was
  chosen last, in the same way whether or not the theme is resolved yet.
\<close>

lemma accent_survives_reload:
  assumes "ac_works s" "color_of v = Some c"
  shows "ac_document (ThemeColorSync rt (accent_mount (changeThemeColor v s))) = Some c"
  using assms by (auto simp: ThemeColorSync_def accent_mount_def changeThemeColor_def Let_def split: option.splits)

text \<open>The page is revealed whatever the storage does, once the theme is resolved.\<close>

lemma accent_reveals: "ac_ready (reveal (ThemeColorSync (Some t) s))"
  by (simp add: ThemeColorSync_def reveal_def Let_def)

end
