(* ===== verification/Shell.thy ===== *)
theory Shell
  imports Auth Theme Routing
begin

text \<open>
  The frame around the pages, \<open>AppShell\<close> of \<^verbatim>\<open>components/layout/app-shell.tsx\<close>: the navigation, the header with
  its menus, and the session check that runs on every path of the console. A check is three chained
  requests that are never cancelled. The theme and the locale are the contexts of their providers; the
  page and the notification bell are views of their own.
\<close>

subsection \<open>Navigation items\<close>

record navigation_item =
  nav_href :: string
  labelKey :: string
  descriptionKey :: string

definition navigation :: "navigation_item list" where
  "navigation =
    [\<lparr>nav_href = ''/certificates'', labelKey = ''nav.certificates'', descriptionKey = ''section.certificates''\<rparr>,
     \<lparr>nav_href = ''/automations'', labelKey = ''nav.automations'', descriptionKey = ''section.automations''\<rparr>,
     \<lparr>nav_href = ''/executions'', labelKey = ''nav.executions'', descriptionKey = ''section.executions''\<rparr>]"

definition nav_resources :: "navigation_item list" where
  "nav_resources =
    [\<lparr>nav_href = ''/cloud-credentials'', labelKey = ''nav.credentials'', descriptionKey = ''section.credentials''\<rparr>,
     \<lparr>nav_href = ''/acme-accounts'', labelKey = ''nav.acme'', descriptionKey = ''section.acme''\<rparr>,
     \<lparr>nav_href = ''/dns-accounts'', labelKey = ''nav.dns'', descriptionKey = ''section.dns''\<rparr>]"

definition dashboardItem :: navigation_item where
  "dashboardItem = \<lparr>nav_href = ''/dashboard'', labelKey = ''nav.dashboard'', descriptionKey = ''section.dashboard''\<rparr>"

definition settingsItem :: navigation_item where
  "settingsItem = \<lparr>nav_href = ''/settings'', labelKey = ''nav.settings'', descriptionKey = ''section.settings''\<rparr>"

definition profileItem :: navigation_item where
  "profileItem = \<lparr>nav_href = ''/profile'', labelKey = ''account.profile'', descriptionKey = ''section.profile''\<rparr>"

text \<open>\<open>pathname === item.href || pathname.startsWith(`${item.href}/`)\<close>\<close>

definition nav_active :: "string \<Rightarrow> navigation_item \<Rightarrow> bool" where
  "nav_active pathname i \<longleftrightarrow> pathname = nav_href i \<or> prefix (nav_href i @ ''/'') pathname"

subsection \<open>State\<close>

record shell_state =
  sh_pathname :: string
  sh_locale :: locale_state
  sh_theme :: theme_state
  sh_navOpen :: bool
  sh_collapsed :: bool
  sh_user :: "json option"
  sh_expanded :: "string list"
  sh_replaced :: "string list"
  sh_pushed :: "string list"
  sh_refreshes :: nat

datatype shell_event =
    ShPath string | ShLink string | ShGo string | ShMenuButton | ShCollapse bool | ShExpand "string list"
  | ShTheme string | ShLocale locale_id | ShLogout

datatype shell_call = KCheck | KCheckRefresh | KCheckAgain | KLogout

datatype shell_reply = ShReplied response | ShRejected

definition shell_request :: "shell_call \<Rightarrow> string \<times> string" where
  "shell_request k =
     (case k of
        KCheck \<Rightarrow> (''GET'', ''/api/auth/me'')
      | KCheckRefresh \<Rightarrow> (''POST'', ''/api/auth/refresh'')
      | KCheckAgain \<Rightarrow> (''GET'', ''/api/auth/me'')
      | KLogout \<Rightarrow> (''POST'', ''/api/auth/logout''))"

definition shell_public :: "string list" where
  "shell_public = [''/'', ''/login'', ''/register'']"

definition resourceActive :: "shell_state \<Rightarrow> bool" where
  "resourceActive s = list_ex (nav_active (sh_pathname s)) nav_resources"

definition operationsActive :: "shell_state \<Rightarrow> bool" where
  "operationsActive s = list_ex (nav_active (sh_pathname s)) navigation"

definition active_groups :: "shell_state \<Rightarrow> string list" where
  "active_groups s = (if resourceActive s then [''resources''] else []) @ (if operationsActive s then [''operations''] else [])"

definition activeExpandedKeys :: "shell_state \<Rightarrow> string set" where
  "activeExpandedKeys s = set (sh_expanded s) \<union> set (active_groups s)"

definition user_role :: "shell_state \<Rightarrow> string option" where
  "user_role s = Option.bind (sh_user s) (text_field ''role'')"

definition isAdmin :: "shell_state \<Rightarrow> bool" where
  "isAdmin s \<longleftrightarrow> user_role s = Some ''admin''"

definition shell_items :: "shell_state \<Rightarrow> navigation_item list" where
  "shell_items s =
     navigation @ nav_resources @ [dashboardItem, profileItem] @ (if isAdmin s then [settingsItem] else [])"

definition activeItem :: "shell_state \<Rightarrow> navigation_item option" where
  "activeItem s = List.find (nav_active (sh_pathname s)) (shell_items s)"

subsection \<open>The session check\<close>

text \<open>The effect of a path.\<close>

definition start_check :: "string \<Rightarrow> shell_call list" where
  "start_check pathname = (if pathname \<in> set shell_public then [] else [KCheck])"

definition shell_replace :: "string \<Rightarrow> shell_state \<Rightarrow> shell_state" where
  "shell_replace path s = s\<lparr>sh_replaced := sh_replaced s @ [path]\<rparr>"

text \<open>The end of the chain: no user means the login page; a body that is no JSON lands in the \<open>catch\<close>.\<close>

definition user_arrived :: "json option \<Rightarrow> shell_state \<Rightarrow> shell_state" where
  "user_arrived b s =
     (case b of
        None \<Rightarrow> s\<lparr>sh_user := None\<rparr>
      | Some j \<Rightarrow> if truthy b then s\<lparr>sh_user := Some j\<rparr> else shell_replace ''/login'' s)"

definition check_replied :: "shell_call \<Rightarrow> shell_reply \<Rightarrow> shell_state \<Rightarrow> shell_state \<times> shell_call list" where
  "check_replied k r s =
     (case r of
        ShRejected \<Rightarrow> (s\<lparr>sh_user := None\<rparr>, [])
      | ShReplied a \<Rightarrow>
          if k = KCheck then (if resp_ok a then (user_arrived (body a) s, []) else (s, [KCheckRefresh]))
          else if k = KCheckRefresh then (if resp_ok a then (s, [KCheckAgain]) else (user_arrived (Some JNull) s, []))
          else (user_arrived (if resp_ok a then body a else Some JNull) s, []))"

text \<open>\<open>logout\<close> does not look at the answer; a rejected fetch ends it.\<close>

definition logged_out :: "shell_reply \<Rightarrow> shell_state \<Rightarrow> shell_state" where
  "logged_out r s =
     (case r of
        ShRejected \<Rightarrow> s
      | ShReplied a \<Rightarrow> (shell_replace ''/login'' s)\<lparr>sh_refreshes := sh_refreshes s + 1\<rparr>)"

subsection \<open>Handlers\<close>

definition shell_handle :: "shell_event \<Rightarrow> shell_state \<Rightarrow> shell_state \<times> shell_call list" where
  "shell_handle e s =
     (case e of
        ShPath p \<Rightarrow> (if p = sh_pathname s then (s, []) else (s\<lparr>sh_pathname := p\<rparr>, start_check p))
      | ShLink href \<Rightarrow> (s\<lparr>sh_navOpen := False, sh_pushed := sh_pushed s @ [href]\<rparr>, [])
      | ShGo href \<Rightarrow> (s\<lparr>sh_pushed := sh_pushed s @ [href]\<rparr>, [])
      | ShMenuButton \<Rightarrow> (s\<lparr>sh_navOpen := \<not> sh_navOpen s\<rparr>, [])
      | ShCollapse b \<Rightarrow> (s\<lparr>sh_collapsed := b\<rparr>, [])
      | ShExpand keys \<Rightarrow> (s\<lparr>sh_expanded := keys\<rparr>, [])
      | ShTheme key \<Rightarrow> (s\<lparr>sh_theme := setTheme key (sh_theme s)\<rparr>, [])
      | ShLocale l \<Rightarrow> (s\<lparr>sh_locale := setLocale l (sh_locale s)\<rparr>, [])
      | ShLogout \<Rightarrow> (s, [KLogout]))"

definition shell_resume :: "shell_call \<Rightarrow> shell_reply \<Rightarrow> shell_state \<Rightarrow> shell_state \<times> shell_call list" where
  "shell_resume k r s = (if k = KLogout then (logged_out r s, []) else check_replied k r s)"

subsection \<open>Views\<close>

definition NavigationLink :: "navigation_item \<Rightarrow> shell_event view" where
  "NavigationLink i = Button (Tr (labelKey i) []) False (ShLink (nav_href i))"

definition CollapsedNavigationGroup :: "string \<Rightarrow> navigation_item list \<Rightarrow> shell_event view" where
  "CollapsedNavigationGroup key items =
     Menu (Tr key []) (map (\<lambda>i. (nav_href i, Tr (labelKey i) [], False)) items) (\<lambda>k. Some (ShGo k))"

text \<open>A group of the accordion: its trigger adds or removes its key, its links show when it is expanded.\<close>

definition toggled_keys :: "string \<Rightarrow> shell_state \<Rightarrow> string list" where
  "toggled_keys key s =
     (let keys = filter (\<lambda>k. k \<in> activeExpandedKeys s) [''resources'', ''operations'']
      in if key \<in> set keys then filter (\<lambda>k. k \<noteq> key) keys else keys @ [key])"

definition nav_accordion :: "string \<Rightarrow> label \<Rightarrow> navigation_item list \<Rightarrow> shell_state \<Rightarrow> shell_event view" where
  "nav_accordion key title items s =
     El ''Accordion.Item''
      [Button title False (ShExpand (toggled_keys key s)),
       show_if (key \<in> activeExpandedKeys s) (El ''Accordion.Panel'' (map NavigationLink items))]"

definition shell_sidebar :: "shell_state \<Rightarrow> shell_event view" where
  "shell_sidebar s =
     El ''aside''
      [Button (Tr ''navigation.home'' []) False (ShGo ''/dashboard''),
       show_if (\<not> sh_collapsed s) (Button (Tr ''navigation.collapseSidebar'' []) False (ShCollapse True)),
       Button (Tr (if sh_navOpen s then ''navigation.collapse'' else ''navigation.expand'') []) False ShMenuButton,
       NavigationLink dashboardItem,
       (if sh_collapsed s
        then El ''div''
         [CollapsedNavigationGroup ''nav.resources'' nav_resources, CollapsedNavigationGroup ''nav.operations'' navigation]
        else El ''Accordion''
         [nav_accordion ''resources'' (Tr ''nav.resources'' []) nav_resources s,
          nav_accordion ''operations'' (Tr ''nav.operations'' []) navigation s]),
       show_if (isAdmin s) (NavigationLink settingsItem),
       show_if (sh_collapsed s) (Button (Tr ''navigation.expandSidebar'' []) False (ShCollapse False))]"

definition account_menu :: "json \<Rightarrow> shell_state \<Rightarrow> shell_event view" where
  "account_menu u s =
     Menu (Cat [Raw (case text_field ''email'' u of Some v \<Rightarrow> v | None \<Rightarrow> []),
         Tr (if isAdmin s then ''account.admin'' else ''account.user'') []])
       [(''profile'', Tr ''account.profile'' [], False), (''logout'', Tr ''account.logout'' [], False)]
       (\<lambda>k. if k = ''profile'' then Some (ShGo ''/profile'') else if k = ''logout'' then Some ShLogout else None)"

definition shell_header :: "shell_state \<Rightarrow> shell_event view" where
  "shell_header s =
     El ''header''
      [Button (Raw ''CertFlow'') False (ShGo ''/dashboard''),
       show_if (resourceActive s) (Txt (Tr ''nav.resources'' [])),
       Txt (Tr (case activeItem s of Some i \<Rightarrow> labelKey i | None \<Rightarrow> ''nav.dashboard'') []),
       Txt (Tr (case activeItem s of Some i \<Rightarrow> descriptionKey i | None \<Rightarrow> ''section.dashboard'') []),
       Menu (Tr ''theme.change'' [])
         [(''system'', Tr ''theme.system'' [], False), (''light'', Tr ''theme.light'' [], False),
          (''dark'', Tr ''theme.dark'' [], False)] (\<lambda>k. Some (ShTheme k)),
       Menu (case cur_locale (sh_locale s) of ZhCN \<Rightarrow> Zh ''zh'' | En \<Rightarrow> Raw ''EN'')
         [(''zh-CN'', Tr ''language.zh-CN'' [], False), (''en'', Tr ''language.en'' [], False)]
         (\<lambda>k. Some (ShLocale (locale_of_key k))),
       (case sh_user s of None \<Rightarrow> El [] [] | Some u \<Rightarrow> account_menu u s)]"

text \<open>The whole frame, with the views of the bell and of the page; a public page has no frame.\<close>

definition AppShell :: "'e view \<Rightarrow> 'e view \<Rightarrow> shell_state \<Rightarrow> (shell_event + 'e) view" where
  "AppShell bell page s =
     (if sh_pathname s \<in> set shell_public then map_view Inr page
      else El ''div''
       [map_view Inl (shell_sidebar s), map_view Inl (shell_header s),
        show_if (sh_user s \<noteq> None) (map_view Inr bell), El ''main'' [map_view Inr page]])"

definition shell_view :: "shell_state \<Rightarrow> shell_event view" where
  "shell_view s =
     (if sh_pathname s \<in> set shell_public then El [] [] else El ''div'' [shell_sidebar s, shell_header s])"

definition shell_app :: "(shell_state, shell_event, shell_call, shell_reply) app" where
  "shell_app = \<lparr>app_view = shell_view, app_ambient = (\<lambda>s. range ShPath), app_handle = shell_handle,
     app_resume = shell_resume, app_answers = (\<lambda>k. UNIV), app_outside = (\<lambda>s. {s\<lparr>sh_theme := t\<rparr> | t. True})\<rparr>"

definition shell_mount :: "string \<Rightarrow> locale_state \<Rightarrow> theme_state \<Rightarrow> shell_state \<times> shell_call list" where
  "shell_mount pathname l t =
     (let s = \<lparr>sh_pathname = pathname, sh_locale = l, sh_theme = t, sh_navOpen = False, sh_collapsed = False,
        sh_user = None, sh_expanded = [], sh_replaced = [], sh_pushed = [], sh_refreshes = 0\<rparr>
      in (s\<lparr>sh_expanded := active_groups s\<rparr>, start_check pathname))"

end
