(* ===== verification/Shell_Facts.thy ===== *)
theory Shell_Facts
  imports Shell
begin

text \<open>
  Properties of the frame: its navigation, what it offers to whom, and its session check.
\<close>

subsection \<open>Navigation\<close>

definition all_items :: "navigation_item list" where
  "all_items = navigation @ nav_resources @ [dashboardItem, profileItem, settingsItem]"

definition separate :: "string \<Rightarrow> string \<Rightarrow> bool" where
  "separate g h \<longleftrightarrow> g \<noteq> h \<and> \<not> prefix (g @ ''/'') h \<and> \<not> prefix (h @ ''/'') g \<and>
     \<not> prefix (g @ ''/'') (h @ ''/'') \<and> \<not> prefix (h @ ''/'') (g @ ''/'')"

lemma hrefs_separate:
  "list_all (\<lambda>i. list_all (\<lambda>j. i = j \<or> separate (nav_href i) (nav_href j)) all_items) all_items"
  by code_simp

lemma active_separate: "nav_active p i \<Longrightarrow> nav_active p j \<Longrightarrow> \<not> separate (nav_href i) (nav_href j)"
  using prefix_same_cases [of "nav_href i @ ''/''" p "nav_href j @ ''/''"]
  by (auto simp: nav_active_def separate_def)

text \<open>
  The navigation marks at most one entry: a path lies at or below the address of one item at most, so the title
  and the description of the header are those of exactly the entry that is marked; the settings
  entry counts only for an administrator.
\<close>

theorem header_follows_navigation:
  assumes "i \<in> set (shell_items s)" "nav_active (sh_pathname s) i"
  shows "activeItem s = Some i \<and> (\<forall>j\<in>set all_items. nav_active (sh_pathname s) j \<longrightarrow> j = i)"
proof -
  have sub: "set (shell_items s) \<subseteq> set all_items" by (auto simp: shell_items_def all_items_def)
  have unique: "j = i" if "j \<in> set all_items" "nav_active (sh_pathname s) j" for j
    using hrefs_separate active_separate [OF that(2) assms(2)] that(1) assms(1) sub by (auto simp: list_all_iff)
  have "activeItem s \<noteq> None"
    using assms by (auto simp: activeItem_def find_None_iff)
  then obtain j where j: "activeItem s = Some j" by auto
  then have "j \<in> set (shell_items s)" "nav_active (sh_pathname s) j"
    by (auto simp: activeItem_def find_Some_iff)
  then have "j = i" using unique sub by auto
  with j unique show ?thesis by blast
qed

definition sample_shell :: shell_state where
  "sample_shell = fst (shell_mount ''/dns-accounts'' \<lparr>cur_locale = En, document_cookie = None, locale_refreshes = 0\<rparr>
     (fst (theme_mount Light True None)))"

lemma header_follows_navigation_witness:
  "activeItem sample_shell = Some \<lparr>nav_href = ''/dns-accounts'', labelKey = ''nav.dns'', descriptionKey = ''section.dns''\<rparr>"
proof -
  have "\<lparr>nav_href = ''/dns-accounts'', labelKey = ''nav.dns'', descriptionKey = ''section.dns''\<rparr> \<in> set (shell_items sample_shell)"
    by (simp add: shell_items_def nav_resources_def)
  moreover have "nav_active (sh_pathname sample_shell)
      \<lparr>nav_href = ''/dns-accounts'', labelKey = ''nav.dns'', descriptionKey = ''section.dns''\<rparr>"
    by (simp add: sample_shell_def shell_mount_def nav_active_def)
  ultimately show ?thesis using header_follows_navigation by blast
qed

subsection \<open>Who sees what\<close>

lemma settings_href [simp]:
  "i \<in> set navigation \<Longrightarrow> ''/settings'' \<noteq> nav_href i" "i \<in> set nav_resources \<Longrightarrow> ''/settings'' \<noteq> nav_href i"
  "''/settings'' \<noteq> nav_href dashboardItem"
  by (auto simp: navigation_def nav_resources_def dashboardItem_def)

text \<open>
  The frame offers its controls to no more than it should: the settings entry exactly to an
  administrator on a page of the console, the log-out only with a user, and on the public pages
  nothing at all.
\<close>

theorem frame_offers:
  "(ShLink ''/settings'' \<in> offered (shell_view s)) = (sh_pathname s \<notin> set shell_public \<and> user_role s = Some ''admin'') \<and>
   (ShLogout \<in> offered (shell_view s)) = (sh_pathname s \<notin> set shell_public \<and> sh_user s \<noteq> None) \<and>
   (offered (shell_view s) = {}) = (sh_pathname s \<in> set shell_public)"
proof -
  have acc: "ShLink ''/settings'' \<notin> offered (nav_accordion k t items s)" "ShLogout \<notin> offered (nav_accordion k t items s)"
    if "items \<in> {navigation, nav_resources}" for k t items
    using that by (auto simp: nav_accordion_def NavigationLink_def)
  have side: "ShLink ''/settings'' \<in> offered (shell_sidebar s) \<longleftrightarrow> isAdmin s" "ShLogout \<notin> offered (shell_sidebar s)"
    using acc by (auto simp: shell_sidebar_def NavigationLink_def CollapsedNavigationGroup_def settingsItem_def)
  have head: "ShLink ''/settings'' \<notin> offered (shell_header s)" "ShLogout \<in> offered (shell_header s) \<longleftrightarrow> sh_user s \<noteq> None"
    by (auto simp: shell_header_def account_menu_def split: option.splits)
  have some: "ShMenuButton \<in> offered (shell_sidebar s)" by (simp add: shell_sidebar_def)
  show ?thesis
    using side head some by (auto simp: shell_view_def isAdmin_def)
qed

subsection \<open>The session check\<close>

definition shell_reply_of :: "nat \<Rightarrow> json option \<Rightarrow> shell_reply" where
  "shell_reply_of n b = ShReplied \<lparr>status = n, body = b\<rparr>"

lemma shell_reply_step:
  "ui_reach shell_app x (s, q) \<Longrightarrow> k \<in> set q \<Longrightarrow> shell_resume k r s = (s', ks) \<Longrightarrow>
     ui_reach shell_app x (s', remove1 k q @ ks)"
  by (rule ui_reach_reply) (simp_all add: shell_app_def)

text \<open>
  Any failure of the session check counts as signed out: when the check and then the refresh are answered with something
  that is not a success, be it 401 or the 500 of an unreachable control plane, the visitor is
  sent to the login page, whoever is shown as signed in. (Only a rejected fetch is told apart.)
\<close>

theorem failed_check_shows_login:
  assumes "ui_reach shell_app (shell_mount p l t) (s, q)" "KCheck \<in> set q" "\<not> resp_ok a" "\<not> resp_ok b"
  shows "\<exists>q'. ui_reach shell_app (s, q) (shell_replace ''/login'' s, q') \<and> sh_user (shell_replace ''/login'' s) = sh_user s"
proof -
  have 1: "shell_resume KCheck (ShReplied a) s = (s, [KCheckRefresh])"
    using assms(3) by (simp add: shell_resume_def check_replied_def)
  have 2: "shell_resume KCheckRefresh (ShReplied b) s = (shell_replace ''/login'' s, [])"
    using assms(4) by (simp add: shell_resume_def check_replied_def user_arrived_def truthy_def)
  have "ui_reach shell_app (s, q) (s, remove1 KCheck q @ [KCheckRefresh])"
    by (rule shell_reply_step [OF ui_reach.start assms(2) 1])
  from shell_reply_step [OF this _ 2] show ?thesis
    by (auto simp: shell_replace_def)
qed

lemma failed_check_shows_login_witness:
  "\<exists>q'. ui_reach shell_app (sample_shell, [KCheck]) (shell_replace ''/login'' sample_shell, q')"
proof -
  have m: "shell_mount ''/dns-accounts'' \<lparr>cur_locale = En, document_cookie = None, locale_refreshes = 0\<rparr>
      (fst (theme_mount Light True None)) = (sample_shell, [KCheck])"
    by (simp add: sample_shell_def shell_mount_def start_check_def shell_public_def Let_def)
  have r: "ui_reach shell_app (shell_mount ''/dns-accounts'' \<lparr>cur_locale = En, document_cookie = None, locale_refreshes = 0\<rparr>
      (fst (theme_mount Light True None))) (sample_shell, [KCheck])"
    unfolding m by (rule ui_reach.start)
  have n: "\<not> resp_ok \<lparr>status = 500, body = None\<rparr>" by (simp add: resp_ok_def)
  from failed_check_shows_login [OF r _ n n] show ?thesis by auto
qed

text \<open>
  C24. Two checks can refresh one session at once. A check started by a navigation does not end the one before: with an expired access
  token both get to their refresh. The control plane accepts a refresh token once, so one refresh
  succeeds and the other is refused; then the user is signed in and sent to the login page
  nevertheless.
\<close>

theorem concurrent_checks_log_out:
  assumes "p \<notin> set shell_public" "p' \<notin> set shell_public" "p' \<noteq> p" "truthy (Some u)"
  shows "\<exists>s. ui_reach shell_app (shell_mount p l t) (s, [KCheckRefresh, KCheckRefresh]) \<and>
    (\<exists>s'. ui_reach shell_app (s, [KCheckRefresh, KCheckRefresh]) (s', []) \<and>
      sh_user s' = Some u \<and> sh_replaced s' = [''/login''])"
proof -
  let ?start = "fst (shell_mount p l t)"
  let ?moved = "?start\<lparr>sh_pathname := p'\<rparr>"
  define expired where "expired = shell_reply_of 401 None"
  note steps = shell_resume_def check_replied_def user_arrived_def shell_reply_of_def resp_ok_def expired_def truthy_def
  have m: "shell_mount p l t = (?start, [KCheck])" and path: "sh_pathname ?start = p" and none: "sh_replaced ?start = []"
    using assms(1) by (simp_all add: shell_mount_def start_check_def Let_def)
  have "ui_reach shell_app (shell_mount p l t) (?start, [KCheck])" using m ui_reach.start by metis
  then have "ui_reach shell_app (shell_mount p l t) (?start, remove1 KCheck [KCheck] @ [KCheckRefresh])"
    by (rule shell_reply_step [where r = expired]) (simp_all add: steps)
  then have 0: "ui_reach shell_app (shell_mount p l t) (?start, [KCheckRefresh])" by simp
  have "shell_handle (ShPath p') ?start = (?moved, [KCheck])"
    using assms(2,3) path by (simp add: shell_handle_def start_check_def)
  then have "ui_reach shell_app (shell_mount p l t) (?moved, [KCheckRefresh] @ [KCheck])"
    by (intro ui_reach_event [OF 0, where e = "ShPath p'"]) (simp_all add: shell_app_def)
  then have 1: "ui_reach shell_app (shell_mount p l t) (?moved, [KCheckRefresh, KCheck])" by simp
  have "ui_reach shell_app (shell_mount p l t) (?moved, remove1 KCheck [KCheckRefresh, KCheck] @ [KCheckRefresh])"
    by (rule shell_reply_step [OF 1, where r = expired]) (simp_all add: steps)
  then have 2: "ui_reach shell_app (shell_mount p l t) (?moved, [KCheckRefresh, KCheckRefresh])" by simp
  have "ui_reach shell_app (?moved, [KCheckRefresh, KCheckRefresh]) (?moved, remove1 KCheckRefresh [KCheckRefresh, KCheckRefresh] @ [KCheckAgain])"
    by (rule shell_reply_step [OF ui_reach.start, where r = "shell_reply_of 200 None"]) (simp_all add: steps)
  then have 3: "ui_reach shell_app (?moved, [KCheckRefresh, KCheckRefresh]) (?moved, [KCheckRefresh, KCheckAgain])" by simp
  have "ui_reach shell_app (?moved, [KCheckRefresh, KCheckRefresh]) (?moved\<lparr>sh_user := Some u\<rparr>, remove1 KCheckAgain [KCheckRefresh, KCheckAgain] @ [])"
    by (rule shell_reply_step [OF 3, where r = "shell_reply_of 200 (Some u)"]) (use assms(4) in \<open>simp_all add: steps\<close>)
  then have 4: "ui_reach shell_app (?moved, [KCheckRefresh, KCheckRefresh]) (?moved\<lparr>sh_user := Some u\<rparr>, [KCheckRefresh])" by simp
  have "ui_reach shell_app (?moved, [KCheckRefresh, KCheckRefresh])
      (shell_replace ''/login'' (?moved\<lparr>sh_user := Some u\<rparr>), remove1 KCheckRefresh [KCheckRefresh] @ [])"
    by (rule shell_reply_step [OF 4, where r = expired]) (simp_all add: steps)
  then have 5: "ui_reach shell_app (?moved, [KCheckRefresh, KCheckRefresh]) (shell_replace ''/login'' (?moved\<lparr>sh_user := Some u\<rparr>), [])"
    by simp
  have "sh_user (shell_replace ''/login'' (?moved\<lparr>sh_user := Some u\<rparr>)) = Some u"
    "sh_replaced (shell_replace ''/login'' (?moved\<lparr>sh_user := Some u\<rparr>)) = [''/login'']"
    using none by (simp_all add: shell_replace_def)
  with 2 5 show ?thesis by blast
qed

definition admin_json :: json where
  "admin_json = JObj [(''role'', JStr ''admin'')]"

lemma concurrent_checks_log_out_witness:
  "\<exists>s q. ui_reach shell_app (shell_mount ''/dashboard'' \<lparr>cur_locale = En, document_cookie = None, locale_refreshes = 0\<rparr>
     (fst (theme_mount Light True None))) (s, q) \<and> length (filter (\<lambda>k. k = KCheckRefresh) q) = 2"
proof -
  have t: "truthy (Some admin_json)" by (simp add: truthy_def admin_json_def)
  obtain s where "ui_reach shell_app (shell_mount ''/dashboard'' \<lparr>cur_locale = En, document_cookie = None, locale_refreshes = 0\<rparr>
      (fst (theme_mount Light True None))) (s, [KCheckRefresh, KCheckRefresh])"
    using concurrent_checks_log_out [of "''/dashboard''" "''/certificates''" admin_json] t by (force simp: shell_public_def)
  then show ?thesis by fastforce
qed

end
