(* ===== verification/Realtime.thy ===== *)
theory Realtime
  imports Runtime Routing
begin

text \<open>
  \<open>RealtimeEvents\<close> of \<^verbatim>\<open>components/layout/realtime-events.tsx\<close>: one stream of server events per page, with
  the cursor in the browser storage, the toasts, and the delayed refresh. \<open>JSON.parse\<close> is not
  modelled: a message is the parsed value, or \<open>None\<close> when it does not parse. The component has no
  view; everything that happens to it is an ambient event.
\<close>

subsection \<open>State\<close>

datatype toast_variant = Success | Danger | Warning | Info

record rt_state =
  rt_pathname :: string
  rt_works :: bool
  rt_cursor :: "string option"
  rt_source :: "string option"
  rt_timer :: bool
  rt_refreshes :: nat
  rt_toasts :: "(toast_variant \<times> label) list"
  rt_dispatched :: "json list"

subsection \<open>Toasts\<close>

definition operation_text :: "string \<Rightarrow> label \<Rightarrow> label" where
  "operation_text key operation = Fill (Tr key []) ''{operation}'' operation"

definition execution_operation :: "string option \<Rightarrow> label" where
  "execution_operation kind =
     (if kind = Some ''issue'' then Tr ''realtime.issue'' [] else if kind = Some ''renew'' then Tr ''realtime.renew'' []
      else if kind = Some ''upload'' then Tr ''realtime.upload'' [] else Tr ''realtime.deploy'' [])"

definition rt_executionLabel :: "string option \<Rightarrow> string option \<Rightarrow> toast_variant \<times> label" where
  "rt_executionLabel kind st =
     (let operation = execution_operation kind
      in if st = Some ''succeeded'' then (Success, operation_text ''realtime.succeeded'' operation)
         else if st = Some ''failed'' then (Danger, operation_text ''realtime.failed'' operation)
         else if st = Some ''waiting_user'' then (Warning, operation_text ''realtime.waiting'' operation)
         else (Info, operation_text ''realtime.running'' operation))"

definition verification_operation :: "string option \<Rightarrow> label" where
  "verification_operation resourceType =
     (if resourceType = Some ''cloud_credential'' then Tr ''realtime.cloudCredentialVerify'' []
      else if resourceType = Some ''acme_account'' then Tr ''realtime.acmeVerify'' [] else Tr ''realtime.dnsVerify'' [])"

definition verificationLabel :: "string option \<Rightarrow> string option \<Rightarrow> toast_variant \<times> label" where
  "verificationLabel resourceType st =
     (let operation = verification_operation resourceType
      in if st = Some ''succeeded'' then (Success, operation_text ''realtime.succeeded'' operation)
         else if st = Some ''failed'' then (Danger, operation_text ''realtime.failed'' operation)
         else (Info, operation_text ''realtime.running'' operation))"

subsection \<open>The stream\<close>

definition no_stream_pages :: "string list" where
  "no_stream_pages = [''/'', ''/login'', ''/register'']"

definition stream_url :: "string \<Rightarrow> string" where
  "stream_url cursor = ''/api/events'' @ (if cursor \<noteq> [] then ''?after='' @ encodeURIComponent cursor else [])"

text \<open>The effect of a path name: nothing on the public pages, else a stream from the stored cursor.\<close>

definition open_stream :: "rt_state \<Rightarrow> rt_state" where
  "open_stream s =
     (if rt_pathname s \<in> set no_stream_pages then s
      else s\<lparr>rt_source := Some (stream_url (if rt_works s then case rt_cursor s of Some c \<Rightarrow> c | None \<Rightarrow> [] else []))\<rparr>)"

definition close_stream :: "rt_state \<Rightarrow> rt_state" where
  "close_stream s = s\<lparr>rt_source := None, rt_timer := False\<rparr>"

definition navigate :: "string \<Rightarrow> rt_state \<Rightarrow> rt_state" where
  "navigate path s =
     (if path = rt_pathname s then s else open_stream ((close_stream s)\<lparr>rt_pathname := path\<rparr>))"

definition js_text :: "json option \<Rightarrow> string" where
  "js_text v = (case v of None \<Rightarrow> ''undefined'' | Some j \<Rightarrow> js_string j)"

definition toast :: "toast_variant \<times> label \<Rightarrow> rt_state \<Rightarrow> rt_state" where
  "toast x s = s\<lparr>rt_toasts := rt_toasts s @ [x]\<rparr>"

definition schedule :: "rt_state \<Rightarrow> rt_state" where
  "schedule s = s\<lparr>rt_timer := True\<rparr>"

text \<open>
  The listener. A \<open>null\<close> message is dispatched and then throws; so does the event of an execution without a
  payload, after the cursor was stored.
\<close>

definition update_listener :: "json option \<Rightarrow> rt_state \<Rightarrow> rt_state" where
  "update_listener data s =
     (case data of
        None \<Rightarrow> s
      | Some JNull \<Rightarrow> s\<lparr>rt_dispatched := rt_dispatched s @ [JNull]\<rparr>
      | Some j \<Rightarrow>
          (let s1 = (if rt_works s then s\<lparr>rt_cursor := Some (js_text (js_field ''id'' j))\<rparr> else s);
               s2 = s1\<lparr>rt_dispatched := rt_dispatched s1 @ [j]\<rparr>;
               topic = text_field ''topic'' j
           in if topic = Some ''execution.status'' then
                (case js_field ''payload'' j of
                   None \<Rightarrow> s2
                 | Some JNull \<Rightarrow> s2
                 | Some p \<Rightarrow> schedule (toast (rt_executionLabel (text_field ''kind'' p) (text_field ''status'' j)) s2))
              else if topic = Some ''verification.status'' then
                schedule (toast (verificationLabel (text_field ''resourceType'' j) (text_field ''status'' j)) s2)
              else schedule s2))"

definition refresh_due :: "rt_state \<Rightarrow> rt_state" where
  "refresh_due s = (if rt_timer s then s\<lparr>rt_refreshes := rt_refreshes s + 1, rt_timer := False\<rparr> else s)"

subsection \<open>The component\<close>

datatype rt_event = RtMessage "json option" | RtTimer | RtNavigate string

definition rt_handle :: "rt_event \<Rightarrow> rt_state \<Rightarrow> rt_state \<times> unit list" where
  "rt_handle e s =
     (case e of
        RtMessage data \<Rightarrow> (update_listener data s, [])
      | RtTimer \<Rightarrow> (refresh_due s, [])
      | RtNavigate path \<Rightarrow> (navigate path s, []))"

definition rt_app :: "(rt_state, rt_event, unit, unit) app" where
  "rt_app = \<lparr>app_view = (\<lambda>s. El [] []),
     app_ambient = (\<lambda>s. range RtNavigate \<union> (if rt_source s = None then {} else range RtMessage) \<union>
       (if rt_timer s then {RtTimer} else {})),
     app_handle = rt_handle, app_resume = (\<lambda>k r s. (s, [])), app_answers = (\<lambda>k. {}),
     app_outside = (\<lambda>s. {s\<lparr>rt_cursor := c\<rparr> | c. True})\<rparr>"

definition rt_mount :: "string \<Rightarrow> bool \<Rightarrow> string option \<Rightarrow> rt_state \<times> unit list" where
  "rt_mount path works cursor =
     (open_stream \<lparr>rt_pathname = path, rt_works = works, rt_cursor = cursor, rt_source = None, rt_timer = False,
        rt_refreshes = 0, rt_toasts = [], rt_dispatched = []\<rparr>, [])"

subsection \<open>A burst of events\<close>

text \<open>A message after which the listener runs to its end.\<close>

definition complete_event :: "json \<Rightarrow> bool" where
  "complete_event j \<longleftrightarrow> j \<noteq> JNull \<and>
     (text_field ''topic'' j = Some ''execution.status'' \<longrightarrow> js_field ''payload'' j \<notin> {None, Some JNull})"

lemma update_complete:
  assumes "complete_event j"
  shows "rt_timer (update_listener (Some j) s)" "rt_refreshes (update_listener (Some j) s) = rt_refreshes s"
    "rt_works (update_listener (Some j) s) = rt_works s" "rt_dispatched (update_listener (Some j) s) = rt_dispatched s @ [j]"
    "rt_cursor (update_listener (Some j) s) = (if rt_works s then Some (js_text (js_field ''id'' j)) else rt_cursor s)"
    "rt_pathname (update_listener (Some j) s) = rt_pathname s" "rt_source (update_listener (Some j) s) = rt_source s"
  using assms by (cases j; auto simp: update_listener_def complete_event_def schedule_def toast_def Let_def
      split: option.splits json.splits)+

lemma burst_complete:
  assumes "\<forall>j\<in>set ms. complete_event j" "ms \<noteq> []"
  shows "rt_timer (fold (\<lambda>j. update_listener (Some j)) ms s) \<and>
    rt_refreshes (fold (\<lambda>j. update_listener (Some j)) ms s) = rt_refreshes s \<and>
    rt_works (fold (\<lambda>j. update_listener (Some j)) ms s) = rt_works s \<and>
    rt_dispatched (fold (\<lambda>j. update_listener (Some j)) ms s) = rt_dispatched s @ ms \<and>
    rt_pathname (fold (\<lambda>j. update_listener (Some j)) ms s) = rt_pathname s \<and>
    rt_cursor (fold (\<lambda>j. update_listener (Some j)) ms s) =
      (if rt_works s then Some (js_text (js_field ''id'' (last ms))) else rt_cursor s)"
  using assms
proof (induction ms arbitrary: s)
  case Nil
  then show ?case by simp
next
  case (Cons j ms)
  then show ?case by (cases "ms = []") (simp_all add: update_complete)
qed

text \<open>
  A burst of server events refreshes the page once: however many messages arrive before the
  timer is due, each is handed on in order, the page is not refreshed meanwhile, exactly one
  refresh follows, and the stored cursor is the identifier of the last of them.
\<close>

theorem burst_refreshes_once:
  assumes "\<forall>j\<in>set ms. complete_event j" "ms \<noteq> []" "s' = fold (\<lambda>j. update_listener (Some j)) ms s"
  shows "rt_dispatched s' = rt_dispatched s @ ms \<and> rt_refreshes s' = rt_refreshes s \<and>
    rt_refreshes (refresh_due s') = rt_refreshes s + 1 \<and>
    rt_refreshes (refresh_due (refresh_due s')) = rt_refreshes s + 1 \<and>
    (rt_works s \<longrightarrow> rt_cursor s' = Some (js_text (js_field ''id'' (last ms))))"
  using burst_complete [OF assms(1,2), of s] assms(3) by (simp add: refresh_due_def)

definition sample_event :: json where
  "sample_event = JObj [(''id'', JNum 7), (''topic'', JStr ''certificate.status'')]"

lemma burst_refreshes_once_witness:
  "rt_refreshes (refresh_due (fold (\<lambda>j. update_listener (Some j)) [sample_event, sample_event]
     (fst (rt_mount ''/dashboard'' True None)))) = rt_refreshes (fst (rt_mount ''/dashboard'' True None)) + 1"
proof -
  have "complete_event sample_event" by code_simp
  then have "\<forall>j\<in>set [sample_event, sample_event]. complete_event j" by simp
  from burst_refreshes_once [OF this _ refl, of "fst (rt_mount ''/dashboard'' True None)"] show ?thesis by simp
qed

subsection \<open>The stream and its cursor\<close>

lemma nat_digits_chars: "c \<in> set (nat_digits n) \<Longrightarrow> is_word_char c"
proof (induction n rule: nat_digits.induct)
  case (1 n)
  have digit: "is_word_char (char_of (48 + m))" if "m < 10" for m :: nat
    using that by (auto simp: is_word_char_def code_def)
  show ?case
  proof (cases "n < 10")
    case True
    then show ?thesis using 1(2) digit by (simp add: nat_digits.simps [of n])
  next
    case False
    then show ?thesis using 1 digit [of "n mod 10"] by (auto simp: nat_digits.simps [of n])
  qed
qed

lemma encode_int: "encodeURIComponent (int_string n) = int_string n"
proof -
  have "encode_char c = [c]" if "c \<in> set (int_string n)" for c
    using that nat_digits_chars by (auto simp: int_string_def encode_char_def split: if_splits)
  then have "concat (map encode_char (int_string n)) = concat (map (\<lambda>c. [c]) (int_string n))"
    by (metis (mono_tags, lifting) map_cong)
  then show ?thesis by (simp add: encodeURIComponent_def)
qed

lemma int_string_nonempty [simp]: "int_string n \<noteq> []"
  by (simp add: int_string_def nat_digits.simps [of "nat n"])

lemma reaches_events:
  assumes "in_method r = GET" "in_query r = [(''after'', c)]" "c \<noteq> []"
  shows "reaches_api r (''/api/events?after='' @ encodeURIComponent c)"
proof -
  have "api_segments (''/api/events?after='' @ encodeURIComponent c) = Some [''events'']"
    using api_segments_url [of "[''events'']" "''?after='' @ encodeURIComponent c"] by simp
  then show ?thesis
    using assms by (simp add: reaches_api_def route_of_def serve_route_def route_defs Let_def)
qed

text \<open>
  C27. A page opened after some events resumes the stream at the last of them. Let the browser storage work and
  let the events received be complete (not null, and an execution event with a payload). When the last of them has
  the identifier \<open>n\<close>, the next page of the console opens its stream with \<open>after=n\<close>, and the route of the
  console forwards this request to the same path and query of the control plane.
\<close>

theorem stream_resumes_after_last_event:
  assumes "rt_works s" "\<forall>j\<in>set ms. complete_event j" "ms \<noteq> []" "js_field ''id'' (last ms) = Some (JNum n)"
    and "path \<noteq> rt_pathname s" "path \<notin> set no_stream_pages"
    and "in_method r = GET" "in_query r = [(''after'', int_string n)]"
  shows "\<exists>u. rt_source (navigate path (fold (\<lambda>j. update_listener (Some j)) ms s)) = Some u \<and>
    u = ''/api/events?after='' @ int_string n \<and> reaches_api r u"
proof -
  have "rt_source (navigate path (fold (\<lambda>j. update_listener (Some j)) ms s)) = Some (''/api/events?after='' @ int_string n)"
    using assms(1-6) burst_complete [OF assms(2,3), of s]
    by (simp add: navigate_def open_stream_def close_stream_def stream_url_def js_text_def encode_int)
  moreover have "reaches_api r (''/api/events?after='' @ int_string n)"
    using reaches_events [OF assms(7,8)] by (simp add: encode_int)
  ultimately show ?thesis by blast
qed

lemma stream_resumes_after_last_event_witness:
  "rt_source (navigate ''/certificates'' (update_listener (Some sample_event) (fst (rt_mount ''/dashboard'' True None)))) =
     Some ''/api/events?after=7''"
proof -
  have s: "rt_works (fst (rt_mount ''/dashboard'' True None))" "rt_pathname (fst (rt_mount ''/dashboard'' True None)) = ''/dashboard''"
    by code_simp+
  have j: "\<forall>j\<in>set [sample_event]. complete_event j" "[sample_event] \<noteq> []" "js_field ''id'' (last [sample_event]) = Some (JNum 7)"
    by code_simp+
  have d: "int_string 7 = ''7''" by code_simp
  from stream_resumes_after_last_event [OF s(1) j, of "''/certificates''"
      "\<lparr>in_method = GET, in_segments = [], in_query = [(''after'', int_string 7)], in_headers = [], in_text = []\<rparr>"] s(2)
  show ?thesis by (simp add: no_stream_pages_def d)
qed

text \<open>A stream is open exactly on the pages of the console, and a refresh is due only there.\<close>

lemma stream_pages:
  assumes "ui_reach rt_app (rt_mount path works cursor) x"
  shows "(rt_source (fst x) \<noteq> None) = (rt_pathname (fst x) \<notin> set no_stream_pages) \<and>
    (rt_timer (fst x) \<longrightarrow> rt_source (fst x) \<noteq> None)"
  using assms
proof (rule ui_reach_inv)
  show "(rt_source (fst (rt_mount path works cursor)) \<noteq> None) =
      (rt_pathname (fst (rt_mount path works cursor)) \<notin> set no_stream_pages) \<and>
    (rt_timer (fst (rt_mount path works cursor)) \<longrightarrow> rt_source (fst (rt_mount path works cursor)) \<noteq> None)"
    by (simp add: rt_mount_def open_stream_def)
next
  fix e s
  assume I: "(rt_source s \<noteq> None) = (rt_pathname s \<notin> set no_stream_pages) \<and> (rt_timer s \<longrightarrow> rt_source s \<noteq> None)"
    and e: "e \<in> offered (app_view rt_app s) \<union> app_ambient rt_app s"
  have same: "rt_source (update_listener d s) = rt_source s \<and> rt_pathname (update_listener d s) = rt_pathname s" for d
    by (auto simp: update_listener_def schedule_def toast_def Let_def split: option.splits json.splits)
  show "(rt_source (fst (app_handle rt_app e s)) \<noteq> None) = (rt_pathname (fst (app_handle rt_app e s)) \<notin> set no_stream_pages) \<and>
      (rt_timer (fst (app_handle rt_app e s)) \<longrightarrow> rt_source (fst (app_handle rt_app e s)) \<noteq> None)"
    using I e same
    by (cases e) (auto simp: rt_app_def rt_handle_def navigate_def open_stream_def close_stream_def refresh_due_def split: if_splits)
qed (auto simp: rt_app_def)

end
