(* ===== verification/Query_Strings.thy ===== *)
theory Query_Strings
  imports Bff
begin

text \<open>
  Reading a query back: \<open>URLSearchParams\<close> of the browser on characters below 256, and the proof that
  it inverts \<open>encodeURIComponent\<close>.
\<close>

definition hex_value :: "char \<Rightarrow> nat option" where
  "hex_value c =
     (if is_digit c then Some (code c - 48)
      else if 65 \<le> code c \<and> code c \<le> 70 then Some (code c - 55)
      else if 97 \<le> code c \<and> code c \<le> 102 then Some (code c - 87) else None)"

text \<open>The bytes of a percent-encoded text, and the characters their UTF-8 reading gives.\<close>

fun percent_bytes :: "string \<Rightarrow> nat list" where
  "percent_bytes (c # a # b # s) =
     (if c = CHR 0x25 \<and> hex_value a \<noteq> None \<and> hex_value b \<noteq> None
      then (16 * the (hex_value a) + the (hex_value b)) # percent_bytes s
      else code c # percent_bytes (a # b # s))"
| "percent_bytes (c # s) = code c # percent_bytes s"
| "percent_bytes [] = []"

fun utf8_chars :: "nat list \<Rightarrow> string" where
  "utf8_chars (n # m # ns) =
     (if 192 \<le> n \<and> n < 196 \<and> 128 \<le> m \<and> m < 192
      then char_of (64 * (n - 192) + (m - 128)) # utf8_chars ns
      else char_of n # utf8_chars (m # ns))"
| "utf8_chars (n # ns) = char_of n # utf8_chars ns"
| "utf8_chars [] = []"

definition decode_component :: "string \<Rightarrow> string" where
  "decode_component s = utf8_chars (percent_bytes (map (\<lambda>c. if c = CHR ''+'' then CHR '' '' else c) s))"

definition query_pair :: "string \<Rightarrow> string \<times> string" where
  "query_pair s =
     (decode_component (takeWhile (\<lambda>c. c \<noteq> CHR ''='') s), decode_component (drop 1 (dropWhile (\<lambda>c. c \<noteq> CHR ''='') s)))"

text \<open>The parameters of a URL: what follows its question mark, pair by pair.\<close>

definition search_params :: "string \<Rightarrow> (string \<times> string) list" where
  "search_params u =
     map query_pair (filter (\<lambda>p. p \<noteq> []) (split_on (\<lambda>c. c = CHR ''&'') (drop 1 (dropWhile (\<lambda>c. c \<noteq> CHR ''?'') u))))"

subsection \<open>Decoding inverts encoding\<close>

lemma code_div: "code c div 64 < 4"
  using code_less [of c] by (intro less_mult_imp_div_less) simp

lemma char_of_code [simp]: "char_of (code c) = c"
  by (simp add: code_def)

lemma hex_value_digit: "n < 16 \<Longrightarrow> hex_value (hex_digit n) = Some n"
  by (auto simp: hex_value_def hex_digit_def is_digit_def code_def)

lemma percent_bytes_percent: "n < 256 \<Longrightarrow> percent_bytes (percent n @ s) = n # percent_bytes s"
proof -
  assume "n < 256"
  then have "hex_value (hex_digit (n div 16)) = Some (n div 16)" "hex_value (hex_digit (n mod 16)) = Some (n mod 16)"
    by (simp_all add: hex_value_digit)
  then show ?thesis by (simp add: percent_def)
qed

lemma percent_bytes_plain: "c \<noteq> CHR 0x25 \<Longrightarrow> percent_bytes (c # s) = code c # percent_bytes s"
  by (cases s; cases "tl s") auto

definition utf8 :: "char \<Rightarrow> nat list" where
  "utf8 c = (if code c < 128 then [code c] else [192 + code c div 64, 128 + code c mod 64])"

lemma percent_bytes_encode: "percent_bytes (encode_char c @ s) = utf8 c @ percent_bytes s"
proof (cases "is_word_char c \<or> c \<in> set ''-.!~*()'' \<or> code c = 39")
  case True
  then have "c \<noteq> CHR 0x25" "code c < 128" by (auto simp: is_word_char_def code_def)
  with True show ?thesis by (simp add: encode_char_def utf8_def percent_bytes_plain)
next
  case False
  have "192 + code c div 64 < 256" "128 + code c mod 64 < 256" using code_div [of c] by auto
  with False show ?thesis by (simp add: encode_char_def utf8_def percent_bytes_percent)
qed

lemma utf8_chars_utf8: "utf8_chars (utf8 c @ ns) = c # utf8_chars ns"
proof (cases "code c < 128")
  case True
  then show ?thesis by (cases ns) (simp_all add: utf8_def)
next
  case False
  have "64 * (code c div 64) + code c mod 64 = code c" by simp
  with False code_div [of c] show ?thesis by (simp add: utf8_def)
qed

lemma hex_digit_word: "n < 16 \<Longrightarrow> is_word_char (hex_digit n)"
  by (auto simp: hex_digit_def is_word_char_def)

definition encoded_char :: "char \<Rightarrow> bool" where
  "encoded_char c \<longleftrightarrow> is_word_char c \<or> c \<in> set ''-.!~*()'' \<or> code c = 39 \<or> c = CHR 0x25"

lemma encode_char_set: "d \<in> set (encode_char c) \<Longrightarrow> encoded_char d"
proof -
  assume d: "d \<in> set (encode_char c)"
  have hex: "is_word_char (hex_digit (n div 16))" "is_word_char (hex_digit (n mod 16))" if "n < 256" for n
  proof -
    have "n div 16 < 16" using that by (intro less_mult_imp_div_less) simp
    then show "is_word_char (hex_digit (n div 16))" "is_word_char (hex_digit (n mod 16))" by (simp_all add: hex_digit_word)
  qed
  have "192 + code c div 64 < 256" "128 + code c mod 64 < 256" using code_div [of c] by auto
  with d hex [of "code c"] hex [of "192 + code c div 64"] hex [of "128 + code c mod 64"] show ?thesis
    by (auto simp: encode_char_def percent_def encoded_char_def split: if_splits)
qed

lemma encode_set: "d \<in> set (encodeURIComponent s) \<Longrightarrow> encoded_char d"
  using encode_char_set by (auto simp: encodeURIComponent_def)

lemma encoded_char_special:
  "\<not> encoded_char (CHR ''+'')" "\<not> encoded_char (CHR ''&'')" "\<not> encoded_char (CHR ''='')" "\<not> encoded_char (CHR ''?'')"
  "\<not> encoded_char (CHR ''/'')"
  by code_simp+

text \<open>A value that was encoded is read back as it was.\<close>

lemma decode_encode: "decode_component (encodeURIComponent s) = s"
proof -
  have plus: "map (\<lambda>c. if c = CHR ''+'' then CHR '' '' else c) (encodeURIComponent s) = encodeURIComponent s"
    using encode_set encoded_char_special(1) by (intro map_idI) auto
  have "percent_bytes (encodeURIComponent s) = concat (map utf8 s)"
    by (induction s) (simp_all add: encodeURIComponent_def percent_bytes_encode)
  moreover have "utf8_chars (concat (map utf8 s)) = s"
    by (induction s) (simp_all add: utf8_chars_utf8)
  ultimately show ?thesis by (simp add: decode_component_def plus)
qed

definition plain_text :: "string \<Rightarrow> bool" where
  "plain_text s \<longleftrightarrow> list_all (\<lambda>c. encoded_char c \<and> c \<noteq> CHR 0x25 \<and> code c < 128) s"

lemma decode_plain: "plain_text s \<Longrightarrow> decode_component s = s"
proof -
  assume p: "plain_text s"
  then have "map (\<lambda>c. if c = CHR ''+'' then CHR '' '' else c) s = s"
    using encoded_char_special(1) by (intro map_idI) (auto simp: plain_text_def list_all_iff)
  moreover have "percent_bytes s = map code s"
    using p by (induction s) (simp_all add: plain_text_def percent_bytes_plain)
  moreover have "utf8_chars (map code s) = s"
    using p
  proof (induction s)
    case (Cons c s)
    then show ?case by (cases s) (simp_all add: plain_text_def)
  qed simp
  ultimately show ?thesis by (simp add: decode_component_def)
qed

lemma query_pair_eq:
  assumes "plain_text k"
  shows "query_pair (k @ CHR ''='' # v) = (k, decode_component v)"
proof -
  have k: "\<forall>c\<in>set k. c \<noteq> CHR ''=''"
    using assms encoded_char_special(3) by (auto simp: plain_text_def list_all_iff)
  then have "takeWhile (\<lambda>c. c \<noteq> CHR ''='') (k @ CHR ''='' # v) = k"
    "dropWhile (\<lambda>c. c \<noteq> CHR ''='') (k @ CHR ''='' # v) = CHR ''='' # v"
    by (simp_all add: takeWhile_append2 dropWhile_append2)
  then show ?thesis by (simp add: query_pair_def decode_plain [OF assms])
qed

lemma plain_text_chars: "plain_text s \<Longrightarrow> c \<in> set s \<Longrightarrow> encoded_char c"
  by (simp add: plain_text_def list_all_iff)

lemma no_amp: "encoded_char c \<Longrightarrow> c \<noteq> CHR ''&''"
  using encoded_char_special(2) by blast

text \<open>Two parameters behind a path, the first one encoded.\<close>

lemma search_params_two:
  assumes "\<forall>c\<in>set path. c \<noteq> CHR ''?''" "plain_text k" "plain_text m" "plain_text w" "k \<noteq> []" "m \<noteq> []"
  shows "search_params (path @ CHR ''?'' # k @ CHR ''='' # encodeURIComponent v @ CHR ''&'' # m @ CHR ''='' # w) =
    [(k, v), (m, w)]"
proof -
  let ?p = "k @ CHR ''='' # encodeURIComponent v" and ?q = "m @ CHR ''='' # w"
  have amp: "\<forall>c\<in>set ?p. c \<noteq> CHR ''&''" "\<forall>c\<in>set ?q. c \<noteq> CHR ''&''"
    using no_amp [OF plain_text_chars [OF assms(2)]] no_amp [OF plain_text_chars [OF assms(3)]]
      no_amp [OF plain_text_chars [OF assms(4)]] no_amp [OF encode_set [of _ v]] by simp_all blast+
  have cut: "dropWhile (\<lambda>c. c \<noteq> CHR ''?'') (path @ CHR ''?'' # ?p @ CHR ''&'' # ?q) = CHR ''?'' # ?p @ CHR ''&'' # ?q"
    using assms(1) by (simp add: dropWhile_append2)
  have "split_on (\<lambda>c. c = CHR ''&'') (?p @ CHR ''&'' # ?q) = [?p, ?q]"
    using amp split_on_append [of ?p "\<lambda>c. c = CHR ''&''" "CHR ''&''" ?q] split_on_single [of ?q "\<lambda>c. c = CHR ''&''"] by simp
  then have "search_params (path @ CHR ''?'' # ?p @ CHR ''&'' # ?q) = [query_pair ?p, query_pair ?q]"
    using assms(5,6) unfolding search_params_def cut by simp
  then show ?thesis
    using query_pair_eq [OF assms(2)] query_pair_eq [OF assms(3)] decode_encode decode_plain [OF assms(4)] by simp
qed

end
