(* ===== verification/Notifications.thy ===== *)
theory Notifications
  imports Realtime Query_Strings
begin

text \<open>
  \<open>NotificationCenter\<close> of \<^verbatim>\<open>components/layout/notification-center.tsx\<close>: the bell with its count, the list in
  its popover, marking as read, and the dialog of one notification with its link. The fields of a
  payload are \<open>None\<close> when they are missing. A read mark made here is the time of the clock when the
  reply arrived, which the reply carries.
\<close>

subsection \<open>State and requests\<close>

record notification =
  nt_id :: int
  nt_topic :: string
  nt_resourceType :: string
  nt_resourceId :: string
  nt_status :: string
  nt_kind :: "string option"
  nt_certificateId :: "string option"
  nt_name :: "string option"
  nt_createdAt :: string
  nt_readAt :: "string option"

record nc_state =
  nc_locale :: locale_id
  nc_items :: "notification list"
  nc_loading :: bool
  nc_updating :: bool
  nc_open :: bool
  nc_selected :: "notification option"
  nc_pushed :: "string list"
  nc_timer :: bool

datatype nc_event =
    NInitial | NRealtime | NToggle | NMarkAll | NOpen notification | NCloseDetail | NNavigate

datatype nc_call = KLoadNotifications | KMarkRead "int list"

datatype nc_reply = Notifications "failure + notification list" | MarkedRead "failure + unit" string

definition nc_request :: "nc_call \<Rightarrow> string \<times> string" where
  "nc_request k =
     (case k of
        KLoadNotifications \<Rightarrow> (''GET'', ''/api/notifications'')
      | KMarkRead ids \<Rightarrow> (''POST'', ''/api/notifications/read''))"

definition unread :: "notification \<Rightarrow> bool" where
  "unread n \<longleftrightarrow> nt_readAt n \<in> {None, Some []}"

definition unreadCount :: "nc_state \<Rightarrow> nat" where
  "unreadCount s = length (filter unread (nc_items s))"

subsection \<open>Handlers\<close>

definition load :: "nc_state \<Rightarrow> nc_state \<times> nc_call list" where
  "load s = (s, [KLoadNotifications])"

definition loaded :: "failure + notification list \<Rightarrow> nc_state \<Rightarrow> nc_state" where
  "loaded r s = (case r of Inr xs \<Rightarrow> s\<lparr>nc_items := xs, nc_loading := False\<rparr> | Inl f \<Rightarrow> s\<lparr>nc_loading := False\<rparr>)"

definition markRead :: "int list \<Rightarrow> nc_state \<Rightarrow> nc_state \<times> nc_call list" where
  "markRead ids s = (if ids = [] then (s, []) else (s\<lparr>nc_updating := True\<rparr>, [KMarkRead ids]))"

definition read_marked :: "int list \<Rightarrow> failure + unit \<Rightarrow> string \<Rightarrow> nc_state \<Rightarrow> nc_state" where
  "read_marked ids r now s =
     (case r of
        Inr _ \<Rightarrow> s\<lparr>nc_items := map (\<lambda>n. if nt_id n \<in> set ids then n\<lparr>nt_readAt := Some now\<rparr> else n) (nc_items s),
          nc_updating := False\<rparr>
      | Inl f \<Rightarrow> s\<lparr>nc_updating := False\<rparr>)"

definition openNotification :: "notification \<Rightarrow> nc_state \<Rightarrow> nc_state \<times> nc_call list" where
  "openNotification n s =
     (let s' = s\<lparr>nc_open := False, nc_selected := Some n\<rparr>
      in if unread n then markRead [nt_id n] s' else (s', []))"

definition notification_path :: "notification \<Rightarrow> string" where
  "notification_path n =
     (if nt_topic n = ''execution.status'' then ''/executions''
      else if nt_topic n = ''verification.status'' then
        (if nt_resourceType n = ''cloud_credential'' then ''/cloud-credentials''
         else if nt_resourceType n = ''acme_account'' then ''/acme-accounts'' else ''/dns-accounts'')
      else ''/certificates?selected='' @
        encodeURIComponent (case nt_certificateId n of Some c \<Rightarrow> c | None \<Rightarrow> nt_resourceId n) @ ''&mode=view'')"

definition navigateFromDetail :: "nc_state \<Rightarrow> nc_state" where
  "navigateFromDetail s =
     (case nc_selected s of
        None \<Rightarrow> s
      | Some n \<Rightarrow> s\<lparr>nc_selected := None, nc_pushed := nc_pushed s @ [notification_path n]\<rparr>)"

definition nc_handle :: "nc_event \<Rightarrow> nc_state \<Rightarrow> nc_state \<times> nc_call list" where
  "nc_handle e s =
     (case e of
        NInitial \<Rightarrow> load (s\<lparr>nc_timer := False\<rparr>)
      | NRealtime \<Rightarrow> load s
      | NToggle \<Rightarrow> (s\<lparr>nc_open := \<not> nc_open s\<rparr>, [])
      | NMarkAll \<Rightarrow> markRead (map nt_id (filter unread (nc_items s))) s
      | NOpen n \<Rightarrow> openNotification n s
      | NCloseDetail \<Rightarrow> (s\<lparr>nc_selected := None\<rparr>, [])
      | NNavigate \<Rightarrow> (navigateFromDetail s, []))"

definition nc_resume :: "nc_call \<Rightarrow> nc_reply \<Rightarrow> nc_state \<Rightarrow> nc_state \<times> nc_call list" where
  "nc_resume k r s =
     (case (k, r) of
        (KLoadNotifications, Notifications x) \<Rightarrow> (loaded x s, [])
      | (KMarkRead ids, MarkedRead x now) \<Rightarrow> (read_marked ids x now s, [])
      | _ \<Rightarrow> (s, []))"

text \<open>\<open>toISOString\<close> is never empty.\<close>

definition nc_answers :: "nc_call \<Rightarrow> nc_reply set" where
  "nc_answers k =
     (case k of
        KLoadNotifications \<Rightarrow> range Notifications
      | KMarkRead ids \<Rightarrow> {MarkedRead x now | x now. now \<noteq> []})"

subsection \<open>View\<close>

definition statusLabels :: "(string \<times> string) list" where
  "statusLabels =
    [(''pending'', ''notification.status.pending''), (''issuing'', ''notification.status.issuing''),
     (''renewing'', ''notification.status.renewing''), (''issued'', ''notification.status.issued''),
     (''succeeded'', ''notification.status.succeeded''), (''failed'', ''notification.status.failed''),
     (''waiting_user'', ''notification.status.waiting''), (''running'', ''notification.status.running'')]"

definition notification_status :: "string \<Rightarrow> label" where
  "notification_status st = (case al_get st statusLabels of Some key \<Rightarrow> Tr key [] | None \<Rightarrow> Raw st)"

definition notificationTitle :: "notification \<Rightarrow> label" where
  "notificationTitle n =
     (if nt_topic n = ''certificate.status'' then Tr ''notification.certificateUpdate'' []
      else if nt_topic n = ''verification.status''
        then operation_text ''notification.verificationUpdate'' (verification_operation (Some (nt_resourceType n)))
      else operation_text ''notification.executionUpdate'' (execution_operation (nt_kind n)))"

definition notificationTime :: "string \<Rightarrow> locale_id \<Rightarrow> label" where
  "notificationTime v l = DateTimeOf l v"

definition notification_key :: "notification list \<Rightarrow> string \<Rightarrow> nc_event option" where
  "notification_key items key = map_option NOpen (List.find (\<lambda>n. int_string (nt_id n) = key) items)"

definition notification_line :: "locale_id \<Rightarrow> notification \<Rightarrow> label" where
  "notification_line l n =
     Cat [notificationTitle n, notification_status (nt_status n), notificationTime (nt_createdAt n) l]"

definition nc_popover :: "nc_state \<Rightarrow> nc_event view list" where
  "nc_popover s =
     (let unreads = unreadCount s; items = nc_items s
      in [Txt (Tr ''notification.title'' []),
          Txt (if 0 < unreads then Fill (Tr ''notification.unread'' []) ''{count}'' (Raw (nat_digits unreads))
            else Tr ''notification.allRead'' []),
          Button (Tr ''notification.markAllRead'' []) (unreads = 0 \<or> nc_updating s) NMarkAll,
          show_if (nc_loading s) (Txt (Tr ''notification.loading'' [])),
          show_if (\<not> nc_loading s \<and> length items = 0) (Txt (Tr ''notification.empty'' [])),
          show_if (\<not> nc_loading s \<and> 0 < length items)
            (Menu (Tr ''notification.title'' [])
              (map (\<lambda>n. (int_string (nt_id n), notification_line (nc_locale s) n, False)) items) (notification_key items))])"

definition open_label :: "notification \<Rightarrow> label" where
  "open_label n =
     Tr (if nt_topic n = ''execution.status'' then ''notification.openExecutions''
       else if nt_topic n = ''verification.status'' then ''notification.openResource'' else ''notification.openCertificate'') []"

definition notification_detail :: "locale_id \<Rightarrow> notification \<Rightarrow> nc_event view list" where
  "notification_detail l n =
     [Txt (notificationTitle n), StatusTag (nt_status n), Txt (notificationTime (nt_createdAt n) l),
      Txt (Tr ''notification.resource'' []),
      Txt (if nt_topic n = ''execution.status'' then Tr ''notification.executionResource'' []
        else case nt_name n of Some v \<Rightarrow> if v \<noteq> [] then Raw v else Raw (nt_resourceId n) | None \<Rightarrow> Raw (nt_resourceId n)),
      Txt (Raw (nt_resourceId n))]"

definition nc_view :: "nc_state \<Rightarrow> nc_event view" where
  "nc_view s =
     El []
      [Button (Tr ''notification.title'' []) False NToggle,
       show_if (0 < unreadCount s)
         (Txt (if 99 < unreadCount s then Raw ''99+'' else Raw (nat_digits (unreadCount s)))),
       show_if (nc_open s) (El ''Popover'' (nc_popover s)),
       ResourceModal (nc_selected s \<noteq> None) (Tr ''notification.detail'' [])
         (case nc_selected s of Some n \<Rightarrow> notificationTitle n | None \<Rightarrow> no_text) NCloseDetail
         (case nc_selected s of
            Some n \<Rightarrow> [ModalCancelButton NCloseDetail, Button (open_label n) False NNavigate]
          | None \<Rightarrow> [])
         (case nc_selected s of Some n \<Rightarrow> notification_detail (nc_locale s) n | None \<Rightarrow> [])]"

text \<open>The page-wide event \<^verbatim>\<open>certflow:realtime\<close> may come at any time.\<close>

definition notification_app :: "(nc_state, nc_event, nc_call, nc_reply) app" where
  "notification_app = \<lparr>app_view = nc_view, app_ambient = (\<lambda>s. insert NRealtime (if nc_timer s then {NInitial} else {})),
     app_handle = nc_handle, app_resume = nc_resume, app_answers = nc_answers, app_outside = (\<lambda>s. {})\<rparr>"

definition nc_mount :: "locale_id \<Rightarrow> nc_state \<times> nc_call list" where
  "nc_mount l = (\<lparr>nc_locale = l, nc_items = [], nc_loading = True, nc_updating = False, nc_open = False,
     nc_selected = None, nc_pushed = [], nc_timer = True\<rparr>, [])"

end
