(* ===== verification/Profile.thy ===== *)
theory Profile
  imports Theme
begin

text \<open>
  The profile page, \<^verbatim>\<open>app/profile/page.tsx\<close>: loading the account, changing the password, ending the other
  sessions, the webhook, and the appearance. The three requests of a load are answered together, as
  \<open>Promise.all\<close> gives them. A change of the language (it comes from the frame) makes a new
  \<open>loadProfile\<close>, whose effect loads again. The browser's own checks of the inputs are left out, so
  submissions they would stop are allowed here.
\<close>

subsection \<open>State\<close>

record profile_user =
  pu_email :: string
  pu_role :: string
  pu_status :: string
  pu_mustChangePassword :: bool
  pu_lastLoginAt :: "string option"
  pu_createdAt :: string

record profile_session =
  ps_id :: string
  ps_deviceLabel :: string
  ps_createdAt :: string
  ps_lastSeenAt :: string
  ps_expiresAt :: string
  ps_isCurrent :: bool

record webhook_settings =
  wh_enabled :: bool
  wh_url :: string
  wh_emailConfigured :: bool
  wh_lastDeliveryStatus :: string
  wh_lastDeliveryAt :: "string option"
  wh_lastDeliveryError :: string

record profile_state =
  pf_locale :: locale_id
  pf_theme :: theme_state
  pf_accent :: accent_state
  pf_themeColor :: theme_color
  pf_user :: "profile_user option"
  pf_sessions :: "profile_session list"
  pf_webhook :: webhook_settings
  pf_currentPassword :: string
  pf_newPassword :: string
  pf_confirmPassword :: string
  pf_revoke :: bool
  pf_loading :: bool
  pf_loadError :: label
  pf_securityMessage :: label
  pf_securityError :: label
  pf_passwordPending :: bool
  pf_sessionsPending :: bool
  pf_webhookMessage :: label
  pf_webhookError :: label
  pf_webhookPending :: bool
  pf_loadTimer :: bool
  pf_colorTimer :: "theme_color option"

datatype profile_event =
    PLoadTimer | PColorTimer | PLocale locale_id | PRetry
  | PCurrent string | PNew string | PConfirm string | PRevokeBox bool | PChangePassword
  | PRevokeOthers | PTheme string | PColor string
  | PUrl string | PEnabled bool | PSaveWebhook | PTestWebhook

text \<open>What waits for a load, and the requests.\<close>

datatype load_end = LoadOnly | EndSessions | EndWebhook

datatype profile_call =
    KLoadProfile load_end
  | KPassword string string bool "profile_user option"
  | KRevokeOthers
  | KSaveWebhook bool string
  | KTestWebhook string

text \<open>One of the three replies of a load: no success, a body that is no JSON, or what it says.\<close>

datatype 'a fetched = NotOk | BadJson string | Got 'a

datatype profile_reply =
    LoadRejected failure
  | LoadReplied "profile_user option fetched" "webhook_settings fetched" "profile_session list fetched"
  | Answered response
  | AnswerRejected failure

definition profile_request :: "profile_call \<Rightarrow> (string \<times> string) list" where
  "profile_request k =
     (case k of
        KLoadProfile c \<Rightarrow> [(''GET'', ''/api/auth/me''), (''GET'', ''/api/profile/webhook''), (''GET'', ''/api/profile/sessions'')]
      | KPassword cur new rv u \<Rightarrow> [(''POST'', ''/api/auth/change-password'')]
      | KRevokeOthers \<Rightarrow> [(''POST'', ''/api/profile/sessions/revoke-others'')]
      | KSaveWebhook en u \<Rightarrow> [(''PUT'', ''/api/profile/webhook'')]
      | KTestWebhook u \<Rightarrow> [(''POST'', ''/api/profile/webhook/test'')])"

definition otherSessions :: "profile_state \<Rightarrow> profile_session list" where
  "otherSessions s = filter (\<lambda>x. \<not> ps_isCurrent x) (pf_sessions s)"

subsection \<open>Loading\<close>

definition loadProfile :: "load_end \<Rightarrow> profile_state \<Rightarrow> profile_state \<times> profile_call list" where
  "loadProfile c s = (s\<lparr>pf_loading := True, pf_loadError := no_text\<rparr>, [KLoadProfile c])"

text \<open>The three bodies are read one after the other; the first that fails ends the load with its message.\<close>

definition profile_loaded :: "profile_reply \<Rightarrow> profile_state \<Rightarrow> profile_state" where
  "profile_loaded r s =
     (case r of
        LoadReplied u w x \<Rightarrow>
          (case u of
             NotOk \<Rightarrow> s\<lparr>pf_loadError := Tr ''profile.loadFailed'' [], pf_loading := False\<rparr>
           | BadJson m \<Rightarrow> s\<lparr>pf_loadError := Raw m, pf_loading := False\<rparr>
           | Got a \<Rightarrow>
               (let s1 = s\<lparr>pf_user := a\<rparr>
                in case w of
                     BadJson m \<Rightarrow> s1\<lparr>pf_loadError := Raw m, pf_loading := False\<rparr>
                   | _ \<Rightarrow>
                       (let s2 = (case w of Got b \<Rightarrow> s1\<lparr>pf_webhook := b\<rparr> | _ \<Rightarrow> s1)
                        in case x of
                             BadJson m \<Rightarrow> s2\<lparr>pf_loadError := Raw m, pf_loading := False\<rparr>
                           | NotOk \<Rightarrow> s2\<lparr>pf_loading := False\<rparr>
                           | Got ss \<Rightarrow> s2\<lparr>pf_sessions := ss, pf_loading := False\<rparr>)))
      | LoadRejected f \<Rightarrow> s\<lparr>pf_loadError := failure_message f (Tr ''profile.loadFailed'' []), pf_loading := False\<rparr>
      | _ \<Rightarrow> s)"

definition load_ended :: "load_end \<Rightarrow> profile_state \<Rightarrow> profile_state" where
  "load_ended c s =
     (case c of
        LoadOnly \<Rightarrow> s
      | EndSessions \<Rightarrow> s\<lparr>pf_sessionsPending := False\<rparr>
      | EndWebhook \<Rightarrow> s\<lparr>pf_webhookPending := False\<rparr>)"

subsection \<open>Password and sessions\<close>

definition clearSecurity :: "profile_state \<Rightarrow> profile_state" where
  "clearSecurity s = s\<lparr>pf_securityError := no_text, pf_securityMessage := no_text\<rparr>"

definition changePassword :: "profile_state \<Rightarrow> profile_state \<times> profile_call list" where
  "changePassword s =
     (if length (pf_newPassword s) < 8 then ((clearSecurity s)\<lparr>pf_securityError := Tr ''profile.passwordHint'' []\<rparr>, [])
      else if pf_newPassword s \<noteq> pf_confirmPassword s
        then ((clearSecurity s)\<lparr>pf_securityError := Tr ''auth.passwordMismatch'' []\<rparr>, [])
      else ((clearSecurity s)\<lparr>pf_passwordPending := True\<rparr>,
        [KPassword (pf_currentPassword s) (pf_newPassword s) (pf_revoke s) (pf_user s)]))"

definition withCount :: "label \<Rightarrow> response \<Rightarrow> label" where
  "withCount template r = Fill template ''{count}'' (Raw (js_string (nullish (body_field ''revokedSessions'' r) (JNum 0))))"

text \<open>What the reply of a fetch becomes: the error to show, or the response.\<close>

definition answer :: "profile_reply \<Rightarrow> label \<Rightarrow> label + response" where
  "answer r fallback =
     (case r of
        Answered a \<Rightarrow> if resp_ok a then Inr a else Inl (body_message a fallback)
      | AnswerRejected f \<Rightarrow> Inl (failure_message f fallback)
      | _ \<Rightarrow> Inl fallback)"

definition password_changed :: "bool \<Rightarrow> profile_user option \<Rightarrow> profile_reply \<Rightarrow> profile_state \<Rightarrow> profile_state \<times> profile_call list" where
  "password_changed rv u r s =
     (case answer r (Tr ''profile.saveFailed'' []) of
        Inl m \<Rightarrow> (s\<lparr>pf_securityError := m, pf_passwordPending := False\<rparr>, [])
      | Inr a \<Rightarrow>
          (let s1 = s\<lparr>pf_currentPassword := [], pf_newPassword := [], pf_confirmPassword := []\<rparr>;
               s2 = (case u of None \<Rightarrow> s1 | Some x \<Rightarrow> s1\<lparr>pf_user := Some (x\<lparr>pu_mustChangePassword := False\<rparr>)\<rparr>);
               s3 = s2\<lparr>pf_securityMessage :=
                 (if rv then withCount (Tr ''profile.passwordSavedWithSessions'' []) a else Tr ''profile.passwordSaved'' [])\<rparr>;
               (s4, ks) = (if rv then loadProfile LoadOnly s3 else (s3, []))
           in (s4\<lparr>pf_passwordPending := False\<rparr>, ks)))"

definition revokeOtherSessions :: "profile_state \<Rightarrow> profile_state \<times> profile_call list" where
  "revokeOtherSessions s = ((clearSecurity s)\<lparr>pf_sessionsPending := True\<rparr>, [KRevokeOthers])"

definition others_revoked :: "profile_reply \<Rightarrow> profile_state \<Rightarrow> profile_state \<times> profile_call list" where
  "others_revoked r s =
     (case answer r (Tr ''profile.saveFailed'' []) of
        Inl m \<Rightarrow> (s\<lparr>pf_securityError := m, pf_sessionsPending := False\<rparr>, [])
      | Inr a \<Rightarrow> loadProfile EndSessions (s\<lparr>pf_securityMessage := withCount (Tr ''profile.sessionsRevoked'' []) a\<rparr>))"

subsection \<open>Webhook\<close>

definition webhook_start :: "profile_state \<Rightarrow> profile_state" where
  "webhook_start s = s\<lparr>pf_webhookError := no_text, pf_webhookMessage := no_text, pf_webhookPending := True\<rparr>"

definition saveWebhook :: "profile_state \<Rightarrow> profile_state \<times> profile_call list" where
  "saveWebhook s = (webhook_start s, [KSaveWebhook (wh_enabled (pf_webhook s)) (js_trim (wh_url (pf_webhook s)))])"

definition testWebhook :: "profile_state \<Rightarrow> profile_state \<times> profile_call list" where
  "testWebhook s = (webhook_start s, [KTestWebhook (js_trim (wh_url (pf_webhook s)))])"

definition webhook_saved :: "bool \<Rightarrow> profile_reply \<Rightarrow> profile_state \<Rightarrow> profile_state \<times> profile_call list" where
  "webhook_saved en r s =
     (case answer r (Tr ''profile.saveFailed'' []) of
        Inl m \<Rightarrow> (s\<lparr>pf_webhookError := m, pf_webhookPending := False\<rparr>, [])
      | Inr a \<Rightarrow> loadProfile EndWebhook (s\<lparr>pf_webhookMessage := Tr (if en then ''profile.webhookEnabled'' else ''profile.webhookPaused'') []\<rparr>))"

definition webhook_tested :: "profile_reply \<Rightarrow> profile_state \<Rightarrow> profile_state" where
  "webhook_tested r s =
     (case answer r (Tr ''profile.saveFailed'' []) of
        Inl m \<Rightarrow> s\<lparr>pf_webhookError := m, pf_webhookPending := False\<rparr>
      | Inr a \<Rightarrow> s\<lparr>pf_webhookMessage := Tr ''profile.webhookTestSent'' [], pf_webhookPending := False\<rparr>)"

subsection \<open>Events\<close>

definition profile_handle :: "profile_event \<Rightarrow> profile_state \<Rightarrow> profile_state \<times> profile_call list" where
  "profile_handle e s =
     (case e of
        PLoadTimer \<Rightarrow> loadProfile LoadOnly (s\<lparr>pf_loadTimer := False\<rparr>)
      | PColorTimer \<Rightarrow>
          (case pf_colorTimer s of Some c \<Rightarrow> s\<lparr>pf_themeColor := c, pf_colorTimer := None\<rparr> | None \<Rightarrow> s, [])
      | PLocale l \<Rightarrow> (if l = pf_locale s then s else s\<lparr>pf_locale := l, pf_loadTimer := True\<rparr>, [])
      | PRetry \<Rightarrow> loadProfile LoadOnly s
      | PCurrent v \<Rightarrow> (s\<lparr>pf_currentPassword := v\<rparr>, [])
      | PNew v \<Rightarrow> (s\<lparr>pf_newPassword := v\<rparr>, [])
      | PConfirm v \<Rightarrow> (s\<lparr>pf_confirmPassword := v\<rparr>, [])
      | PRevokeBox b \<Rightarrow> (s\<lparr>pf_revoke := b\<rparr>, [])
      | PChangePassword \<Rightarrow> changePassword s
      | PRevokeOthers \<Rightarrow> revokeOtherSessions s
      | PTheme k \<Rightarrow> (s\<lparr>pf_theme := setTheme k (pf_theme s)\<rparr>, [])
      | PColor k \<Rightarrow>
          (case color_of k of
             None \<Rightarrow> s
           | Some c \<Rightarrow> s\<lparr>pf_themeColor := c, pf_accent := changeThemeColor k (pf_accent s)\<rparr>, [])
      | PUrl v \<Rightarrow> (s\<lparr>pf_webhook := (pf_webhook s)\<lparr>wh_url := v\<rparr>\<rparr>, [])
      | PEnabled b \<Rightarrow> (s\<lparr>pf_webhook := (pf_webhook s)\<lparr>wh_enabled := b\<rparr>\<rparr>, [])
      | PSaveWebhook \<Rightarrow> saveWebhook s
      | PTestWebhook \<Rightarrow> testWebhook s)"

definition profile_resume :: "profile_call \<Rightarrow> profile_reply \<Rightarrow> profile_state \<Rightarrow> profile_state \<times> profile_call list" where
  "profile_resume k r s =
     (case k of
        KLoadProfile c \<Rightarrow> (load_ended c (profile_loaded r s), [])
      | KPassword cur new rv u \<Rightarrow> password_changed rv u r s
      | KRevokeOthers \<Rightarrow> others_revoked r s
      | KSaveWebhook en u \<Rightarrow> webhook_saved en r s
      | KTestWebhook u \<Rightarrow> (webhook_tested r s, []))"

definition profile_answers :: "profile_call \<Rightarrow> profile_reply set" where
  "profile_answers k =
     (case k of
        KLoadProfile c \<Rightarrow> range LoadRejected \<union> {LoadReplied u w x | u w x. True}
      | _ \<Rightarrow> range Answered \<union> range AnswerRejected)"

subsection \<open>View\<close>

definition ProfileHeading :: "string \<Rightarrow> string \<Rightarrow> profile_event view" where
  "ProfileHeading title description = El ''div'' [El ''h2'' [Txt (Tr title [])], El ''p'' [Txt (Tr description [])]]"

text \<open>The page has a formatter of its own; a label only keeps that it is a date with a time.\<close>

definition profile_date :: "string option \<Rightarrow> locale_id \<Rightarrow> label" where
  "profile_date v l = (case v of None \<Rightarrow> Tr ''profile.never'' [] | Some t \<Rightarrow> if t = [] then Tr ''profile.never'' [] else DateTimeOf l t)"

text \<open>A disabled input or box shows its text and takes nothing.\<close>

definition field_unless :: "bool \<Rightarrow> label \<Rightarrow> string \<Rightarrow> (string \<Rightarrow> 'e) \<Rightarrow> 'e view" where
  "field_unless disabled l v f = (if disabled then El ''input disabled'' [Txt l, Txt (Raw v)] else Field l v f)"

definition check_unless :: "bool \<Rightarrow> label \<Rightarrow> bool \<Rightarrow> (bool \<Rightarrow> 'e) \<Rightarrow> 'e view" where
  "check_unless disabled l v f = (if disabled then El ''input disabled'' [Txt l] else Check l v f)"

definition profile_messages :: "label \<Rightarrow> label \<Rightarrow> profile_event view" where
  "profile_messages message err =
     El ''div'' [show_if (shown message) (El ''div role=status'' [Txt message]), show_if (shown err) (FormError err)]"

definition profile_account :: "profile_user \<Rightarrow> profile_state \<Rightarrow> profile_event view" where
  "profile_account u s =
     El ''section''
      [El ''h2'' [Txt (Tr ''profile.account'' [])], Txt (Tr ''profile.accountDescription'' []),
       Txt (Tr ''profile.email'' []), Txt (Raw (pu_email u)),
       Txt (Tr ''profile.role'' []), Txt (Tr (if pu_role u = ''admin'' then ''account.admin'' else ''account.user'') []),
       Txt (Tr ''profile.accountStatus'' []),
       Txt (if pu_status u = ''active'' then Tr ''profile.accountActive'' [] else Raw (pu_status u)),
       Txt (Tr ''profile.lastLoginAt'' []), Txt (profile_date (pu_lastLoginAt u) (pf_locale s)),
       Txt (Tr ''profile.createdAt'' []), Txt (profile_date (Some (pu_createdAt u)) (pf_locale s)),
       show_if (pu_mustChangePassword u) (FormError (Tr ''profile.passwordDescription'' []))]"

definition profile_password :: "profile_state \<Rightarrow> profile_event view" where
  "profile_password s =
     El ''form''
      [ProfileHeading ''profile.password'' ''profile.passwordDescription'',
       Field (Tr ''profile.currentPassword'' []) (pf_currentPassword s) PCurrent,
       Field (Tr ''profile.newPassword'' []) (pf_newPassword s) PNew,
       Field (Tr ''profile.confirmPassword'' []) (pf_confirmPassword s) PConfirm,
       Txt (Tr ''profile.passwordHint'' []),
       check_unless (pf_passwordPending s) (Tr ''profile.revokeOthers'' []) (pf_revoke s) PRevokeBox,
       profile_messages (pf_securityMessage s) (pf_securityError s),
       Button (Tr (if pf_passwordPending s then ''profile.savingPassword'' else ''profile.savePassword'') [])
         (pf_passwordPending s) PChangePassword]"

definition profile_session_item :: "locale_id \<Rightarrow> profile_session \<Rightarrow> profile_event view" where
  "profile_session_item l x =
     El ''div''
      [Txt (Raw (ps_deviceLabel x)),
       Txt (Cat [Tr ''profile.lastActive'' [], Raw '' '', profile_date (Some (ps_lastSeenAt x)) l]),
       show_if (ps_isCurrent x) (El ''Tag'' [Txt (Tr ''profile.currentSession'' [])])]"

definition profile_sessions :: "profile_state \<Rightarrow> profile_event view" where
  "profile_sessions s =
     El ''section''
      [ProfileHeading ''profile.sessions'' ''profile.sessionsDescription'',
       El ''div'' (map (profile_session_item (pf_locale s)) (pf_sessions s)),
       Txt (if length (otherSessions s) = 0 then Tr ''profile.noOtherSessions'' []
         else Cat [Raw (nat_digits (length (otherSessions s))), Raw '' '', Tr ''profile.sessions'' []]),
       Button (Tr ''profile.revokeOtherSessions'' []) (pf_sessionsPending s \<or> length (otherSessions s) = 0) PRevokeOthers]"

definition profile_preferences :: "profile_state \<Rightarrow> profile_event view" where
  "profile_preferences s =
     El ''section''
      [ProfileHeading ''profile.appearance'' ''profile.appearanceDescription'',
       Choice (Tr ''profile.theme'' []) (Some (theme_key (th_theme (pf_theme s)))) False
         [(''system'', Tr ''theme.system'' [], False), (''light'', Tr ''theme.light'' [], False),
          (''dark'', Tr ''theme.dark'' [], False)] PTheme,
       Choice (Tr ''profile.themeColor'' []) (Some (color_key (pf_themeColor s))) False
         [(''teal'', Tr ''themeColor.teal'' [], False), (''blue'', Tr ''themeColor.blue'' [], False),
          (''violet'', Tr ''themeColor.violet'' [], False), (''orange'', Tr ''themeColor.orange'' [], False)] PColor]"

definition deliveryKey :: "string \<Rightarrow> string" where
  "deliveryKey st =
     (if st = ''succeeded'' then ''profile.deliverySucceeded''
      else if st = ''failed'' then ''profile.deliveryFailed''
      else if st = ''queued'' \<or> st = ''running'' then ''profile.deliveryPending''
      else ''profile.webhookNeverDelivered'')"

definition profile_webhook :: "profile_state \<Rightarrow> profile_event view" where
  "profile_webhook s =
     (let w = pf_webhook s
      in El ''form''
       [ProfileHeading ''profile.notifications'' ''profile.notificationsDescription'',
        Txt (Tr ''profile.emailDelivery'' []),
        Txt (Tr (if wh_emailConfigured w then ''profile.emailAvailable'' else ''profile.emailUnavailable'') []),
        Txt (Tr ''profile.webhookDelivery'' []),
        Txt (Cat ([Tr (deliveryKey (wh_lastDeliveryStatus w)) []] @
          (if wh_lastDeliveryAt w \<notin> {None, Some []}
           then [Zh '' middle dot '', profile_date (wh_lastDeliveryAt w) (pf_locale s)] else []))),
        show_if (wh_lastDeliveryError w \<noteq> []) (Txt (Raw (wh_lastDeliveryError w))),
        field_unless (pf_webhookPending s) (Tr ''profile.webhookURL'' []) (wh_url w) PUrl,
        check_unless (pf_webhookPending s) (Tr ''profile.enableWebhook'' []) (wh_enabled w) PEnabled,
        Txt (Tr ''profile.webhookHint'' []),
        profile_messages (pf_webhookMessage s) (pf_webhookError s),
        Button (Tr ''profile.testWebhook'' []) (pf_webhookPending s \<or> js_trim (wh_url w) = []) PTestWebhook,
        Button (Tr (if pf_webhookPending s then ''profile.savingNotifications'' else ''profile.saveNotifications'') [])
          (pf_webhookPending s) PSaveWebhook])"

definition ProfilePage :: "profile_state \<Rightarrow> profile_event view" where
  "ProfilePage s =
     (if pf_loading s then ResourceEmptyState (Tr ''profile.loading'' []) None None None
      else case pf_user s of
        None \<Rightarrow> ResourceEmptyState (Tr ''profile.loadFailed'' [])
          (Some (if shown (pf_loadError s) then pf_loadError s else Tr ''common.apiUnavailable'' []))
          (Some (Tr ''profile.retry'' [], PRetry)) None
      | Some u \<Rightarrow>
          if shown (pf_loadError s)
          then ResourceEmptyState (Tr ''profile.loadFailed'' []) (Some (pf_loadError s)) (Some (Tr ''profile.retry'' [], PRetry)) None
          else El ''div''
           [profile_account u s, profile_password s, profile_sessions s, profile_preferences s, profile_webhook s])"

text \<open>The timers and the language are ambient; the theme may change elsewhere.\<close>

definition profile_app :: "(profile_state, profile_event, profile_call, profile_reply) app" where
  "profile_app = \<lparr>app_view = ProfilePage,
     app_ambient = (\<lambda>s. (if pf_loadTimer s then {PLoadTimer} else {}) \<union> {PColorTimer} \<union> range PLocale),
     app_handle = profile_handle, app_resume = profile_resume, app_answers = profile_answers,
     app_outside = (\<lambda>s. {s\<lparr>pf_theme := t\<rparr> | t. True})\<rparr>"

definition no_webhook :: webhook_settings where
  "no_webhook = \<lparr>wh_enabled = False, wh_url = [], wh_emailConfigured = False, wh_lastDeliveryStatus = [],
     wh_lastDeliveryAt = None, wh_lastDeliveryError = []\<rparr>"

definition profile_mount :: "locale_id \<Rightarrow> theme_state \<Rightarrow> accent_state \<Rightarrow> profile_state \<times> profile_call list" where
  "profile_mount l t a =
     (\<lparr>pf_locale = l, pf_theme = t, pf_accent = a, pf_themeColor = Teal, pf_user = None, pf_sessions = [],
       pf_webhook = no_webhook, pf_currentPassword = [], pf_newPassword = [], pf_confirmPassword = [], pf_revoke = True,
       pf_loading = True, pf_loadError = no_text, pf_securityMessage = no_text, pf_securityError = no_text,
       pf_passwordPending = False, pf_sessionsPending = False, pf_webhookMessage = no_text, pf_webhookError = no_text,
       pf_webhookPending = False, pf_loadTimer = True,
       pf_colorTimer = (if ac_works a then Option.bind (ac_stored a) color_of else None)\<rparr>, [])"

end
