(* ===== verification/Smtp_Settings.thy ===== *)
theory Smtp_Settings
  imports Runtime
begin

text \<open>
  The settings page, \<^verbatim>\<open>app/settings/page.tsx\<close>: the SMTP settings an administrator loads, edits, saves and
  tests. A number of the form is the value of \<open>Number(text)\<close>, with \<open>None\<close> for \<open>NaN\<close>. The browser
  submits the form only when its inputs are valid; of its checks, those for the required texts and the two port ranges
  are modelled (\<open>inputs_valid\<close>), the one for the sender's address is left out. A stored field that is
  missing in the answer of the server keeps its default.
\<close>

subsection \<open>State\<close>

datatype encrypt_type = STARTTLS | SSL | NoEncryption

record smtp_settings =
  sm_host :: string
  sm_port :: "rat option"
  sm_username :: string
  sm_password :: string
  sm_auth :: bool
  sm_encryptType :: encrypt_type
  sm_encryptPort :: "rat option"
  sm_fromEmail :: string
  sm_fromName :: string

definition emptySettings :: smtp_settings where
  "emptySettings = \<lparr>sm_host = [], sm_port = Some 465, sm_username = [], sm_password = [], sm_auth = True,
     sm_encryptType = SSL, sm_encryptPort = Some 465, sm_fromEmail = [], sm_fromName = ''CertFlow''\<rparr>"

record smtp_state =
  st_settings :: smtp_settings
  st_loaded :: bool
  st_pending :: bool
  st_message :: label
  st_error :: label

datatype smtp_event =
    SHost string | SPort string | SUser string | SPassword string | SFromEmail string | SFromName string
  | SEncryption string | SEncryptPort string | SAuth bool | SSave | STest

datatype smtp_call = KSmtpLoad | KSmtpSave smtp_settings | KSmtpTest

text \<open>The stored settings of an answer: a change of the defaults, or none.\<close>

datatype smtp_reply =
    SmtpLoaded "(smtp_settings \<Rightarrow> smtp_settings) option"
  | SmtpLoadRefused
  | SmtpAnswered response
  | SmtpFailed failure

definition smtp_request :: "smtp_call \<Rightarrow> string \<times> string" where
  "smtp_request k =
     (case k of
        KSmtpLoad \<Rightarrow> (''GET'', ''/api/settings/smtp'')
      | KSmtpSave st \<Rightarrow> (''PUT'', ''/api/settings/smtp'')
      | KSmtpTest \<Rightarrow> (''POST'', ''/api/settings/smtp/test''))"

subsection \<open>Editing\<close>

text \<open>\<open>===\<close> on numbers: \<open>NaN\<close> equals nothing.\<close>

definition num_eq :: "rat option \<Rightarrow> rat option \<Rightarrow> bool" where
  "num_eq a b \<longleftrightarrow> a \<noteq> None \<and> a = b"

definition encrypt_of_key :: "string \<Rightarrow> encrypt_type" where
  "encrypt_of_key k = (if k = ''STARTTLS'' then STARTTLS else if k = ''SSL'' then SSL else NoEncryption)"

definition encrypt_key :: "encrypt_type \<Rightarrow> string" where
  "encrypt_key t = (case t of STARTTLS \<Rightarrow> ''STARTTLS'' | SSL \<Rightarrow> ''SSL'' | NoEncryption \<Rightarrow> ''NONE'')"

definition updateEncryption :: "encrypt_type \<Rightarrow> smtp_settings \<Rightarrow> smtp_settings" where
  "updateEncryption t current =
     (let shouldUseStartTLSPort = (t = STARTTLS \<and> num_eq (sm_encryptPort current) (Some 465));
          shouldUseSSLPort = (t = SSL \<and> num_eq (sm_encryptPort current) (Some 587));
          encryptPort = (if shouldUseStartTLSPort then Some 587 else if shouldUseSSLPort then Some 465 else sm_encryptPort current)
      in current\<lparr>sm_encryptType := t, sm_encryptPort := encryptPort,
           sm_port := (if num_eq (sm_port current) (sm_encryptPort current) then encryptPort else sm_port current)\<rparr>)"

definition smtp_edit :: "smtp_event \<Rightarrow> smtp_settings \<Rightarrow> smtp_settings" where
  "smtp_edit e st =
     (case e of
        SHost v \<Rightarrow> st\<lparr>sm_host := v\<rparr>
      | SPort v \<Rightarrow> st\<lparr>sm_port := js_number v\<rparr>
      | SUser v \<Rightarrow> st\<lparr>sm_username := v\<rparr>
      | SPassword v \<Rightarrow> st\<lparr>sm_password := v\<rparr>
      | SFromEmail v \<Rightarrow> st\<lparr>sm_fromEmail := v\<rparr>
      | SFromName v \<Rightarrow> st\<lparr>sm_fromName := v\<rparr>
      | SEncryption k \<Rightarrow> updateEncryption (encrypt_of_key k) st
      | SEncryptPort v \<Rightarrow> st\<lparr>sm_encryptPort := js_number v\<rparr>
      | SAuth b \<Rightarrow> st\<lparr>sm_auth := b\<rparr>
      | _ \<Rightarrow> st)"

subsection \<open>Loading, saving, testing\<close>

definition smtp_loaded :: "smtp_reply \<Rightarrow> smtp_state \<Rightarrow> smtp_state" where
  "smtp_loaded r s =
     (case r of
        SmtpLoaded stored \<Rightarrow>
          (case stored of
             None \<Rightarrow> s\<lparr>st_loaded := True\<rparr>
           | Some f \<Rightarrow> s\<lparr>st_settings := f emptySettings, st_loaded := True\<rparr>)
      | SmtpLoadRefused \<Rightarrow> s\<lparr>st_error := Zh ''no access to the settings'', st_loaded := True\<rparr>
      | SmtpFailed f \<Rightarrow> s\<lparr>st_error := failure_message f (Zh ''cannot load the settings''), st_loaded := True\<rparr>
      | _ \<Rightarrow> s)"

definition smtp_start :: "smtp_state \<Rightarrow> smtp_state" where
  "smtp_start s = s\<lparr>st_pending := True, st_error := no_text, st_message := no_text\<rparr>"

text \<open>The error of a reply: a thrown \<open>Error\<close> carries \<open>refused\<close> by default, anything else shows \<open>thrown\<close>.\<close>

definition smtp_answer :: "smtp_reply \<Rightarrow> label \<Rightarrow> label \<Rightarrow> label + unit" where
  "smtp_answer r refused thrown =
     (case r of
        SmtpAnswered a \<Rightarrow> if resp_ok a then Inr () else Inl (body_message a refused)
      | SmtpFailed f \<Rightarrow> Inl (failure_message f thrown)
      | _ \<Rightarrow> Inl thrown)"

definition smtp_saved :: "smtp_reply \<Rightarrow> smtp_state \<Rightarrow> smtp_state" where
  "smtp_saved r s =
     (case smtp_answer r (Zh ''saving failed'') (Zh ''saving failed'') of
        Inr _ \<Rightarrow> s\<lparr>st_settings := (st_settings s)\<lparr>sm_password := []\<rparr>, st_message := Zh ''SMTP settings saved'', st_pending := False\<rparr>
      | Inl m \<Rightarrow> s\<lparr>st_error := m, st_pending := False\<rparr>)"

definition smtp_tested :: "smtp_reply \<Rightarrow> smtp_state \<Rightarrow> smtp_state" where
  "smtp_tested r s =
     (case smtp_answer r (Zh ''sending the test mail failed'') (Zh ''test failed'') of
        Inr _ \<Rightarrow> s\<lparr>st_message := Zh ''test mail sent to the administrator'', st_pending := False\<rparr>
      | Inl m \<Rightarrow> s\<lparr>st_error := m, st_pending := False\<rparr>)"

definition smtp_handle :: "smtp_event \<Rightarrow> smtp_state \<Rightarrow> smtp_state \<times> smtp_call list" where
  "smtp_handle e s =
     (case e of
        SSave \<Rightarrow> (smtp_start s, [KSmtpSave (st_settings s)])
      | STest \<Rightarrow> (smtp_start s, [KSmtpTest])
      | _ \<Rightarrow> (s\<lparr>st_settings := smtp_edit e (st_settings s)\<rparr>, []))"

definition smtp_resume :: "smtp_call \<Rightarrow> smtp_reply \<Rightarrow> smtp_state \<Rightarrow> smtp_state \<times> smtp_call list" where
  "smtp_resume k r s =
     (case k of
        KSmtpLoad \<Rightarrow> (smtp_loaded r s, [])
      | KSmtpSave st \<Rightarrow> (smtp_saved r s, [])
      | KSmtpTest \<Rightarrow> (smtp_tested r s, []))"

definition smtp_answers :: "smtp_call \<Rightarrow> smtp_reply set" where
  "smtp_answers k =
     (case k of
        KSmtpLoad \<Rightarrow> insert SmtpLoadRefused (range SmtpLoaded \<union> range SmtpFailed)
      | _ \<Rightarrow> range SmtpAnswered \<union> range SmtpFailed)"

subsection \<open>View\<close>

text \<open>A number input of whole numbers from 1 to 65535, as the browser checks it.\<close>

definition port_valid :: "rat option \<Rightarrow> bool" where
  "port_valid p \<longleftrightarrow> (case p of None \<Rightarrow> False | Some q \<Rightarrow> q = of_int \<lfloor>q\<rfloor> \<and> 1 \<le> q \<and> q \<le> 65535)"

definition inputs_valid :: "smtp_settings \<Rightarrow> bool" where
  "inputs_valid st \<longleftrightarrow> sm_host st \<noteq> [] \<and> port_valid (sm_port st) \<and> sm_username st \<noteq> [] \<and> port_valid (sm_encryptPort st)"

text \<open>How a number input shows a number; the text of a fraction is a parameter.\<close>

definition number_label :: "(rat \<Rightarrow> string) \<Rightarrow> rat option \<Rightarrow> string" where
  "number_label fraction n =
     (case n of None \<Rightarrow> ''NaN'' | Some q \<Rightarrow> if q = of_int \<lfloor>q\<rfloor> then int_string \<lfloor>q\<rfloor> else fraction q)"

definition SettingsPage :: "(rat \<Rightarrow> string) \<Rightarrow> smtp_state \<Rightarrow> smtp_event view" where
  "SettingsPage fraction s =
     (let st = st_settings s
      in if \<not> st_loaded s then El [] [Txt (Zh ''settings''), Txt (Zh ''system services''), Txt (Zh ''loading the settings'')]
         else El []
          [Txt (Zh ''settings''), Txt (Zh ''the administrator configures the system mail; the password is stored encrypted and never read back''),
           El ''form''
            [Txt (Zh ''SMTP sender''),
             Field (Zh ''SMTP host'') (sm_host st) SHost,
             Field (Zh ''port'') (number_label fraction (sm_port st)) SPort,
             Field (Zh ''user name'') (sm_username st) SUser,
             Field (Zh ''password'') (sm_password st) SPassword,
             Field (Zh ''sender address (optional)'') (sm_fromEmail st) SFromEmail,
             Field (Zh ''sender name'') (sm_fromName st) SFromName,
             Choice (Zh ''encryption'') (Some (encrypt_key (sm_encryptType st))) False
               [(''SSL'', Zh ''SSL (implicit TLS)'', False), (''STARTTLS'', Raw ''STARTTLS'', False), (''NONE'', Zh ''no encryption'', False)]
               SEncryption,
             Field (Zh ''encryption port'') (number_label fraction (sm_encryptPort st)) SEncryptPort,
             Check (Zh ''use SMTP AUTH'') (sm_auth st) SAuth,
             show_if (shown (st_message s)) (Txt (st_message s)),
             show_if (shown (st_error s)) (FormError (st_error s)),
             Button (Zh ''send a test mail'') (st_pending s) STest,
             Button (if st_pending s then Zh ''saving'' else Zh ''save the settings'') (st_pending s \<or> \<not> inputs_valid st) SSave]])"

definition smtp_app :: "(rat \<Rightarrow> string) \<Rightarrow> (smtp_state, smtp_event, smtp_call, smtp_reply) app" where
  "smtp_app fraction = \<lparr>app_view = SettingsPage fraction, app_ambient = (\<lambda>s. {}), app_handle = smtp_handle,
     app_resume = smtp_resume, app_answers = smtp_answers, app_outside = (\<lambda>s. {})\<rparr>"

definition smtp_mount :: "smtp_state \<times> smtp_call list" where
  "smtp_mount = (\<lparr>st_settings = emptySettings, st_loaded = False, st_pending = False, st_message = no_text, st_error = no_text\<rparr>,
     [KSmtpLoad])"

lemmas smtp_simps = smtp_app_def app.simps

subsection \<open>Ports\<close>

text \<open>
  Choosing the encryption keeps the ports together: a connection port that equals the encryption port
  follows it and any other connection port is kept; the encryption port moves only between the two
  standard ports, so a port of one's own is never overwritten; and from the standard port of one kind of encryption the way to
  the other kind and back restores everything.
\<close>

theorem encryption_ports:
  "let st' = updateEncryption t st
   in sm_encryptType st' = t \<and>
      (num_eq (sm_port st) (sm_encryptPort st) \<longrightarrow> sm_port st' = sm_encryptPort st') \<and>
      (\<not> num_eq (sm_port st) (sm_encryptPort st) \<longrightarrow> sm_port st' = sm_port st) \<and>
      (sm_encryptPort st \<notin> {Some 465, Some 587} \<longrightarrow> st' = st\<lparr>sm_encryptType := t\<rparr>) \<and>
      (sm_encryptPort st = Some (if sm_encryptType st = SSL then 465 else 587) \<and> sm_encryptType st \<noteq> NoEncryption \<and>
          sm_port st = sm_encryptPort st \<longrightarrow>
        updateEncryption (sm_encryptType st) (updateEncryption (if sm_encryptType st = SSL then STARTTLS else SSL) st) = st)"
proof -
  have own: "updateEncryption t st = st\<lparr>sm_encryptType := t\<rparr>" if "sm_encryptPort st \<notin> {Some 465, Some 587}"
    using that by (cases st) (auto simp: updateEncryption_def num_eq_def Let_def)
  have again: "updateEncryption (sm_encryptType st) (updateEncryption (if sm_encryptType st = SSL then STARTTLS else SSL) st) = st"
    if "sm_encryptPort st = Some (if sm_encryptType st = SSL then 465 else 587)" "sm_encryptType st \<noteq> NoEncryption"
      "sm_port st = sm_encryptPort st"
    using that by (cases st; cases "sm_encryptType st") (simp_all add: updateEncryption_def num_eq_def Let_def)
  have "sm_encryptType (updateEncryption t st) = t"
    "num_eq (sm_port st) (sm_encryptPort st) \<Longrightarrow> sm_port (updateEncryption t st) = sm_encryptPort (updateEncryption t st)"
    "\<not> num_eq (sm_port st) (sm_encryptPort st) \<Longrightarrow> sm_port (updateEncryption t st) = sm_port st"
    by (simp_all add: updateEncryption_def Let_def)
  note ports = this
  show ?thesis
    unfolding Let_def using ports own again by (intro conjI impI) (assumption | elim conjE | blast)+
qed

lemma encryption_ports_witness:
  "updateEncryption SSL (updateEncryption STARTTLS emptySettings) = emptySettings"
  using encryption_ports [where st = emptySettings and t = SSL] by (simp add: emptySettings_def num_eq_def Let_def)

subsection \<open>Saving\<close>

definition is_smtp_change :: "smtp_call \<Rightarrow> bool" where
  "is_smtp_change k \<longleftrightarrow> k \<noteq> KSmtpLoad"

lemma smtp_offered:
  assumes "e \<in> offered (SettingsPage fr s)"
  shows "st_loaded s \<and> (e = SSave \<longrightarrow> \<not> st_pending s \<and> inputs_valid (st_settings s)) \<and> (e = STest \<longrightarrow> \<not> st_pending s)"
  using assms by (auto simp: SettingsPage_def Let_def split: if_splits)

lemma smtp_resume_calls [simp]: "snd (smtp_resume k r s) = []"
  by (simp add: smtp_resume_def split: smtp_call.split)

lemma smtp_resume_pending:
  "st_pending (fst (smtp_resume k r s)) = (st_pending s \<and> k = KSmtpLoad)"
  by (simp add: smtp_resume_def smtp_loaded_def smtp_saved_def smtp_tested_def split: smtp_call.split smtp_reply.split sum.split option.split)

lemma smtp_handle_flight:
  assumes "e \<in> offered (SettingsPage fr s)" "smtp_handle e s = (s', ks)"
  shows "filter is_smtp_change ks = [] \<and> st_pending s' = st_pending s \<or>
    \<not> st_pending s \<and> st_pending s' \<and> length (filter is_smtp_change ks) = 1"
  using assms(2) smtp_offered [OF assms(1)]
  by (cases e) (auto simp: smtp_handle_def smtp_start_def is_smtp_change_def)

interpretation smtp_flight: releasing_flight "smtp_app fr" st_pending is_smtp_change for fr
proof unfold_locales
  fix e s s' ks
  assume "e \<in> offered (app_view (smtp_app fr) s) \<union> app_ambient (smtp_app fr) s" "app_handle (smtp_app fr) e s = (s', ks)"
  then have "e \<in> offered (SettingsPage fr s)" "smtp_handle e s = (s', ks)" by (simp_all add: smtp_simps)
  from smtp_handle_flight [OF this]
  show "filter is_smtp_change ks = [] \<and> st_pending s' = st_pending s \<or>
      \<not> st_pending s \<and> st_pending s' \<and> length (filter is_smtp_change ks) = 1" .
next
  fix k r s s' ks
  assume "app_resume (smtp_app fr) k r s = (s', ks)"
  then have r: "ks = []" "st_pending s' = (st_pending s \<and> k = KSmtpLoad)"
    using smtp_resume_calls [of k r s] smtp_resume_pending [of k r s] by (simp_all add: smtp_simps)
  show "\<not> is_smtp_change k \<Longrightarrow> filter is_smtp_change ks = [] \<and> st_pending s' = st_pending s"
    "filter is_smtp_change ks = [] \<or> st_pending s' \<and> length (filter is_smtp_change ks) = 1"
    "is_smtp_change k \<Longrightarrow> st_pending s' = (filter is_smtp_change ks \<noteq> [])"
    using r by (simp_all add: is_smtp_change_def)
qed (simp add: smtp_simps)

text \<open>
  C36. What the settings page sends is complete and single: the settings are saved as they are shown, with a
  host, a user name and two ports that are whole numbers from 1 to 65535, only after loading has ended, and
  in every reachable state at most one saving or test is waiting, exactly while the buttons are disabled.
\<close>

theorem smtp_requests_valid:
  assumes "ui_reach (smtp_app fr) smtp_mount (s, q)"
  shows "length (filter is_smtp_change q) \<le> 1 \<and> st_pending s = (filter is_smtp_change q \<noteq> []) \<and>
    (\<forall>e st. e \<in> offered (app_view (smtp_app fr) s) \<and> KSmtpSave st \<in> set (snd (smtp_handle e s)) \<longrightarrow>
       e = SSave \<and> st = st_settings s \<and> st_loaded s \<and> filter is_smtp_change q = [] \<and> sm_host st \<noteq> [] \<and>
       sm_username st \<noteq> [] \<and> port_valid (sm_port st) \<and> port_valid (sm_encryptPort st))"
proof -
  have start: "\<not> st_pending (fst smtp_mount)" "filter is_smtp_change (snd smtp_mount) = []"
    by (simp_all add: smtp_mount_def is_smtp_change_def)
  have flags: "length (filter is_smtp_change q) \<le> 1" "st_pending s = (filter is_smtp_change q \<noteq> [])"
    using smtp_flight.reach_flight [OF assms start] smtp_flight.reach_busy [OF assms start] by simp_all
  have "e = SSave \<and> st = st_settings s" if "KSmtpSave st \<in> set (snd (smtp_handle e s))" for e st
    using that by (cases e) (simp_all add: smtp_handle_def)
  with flags smtp_offered [of _ fr s] show ?thesis
    by (auto simp: smtp_simps inputs_valid_def)
qed

definition smtp_stored :: smtp_settings where
  "smtp_stored = emptySettings\<lparr>sm_host := ''smtp.example.com'', sm_username := ''ops''\<rparr>"

definition smtp_ready :: smtp_state where
  "smtp_ready = fst (smtp_resume KSmtpLoad (SmtpLoaded (Some (\<lambda>d. d\<lparr>sm_host := ''smtp.example.com'', sm_username := ''ops''\<rparr>)))
     (fst smtp_mount))"

lemma smtp_ready_reach: "ui_reach (smtp_app fr) smtp_mount (smtp_ready, [])"
proof -
  have "ui_reach (smtp_app fr) smtp_mount (fst smtp_mount, [KSmtpLoad])"
    using ui_reach.start [of "smtp_app fr" smtp_mount] by (simp add: smtp_mount_def)
  from ui_reach_reply [OF this, of KSmtpLoad "SmtpLoaded (Some (\<lambda>d. d\<lparr>sm_host := ''smtp.example.com'', sm_username := ''ops''\<rparr>))"]
  show ?thesis by (simp add: smtp_simps smtp_answers_def smtp_ready_def smtp_resume_def)
qed

lemma smtp_ready_fields: "st_settings smtp_ready = smtp_stored" "st_loaded smtp_ready" "\<not> st_pending smtp_ready"
  by (simp_all add: smtp_ready_def smtp_resume_def smtp_loaded_def smtp_mount_def smtp_stored_def)

lemma smtp_ready_valid: "inputs_valid smtp_stored"
  by (simp add: inputs_valid_def port_valid_def smtp_stored_def emptySettings_def)

lemma smtp_requests_valid_witness:
  "KSmtpSave smtp_stored \<in> set (snd (smtp_handle SSave smtp_ready)) \<and> port_valid (sm_port smtp_stored)"
proof
  show k: "KSmtpSave smtp_stored \<in> set (snd (smtp_handle SSave smtp_ready))"
    by (simp add: smtp_handle_def smtp_ready_fields)
  have "SSave \<in> offered (app_view (smtp_app (\<lambda>q. [])) smtp_ready)"
    using smtp_ready_valid by (simp add: smtp_simps SettingsPage_def Let_def smtp_ready_fields)
  with smtp_requests_valid [OF smtp_ready_reach [of "\<lambda>q. []"]] k
  show "port_valid (sm_port smtp_stored)" by blast
qed

text \<open>
  A password typed while a save is waiting is lost: the reply of the save clears the field, although the
  request carried the password before it, and the form shows that the settings are saved.
\<close>

lemma typed_password_lost:
  assumes "resp_ok a"
  shows "let (s1, ks) = smtp_handle SSave s; s2 = fst (smtp_handle (SPassword v) s1);
        s3 = fst (smtp_resume (KSmtpSave (st_settings s)) (SmtpAnswered a) s2)
      in ks = [KSmtpSave (st_settings s)] \<and> sm_password (st_settings s2) = v \<and>
         sm_password (st_settings s3) = [] \<and> st_message s3 = Zh ''SMTP settings saved''"
  using assms by (simp add: smtp_handle_def smtp_edit_def smtp_resume_def smtp_saved_def smtp_answer_def)

text \<open>
  After a load that failed the form is open with the defaults; saving it then replaces what is stored.
\<close>

lemma failed_load_opens_form:
  "let s = fst (smtp_resume KSmtpLoad (SmtpFailed f) (fst smtp_mount))
   in st_settings s = emptySettings \<and> SHost v \<in> offered (app_view (smtp_app fr) s)"
  by (simp add: smtp_resume_def smtp_loaded_def smtp_mount_def smtp_simps SettingsPage_def Let_def)

end
