(* ===== verification/Notification_Facts.thy ===== *)
theory Notification_Facts
  imports Notifications Shell Certificate_List Profile Smtp_Settings
begin

text \<open>
  Properties of the notifications: what marking as read does, what a late list undoes, and where the link of
  a notification leads; and that the requests of the frame, of the forms and of the account pages reach the
  control plane.
\<close>

subsection \<open>Marking as read\<close>

lemma offered_mark_all:
  "NMarkAll \<in> offered (nc_view s) \<Longrightarrow> nc_open s \<and> 0 < unreadCount s \<and> \<not> nc_updating s"
  by (auto simp: nc_view_def nc_popover_def notification_key_def notification_detail_def Let_def
      split: option.splits if_splits)

lemma unread_marked:
  "now \<noteq> [] \<Longrightarrow> unreadCount (read_marked ids (Inr ()) now s) =
     length (filter (\<lambda>n. unread n \<and> nt_id n \<notin> set ids) (nc_items s))"
proof -
  assume "now \<noteq> []"
  then have "length (filter unread (map (\<lambda>n. if nt_id n \<in> set ids then n\<lparr>nt_readAt := Some now\<rparr> else n) xs)) =
      length (filter (\<lambda>n. unread n \<and> nt_id n \<notin> set ids) xs)" for xs
    by (induction xs) (auto simp: unread_def)
  then show ?thesis by (simp add: unreadCount_def read_marked_def)
qed

text \<open>
  Marking all as read sends exactly the identifiers of the unread notifications in one request; once it has succeeded
  none of them counts any more, and of the list as it is then exactly those stay unread that
  were not among them.
\<close>

theorem mark_all_read:
  assumes "NMarkAll \<in> offered (nc_view s)" "nc_handle NMarkAll s = (s', ks)" "now \<noteq> []"
  shows "\<exists>ids. ks = [KMarkRead ids] \<and> set ids = {nt_id n | n. n \<in> set (nc_items s) \<and> unread n} \<and>
    unreadCount (read_marked ids (Inr ()) now s') = 0 \<and>
    (\<forall>t. unreadCount (read_marked ids (Inr ()) now t) =
       length (filter (\<lambda>n. unread n \<and> nt_id n \<notin> set ids) (nc_items t)))"
proof -
  let ?ids = "map nt_id (filter unread (nc_items s))"
  have "0 < unreadCount s" using offered_mark_all [OF assms(1)] by simp
  then have "?ids \<noteq> []" by (auto simp: unreadCount_def)
  then have ks: "ks = [KMarkRead ?ids]" "nc_items s' = nc_items s"
    using assms(2) by (auto simp: nc_handle_def markRead_def)
  have ids: "set ?ids = {nt_id n | n. n \<in> set (nc_items s) \<and> unread n}" by auto
  have "filter (\<lambda>n. unread n \<and> nt_id n \<notin> set ?ids) (nc_items s) = []" by (auto simp: filter_empty_conv)
  then have "unreadCount (read_marked ?ids (Inr ()) now s') = 0" using ks(2) unread_marked [OF assms(3)] by simp
  with ks(1) ids unread_marked [OF assms(3)] show ?thesis by blast
qed

definition sample_notification :: notification where
  "sample_notification = \<lparr>nt_id = 3, nt_topic = ''certificate.status'', nt_resourceType = ''certificate'',
     nt_resourceId = ''c1'', nt_status = ''issued'', nt_kind = None, nt_certificateId = None, nt_name = Some ''site'',
     nt_createdAt = ''2026'', nt_readAt = None\<rparr>"

definition nc_sample :: nc_state where
  "nc_sample = (fst (nc_mount En))\<lparr>nc_items := [sample_notification], nc_loading := False, nc_open := True, nc_timer := False\<rparr>"

lemma nc_sample_mark:
  "NMarkAll \<in> offered (nc_view nc_sample)" "nc_handle NMarkAll nc_sample = (nc_sample\<lparr>nc_updating := True\<rparr>, [KMarkRead [3]])"
proof -
  have s: "nc_open nc_sample" "\<not> nc_updating nc_sample" "unreadCount nc_sample = 1" by code_simp+
  then show "NMarkAll \<in> offered (nc_view nc_sample)" by (simp add: nc_view_def nc_popover_def Let_def)
  show "nc_handle NMarkAll nc_sample = (nc_sample\<lparr>nc_updating := True\<rparr>, [KMarkRead [3]])" by code_simp
qed

lemma mark_all_read_witness:
  "unreadCount (read_marked [3] (Inr ()) ''2026'' (nc_sample\<lparr>nc_updating := True\<rparr>)) = 0"
proof -
  from mark_all_read [OF nc_sample_mark, of "''2026''"] obtain ids where
    "[KMarkRead [3]] = [KMarkRead ids]" "unreadCount (read_marked ids (Inr ()) ''2026'' (nc_sample\<lparr>nc_updating := True\<rparr>)) = 0"
    by blast
  then show ?thesis by simp
qed

text \<open>
  A list that was requested before the marks and arrives after them takes them back: the server read it
  with the old marks, so the count that had dropped to zero is what it was before, until the next
  server event.
\<close>

theorem late_list_unreads:
  assumes "ui_reach notification_app (nc_mount l) (s, q)" "KLoadNotifications \<in> set q" "NMarkAll \<in> offered (nc_view s)"
  shows "\<exists>s2 q2 s3 q3. ui_reach notification_app (s, q) (s2, q2) \<and> unreadCount s2 = 0 \<and>
    ui_reach notification_app (s2, q2) (s3, q3) \<and> unreadCount s3 = unreadCount s \<and> 0 < unreadCount s3"
proof -
  let ?ids = "map nt_id (filter unread (nc_items s))"
  note steps = notification_app_def nc_resume_def nc_answers_def
  have pos: "0 < unreadCount s" using offered_mark_all [OF assms(3)] by simp
  then have ne: "?ids \<noteq> []" by (auto simp: unreadCount_def)
  then have h: "nc_handle NMarkAll s = (s\<lparr>nc_updating := True\<rparr>, [KMarkRead ?ids])"
    by (simp add: nc_handle_def markRead_def)
  have 1: "ui_reach notification_app (s, q) (s\<lparr>nc_updating := True\<rparr>, q @ [KMarkRead ?ids])"
    by (rule ui_reach_event [OF ui_reach.start, where e = NMarkAll]) (use assms(3) h in \<open>simp_all add: steps\<close>)
  let ?done = "read_marked ?ids (Inr ()) ''now'' (s\<lparr>nc_updating := True\<rparr>)"
  have 2: "ui_reach notification_app (s, q) (?done, remove1 (KMarkRead ?ids) (q @ [KMarkRead ?ids]) @ [])"
    by (rule ui_reach_reply [OF 1, where r = "MarkedRead (Inr ()) ''now''"]) (simp_all add: steps)
  have zero: "unreadCount ?done = 0"
    by (subst unread_marked) (auto simp: filter_empty_conv)
  let ?q = "remove1 (KMarkRead ?ids) (q @ [KMarkRead ?ids]) @ []"
  have "KLoadNotifications \<in> set ?q" using assms(2) by (simp add: remove1_append)
  then have 3: "ui_reach notification_app (?done, ?q)
      (loaded (Inr (nc_items s)) ?done, remove1 KLoadNotifications ?q @ [])"
    by (rule ui_reach_reply [OF ui_reach.start, where r = "Notifications (Inr (nc_items s))"]) (simp_all add: steps)
  have "unreadCount (loaded (Inr (nc_items s)) ?done) = unreadCount s" by (simp add: unreadCount_def loaded_def)
  with 2 3 zero pos show ?thesis by metis
qed

lemma nc_sample_reach:
  "ui_reach notification_app (nc_mount En) (nc_sample, [KLoadNotifications])"
proof -
  let ?start = "fst (nc_mount En)"
  note steps = notification_app_def nc_resume_def nc_answers_def
  have m: "nc_mount En = (?start, [])" by (simp add: nc_mount_def)
  have 1: "ui_reach notification_app (nc_mount En) (?start, [])" using m ui_reach.start by metis
  have "nc_handle NInitial ?start = (?start\<lparr>nc_timer := False\<rparr>, [KLoadNotifications])" by code_simp
  then have "ui_reach notification_app (nc_mount En) (?start\<lparr>nc_timer := False\<rparr>, [] @ [KLoadNotifications])"
    by (intro ui_reach_event [OF 1, where e = NInitial]) (simp_all add: steps nc_mount_def)
  then have 2: "ui_reach notification_app (nc_mount En) (?start\<lparr>nc_timer := False\<rparr>, [KLoadNotifications])" by simp
  let ?listed = "?start\<lparr>nc_timer := False, nc_items := [sample_notification], nc_loading := False\<rparr>"
  have "ui_reach notification_app (nc_mount En) (?listed, remove1 KLoadNotifications [KLoadNotifications] @ [])"
    by (rule ui_reach_reply [OF 2, where r = "Notifications (Inr [sample_notification])"]) (simp_all add: steps loaded_def)
  then have 3: "ui_reach notification_app (nc_mount En) (?listed, [])" by simp
  have "ui_reach notification_app (nc_mount En) (?listed, [] @ [KLoadNotifications])"
    by (rule ui_reach_event [OF 3, where e = NRealtime]) (simp_all add: steps nc_handle_def load_def)
  then have 4: "ui_reach notification_app (nc_mount En) (?listed, [KLoadNotifications])" by simp
  have "nc_handle NToggle ?listed = (nc_sample, [])" by code_simp
  moreover have "NToggle \<in> offered (nc_view ?listed)" by (simp add: nc_view_def)
  ultimately have "ui_reach notification_app (nc_mount En) (nc_sample, [KLoadNotifications] @ [])"
    by (intro ui_reach_event [OF 4, where e = NToggle]) (simp_all add: steps)
  then show ?thesis by simp
qed

lemma late_list_unreads_witness:
  "\<exists>s q. ui_reach notification_app (nc_sample, [KLoadNotifications]) (s, q) \<and> unreadCount s = 0"
  using late_list_unreads [OF nc_sample_reach _ nc_sample_mark(1)] by force

subsection \<open>The link of a notification\<close>

definition certificate_of :: "notification \<Rightarrow> string" where
  "certificate_of n = (case nt_certificateId n of Some c \<Rightarrow> c | None \<Rightarrow> nt_resourceId n)"

text \<open>
  C26. The link of a certificate notification opens that certificate: whatever characters its identifier has, the certificate page
  that reads the parameters of the pushed URL is in view mode and selects the certificate with
  this identifier, and it selects none only when the list holds none.
\<close>

theorem notification_opens_certificate:
  assumes "nt_topic n \<notin> {''execution.status'', ''verification.status''}"
    and "cl_params s = search_params (notification_path n)"
  shows "cl_selectedId s = Some (certificate_of n) \<and> cl_mode s = Some ''view'' \<and>
    (case cl_selected s of
       Some c \<Rightarrow> c \<in> set (cl_certificates s) \<and> cert_id c = certificate_of n
     | None \<Rightarrow> certificate_of n \<notin> cert_id ` set (cl_certificates s))"
proof -
  have plain: "plain_text ''selected''" "plain_text ''mode''" "plain_text ''view''" by code_simp+
  have path: "notification_path n =
      ''/certificates'' @ CHR ''?'' # ''selected'' @ CHR ''='' # encodeURIComponent (certificate_of n) @
        CHR ''&'' # ''mode'' @ CHR ''='' # ''view''"
    using assms(1) by (simp add: notification_path_def certificate_of_def)
  have params: "search_params (notification_path n) = [(''selected'', certificate_of n), (''mode'', ''view'')]"
    unfolding path by (rule search_params_two) (use plain in simp_all)
  have id: "cl_selectedId s = Some (certificate_of n)" "cl_mode s = Some ''view''"
    using assms(2) params by (simp_all add: cl_selectedId_def cl_mode_def)
  show ?thesis
  proof (cases "cl_selected s")
    case None
    then have "certificate_of n \<notin> cert_id ` set (cl_certificates s)"
      using id(1) by (auto simp: cl_selected_def find_None_all)
    with None id show ?thesis by simp
  next
    case (Some c)
    from find_Some_mem [OF this [unfolded cl_selected_def]] Some id show ?thesis by simp
  qed
qed

lemma notification_opens_certificate_witness:
  "search_params (notification_path (sample_notification\<lparr>nt_resourceId := ''a&b c''\<rparr>)) =
     [(''selected'', ''a&b c''), (''mode'', ''view'')] \<and>
   cl_mode ((fst (cl_mount [] [] [] En 0 []))\<lparr>cl_params := search_params (notification_path sample_notification)\<rparr>) = Some ''view''"
proof
  show "search_params (notification_path (sample_notification\<lparr>nt_resourceId := ''a&b c''\<rparr>)) =
     [(''selected'', ''a&b c''), (''mode'', ''view'')]" by code_simp
  have "nt_topic sample_notification \<notin> {''execution.status'', ''verification.status''}" by (simp add: sample_notification_def)
  from notification_opens_certificate [OF this] show
    "cl_mode ((fst (cl_mount [] [] [] En 0 []))\<lparr>cl_params := search_params (notification_path sample_notification)\<rparr>) = Some ''view''"
    by simp
qed

subsection \<open>Requests of the frame and of the forms\<close>

lemma api_segments_auth:
  "api_segments ''/api/auth/me'' = Some [''auth'', ''me'']" "api_segments ''/api/auth/refresh'' = Some [''auth'', ''refresh'']"
  "api_segments ''/api/auth/logout'' = Some [''auth'', ''logout'']"
  "api_segments ''/api/auth/register'' = Some [''auth'', ''register'']"
  "api_segments ''/api/auth/login/password'' = Some [''auth'', ''login'', ''password'']"
  "api_segments ''/api/auth/login/code'' = Some [''auth'', ''login'', ''code'']"
  "api_segments ''/api/auth/login/request-code'' = Some [''auth'', ''login'', ''request-code'']"
  "api_segments ''/api/auth/register/request-code'' = Some [''auth'', ''register'', ''request-code'']"
  "api_segments ''/api/notifications'' = Some [''notifications'']"
  "api_segments ''/api/notifications/read'' = Some [''notifications'', ''read'']"
  by code_simp+

lemma reaches_auth:
  "in_method r \<in> {GET, POST} \<Longrightarrow> reaches_api r ''/api/auth/me''" "in_method r \<in> {GET, POST} \<Longrightarrow> reaches_api r ''/api/auth/refresh''"
  "in_method r \<in> {GET, POST} \<Longrightarrow> reaches_api r ''/api/auth/logout''" "in_method r \<in> {GET, POST} \<Longrightarrow> reaches_api r ''/api/auth/register''"
  "in_method r \<in> {GET, POST} \<Longrightarrow> reaches_api r ''/api/auth/login/password''"
  "in_method r \<in> {GET, POST} \<Longrightarrow> reaches_api r ''/api/auth/login/code''"
  "in_method r \<in> {GET, POST} \<Longrightarrow> reaches_api r ''/api/auth/login/request-code''"
  "in_method r \<in> {GET, POST} \<Longrightarrow> reaches_api r ''/api/auth/register/request-code''"
  "in_method r = GET \<Longrightarrow> reaches_api r ''/api/notifications''" "in_method r = POST \<Longrightarrow> reaches_api r ''/api/notifications/read''"
  by (auto simp: reaches_api_def api_segments_auth route_of_def serve_route_def route_defs Let_def)

lemma api_segments_account:
  "api_segments ''/api/auth/change-password'' = Some [''auth'', ''change-password'']"
  "api_segments ''/api/profile/webhook'' = Some [''profile'', ''webhook'']"
  "api_segments ''/api/profile/webhook/test'' = Some [''profile'', ''webhook'', ''test'']"
  "api_segments ''/api/profile/sessions'' = Some [''profile'', ''sessions'']"
  "api_segments ''/api/profile/sessions/revoke-others'' = Some [''profile'', ''sessions'', ''revoke-others'']"
  "api_segments ''/api/settings/smtp'' = Some [''settings'', ''smtp'']"
  "api_segments ''/api/settings/smtp/test'' = Some [''settings'', ''smtp'', ''test'']"
  by code_simp+

lemma reaches_account:
  "in_method r = POST \<Longrightarrow> reaches_api r ''/api/auth/change-password''"
  "in_method r \<in> {GET, PUT} \<Longrightarrow> reaches_api r ''/api/profile/webhook''"
  "in_method r = POST \<Longrightarrow> reaches_api r ''/api/profile/webhook/test''"
  "in_method r = GET \<Longrightarrow> reaches_api r ''/api/profile/sessions''"
  "in_method r = POST \<Longrightarrow> reaches_api r ''/api/profile/sessions/revoke-others''"
  "in_method r \<in> {GET, PUT} \<Longrightarrow> reaches_api r ''/api/settings/smtp''"
  "in_method r = POST \<Longrightarrow> reaches_api r ''/api/settings/smtp/test''"
  by (auto simp: reaches_api_def api_segments_account route_of_def serve_route_def route_defs Let_def)

lemma login_sends:
  "k \<in> set (snd (login_handle e s)) \<Longrightarrow> \<exists>b. k = KSend ''login/request-code'' b \<or> k = KSubmit ''login/password'' b \<or>
     k = KSubmit ''login/code'' b"
  by (cases e) (auto simp: login_handle_def sendCode_def login_def Let_def split: if_splits)

lemma register_sends:
  "k \<in> set (snd (register_handle e s)) \<Longrightarrow> \<exists>b. k = KSend ''register/request-code'' b \<or> k = KSubmit ''register'' b"
  by (cases e) (auto simp: register_handle_def sendCode_def register_def Let_def split: if_splits)

text \<open>
  C25. Every request of the login page, the registration page, the frame, the notifications and the account pages
  reaches the control plane at its own path: the session checks, the log-out, whatever a handler of the two forms
  sends, the list of notifications and their read marks, the profile with its webhook and sessions, and the mail settings.
\<close>

theorem session_requests_reach_api:
  assumes "(\<exists>k. shell_request k = (method_name (in_method r), v)) \<or> (\<exists>k. nc_request k = (method_name (in_method r), v)) \<or>
    (\<exists>k\<in>{KMe, KRefresh, KMeAgain}. auth_request k = (method_name (in_method r), v)) \<or>
    (\<exists>k e s. k \<in> set (snd (login_handle e s)) \<and> auth_request k = (method_name (in_method r), v)) \<or>
    (\<exists>k e s. k \<in> set (snd (register_handle e s)) \<and> auth_request k = (method_name (in_method r), v)) \<or>
    (\<exists>k. (method_name (in_method r), v) \<in> set (profile_request k)) \<or>
    (\<exists>k. smtp_request k = (method_name (in_method r), v))"
  shows "reaches_api r v"
  using assms
proof (elim disjE exE conjE bexE)
  note simps = eq_commute [of _ "method_name _"]
  {
    fix k assume "shell_request k = (method_name (in_method r), v)"
    then show ?thesis using reaches_auth [of r] by (cases k) (auto simp: shell_request_def simps)
  next
    fix k assume "nc_request k = (method_name (in_method r), v)"
    then show ?thesis using reaches_auth [of r] by (cases k) (auto simp: nc_request_def simps)
  next
    fix k assume "k \<in> {KMe, KRefresh, KMeAgain}" "auth_request k = (method_name (in_method r), v)"
    then show ?thesis using reaches_auth [of r] by (auto simp: auth_request_def simps)
  next
    fix k e s assume "k \<in> set (snd (login_handle e s))" "auth_request k = (method_name (in_method r), v)"
    then show ?thesis using reaches_auth [of r] by (auto simp: auth_request_def simps dest!: login_sends)
  next
    fix k e s assume "k \<in> set (snd (register_handle e s))" "auth_request k = (method_name (in_method r), v)"
    then show ?thesis using reaches_auth [of r] by (auto simp: auth_request_def simps dest!: register_sends)
  next
    fix k assume "(method_name (in_method r), v) \<in> set (profile_request k)"
    then show ?thesis using reaches_auth(1) [of r] reaches_account [of r] by (cases k) (auto simp: profile_request_def simps)
  next
    fix k assume "smtp_request k = (method_name (in_method r), v)"
    then show ?thesis using reaches_account [of r] by (cases k) (auto simp: smtp_request_def simps)
  }
qed

lemma session_requests_reach_api_witness:
  "reaches_api \<lparr>in_method = POST, in_segments = [], in_query = [], in_headers = [], in_text = []\<rparr> ''/api/auth/logout''"
proof (rule session_requests_reach_api, rule disjI1, rule exI)
  show "shell_request KLogout = (method_name (in_method
      \<lparr>in_method = POST, in_segments = [], in_query = [], in_headers = [], in_text = []\<rparr>), ''/api/auth/logout'')"
    by (simp add: shell_request_def method_name_def)
qed

end
