(* ===== verification/Calendar.thy ===== *)
theory Calendar
  imports Expiry
begin

text \<open>
  Local dates: the part of \<open>Date\<close> that works in the time zone of the browser, as the charts of
  \<^verbatim>\<open>components/charts/dashboard-charts.tsx\<close> use it. Days are numbered from the epoch; \<open>date_of_day\<close>
  finds the year, the month and the day of the month of a day number. The zone is a parameter: the two
  functions of the language standard between a time and the local time, in milliseconds.
\<close>

subsection \<open>Year, month and day of a day number\<close>

definition year_start :: "int \<Rightarrow> int" where
  "year_start y = 365 * (y - 1970) + (leaps_before y - leaps_before 1970)"

lemma div_pred: "0 < k \<Longrightarrow> y div k = (y - 1) div k + (if y mod k = 0 then 1 else 0)" for y k :: int
proof -
  assume k: "0 < k"
  define q r where "q = y div k" and "r = y mod k"
  have y: "y = k * q + r" "0 \<le> r" "r < k" using k by (simp_all add: q_def r_def)
  show ?thesis
  proof (cases "r = 0")
    case True
    have "(y - 1) div k = q - 1"
      using k y True by (intro int_div_pos_eq [of _ k _ "k - 1"]) (simp_all add: algebra_simps)
    then show ?thesis using True by (simp add: q_def r_def)
  next
    case False
    have "(y - 1) div k = q"
      using y False by (intro int_div_pos_eq [of _ k _ "r - 1"]) (simp_all add: algebra_simps)
    then show ?thesis using False by (simp add: q_def r_def)
  qed
qed

lemma year_start_Suc: "year_start (y + 1) = year_start y + (if leap y then 366 else 365)"
proof -
  have m: "y mod 400 = 0 \<Longrightarrow> y mod 100 = 0" "y mod 100 = 0 \<Longrightarrow> y mod 4 = 0" by presburger+
  have l: "leaps_before (y + 1) = y div 4 - y div 100 + y div 400" by (simp add: leaps_before_def)
  have d: "y div 4 = (y - 1) div 4 + (if y mod 4 = 0 then 1 else 0)"
    "y div 100 = (y - 1) div 100 + (if y mod 100 = 0 then 1 else 0)"
    "y div 400 = (y - 1) div 400 + (if y mod 400 = 0 then 1 else 0)"
    by (rule div_pred; simp)+
  have count: "(a :: int) - b + c - (a' - b' + c') = (if A \<and> (\<not> B \<or> C) then 1 else 0)"
    if "a = a' + (if A then 1 else 0)" "b = b' + (if B then 1 else 0)" "c = c' + (if C then 1 else 0)"
      "C \<Longrightarrow> B" "B \<Longrightarrow> A" for a a' b b' c c' :: int and A B C
    using that by (cases A; cases B; cases C) simp_all
  have step: "leaps_before (y + 1) - leaps_before y = (if leap y then 1 else 0)"
    unfolding l leaps_before_def [of y] leap_def by (rule count [OF d m])
  show ?thesis unfolding year_start_def using step by (cases "leap y") simp_all
qed

lemma year_start_less: "year_start y < year_start (y + 1)"
  by (simp add: year_start_Suc)

text \<open>The last year that starts on or before a day, searched upwards from a year that does.\<close>

function year_from :: "int \<Rightarrow> int \<Rightarrow> int" where
  "year_from y d = (if year_start (y + 1) \<le> d then year_from (y + 1) d else y)"
  by pat_completeness auto
termination
proof (relation "measure (\<lambda>(y, d). nat (d - year_start y))")
  fix y d :: int
  assume "year_start (y + 1) \<le> d"
  with year_start_less [of y] show "((y + 1, d), y, d) \<in> measure (\<lambda>(y, d). nat (d - year_start y))" by simp
qed simp

declare year_from.simps [simp del]

definition year_of :: "int \<Rightarrow> int" where
  "year_of d = year_from (1970 + (if 0 \<le> d then d div 366 else d div 365)) d"

fun month_from :: "int \<Rightarrow> nat \<Rightarrow> int \<Rightarrow> nat \<times> int" where
  "month_from y 0 r = (12, r)"
| "month_from y (Suc left) r =
     (let m = 12 - Suc left
      in if r < month_days y m then (m, r) else month_from y left (r - month_days y m))"

text \<open>Year, month and day of the month; the months from January on, eleven of them left.\<close>

definition date_of_day :: "int \<Rightarrow> int \<times> nat \<times> int" where
  "date_of_day d = (let y = year_of d; (m, r) = month_from y 11 (d - year_start y) in (y, m, r + 1))"

lemma year_from_bounds: "year_start y \<le> d \<Longrightarrow> year_start (year_from y d) \<le> d \<and> d < year_start (year_from y d + 1)"
proof (induction y d rule: year_from.induct)
  case (1 y d)
  then show ?case by (cases "year_start (y + 1) \<le> d") (simp_all add: year_from.simps [of y d])
qed

lemma year_start_after: "year_start (1970 + int n) \<le> 366 * int n"
proof (induction n)
  case 0
  then show ?case by (simp add: year_start_def)
next
  case (Suc n)
  then show ?case using year_start_Suc [of "1970 + int n"] by (simp add: algebra_simps split: if_splits)
qed

lemma year_start_before: "year_start (1970 - int n) \<le> - 365 * int n"
proof (induction n)
  case 0
  then show ?case by (simp add: year_start_def)
next
  case (Suc n)
  then show ?case using year_start_Suc [of "1970 - int (Suc n)"] by (simp add: algebra_simps split: if_splits)
qed

lemma year_of_bounds: "year_start (year_of d) \<le> d \<and> d < year_start (year_of d + 1)"
  unfolding year_of_def
proof (rule year_from_bounds)
  show "year_start (1970 + (if 0 \<le> d then d div 366 else d div 365)) \<le> d"
  proof (cases "0 \<le> d")
    case True
    then have "year_start (1970 + d div 366) \<le> 366 * (d div 366)"
      using year_start_after [of "nat (d div 366)"] by (simp add: pos_imp_zdiv_nonneg_iff)
    also have "\<dots> \<le> d" using mult_div_mod_eq [of 366 d] pos_mod_sign [of 366 d] by linarith
    finally show ?thesis using True by simp
  next
    case False
    then have "d div 365 \<le> 0" by (simp add: div_nonpos_pos_le0)
    then have "year_start (1970 + d div 365) \<le> 365 * (d div 365)"
      using year_start_before [of "nat (- (d div 365))"] by simp
    also have "\<dots> \<le> d" using mult_div_mod_eq [of 365 d] pos_mod_sign [of 365 d] by linarith
    finally show ?thesis using False by simp
  qed
qed

text \<open>Days of the months before a month.\<close>

abbreviation months_before :: "int \<Rightarrow> nat \<Rightarrow> int" where
  "months_before y m \<equiv> sum_list (map (month_days y) [1..<m])"

lemma months_before_Suc: "1 \<le> m \<Longrightarrow> months_before y (Suc m) = months_before y m + month_days y m"
  by simp

lemma months_before_year: "months_before y 13 = (if leap y then 366 else 365)"
  by (simp add: month_days_def upt_conv_Cons)

lemma month_from_bounds:
  assumes "month_from y left r = (m, r')" "left \<le> 11" "0 \<le> r" "r + months_before y (12 - left) < months_before y 13"
  shows "r' + months_before y m = r + months_before y (12 - left) \<and> 1 \<le> m \<and> m \<le> 12 \<and> 0 \<le> r' \<and> r' < month_days y m"
  using assms
proof (induction y left r rule: month_from.induct)
  case (1 y r)
  then show ?case using months_before_Suc [of 12 y] by simp
next
  case (2 y left r)
  let ?m = "12 - Suc left"
  have s: "months_before y (12 - left) = months_before y ?m + month_days y ?m"
  proof -
    have m: "12 - left = Suc ?m" "1 \<le> ?m" using 2(3) by arith+
    show ?thesis unfolding m(1) by (rule months_before_Suc [OF m(2)])
  qed
  show ?case
  proof (cases "r < month_days y ?m")
    case True
    then show ?thesis using 2(2-5) by (auto simp: Let_def)
  next
    case False
    then show ?thesis using 2 s by (simp add: Let_def)
  qed
qed

text \<open>A day number is the number of its date, whose month and day are those of a calendar.\<close>

lemma date_of_day_sound:
  assumes "date_of_day d = (y, m, n)"
  shows "day_number y m n = d \<and> 1 \<le> m \<and> m \<le> 12 \<and> 1 \<le> n \<and> n \<le> month_days y m"
proof -
  have y: "y = year_of d" using assms by (simp add: date_of_day_def Let_def split: prod.splits)
  define r where "r = d - year_start y"
  have m: "month_from y 11 r = (m, n - 1)"
    using assms unfolding r_def y by (auto simp: date_of_day_def Let_def split: prod.splits)
  have "0 \<le> r" "r < months_before y 13"
    using year_of_bounds [of d] year_start_Suc [of y] unfolding months_before_year r_def y by auto
  with month_from_bounds [OF m] have "n - 1 + months_before y m = r" "1 \<le> m" "m \<le> 12" "0 \<le> n - 1" "n - 1 < month_days y m"
    by simp_all
  then show ?thesis by (simp add: day_number_def year_start_def r_def algebra_simps)
qed

text \<open>So two days with the same date are the same day.\<close>

lemma date_of_day_inject [simp]: "date_of_day d = date_of_day e \<longleftrightarrow> d = e"
  using date_of_day_sound [of d] date_of_day_sound [of e] by (metis prod_cases3)

subsection \<open>Local time\<close>

record zone =
  zn_local :: "int \<Rightarrow> int"
  zn_utc :: "int \<Rightarrow> int"

text \<open>
  What the standard promises of the two functions, for a zone that skips no whole day: the time found
  for a local time is on its local day (a local time that a clock change skips is moved within the day).
\<close>

definition keeps_days :: "zone \<Rightarrow> bool" where
  "keeps_days z \<longleftrightarrow> (\<forall>t. zn_local z (zn_utc z t) div day_ms = t div day_ms)"

definition local_day :: "zone \<Rightarrow> int \<Rightarrow> int" where
  "local_day z t = zn_local z t div day_ms"

text \<open>\<open>setHours(0, 0, 0, 0)\<close>, \<open>getDate()\<close> and \<open>setDate(n)\<close>, where a day outside the month runs over.\<close>

definition setMidnight :: "zone \<Rightarrow> int \<Rightarrow> int" where
  "setMidnight z t = zn_utc z (local_day z t * day_ms)"

definition getDate :: "zone \<Rightarrow> int \<Rightarrow> int" where
  "getDate z t = (case date_of_day (local_day z t) of (y, m, n) \<Rightarrow> n)"

definition setDate :: "zone \<Rightarrow> int \<Rightarrow> int \<Rightarrow> int" where
  "setDate z n t =
     (case date_of_day (local_day z t) of
        (y, m, _) \<Rightarrow> zn_utc z ((day_number y m 1 + n - 1) * day_ms + zn_local z t mod day_ms))"

lemma local_day_midnight: "keeps_days z \<Longrightarrow> local_day z (setMidnight z t) = local_day z t"
  by (simp add: keeps_days_def setMidnight_def local_day_def day_ms_def)

text \<open>Adding to the day of the month adds that many days, over the ends of months and years.\<close>

lemma local_day_setDate:
  assumes "keeps_days z"
  shows "local_day z (setDate z (getDate z t + k) t) = local_day z t + k"
proof -
  obtain y m n where d: "date_of_day (local_day z t) = (y, m, n)" by (cases "date_of_day (local_day z t)")
  have "day_number y m n = local_day z t" using date_of_day_sound [OF d] by simp
  then have n: "day_number y m 1 + (n + k) - 1 = local_day z t + k" by (simp add: day_number_def)
  have "(a * day_ms + zn_local z t mod day_ms) div day_ms = a" for a
    by (simp add: day_ms_def div_mult_self3 div_eq_0_iff pos_mod_bound)
  with assms show ?thesis
    unfolding setDate_def getDate_def d prod.case n by (simp add: local_day_def [of z "zn_utc z _"] keeps_days_def)
qed

subsection \<open>Texts of a local date\<close>

text \<open>\<open>String(n).padStart(2, "0")\<close>\<close>

definition pad2 :: "string \<Rightarrow> string" where
  "pad2 s = replicate (2 - length s) (CHR ''0'') @ s"

definition date_key :: "int \<times> nat \<times> int \<Rightarrow> string" where
  "date_key d = (case d of (y, m, n) \<Rightarrow> int_string y @ ''-'' @ pad2 (nat_digits m) @ ''-'' @ pad2 (int_string n))"

text \<open>The key of an invalid date is made of the texts of \<open>NaN\<close>.\<close>

definition localDateKey :: "zone \<Rightarrow> int option \<Rightarrow> string" where
  "localDateKey z t =
     (case t of None \<Rightarrow> ''NaN-NaN-NaN'' | Some v \<Rightarrow> date_key (date_of_day (local_day z v)))"

definition chartDateLabel :: "zone \<Rightarrow> int \<Rightarrow> string" where
  "chartDateLabel z t =
     (case date_of_day (local_day z t) of (y, m, n) \<Rightarrow> nat_digits m @ ''/'' @ int_string n)"

lemma length_nat_digits: "n < 100 \<Longrightarrow> length (nat_digits n) = (if n < 10 then 1 else 2)"
  by (simp add: nat_digits.simps [of n] nat_digits.simps [of "n div 10"])

lemma length_pad2: "n < 100 \<Longrightarrow> length (pad2 (nat_digits n)) = 2"
  by (simp add: pad2_def length_nat_digits)

lemma digits_of_nat_digits: "c \<in> set (nat_digits n) \<Longrightarrow> is_digit c"
proof (induction n rule: nat_digits.induct)
  case (1 n)
  then show ?case
    by (cases "n < 10") (auto simp: nat_digits.simps [of n] is_digit_def code_def of_char_of)
qed

lemma pad2_inject: "m < 100 \<Longrightarrow> n < 100 \<Longrightarrow> pad2 (nat_digits m) = pad2 (nat_digits n) \<Longrightarrow> m = n"
proof -
  assume "m < 100" "n < 100" and eq: "pad2 (nat_digits m) = pad2 (nat_digits n)"
  have v: "key_number (pad2 (nat_digits k)) = k" for k
  proof -
    have z: "digits_value 0 (replicate j (CHR ''0'') @ s) = digits_value 0 s" for j s
      by (induction j) (simp_all add: code_def)
    show ?thesis using key_number_digits [of k] unfolding key_number_def pad2_def z .
  qed
  show "m = n" using v eq by metis
qed

lemma nat_digits_minus: "nat_digits n \<noteq> CHR ''-'' # s"
  using digits_of_nat_digits [of "CHR ''-''" n] by (cases "nat_digits n") (auto simp: is_digit_def code_def)

lemma int_string_inject: "int_string i = int_string j \<Longrightarrow> i = j"
  by (auto simp: int_string_def nat_digits_minus nat_digits_minus [THEN not_sym] split: if_splits)

lemma date_key_inject:
  assumes "date_key (y, m, n) = date_key (y', m', n')" "m < 100" "m' < 100" "0 \<le> n" "n < 100" "0 \<le> n'" "n' < 100"
  shows "y = y' \<and> m = m' \<and> n = n'"
proof -
  have i: "int_string n = nat_digits (nat n)" "int_string n' = nat_digits (nat n')" using assms by (simp_all add: int_string_def)
  have l: "length (pad2 (nat_digits m)) = 2" "length (pad2 (nat_digits m')) = 2"
    "length (pad2 (nat_digits (nat n))) = 2" "length (pad2 (nat_digits (nat n'))) = 2"
    using assms by (simp_all add: length_pad2)
  have "int_string y = int_string y' \<and> pad2 (nat_digits m) = pad2 (nat_digits m') \<and>
      pad2 (nat_digits (nat n)) = pad2 (nat_digits (nat n'))"
    using assms(1) l unfolding date_key_def prod.case i by auto
  moreover have "nat n = nat n'" using calculation pad2_inject [of "nat n" "nat n'"] assms by simp
  ultimately show ?thesis using pad2_inject [of m m'] int_string_inject assms(2-) by simp
qed

text \<open>The key names the local day, and no key of a valid date is that of an invalid one.\<close>

lemma localDateKey_inject:
  "localDateKey z (Some s) = localDateKey z (Some t) \<longleftrightarrow> local_day z s = local_day z t"
proof
  assume eq: "localDateKey z (Some s) = localDateKey z (Some t)"
  obtain y m n where d: "date_of_day (local_day z s) = (y, m, n)" by (cases "date_of_day (local_day z s)")
  obtain y' m' n' where e: "date_of_day (local_day z t) = (y', m', n')" by (cases "date_of_day (local_day z t)")
  have b: "month_days a b \<le> 31" for a b by (simp add: month_days_def)
  have "y = y' \<and> m = m' \<and> n = n'"
    using eq date_of_day_sound [OF d] date_of_day_sound [OF e] b [of y m] b [of y' m']
    unfolding localDateKey_def option.case d e by (intro date_key_inject) auto
  then have "date_of_day (local_day z s) = date_of_day (local_day z t)" using d e by simp
  then show "local_day z s = local_day z t" by simp
qed (simp add: localDateKey_def)

lemma localDateKey_invalid: "localDateKey z (Some t) \<noteq> localDateKey z None"
proof
  assume eq: "localDateKey z (Some t) = localDateKey z None"
  obtain y m n where d: "date_of_day (local_day z t) = (y, m, n)" by (cases "date_of_day (local_day z t)")
  have "int_string y \<noteq> CHR ''N'' # s" for s
    using digits_of_nat_digits [of "CHR ''N''" "nat y"]
    by (cases "nat_digits (nat y)") (auto simp: int_string_def is_digit_def code_def)
  moreover have "int_string y \<noteq> []"
    using nat_digits.simps [of "nat y"] by (simp add: int_string_def)
  ultimately show False by (cases "int_string y") (use eq in \<open>auto simp: localDateKey_def date_key_def d\<close>)
qed

end
