(* ===== verification/Charts.thy ===== *)
theory Charts
  imports Calendar Views
begin

text \<open>
  The charts of the personal dashboard, \<^verbatim>\<open>components/charts/dashboard-charts.tsx\<close>, and of the
  administrator's, \<^verbatim>\<open>components/charts/admin-dashboard-charts.tsx\<close>: what they count, the colours they read, the
  option object they hand to the drawing library, and the panels around them. The library itself
  (\<open>echarts\<close>) and the observers of sizes and attributes are outside; an option object is a tree.
\<close>

subsection \<open>Option objects\<close>

datatype js_value =
    JsText label
  | JsNum int
  | JsBool bool
  | JsObject "(string \<times> js_value) list"
  | JsArray "js_value list"
  | JsFormat "int \<Rightarrow> label"
  | JsUndefined

abbreviation js_str :: "string \<Rightarrow> js_value" where
  "js_str s \<equiv> JsText (Raw s)"

abbreviation js_tr :: "string \<Rightarrow> js_value" where
  "js_tr key \<equiv> JsText (Tr key [])"

abbreviation js_nat :: "nat \<Rightarrow> js_value" where
  "js_nat n \<equiv> JsNum (int n)"

text \<open>A path of property names from the root of an option; an array is entered by index.\<close>

fun js_at :: "string list \<Rightarrow> js_value \<Rightarrow> js_value" where
  "js_at [] v = v"
| "js_at (k # ks) (JsObject fs) = (case al_get k fs of Some v \<Rightarrow> js_at ks v | None \<Rightarrow> JsUndefined)"
| "js_at (k # ks) (JsArray xs) = (if key_number k < length xs then js_at ks (xs ! key_number k) else JsUndefined)"
| "js_at (k # ks) v = JsUndefined"

subsection \<open>Colours\<close>

record admin_palette =
  pal_text :: string
  pal_muted :: string
  pal_border :: string
  pal_accent :: string
  pal_success :: string
  pal_warning :: string
  pal_danger :: string
  pal_surface :: string

record palette = admin_palette +
  pal_contrastText :: string

definition serverChartPalette :: palette where
  "serverChartPalette = \<lparr>pal_text = ''#17231d'', pal_muted = ''#65716a'', pal_border = ''#dce2dc'',
     pal_accent = ''#0f766e'', pal_success = ''#0f766e'', pal_warning = ''#a35c00'', pal_danger = ''#b42318'',
     pal_surface = ''#ffffff'', pal_contrastText = ''#f5faf7''\<rparr>"

text \<open>
  The module keeps the last palette it read and its signature. An object is told apart by its
  number: 0 is the server palette, the others count the palettes made; \<open>isReady\<close> compares objects.
\<close>

record palette_module =
  browserPaletteSignature :: string
  browserPalette :: "nat \<times> palette"

definition palette_start :: palette_module where
  "palette_start = \<lparr>browserPaletteSignature = [], browserPalette = (0, serverChartPalette)\<rparr>"

definition palette_signature :: "palette \<Rightarrow> string" where
  "palette_signature p = js_join ''|'' [pal_text p, pal_muted p, pal_border p, pal_accent p, pal_success p,
     pal_warning p, pal_danger p, pal_surface p, pal_contrastText p]"

text \<open>\<open>styles\<close> is what \<open>getPropertyValue\<close> returns for a property.\<close>

definition css_palette :: "(string \<Rightarrow> string) \<Rightarrow> palette" where
  "css_palette styles = \<lparr>pal_text = js_trim (styles ''--text''), pal_muted = js_trim (styles ''--text-muted''),
     pal_border = js_trim (styles ''--border''), pal_accent = js_trim (styles ''--accent''),
     pal_success = js_trim (styles ''--accent''), pal_warning = js_trim (styles ''--warning''),
     pal_danger = js_trim (styles ''--danger''), pal_surface = js_trim (styles ''--surface''),
     pal_contrastText = ''#f5faf7''\<rparr>"

definition readChartPalette :: "(string \<Rightarrow> string) \<Rightarrow> palette_module \<Rightarrow> (nat \<times> palette) \<times> palette_module" where
  "readChartPalette styles s =
     (let nextPalette = css_palette styles; signature = palette_signature nextPalette;
          s' = (if signature \<noteq> browserPaletteSignature s
                then s\<lparr>browserPaletteSignature := signature, browserPalette := (Suc (fst (browserPalette s)), nextPalette)\<rparr>
                else s)
      in (browserPalette s', s'))"

definition chart_ready :: "nat \<times> palette \<Rightarrow> bool" where
  "chart_ready p \<longleftrightarrow> fst p \<noteq> 0"

subsection \<open>What the personal charts count\<close>

definition expiryRanges :: "(string \<times> nat) list" where
  "expiryRanges = [(''dashboard.expiry7d'', 7), (''dashboard.expiry30d'', 30), (''dashboard.expiry60d'', 60), (''dashboard.expiry90d'', 90)]"

definition daysUntil :: "int \<Rightarrow> string \<Rightarrow> int option" where
  "daysUntil now value = map_option (\<lambda>t. - ((now - t) div day_ms)) (js_date value)"

text \<open>The bucket of a number of days; every comparison with \<open>NaN\<close> is false.\<close>

definition expiry_index :: "int option \<Rightarrow> nat option" where
  "expiry_index remaining =
     (case remaining of
        None \<Rightarrow> Some 3
      | Some n \<Rightarrow> if n < 0 \<or> n > 90 then None
          else Some (if n \<le> 7 then 0 else if n \<le> 30 then 1 else if n \<le> 60 then 2 else 3))"

definition count_expiry :: "int \<Rightarrow> certificate \<Rightarrow> nat list \<Rightarrow> nat list" where
  "count_expiry now c buckets =
     (case notAfter c of
        None \<Rightarrow> buckets
      | Some v \<Rightarrow> if v = [] then buckets
          else (case expiry_index (daysUntil now v) of
                  None \<Rightarrow> buckets
                | Some i \<Rightarrow> buckets[i := buckets ! i + 1]))"

definition expiryCounts :: "int \<Rightarrow> certificate list \<Rightarrow> nat list" where
  "expiryCounts now cs = fold (count_expiry now) cs (map (\<lambda>r. 0) expiryRanges)"

record trend_item =
  it_succeeded :: nat
  it_failed :: nat
  it_active :: nat

record execution_trend =
  tr_labels :: "string list"
  tr_succeeded :: "nat list"
  tr_failed :: "nat list"
  tr_active :: "nat list"

definition trend_days :: "zone \<Rightarrow> int \<Rightarrow> int list" where
  "trend_days z now =
     (let today = setMidnight z now
      in map (\<lambda>i. setDate z (getDate z today - 13 + int i) today) [0..<14])"

definition trend_counts :: "zone \<Rightarrow> int list \<Rightarrow> (string \<times> trend_item) list" where
  "trend_counts z days =
     fold (\<lambda>day. al_set (localDateKey z (Some day)) \<lparr>it_succeeded = 0, it_failed = 0, it_active = 0\<rparr>) days []"

definition count_status :: "string \<Rightarrow> trend_item \<Rightarrow> trend_item" where
  "count_status st it =
     (if st = ''succeeded'' then it\<lparr>it_succeeded := it_succeeded it + 1\<rparr>
      else if st = ''failed'' then it\<lparr>it_failed := it_failed it + 1\<rparr>
      else if st \<in> {''queued'', ''running'', ''waiting_user''} then it\<lparr>it_active := it_active it + 1\<rparr>
      else it)"

definition count_execution :: "zone \<Rightarrow> execution \<Rightarrow> (string \<times> trend_item) list \<Rightarrow> (string \<times> trend_item) list" where
  "count_execution z e counts =
     (case startedAt e of
        None \<Rightarrow> counts
      | Some v \<Rightarrow> if v = [] then counts
          else (let key = localDateKey z (js_date v)
                in case al_get key counts of
                     None \<Rightarrow> counts
                   | Some it \<Rightarrow> al_set key (count_status (exec_status e) it) counts))"

definition trend_value :: "zone \<Rightarrow> (trend_item \<Rightarrow> nat) \<Rightarrow> (string \<times> trend_item) list \<Rightarrow> int \<Rightarrow> nat" where
  "trend_value z f counts day = (case al_get (localDateKey z (Some day)) counts of Some it \<Rightarrow> f it | None \<Rightarrow> 0)"

definition chart_executionTrend :: "zone \<Rightarrow> int \<Rightarrow> execution list \<Rightarrow> execution_trend" where
  "chart_executionTrend z now xs =
     (let days = trend_days z now; counts = fold (count_execution z) xs (trend_counts z days)
      in \<lparr>tr_labels = map (chartDateLabel z) days,
          tr_succeeded = map (trend_value z it_succeeded counts) days,
          tr_failed = map (trend_value z it_failed counts) days,
          tr_active = map (trend_value z it_active counts) days\<rparr>)"

definition chart_automationHealth :: "automation_task list \<Rightarrow> automation_health" where
  "chart_automationHealth ts =
     foldl (\<lambda>summary t.
        if \<not> enabled t then summary\<lparr>paused := paused summary + 1\<rparr>
        else if lastStatus t = ''failed'' then summary\<lparr>attention := attention summary + 1\<rparr>
        else summary\<lparr>healthy := healthy summary + 1\<rparr>)
      \<lparr>healthy = 0, paused = 0, attention = 0\<rparr> ts"

subsection \<open>The options of the personal charts\<close>

text \<open>A text in the middle of an empty chart.\<close>

definition empty_graphic :: "string \<Rightarrow> palette \<Rightarrow> js_value" where
  "empty_graphic key p =
     JsObject [(''type'', js_str ''text''), (''left'', js_str ''center''), (''top'', js_str ''middle''),
       (''style'', JsObject [(''text'', js_tr key), (''fill'', js_str (pal_muted p)), (''fontSize'', JsNum 13)])]"

definition count_format :: "string \<Rightarrow> js_value" where
  "count_format key = JsFormat (\<lambda>value. Tr key [(''count'', int_string value)])"

definition expiryOption :: "palette \<Rightarrow> nat list \<Rightarrow> js_value" where
  "expiryOption p counts =
     (let colors = [pal_danger p, pal_warning p, pal_success p, pal_accent p]
      in JsObject
       [(''animation'', JsBool False),
        (''grid'', JsObject [(''left'', JsNum 84), (''right'', JsNum 32), (''top'', JsNum 20), (''bottom'', JsNum 28)]),
        (''tooltip'', JsObject [(''trigger'', js_str ''axis''), (''axisPointer'', JsObject [(''type'', js_str ''shadow'')]),
           (''valueFormatter'', count_format ''dashboard.certificatesUnit'')]),
        (''xAxis'', JsObject [(''type'', js_str ''value''), (''minInterval'', JsNum 1),
           (''axisLabel'', JsObject [(''color'', js_str (pal_muted p)), (''fontSize'', JsNum 12)]),
           (''splitLine'', JsObject [(''lineStyle'', JsObject [(''color'', js_str (pal_border p))])])]),
        (''yAxis'', JsObject [(''type'', js_str ''category''),
           (''data'', JsArray (map (\<lambda>r. js_tr (fst r)) expiryRanges)),
           (''axisTick'', JsObject [(''show'', JsBool False)]), (''axisLine'', JsObject [(''show'', JsBool False)]),
           (''axisLabel'', JsObject [(''color'', js_str (pal_muted p)), (''fontSize'', JsNum 12)])]),
        (''series'', JsArray [JsObject
          [(''type'', js_str ''bar''),
           (''data'', JsArray (map (\<lambda>(value, color). JsObject
              [(''value'', js_nat value), (''itemStyle'', JsObject [(''color'', js_str color)])]) (zip counts colors))),
           (''barMaxWidth'', JsNum 20), (''showBackground'', JsBool True),
           (''backgroundStyle'', JsObject [(''color'', js_str (pal_surface p))]),
           (''label'', JsObject [(''show'', JsBool True), (''position'', js_str ''right''), (''color'', js_str (pal_text p)),
              (''fontSize'', JsNum 12), (''formatter'', js_str ''{c}'')]),
           (''emphasis'', JsObject [(''focus'', js_str ''series'')])]]),
        (''graphic'', if list_all (\<lambda>value. value = 0) counts then empty_graphic ''dashboard.expiryEmpty'' p else JsUndefined)])"

definition trend_series :: "string \<Rightarrow> nat list \<Rightarrow> int \<Rightarrow> js_value" where
  "trend_series key values width =
     JsObject [(''name'', js_tr key), (''type'', js_str ''bar''), (''stack'', js_str ''total''),
       (''data'', JsArray (map js_nat values)), (''barMaxWidth'', JsNum width)]"

definition trendOption :: "palette \<Rightarrow> execution_trend \<Rightarrow> js_value" where
  "trendOption p tr =
     JsObject
      [(''animation'', JsBool False),
       (''color'', JsArray [js_str (pal_success p), js_str (pal_danger p), js_str (pal_warning p)]),
       (''grid'', JsObject [(''left'', JsNum 40), (''right'', JsNum 20), (''top'', JsNum 42), (''bottom'', JsNum 28)]),
       (''legend'', JsObject [(''top'', JsNum 8), (''itemWidth'', JsNum 9), (''itemHeight'', JsNum 9),
          (''textStyle'', JsObject [(''color'', js_str (pal_muted p)), (''fontSize'', JsNum 12)]),
          (''data'', JsArray [js_tr ''dashboard.chart.succeeded'', js_tr ''dashboard.chart.failed'', js_tr ''dashboard.chart.running''])]),
       (''tooltip'', JsObject [(''trigger'', js_str ''axis''), (''axisPointer'', JsObject [(''type'', js_str ''shadow'')])]),
       (''xAxis'', JsObject [(''type'', js_str ''category''), (''data'', JsArray (map js_str (tr_labels tr))),
          (''axisTick'', JsObject [(''show'', JsBool False)]),
          (''axisLine'', JsObject [(''lineStyle'', JsObject [(''color'', js_str (pal_border p))])]),
          (''axisLabel'', JsObject [(''color'', js_str (pal_muted p)), (''fontSize'', JsNum 11), (''interval'', JsNum 1)])]),
       (''yAxis'', JsObject [(''type'', js_str ''value''), (''minInterval'', JsNum 1),
          (''axisLabel'', JsObject [(''color'', js_str (pal_muted p)), (''fontSize'', JsNum 12)]),
          (''splitLine'', JsObject [(''lineStyle'', JsObject [(''color'', js_str (pal_border p))])])]),
       (''series'', JsArray
          [trend_series ''dashboard.chart.succeeded'' (tr_succeeded tr) 24,
           trend_series ''dashboard.chart.failed'' (tr_failed tr) 24,
           trend_series ''dashboard.chart.running'' (tr_active tr) 24]),
       (''graphic'',
          if list_all (\<lambda>value. value = 0) (tr_succeeded tr) \<and> list_all (\<lambda>value. value = 0) (tr_failed tr) \<and>
             list_all (\<lambda>value. value = 0) (tr_active tr)
          then empty_graphic ''dashboard.executionEmpty'' p else JsUndefined)]"

definition health_series :: "palette \<Rightarrow> string \<Rightarrow> nat \<Rightarrow> js_value" where
  "health_series p key value =
     JsObject [(''name'', js_tr key), (''type'', js_str ''bar''), (''stack'', js_str ''total''),
       (''data'', JsArray [js_nat value]), (''barWidth'', JsNum 32),
       (''label'', JsObject [(''show'', JsBool (value > 0)), (''position'', js_str ''inside''),
          (''color'', js_str (pal_contrastText p)), (''fontSize'', JsNum 12), (''formatter'', js_str ''{c}'')])]"

definition automationOption :: "palette \<Rightarrow> automation_health \<Rightarrow> nat \<Rightarrow> js_value" where
  "automationOption p h automations =
     JsObject
      [(''animation'', JsBool False),
       (''color'', JsArray [js_str (pal_success p), js_str (pal_warning p), js_str (pal_danger p)]),
       (''grid'', JsObject [(''left'', JsNum 18), (''right'', JsNum 18), (''top'', JsNum 54), (''bottom'', JsNum 42)]),
       (''tooltip'', JsObject [(''trigger'', js_str ''axis''), (''axisPointer'', JsObject [(''type'', js_str ''shadow'')]),
          (''valueFormatter'', count_format ''dashboard.tasksUnit'')]),
       (''legend'', JsObject [(''top'', JsNum 10), (''icon'', js_str ''roundRect''), (''itemWidth'', JsNum 8), (''itemHeight'', JsNum 8),
          (''textStyle'', JsObject [(''color'', js_str (pal_muted p)), (''fontSize'', JsNum 12)])]),
       (''xAxis'', JsObject [(''type'', js_str ''value''), (''show'', JsBool False), (''max'', js_nat (max automations 1))]),
       (''yAxis'', JsObject [(''type'', js_str ''category''), (''data'', JsArray [js_tr ''nav.automations'']), (''show'', JsBool False)]),
       (''series'', JsArray
          [health_series p ''dashboard.chart.healthy'' (healthy h), health_series p ''dashboard.chart.paused'' (paused h),
           health_series p ''dashboard.chart.attention'' (attention h)]),
       (''graphic'', if automations = 0 then empty_graphic ''dashboard.automationEmpty'' p else JsUndefined)]"

subsection \<open>Panels\<close>

text \<open>A chart on the screen: what is announced, what is drawn, and whether it is drawn yet.\<close>

datatype chart_event = CGo string

definition ChartPanel :: "label \<Rightarrow> label \<Rightarrow> string \<times> label \<Rightarrow> label \<Rightarrow> chart_event view" where
  "ChartPanel title description link chart =
     El ''article''
      [El ''h2'' [Txt title], Txt description, Button (snd link) False (CGo (fst link)), El ''div role=img'' [Txt chart]]"

definition expiryDescription :: "nat list \<Rightarrow> label" where
  "expiryDescription counts = Tr ''dashboard.expiryDescription'' [(''count'', nat_digits (foldl (\<lambda>total value. total + value) 0 counts))]"

definition automationDescription :: "automation_health \<Rightarrow> label" where
  "automationDescription h = Tr ''dashboard.automationDescription''
     [(''attention'', nat_digits (attention h)), (''paused'', nat_digits (paused h))]"

definition DashboardCharts :: "int \<Rightarrow> certificate list \<Rightarrow> automation_task list \<Rightarrow> chart_event view" where
  "DashboardCharts now certificates automations =
     El []
      [El ''section''
        [ChartPanel (Tr ''dashboard.expiryDistribution'' []) (expiryDescription (expiryCounts now certificates))
           (''/certificates'', Tr ''dashboard.viewCertificates'' []) (Tr ''dashboard.expiryChartLabel'' []),
         ChartPanel (Tr ''dashboard.automationHealth'' []) (automationDescription (chart_automationHealth automations))
           (''/automations'', Tr ''dashboard.viewAutomations'' []) (Tr ''dashboard.automationChartLabel'' [])],
       El ''section''
        [ChartPanel (Tr ''dashboard.executionTrend'' []) (Tr ''dashboard.executionTrendDescription'' [])
           (''/executions'', Tr ''dashboard.executionHistory'' []) (Tr ''dashboard.executionChartLabel'' [])]]"

text \<open>The options its three canvases are given, in the order of the page.\<close>

definition dashboard_options :: "zone \<Rightarrow> int \<Rightarrow> palette \<Rightarrow> certificate list \<Rightarrow> execution list \<Rightarrow> automation_task list \<Rightarrow> js_value list" where
  "dashboard_options z now p certificates executions automations =
     [expiryOption p (expiryCounts now certificates),
      automationOption p (chart_automationHealth automations) (length automations),
      trendOption p (chart_executionTrend z now executions)]"

end
