(* ===== verification/Admin_Dashboard.thy ===== *)
theory Admin_Dashboard
  imports Charts
begin

text \<open>
  The administrator's dashboard: \<^verbatim>\<open>components/dashboard/admin-dashboard.tsx\<close> and its charts,
  \<^verbatim>\<open>components/charts/admin-dashboard-charts.tsx\<close>. The text of the failure rate, a number that need not be
  whole, is a parameter \<open>rate\<close>; all other numbers are counts.
\<close>

subsection \<open>Charts\<close>

definition serverPalette :: admin_palette where
  "serverPalette = \<lparr>pal_text = ''#17231d'', pal_muted = ''#65716a'', pal_border = ''#dce2dc'',
     pal_accent = ''#0f766e'', pal_success = ''#0f766e'', pal_warning = ''#a35c00'', pal_danger = ''#b42318'',
     pal_surface = ''#ffffff''\<rparr>"

record admin_palette_module =
  paletteSignature :: string
  cachedPalette :: "nat \<times> admin_palette"

definition admin_palette_start :: admin_palette_module where
  "admin_palette_start = \<lparr>paletteSignature = [], cachedPalette = (0, serverPalette)\<rparr>"

definition or_color :: "string \<Rightarrow> string \<Rightarrow> string" where
  "or_color v d = (if v \<noteq> [] then v else d)"

definition css_admin_palette :: "(string \<Rightarrow> string) \<Rightarrow> admin_palette" where
  "css_admin_palette styles =
     \<lparr>pal_text = or_color (js_trim (styles ''--text'')) (pal_text serverPalette),
      pal_muted = or_color (js_trim (styles ''--text-muted'')) (pal_muted serverPalette),
      pal_border = or_color (js_trim (styles ''--border'')) (pal_border serverPalette),
      pal_accent = or_color (js_trim (styles ''--accent'')) (pal_accent serverPalette),
      pal_success = or_color (js_trim (styles ''--accent'')) (pal_success serverPalette),
      pal_warning = or_color (js_trim (styles ''--warning'')) (pal_warning serverPalette),
      pal_danger = or_color (js_trim (styles ''--danger'')) (pal_danger serverPalette),
      pal_surface = or_color (js_trim (styles ''--surface'')) (pal_surface serverPalette)\<rparr>"

definition readPalette :: "(string \<Rightarrow> string) \<Rightarrow> admin_palette_module \<Rightarrow> (nat \<times> admin_palette) \<times> admin_palette_module" where
  "readPalette styles s =
     (let nextPalette = css_admin_palette styles;
          nextSignature = js_join ''|'' [pal_text nextPalette, pal_muted nextPalette, pal_border nextPalette,
            pal_accent nextPalette, pal_success nextPalette, pal_warning nextPalette, pal_danger nextPalette, pal_surface nextPalette];
          s' = (if nextSignature \<noteq> paletteSignature s
                then s\<lparr>paletteSignature := nextSignature, cachedPalette := (Suc (fst (cachedPalette s)), nextPalette)\<rparr>
                else s)
      in (cachedPalette s', s'))"

definition expiryBucketLabel :: "string \<Rightarrow> label" where
  "expiryBucketLabel b =
     (case al_get b
        [(''expired'', ''admin.expiry.expired''), (''expiring_7d'', ''admin.expiry.expiring7d''),
         (''expiring_30d'', ''admin.expiry.expiring30d''), (''healthy'', ''admin.expiry.healthy'')] of
        Some key \<Rightarrow> Tr key [] | None \<Rightarrow> Raw b)"

definition admin_trend_label :: "trend_point \<Rightarrow> string" where
  "admin_trend_label item = replace_first ''-'' ''/'' (drop 5 (trend_date item))"

definition admin_trendOption :: "admin_palette \<Rightarrow> trend_point list \<Rightarrow> js_value" where
  "admin_trendOption p trend =
     JsObject
      [(''animation'', JsBool False),
       (''color'', JsArray [js_str (pal_success p), js_str (pal_danger p), js_str (pal_warning p)]),
       (''grid'', JsObject [(''left'', JsNum 42), (''right'', JsNum 18), (''top'', JsNum 42), (''bottom'', JsNum 30)]),
       (''legend'', JsObject [(''top'', JsNum 8), (''itemWidth'', JsNum 9), (''itemHeight'', JsNum 9),
          (''textStyle'', JsObject [(''color'', js_str (pal_muted p)), (''fontSize'', JsNum 12)]),
          (''data'', JsArray [js_tr ''dashboard.chart.succeeded'', js_tr ''dashboard.chart.failed'', js_tr ''dashboard.chart.running''])]),
       (''tooltip'', JsObject [(''trigger'', js_str ''axis''), (''axisPointer'', JsObject [(''type'', js_str ''shadow'')])]),
       (''xAxis'', JsObject [(''type'', js_str ''category''), (''data'', JsArray (map (\<lambda>item. js_str (admin_trend_label item)) trend)),
          (''axisTick'', JsObject [(''show'', JsBool False)]),
          (''axisLine'', JsObject [(''lineStyle'', JsObject [(''color'', js_str (pal_border p))])]),
          (''axisLabel'', JsObject [(''color'', js_str (pal_muted p)), (''fontSize'', JsNum 11), (''interval'', JsNum 4)])]),
       (''yAxis'', JsObject [(''type'', js_str ''value''), (''minInterval'', JsNum 1),
          (''axisLabel'', JsObject [(''color'', js_str (pal_muted p)), (''fontSize'', JsNum 12)]),
          (''splitLine'', JsObject [(''lineStyle'', JsObject [(''color'', js_str (pal_border p))])])]),
       (''series'', JsArray
          [trend_series ''dashboard.chart.succeeded'' (map trend_succeeded trend) 22,
           trend_series ''dashboard.chart.failed'' (map trend_failed trend) 22,
           trend_series ''dashboard.chart.running'' (map trend_active trend) 22])]"

definition admin_expiryOption :: "admin_palette \<Rightarrow> expiry_bucket list \<Rightarrow> js_value" where
  "admin_expiryOption p buckets =
     JsObject
      [(''animation'', JsBool False),
       (''color'', JsArray [js_str (pal_danger p), js_str (pal_warning p), js_str (pal_accent p), js_str (pal_success p)]),
       (''tooltip'', JsObject [(''trigger'', js_str ''item''), (''valueFormatter'', count_format ''dashboard.certificatesUnit'')]),
       (''legend'', JsObject [(''bottom'', JsNum 2),
          (''textStyle'', JsObject [(''color'', js_str (pal_muted p)), (''fontSize'', JsNum 12)])]),
       (''series'', JsArray [JsObject
          [(''type'', js_str ''pie''), (''radius'', JsArray [js_str ''48%'', js_str ''70%'']),
           (''center'', JsArray [js_str ''50%'', js_str ''45%'']), (''label'', JsObject [(''show'', JsBool False)]),
           (''data'', JsArray (map (\<lambda>item. JsObject
              [(''name'', JsText (expiryBucketLabel (bucket item))), (''value'', js_nat (bucket_count item))]) buckets))]]),
       (''graphic'', if list_all (\<lambda>item. bucket_count item = 0) buckets
          then JsObject [(''type'', js_str ''text''), (''left'', js_str ''center''), (''top'', js_str ''middle''),
            (''style'', JsObject [(''text'', js_tr ''admin.noIssuedCertificates''), (''fill'', js_str (pal_muted p)), (''fontSize'', JsNum 13)])]
          else JsUndefined)]"

definition admin_health_series :: "string \<Rightarrow> nat \<Rightarrow> js_value" where
  "admin_health_series key value =
     JsObject [(''name'', js_tr key), (''type'', js_str ''bar''), (''stack'', js_str ''total''),
       (''data'', JsArray [js_nat value]), (''barWidth'', JsNum 30)]"

definition admin_automationOption :: "admin_palette \<Rightarrow> automation_health \<Rightarrow> js_value" where
  "admin_automationOption p h =
     JsObject
      [(''animation'', JsBool False),
       (''color'', JsArray [js_str (pal_success p), js_str (pal_warning p), js_str (pal_danger p)]),
       (''grid'', JsObject [(''left'', JsNum 32), (''right'', JsNum 28), (''top'', JsNum 40), (''bottom'', JsNum 34)]),
       (''legend'', JsObject [(''top'', JsNum 6), (''itemWidth'', JsNum 9), (''itemHeight'', JsNum 9),
          (''textStyle'', JsObject [(''color'', js_str (pal_muted p)), (''fontSize'', JsNum 12)]),
          (''data'', JsArray [js_tr ''dashboard.chart.healthy'', js_tr ''dashboard.chart.paused'', js_tr ''dashboard.chart.attention''])]),
       (''xAxis'', JsObject [(''type'', js_str ''value''), (''minInterval'', JsNum 1),
          (''axisLabel'', JsObject [(''color'', js_str (pal_muted p)), (''fontSize'', JsNum 12)]),
          (''splitLine'', JsObject [(''lineStyle'', JsObject [(''color'', js_str (pal_border p))])])]),
       (''yAxis'', JsObject [(''type'', js_str ''category''), (''data'', JsArray [js_tr ''nav.automations'']),
          (''axisTick'', JsObject [(''show'', JsBool False)]), (''axisLine'', JsObject [(''show'', JsBool False)]),
          (''axisLabel'', JsObject [(''color'', js_str (pal_muted p)), (''fontSize'', JsNum 12)])]),
       (''series'', JsArray
          [admin_health_series ''dashboard.chart.healthy'' (healthy h), admin_health_series ''dashboard.chart.paused'' (paused h),
           admin_health_series ''dashboard.chart.attention'' (attention h)])]"

definition AdminDashboardCharts :: "chart_event view" where
  "AdminDashboardCharts =
     El ''section''
      (map (\<lambda>(title, description, chart). El ''article''
          [El ''h2'' [Txt (Tr title [])], Txt (Tr description []), El ''div role=img'' [Txt (Tr chart [])]])
        [(''admin.executionTrend'', ''admin.executionTrendDescription'', ''admin.executionTrendChart''),
         (''dashboard.expiryDistribution'', ''admin.expiryDistributionDescription'', ''dashboard.expiryDistribution''),
         (''dashboard.automationHealth'', ''admin.automationHealthDescription'', ''dashboard.automationHealth'')])"

definition admin_options :: "admin_palette \<Rightarrow> admin_dashboard \<Rightarrow> js_value list" where
  "admin_options p d =
     [admin_trendOption p (executionTrend d), admin_expiryOption p (expiryDistribution d),
      admin_automationOption p (automationHealth d)]"

subsection \<open>Overview\<close>

definition admin_executionLabels :: "(string \<times> string) list" where
  "admin_executionLabels =
    [(''issue'', ''execution.issue''), (''renew'', ''execution.renew''), (''upload'', ''execution.upload''),
     (''deploy'', ''execution.deploy''), (''cleanup'', ''execution.cleanup'')]"

definition admin_executionLabel :: "string \<Rightarrow> label" where
  "admin_executionLabel kind = (case al_get kind admin_executionLabels of Some key \<Rightarrow> Tr key [] | None \<Rightarrow> Raw kind)"

record metric_definition =
  md_key :: string
  md_label :: string
  md_note :: "(rat \<Rightarrow> string) \<Rightarrow> admin_metrics \<Rightarrow> label"
  md_href :: string
  md_tone :: string

definition metricDefinitions :: "metric_definition list" where
  "metricDefinitions =
    [\<lparr>md_key = ''activeUsers'', md_label = ''admin.activeUsers'',
      md_note = (\<lambda>rate m. Tr ''admin.activeUsersNote'' [(''count'', nat_digits (newUsers30d m))]),
      md_href = ''/settings'', md_tone = ''healthy''\<rparr>,
     \<lparr>md_key = ''certificatesTotal'', md_label = ''admin.managedCertificates'',
      md_note = (\<lambda>rate m. Tr ''admin.issuedCertificatesNote'' [(''count'', nat_digits (certificatesIssued m))]),
      md_href = ''/certificates'', md_tone = ''active''\<rparr>,
     \<lparr>md_key = ''certificatesExpiring7d'', md_label = ''admin.expiringSevenDays'',
      md_note = (\<lambda>rate m. Tr ''admin.expiringThirtyDaysNote'' [(''count'', nat_digits (certificatesExpiring30d m))]),
      md_href = ''/certificates'', md_tone = ''attention''\<rparr>,
     \<lparr>md_key = ''jobsQueued'', md_label = ''admin.queuedJobs'',
      md_note = (\<lambda>rate m. Tr ''admin.runningJobsNote'' [(''count'', nat_digits (jobsRunning m))]),
      md_href = ''/executions'', md_tone = ''active''\<rparr>,
     \<lparr>md_key = ''failedExecutions24h'', md_label = ''admin.failedTwentyFourHours'',
      md_note = (\<lambda>rate m. Tr ''admin.failureRateNote'' [(''rate'', rate (executionFailureRate30d m))]),
      md_href = ''/executions'', md_tone = ''danger''\<rparr>,
     \<lparr>md_key = ''invalidCloudCredentials'', md_label = ''admin.invalidCloudCredentials'',
      md_note = (\<lambda>rate m. Tr ''admin.invalidResourcesNote''
        [(''dns'', nat_digits (invalidDNSAccounts m)), (''acme'', nat_digits (invalidACMEAccounts m))]),
      md_href = ''/cloud-credentials'', md_tone = ''danger''\<rparr>]"

text \<open>\<open>dashboard.metrics[metric.key]\<close>\<close>

definition metric_value :: "admin_metrics \<Rightarrow> string \<Rightarrow> nat option" where
  "metric_value m key = al_get key
    [(''activeUsers'', activeUsers m), (''certificatesTotal'', certificatesTotal m),
     (''certificatesExpiring7d'', certificatesExpiring7d m), (''jobsQueued'', jobsQueued m),
     (''failedExecutions24h'', failedExecutions24h m), (''invalidCloudCredentials'', invalidCloudCredentials m)]"

definition HealthTag :: "string \<Rightarrow> string \<Rightarrow> label \<Rightarrow> chart_event view" where
  "HealthTag i tone child = El (''Tag admin-health-tag-'' @ tone) [Txt child]"

definition hasCriticalRisk :: "admin_metrics \<Rightarrow> bool" where
  "hasCriticalRisk m \<longleftrightarrow>
     failedExecutions24h m > 0 \<or> certificatesExpiring7d m > 0 \<or> invalidCloudCredentials m > 0 \<or>
     invalidDNSAccounts m > 0 \<or> invalidACMEAccounts m > 0"

definition invalidResources :: "admin_metrics \<Rightarrow> nat" where
  "invalidResources m = invalidCloudCredentials m + invalidDNSAccounts m + invalidACMEAccounts m"

definition risk_banner :: "admin_metrics \<Rightarrow> chart_event view" where
  "risk_banner m =
     show_if (hasCriticalRisk m)
       (El ''div role=alert''
         [Txt (Tr ''admin.riskBanner''
            [(''expiring'', nat_digits (certificatesExpiring7d m)), (''failed'', nat_digits (failedExecutions24h m))]),
          Button (Tr ''admin.viewFailedExecutions'' []) False (CGo ''/executions'')])"

definition health_strip :: "admin_metrics \<Rightarrow> chart_event view" where
  "health_strip m =
     El ''section''
      [Txt (Tr ''admin.systemHealth'' []),
       HealthTag ''database-ready'' ''healthy'' (Tr ''admin.databaseReady'' []),
       HealthTag ''queue-state'' (if jobsQueued m > 0 then ''attention'' else ''healthy'')
         (Tr ''admin.queueState'' [(''queued'', nat_digits (jobsQueued m)), (''running'', nat_digits (jobsRunning m))]),
       HealthTag ''smtp-state'' (if smtpConfigured m then ''healthy'' else ''attention'')
         (Tr (if smtpConfigured m then ''admin.smtpConfigured'' else ''admin.smtpUnconfigured'') []),
       HealthTag ''resource-state'' (if invalidResources m > 0 then ''danger'' else ''healthy'')
         (if invalidResources m > 0 then Tr ''admin.resourceIssues'' [(''count'', nat_digits (invalidResources m))]
          else Tr ''admin.resourceHealthy'' [])]"

definition metric_card :: "(rat \<Rightarrow> string) \<Rightarrow> admin_metrics \<Rightarrow> metric_definition \<Rightarrow> chart_event view" where
  "metric_card rate m md =
     El (''Card metric-card-'' @ md_tone md)
      [Button (Tr (md_label md) []) False (CGo (md_href md)),
       Txt (case metric_value m (md_key md) of Some n \<Rightarrow> Raw (nat_digits n) | None \<Rightarrow> no_text),
       Txt (md_note md rate m)]"

definition or_label :: "string \<Rightarrow> label \<Rightarrow> label" where
  "or_label v l = (if v \<noteq> [] then Raw v else l)"

definition risk_row :: "locale_id \<Rightarrow> risk_certificate \<Rightarrow> chart_event view" where
  "risk_row l item =
     El ''Table.Row''
      [Txt (Raw (risk_name item)), show_if (risk_lastError item \<noteq> []) (Txt (Raw (risk_lastError item))),
       Txt (or_label (risk_ownerEmail item) (Tr ''admin.unassigned'' [])), StatusTag (risk_status item),
       Txt (if risk_notAfter item \<notin> {None, Some []} then formatDateTime (risk_notAfter item) l
         else Tr ''dashboard.pendingIssuance'' [])]"

definition failed_error :: "failed_execution \<Rightarrow> label" where
  "failed_error item =
     (let e = translateErrorCode (fail_errorCode item) (fail_error item)
      in if shown e then e else Tr ''admin.noErrorDetail'' [])"

definition failed_row :: "locale_id \<Rightarrow> failed_execution \<Rightarrow> chart_event view" where
  "failed_row l item =
     El ''Table.Row''
      [Txt (or_label (fail_certificate item) (admin_executionLabel (fail_kind item))), Txt (failed_error item),
       Txt (or_label (fail_ownerEmail item) (Tr ''admin.unassigned'' [])), Txt (formatDateTime (fail_startedAt item) l)]"

definition owner_row :: "locale_id \<Rightarrow> resource_owner \<Rightarrow> chart_event view" where
  "owner_row l item =
     El ''Table.Row''
      [Txt (Raw (owner_email item)), Txt (Raw (nat_digits (owner_certificateCount item))),
       Txt (Raw (nat_digits (owner_automationCount item))), Txt (Raw (nat_digits (owner_failedExecutions30d item))),
       Txt (formatDateTime (owner_lastActiveAt item) l)]"

text \<open>A panel with a table, or with a sentence when there is no row.\<close>

definition admin_panel :: "string \<Rightarrow> string \<Rightarrow> string \<Rightarrow> string \<Rightarrow> string \<Rightarrow> string list \<Rightarrow> ('r \<Rightarrow> chart_event view) \<Rightarrow> 'r list \<Rightarrow> chart_event view" where
  "admin_panel title description href link none columns row items =
     El ''article''
      [El ''h2'' [Txt (Tr title [])], Txt (Tr description []), Button (Tr link []) False (CGo href),
       (if items = [] then El ''p'' [Txt (Tr none [])]
        else El ''Table'' [El ''Table.Header'' (map (\<lambda>c. Txt (Tr c [])) columns), El ''Table.Body'' (map row items)])]"

definition AdminDashboardOverview :: "(rat \<Rightarrow> string) \<Rightarrow> locale_id \<Rightarrow> admin_dashboard \<Rightarrow> chart_event view" where
  "AdminDashboardOverview rate l d =
     (let m = admin_metrics_of d
      in El ''div''
       [risk_banner m, health_strip m, El ''section'' (map (metric_card rate m) metricDefinitions), AdminDashboardCharts,
        admin_panel ''admin.riskCertificates'' ''admin.riskCertificatesDescription'' ''/certificates'' ''admin.viewCertificates''
          ''admin.noCertificateRisks'' [''admin.certificates'', ''admin.owner'', ''common.status'', ''dashboard.validity'']
          (risk_row l) (riskCertificates d),
        admin_panel ''admin.recentFailedExecutions'' ''admin.recentFailedExecutionsDescription'' ''/executions''
          ''dashboard.executionHistory'' ''admin.noFailedExecutions'' [''dashboard.task'', ''admin.owner'', ''admin.time'']
          (failed_row l) (admin_failedExecutions d),
        admin_panel ''admin.userDistribution'' ''admin.userDistributionDescription'' ''/settings'' ''admin.userManagement''
          ''admin.noUserResources''
          [''admin.owner'', ''admin.certificates'', ''admin.automations'', ''admin.failedThirtyDays'', ''admin.lastActive'']
          (owner_row l) (resourceOwners d)])"

end
