(* ===== verification/Dashboard.thy ===== *)
theory Dashboard
  imports Admin_Dashboard Query_Strings Server_Data
begin

text \<open>
  The personal dashboard, \<^verbatim>\<open>components/dashboard/personal-dashboard.tsx\<close>, the tabs of an administrator,
  \<^verbatim>\<open>components/dashboard/dashboard-view-tabs.tsx\<close>, and what \<^verbatim>\<open>app/dashboard/page.tsx\<close> renders.
  \<open>URLSearchParams\<close> is modelled on characters below 256, reading as in \<open>Query_Strings\<close>.
\<close>

subsection \<open>Personal dashboard\<close>

definition personal_metrics :: "(string \<times> (dashboard \<Rightarrow> nat) \<times> string \<times> string) list" where
  "personal_metrics =
    [(''dashboard.activeCertificates'', activeCertificates, ''dashboard.activeCertificatesNote'', ''healthy''),
     (''dashboard.expiringSoon'', expiringSoon, ''dashboard.expiringSoonNote'', ''attention''),
     (''dashboard.runningJobs'', runningJobs, ''dashboard.runningJobsNote'', ''active''),
     (''dashboard.failedExecutions'', failedExecutions, ''dashboard.failedExecutionsNote'', ''danger'')]"

definition personal_executionLabels :: "(string \<times> string) list" where
  "personal_executionLabels =
    [(''issue'', ''dashboard.execution.issue''), (''renew'', ''dashboard.execution.renew''),
     (''upload'', ''dashboard.execution.upload''), (''deploy'', ''dashboard.execution.deploy''),
     (''cleanup'', ''dashboard.execution.cleanup'')]"

definition personal_executionLabel :: "string \<Rightarrow> label" where
  "personal_executionLabel kind =
     Tr (case al_get kind personal_executionLabels of Some key \<Rightarrow> key | None \<Rightarrow> ''dashboard.task'') []"

definition DashboardEmptyState :: "label \<Rightarrow> label \<Rightarrow> chart_event view" where
  "DashboardEmptyState title description = ResourceEmptyState title (Some description) None None"

definition personal_certificate_row :: "locale_id \<Rightarrow> certificate \<Rightarrow> chart_event view" where
  "personal_certificate_row l c =
     El ''Table.Row''
      [Txt (Raw (cert_name c)), Txt (Raw (js_join '', '' (cert_domains c))), StatusTag (cert_status c),
       Txt (if notAfter c \<notin> {None, Some []} then formatDateTime (notAfter c) l else Tr ''dashboard.pendingIssuance'' [])]"

definition personal_execution_row :: "locale_id \<Rightarrow> execution \<Rightarrow> chart_event view" where
  "personal_execution_row l e =
     El ''Table.Row''
      [Txt (or_label (exec_certificate e) (personal_executionLabel (exec_kind e))), Txt (personal_executionLabel (exec_kind e)),
       StatusTag (exec_status e), Txt (formatDateTime_or (startedAt e) l (Tr ''dashboard.notStarted'' []))]"

definition personal_panel :: "string \<Rightarrow> string \<Rightarrow> string \<Rightarrow> string \<Rightarrow> chart_event view \<Rightarrow> string list \<Rightarrow> ('r \<Rightarrow> chart_event view) \<Rightarrow> 'r list \<Rightarrow> chart_event view" where
  "personal_panel title description href link none columns row items =
     El ''article''
      [El ''h2'' [Txt (Tr title [])], Txt (Tr description []), Button (Tr link []) False (CGo href),
       (if items = [] then none
        else El ''Table'' [El ''Table.Header'' (map (\<lambda>c. Txt (Tr c [])) columns), El ''Table.Body'' (map row items)])]"

definition PersonalDashboard :: "int \<Rightarrow> locale_id \<Rightarrow> dashboard \<Rightarrow> certificate list \<Rightarrow> execution list \<Rightarrow> automation_task list \<Rightarrow> chart_event view" where
  "PersonalDashboard now l d certificates executions automations =
     (let recentExecutions = slice 0 5 executions
      in El ''div''
       [El ''section'' (map (\<lambda>(title, value, note, tone). El (''Card metric-card-'' @ tone)
          [Txt (Tr title []), Txt (Raw (nat_digits (value d))), Txt (Tr note [])]) personal_metrics),
        DashboardCharts now certificates automations,
        personal_panel ''dashboard.certificateStatus'' ''dashboard.recentCertificates'' ''/certificates'' ''dashboard.viewAll''
          (DashboardEmptyState (Tr ''dashboard.noCertificates'' []) (Tr ''dashboard.noCertificatesDescription'' []))
          [''dashboard.name'', ''common.status'', ''dashboard.validity''] (personal_certificate_row l) (slice 0 5 certificates),
        personal_panel ''dashboard.recentExecutions'' ''dashboard.recentExecutionsDescription'' ''/executions'' ''dashboard.executionHistory''
          (DashboardEmptyState (Tr ''dashboard.noExecutions'' []) (Tr ''dashboard.noExecutionsDescription'' []))
          [''dashboard.task'', ''common.status'', ''dashboard.startedAt''] (personal_execution_row l) recentExecutions])"

definition DashboardAPIWarning :: "'e view" where
  "DashboardAPIWarning = El ''div'' [Txt (Tr ''dashboard.apiUnavailable'' [])]"

subsection \<open>Query strings as they are written\<close>

text \<open>\<open>URLSearchParams.toString()\<close>: the form encoding, in which a space is a plus sign.\<close>

definition form_char :: "char \<Rightarrow> string" where
  "form_char c =
     (if is_word_char c \<or> c \<in> set ''*-.'' then [c]
      else if c = CHR '' '' then ''+'' else concat (map percent (utf8 c)))"

definition form_text :: "string \<Rightarrow> string" where
  "form_text s = concat (map form_char s)"

definition params_text :: "(string \<times> string) list \<Rightarrow> string" where
  "params_text ps = js_join ''&'' (map (\<lambda>(k, v). form_text k @ ''='' @ form_text v) ps)"

text \<open>\<open>new URLSearchParams(text)\<close>\<close>

definition read_params :: "string \<Rightarrow> (string \<times> string) list" where
  "read_params s =
     (let t = (case s of c # r \<Rightarrow> if c = CHR ''?'' then r else s | [] \<Rightarrow> [])
      in map query_pair (filter (\<lambda>p. p \<noteq> []) (split_on (\<lambda>c. c = CHR ''&'') t)))"

subsection \<open>Tabs\<close>

definition view_key :: "dashboard_view \<Rightarrow> string" where
  "view_key v = (case v of SystemView \<Rightarrow> ''system'' | MineView \<Rightarrow> ''mine'')"

text \<open>What \<open>changeView\<close> hands to \<open>router.replace\<close>.\<close>

definition changeView :: "string \<Rightarrow> (string \<times> string) list \<Rightarrow> string \<Rightarrow> string" where
  "changeView pathname searchParams nextView =
     (let params = read_params (params_text searchParams);
          params' = (if nextView = ''system'' then al_delete ''view'' params else al_set ''view'' nextView params);
          query = params_text params'
      in if query \<noteq> [] then pathname @ ''?'' @ query else pathname)"

datatype dashboard_event = DTab string | DChart chart_event

definition DashboardViewTabs :: "dashboard_view \<Rightarrow> chart_event view list \<Rightarrow> dashboard_event view" where
  "DashboardViewTabs v children =
     El ''Tabs''
      [Choice (Tr ''dashboard.viewLabel'' []) (Some (view_key v)) False
         [(''system'', Tr ''dashboard.system'' [], False), (''mine'', Tr ''dashboard.mine'' [], False)] DTab,
       El ''Tabs.Panel'' (map (map_view DChart) children)]"

text \<open>The page for what its loader found.\<close>

definition dashboard_content :: "(rat \<Rightarrow> string) \<Rightarrow> int \<Rightarrow> locale_id \<Rightarrow> dashboard_page \<Rightarrow> dashboard_event view" where
  "dashboard_content rate now l p =
     (case p of
        AdminPage v result \<Rightarrow>
          DashboardViewTabs v
            [case result of None \<Rightarrow> DashboardAPIWarning | Some d \<Rightarrow> AdminDashboardOverview rate l d]
      | PersonalPage v failed d certificates executions automations \<Rightarrow>
          (let content = [show_if failed DashboardAPIWarning, PersonalDashboard now l d certificates executions automations]
           in case v of
                None \<Rightarrow> El [] (map (map_view DChart) content)
              | Some w \<Rightarrow> DashboardViewTabs w content))"

end
