(* ===== verification/Chart_Facts.thy ===== *)
theory Chart_Facts
  imports Charts
begin

text \<open>
  What the personal charts show: the expiry bars against the filters of the certificate list, the
  execution bars of each local day, the automation bar, and the palette as an external store.
\<close>

subsection \<open>Expiry bars\<close>

definition in_bucket :: "int \<Rightarrow> nat \<Rightarrow> certificate \<Rightarrow> bool" where
  "in_bucket now i c \<longleftrightarrow>
     (case notAfter c of None \<Rightarrow> False | Some v \<Rightarrow> v \<noteq> [] \<and> expiry_index (daysUntil now v) = Some i)"

lemma expiry_index_less: "expiry_index r = Some i \<Longrightarrow> i < 4"
  by (auto simp: expiry_index_def split: option.splits if_splits)

lemma length_count_expiry [simp]: "length (count_expiry now c bs) = length bs"
  by (simp add: count_expiry_def split: option.split)

lemma count_expiry_nth:
  "length bs = 4 \<Longrightarrow> i < 4 \<Longrightarrow> count_expiry now c bs ! i = bs ! i + (if in_bucket now i c then 1 else 0)"
  using expiry_index_less [of "daysUntil now _"]
  by (auto simp: count_expiry_def in_bucket_def nth_list_update split: option.splits)

lemma fold_count_expiry:
  "length bs = 4 \<Longrightarrow> i < 4 \<Longrightarrow> fold (count_expiry now) cs bs ! i = bs ! i + length (filter (in_bucket now i) cs)"
  by (induction cs arbitrary: bs) (auto simp: count_expiry_nth)

lemma length_fold_expiry [simp]: "length (fold (count_expiry now) cs bs) = length bs"
  by (induction cs arbitrary: bs) simp_all

lemma expiryCounts_nth: "i < 4 \<Longrightarrow> expiryCounts now cs ! i = length (filter (in_bucket now i) cs)"
  unfolding expiryCounts_def by (subst fold_count_expiry) (auto simp: expiryRanges_def nth_Cons' less_Suc_eq numeral_eq_Suc)

lemma length_expiryCounts: "length (expiryCounts now cs) = 4"
  by (simp add: expiryCounts_def expiryRanges_def)

lemma sum_buckets:
  "length (filter (in_bucket now i) cs) + length (filter (in_bucket now j) cs) = length (filter (\<lambda>c. in_bucket now i c \<or> in_bucket now j c) cs)"
  if "i \<noteq> j"
  using that by (induction cs) (auto simp: in_bucket_def split: option.splits)

lemma expiryCounts_list:
  "expiryCounts now cs = map (\<lambda>i. length (filter (in_bucket now i) cs)) [0..<4]"
  by (rule nth_equalityI) (simp_all add: length_expiryCounts expiryCounts_nth)

definition expiry_listed :: "int \<Rightarrow> certificate \<Rightarrow> bool" where
  "expiry_listed now c \<longleftrightarrow>
     (case notAfter c of
        None \<Rightarrow> False
      | Some v \<Rightarrow> v \<noteq> [] \<and> (case remaining_days now v of Some n \<Rightarrow> 0 \<le> n \<and> n \<le> 90 | None \<Rightarrow> True))"

lemma sum_all_buckets: "sum_list (expiryCounts now cs) = length (filter (expiry_listed now) cs)"
proof -
  have one: "(\<Sum>i\<leftarrow>[0..<4]. if in_bucket now i c then 1 else 0) = (if expiry_listed now c then 1 else (0 :: nat))" for c
    by (auto simp: in_bucket_def expiry_listed_def remaining_days_def daysUntil_def expiry_index_def upt_conv_Cons
        split: option.splits)
  show ?thesis
    unfolding expiryCounts_list
  proof (induction cs)
    case (Cons c cs)
    have "(\<Sum>i\<leftarrow>[0..<4]. length (filter (in_bucket now i) (c # cs))) =
        (\<Sum>i\<leftarrow>[0..<4]. if in_bucket now i c then 1 else 0) + (\<Sum>i\<leftarrow>[0..<4]. length (filter (in_bucket now i) cs))"
      by (simp add: sum_list_addf [symmetric] if_distrib [of length] if_distrib [of "\<lambda>n. n + _"] cong: if_cong)
    with Cons one [of c] show ?case by simp
  qed simp
qed

text \<open>
  C31. The expiry chart agrees with the certificate list: at one and the same time the first bar counts
  the certificates the list shows under its filter for 7 days, the first two bars together those under
  its filter for 30 days, and the number in the description is that of the certificates with 0 to 90
  days left, together with those whose date cannot be read (which the last bar counts).
\<close>

theorem expiry_chart_matches_list:
  "expiryCounts now cs ! 0 = length (filter (\<lambda>c. matchesExpiry now c ''7'') cs) \<and>
   expiryCounts now cs ! 0 + expiryCounts now cs ! 1 = length (filter (\<lambda>c. matchesExpiry now c ''30'') cs) \<and>
   expiryDescription (expiryCounts now cs) =
     Tr ''dashboard.expiryDescription'' [(''count'', nat_digits (length (filter (expiry_listed now) cs)))]"
proof -
  have seven: "in_bucket now 0 c = matchesExpiry now c ''7''" for c
    by (auto simp: in_bucket_def matchesExpiry_def remaining_days_def daysUntil_def expiry_index_def split: option.splits)
  have thirty: "(in_bucket now 0 c \<or> in_bucket now 1 c) = matchesExpiry now c ''30''" for c
    by (auto simp: in_bucket_def matchesExpiry_def remaining_days_def daysUntil_def expiry_index_def split: option.splits)
  have "foldl (\<lambda>t v. t + v) 0 xs = sum_list xs" for xs :: "nat list"
    by (simp add: fold_plus_sum_list_rev foldl_conv_fold add.commute [of _ "_ :: nat"])
  then show ?thesis
    using sum_buckets [of 0 1 now cs]
    by (simp add: expiryCounts_nth seven [symmetric] thirty [symmetric] expiryDescription_def sum_all_buckets)
qed

subsection \<open>Execution bars\<close>

lemma al_get_fold_set:
  "al_get k (fold (\<lambda>d. al_set (f d) v) ds m) = (if k \<in> f ` set ds then Some v else al_get k m)"
  by (induction ds arbitrary: m) auto

text \<open>An execution is counted for the local day on which it started.\<close>

definition started_on :: "zone \<Rightarrow> int \<Rightarrow> execution \<Rightarrow> bool" where
  "started_on z d e \<longleftrightarrow>
     (case startedAt e of
        None \<Rightarrow> False
      | Some v \<Rightarrow> v \<noteq> [] \<and> (case js_date v of Some t \<Rightarrow> local_day z t = d | None \<Rightarrow> False))"

definition active_status :: "string \<Rightarrow> bool" where
  "active_status st \<longleftrightarrow> st \<in> {''queued'', ''running'', ''waiting_user''}"

lemma count_execution_get:
  "al_get (localDateKey z (Some day)) (count_execution z e m) =
     (if started_on z (local_day z day) e
      then map_option (count_status (exec_status e)) (al_get (localDateKey z (Some day)) m)
      else al_get (localDateKey z (Some day)) m)"
proof (cases "startedAt e")
  case None
  then show ?thesis by (simp add: count_execution_def started_on_def)
next
  case (Some v)
  show ?thesis
  proof (cases "js_date v")
    case None
    with Some show ?thesis
      using localDateKey_invalid [of z day]
      by (auto simp: count_execution_def started_on_def Let_def split: option.splits)
  next
    case (Some t)
    with \<open>startedAt e = Some v\<close> show ?thesis
      using localDateKey_inject [of z t day]
      by (auto simp: count_execution_def started_on_def Let_def split: option.splits)
  qed
qed

definition counted :: "zone \<Rightarrow> int \<Rightarrow> (string \<Rightarrow> bool) \<Rightarrow> execution list \<Rightarrow> nat" where
  "counted z d P xs = length (filter (\<lambda>e. started_on z d e \<and> P (exec_status e)) xs)"

lemma fold_count_execution:
  assumes "al_get (localDateKey z (Some day)) m = Some it"
  shows "al_get (localDateKey z (Some day)) (fold (count_execution z) xs m) =
    Some \<lparr>it_succeeded = it_succeeded it + counted z (local_day z day) (\<lambda>st. st = ''succeeded'') xs,
      it_failed = it_failed it + counted z (local_day z day) (\<lambda>st. st = ''failed'') xs,
      it_active = it_active it + counted z (local_day z day) active_status xs\<rparr>"
  using assms
proof (induction xs arbitrary: m it)
  case Nil
  then show ?case by (simp add: counted_def)
next
  case (Cons e xs)
  show ?case
  proof (cases "started_on z (local_day z day) e")
    case True
    then have "al_get (localDateKey z (Some day)) (count_execution z e m) = Some (count_status (exec_status e) it)"
      using Cons.prems by (simp add: count_execution_get)
    from Cons.IH [OF this] True show ?thesis
      by (simp add: counted_def count_status_def active_status_def)
  next
    case False
    then have "al_get (localDateKey z (Some day)) (count_execution z e m) = Some it"
      using Cons.prems by (simp add: count_execution_get)
    from Cons.IH [OF this] False show ?thesis by (simp add: counted_def)
  qed
qed

lemma trend_days_local:
  assumes "keeps_days z"
  shows "map (local_day z) (trend_days z now) = map (\<lambda>i. local_day z now - 13 + int i) [0..<14]"
proof -
  have "local_day z (setDate z (getDate z t - 13 + k) t) = local_day z t - 13 + k" for t k
    using local_day_setDate [OF assms, of t "k - 13"] by (simp add: algebra_simps)
  then show ?thesis by (simp add: trend_days_def Let_def local_day_midnight [OF assms])
qed

text \<open>
  C32. The execution chart is exact: its fourteen columns are the local days up to today, in order, with
  the month and the day of each as its label; and each of its three bars counts the executions that
  started on that local day with that status (queued, running and waiting ones together), in every
  time zone, clock changes included, whose calendar skips no local day.
\<close>

theorem execution_trend_exact:
  assumes "keeps_days z"
  shows "chart_executionTrend z now xs =
    (let day = (\<lambda>i. local_day z now - 13 + int i);
         column = (\<lambda>P. map (\<lambda>i. counted z (day i) P xs) [0..<14])
     in \<lparr>tr_labels = map (\<lambda>i. case date_of_day (day i) of (y, m, n) \<Rightarrow> nat_digits m @ ''/'' @ int_string n) [0..<14],
         tr_succeeded = column (\<lambda>st. st = ''succeeded''), tr_failed = column (\<lambda>st. st = ''failed''),
         tr_active = column active_status\<rparr>)"
proof -
  let ?days = "trend_days z now"
  have start: "al_get (localDateKey z (Some d)) (trend_counts z ?days) = Some \<lparr>it_succeeded = 0, it_failed = 0, it_active = 0\<rparr>"
    if "d \<in> set ?days" for d
    using that by (simp add: trend_counts_def al_get_fold_set)
  let ?counts = "fold (count_execution z) xs (trend_counts z ?days)"
  have val: "map (trend_value z it_succeeded ?counts) ?days = map (\<lambda>d. counted z d (\<lambda>st. st = ''succeeded'') xs) (map (local_day z) ?days)"
    "map (trend_value z it_failed ?counts) ?days = map (\<lambda>d. counted z d (\<lambda>st. st = ''failed'') xs) (map (local_day z) ?days)"
    "map (trend_value z it_active ?counts) ?days = map (\<lambda>d. counted z d active_status xs) (map (local_day z) ?days)"
    using fold_count_execution [OF start] by (auto simp: trend_value_def)
  have lab: "map (chartDateLabel z) ?days =
      map (\<lambda>d. case date_of_day d of (y, m, n) \<Rightarrow> nat_digits m @ ''/'' @ int_string n) (map (local_day z) ?days)"
    by (simp add: chartDateLabel_def)
  show ?thesis
    unfolding chart_executionTrend_def Let_def val lab trend_days_local [OF assms] by simp
qed

text \<open>A zone eight hours ahead of UTC, as a concrete zone that keeps days.\<close>

definition zone_utc8 :: zone where
  "zone_utc8 = \<lparr>zn_local = (\<lambda>t. t + 28800000), zn_utc = (\<lambda>t. t - 28800000)\<rparr>"

lemma zone_utc8_days: "keeps_days zone_utc8"
  by (simp add: keeps_days_def zone_utc8_def)

definition trend_sample :: "execution list" where
  "trend_sample = [\<lparr>exec_id = ''e1'', exec_kind = ''renew'', exec_status = ''failed'', exec_trigger = [],
     exec_certificate = ''c'', exec_target = [], startedAt = Some ''2026-03-10T20:00:00Z'', finishedAt = None,
     errorCode = [], exec_error = []\<rparr>]"

text \<open>Shown at noon UTC of 11 March 2026; the execution of 20:00 UTC the day before is on the same local day.\<close>

lemma execution_trend_exact_witness:
  "tr_failed (chart_executionTrend zone_utc8 1773230400000 trend_sample) = [0, 0, 0, 0, 0, 0, 0, 0, 0, 0, 0, 0, 0, 1] \<and>
   last (tr_labels (chart_executionTrend zone_utc8 1773230400000 trend_sample)) = ''3/11''"
proof -
  have day: "local_day zone_utc8 1773230400000 = 20523" by code_simp
  have dates: "date_of_day 20523 = (2026, 3, 11)" by code_simp
  have txt3: "nat_digits 3 @ CHR ''/'' # int_string 11 = ''3/11''" by code_simp
  have "map (\<lambda>i. counted zone_utc8 (20523 - 13 + int i) (\<lambda>st. st = ''failed'') trend_sample) [0..<14] =
      [0, 0, 0, 0, 0, 0, 0, 0, 0, 0, 0, 0, 0, 1]" by code_simp
  then show ?thesis
    unfolding execution_trend_exact [OF zone_utc8_days] day Let_def by (simp add: upt_conv_Cons dates txt3)
qed

subsection \<open>Automation bar\<close>

lemma health_counts:
  "chart_automationHealth ts =
    \<lparr>healthy = length (filter (\<lambda>t. enabled t \<and> lastStatus t \<noteq> ''failed'') ts),
     paused = length (filter (\<lambda>t. \<not> enabled t) ts),
     attention = length (filter (\<lambda>t. enabled t \<and> lastStatus t = ''failed'') ts)\<rparr>"
proof -
  let ?step = "\<lambda>summary t. if \<not> enabled t then summary\<lparr>paused := paused summary + 1\<rparr>
        else if lastStatus t = ''failed'' then summary\<lparr>attention := attention summary + 1\<rparr>
        else summary\<lparr>healthy := healthy summary + 1\<rparr>"
  have "foldl ?step h ts =
    \<lparr>healthy = healthy h + length (filter (\<lambda>t. enabled t \<and> lastStatus t \<noteq> ''failed'') ts),
     paused = paused h + length (filter (\<lambda>t. \<not> enabled t) ts),
     attention = attention h + length (filter (\<lambda>t. enabled t \<and> lastStatus t = ''failed'') ts)\<rparr>" for h :: automation_health
    by (induction ts arbitrary: h) auto
  then show ?thesis by (simp add: chart_automationHealth_def)
qed

text \<open>The three bars are stacked to the end of the axis, which is one long when there is no task.\<close>

lemma health_bar_fills:
  "healthy (chart_automationHealth ts) + paused (chart_automationHealth ts) + attention (chart_automationHealth ts) = length ts \<and>
   js_at [''xAxis'', ''max''] (automationOption p (chart_automationHealth ts) (length ts)) = js_nat (max (length ts) 1)"
proof -
  have "healthy (chart_automationHealth ts) + paused (chart_automationHealth ts) + attention (chart_automationHealth ts) = length ts"
    unfolding health_counts by (induction ts) auto
  then show ?thesis by (simp add: automationOption_def)
qed

subsection \<open>The palette as a store\<close>

text \<open>
  React compares the snapshots of a store by identity and renders again when they differ. A second
  read with the same styles gives the same object, so reading does not make React render for ever; and
  from the first read in the browser on the charts are drawn.
\<close>

lemma palette_snapshot_stable:
  "readChartPalette styles (snd (readChartPalette styles s)) = readChartPalette styles s"
  by (simp add: readChartPalette_def Let_def)

lemma palette_signature_nonempty: "palette_signature p \<noteq> []"
  by (simp add: palette_signature_def)

lemma palette_ready:
  assumes "browserPaletteSignature s = [] \<or> fst (browserPalette s) \<noteq> 0"
  shows "chart_ready (fst (readChartPalette styles s)) \<and>
    (browserPaletteSignature (snd (readChartPalette styles s)) = [] \<or> fst (browserPalette (snd (readChartPalette styles s))) \<noteq> 0)"
  using assms palette_signature_nonempty [of "css_palette styles"]
  by (auto simp: readChartPalette_def chart_ready_def Let_def)

end
