(* ===== verification/Dashboard_Facts.thy ===== *)
theory Dashboard_Facts
  imports Dashboard Chart_Facts Shell
begin

text \<open>
  The tabs of the dashboard against its loader, with the round trip of \<open>URLSearchParams\<close> they rest on, and
  what the administrator's overview raises an alarm for.
\<close>

subsection \<open>Writing and reading a query\<close>

abbreviation plus_space :: "string \<Rightarrow> string" where
  "plus_space \<equiv> map (\<lambda>c. if c = CHR ''+'' then CHR '' '' else c)"

lemma percent_no_plus: "n < 256 \<Longrightarrow> plus_space (percent n) = percent n"
proof -
  assume "n < 256"
  then have h: "n div 16 < 16" "n mod 16 < 16" by (auto intro: less_mult_imp_div_less)
  have "hex_digit k \<noteq> CHR ''+''" if "k < 16" for k
    using hex_digit_word [OF that] by (auto simp: is_word_char_def code_def)
  then show ?thesis using h by (simp add: percent_def)
qed

lemma utf8_less: "n \<in> set (utf8 c) \<Longrightarrow> n < 256"
  using code_div [of c] by (auto simp: utf8_def split: if_splits)

lemma percent_bytes_concat: "\<forall>n\<in>set ns. n < 256 \<Longrightarrow> percent_bytes (concat (map percent ns) @ s) = ns @ percent_bytes s"
  by (induction ns) (simp_all add: percent_bytes_percent)

lemma plus_space_concat: "\<forall>n\<in>set ns. n < 256 \<Longrightarrow> plus_space (concat (map percent ns)) = concat (map percent ns)"
  by (induction ns) (auto simp del: map_map simp: percent_no_plus)

lemma percent_bytes_form: "percent_bytes (plus_space (form_char c) @ s) = utf8 c @ percent_bytes s"
proof (cases "is_word_char c \<or> c \<in> set ''*-.''")
  case True
  then have "c \<noteq> CHR 0x25" "c \<noteq> CHR ''+''" "code c < 128" by (auto simp: is_word_char_def code_def)
  with True show ?thesis by (simp add: form_char_def utf8_def percent_bytes_plain)
next
  case False
  show ?thesis
  proof (cases "c = CHR '' ''")
    case True
    then show ?thesis by (simp add: form_char_def utf8_def percent_bytes_plain is_word_char_def code_def)
  next
    case False
    have l: "\<forall>n\<in>set (utf8 c). n < 256" using utf8_less by blast
    with False \<open>\<not> (is_word_char c \<or> c \<in> set ''*-.'')\<close> show ?thesis
      unfolding form_char_def by (simp only: if_False plus_space_concat [OF l] percent_bytes_concat [OF l])
  qed
qed

lemma decode_form: "decode_component (form_text s) = s"
proof -
  have "percent_bytes (plus_space (form_text s)) = concat (map utf8 s)"
    by (induction s) (simp_all del: map_map add: form_text_def percent_bytes_form)
  moreover have "utf8_chars (concat (map utf8 s)) = s"
    by (induction s) (simp_all add: utf8_chars_utf8)
  ultimately show ?thesis by (simp add: decode_component_def)
qed

lemma percent_set: "e \<in> set (percent n) \<Longrightarrow> n < 256 \<Longrightarrow> encoded_char e"
proof -
  assume e: "e \<in> set (percent n)" and "n < 256"
  then have "n div 16 < 16" by (intro less_mult_imp_div_less) simp
  with e show "encoded_char e"
    using hex_digit_word [of "n div 16"] hex_digit_word [of "n mod 16"] by (auto simp: percent_def encoded_char_def)
qed

lemma form_char_set: "d \<in> set (form_char c) \<Longrightarrow> encoded_char d \<or> d = CHR ''+'' \<or> d = CHR ''*''"
proof (cases "is_word_char c \<or> c \<in> set ''*-.''")
  case True
  moreover assume "d \<in> set (form_char c)"
  ultimately show ?thesis by (auto simp: form_char_def encoded_char_def)
next
  case False
  assume d: "d \<in> set (form_char c)"
  show ?thesis
  proof (cases "c = CHR '' ''")
    case True
    with d False show ?thesis by (simp add: form_char_def)
  next
    case space: False
    have "form_char c = concat (map percent (utf8 c))"
      unfolding form_char_def using False space by (simp only: if_False)
    with d obtain n where n: "n \<in> set (utf8 c)" "d \<in> set (percent n)" by auto
    from percent_set [OF n(2) utf8_less [OF n(1)]] show ?thesis by simp
  qed
qed

lemma form_text_chars:
  assumes "d \<in> set (form_text s)"
  shows "d \<noteq> CHR ''&'' \<and> d \<noteq> CHR ''='' \<and> d \<noteq> CHR ''?''"
proof -
  from assms obtain c where "d \<in> set (form_char c)" by (auto simp: form_text_def)
  from form_char_set [OF this] show ?thesis using encoded_char_special by auto
qed

definition pair_text :: "string \<times> string \<Rightarrow> string" where
  "pair_text p = form_text (fst p) @ ''='' @ form_text (snd p)"

lemma params_text_pairs: "params_text ps = js_join ''&'' (map pair_text ps)"
proof -
  have "(\<lambda>(k, v). form_text k @ ''='' @ form_text v) = pair_text" by (auto simp: pair_text_def)
  then show ?thesis by (simp only: params_text_def)
qed

lemma query_pair_text: "query_pair (pair_text p) = p"
proof -
  have k: "\<forall>c\<in>set (form_text (fst p)). c \<noteq> CHR ''=''" using form_text_chars by blast
  have "takeWhile (\<lambda>c. c \<noteq> CHR ''='') (pair_text p) = form_text (fst p)"
    "dropWhile (\<lambda>c. c \<noteq> CHR ''='') (pair_text p) = CHR ''='' # form_text (snd p)"
    using k by (simp_all add: pair_text_def takeWhile_append2 dropWhile_append2)
  then show ?thesis by (simp add: query_pair_def decode_form)
qed

lemma pair_text_chars: "\<forall>c\<in>set (pair_text p). c \<noteq> CHR ''&'' \<and> c \<noteq> CHR ''?''"
  using form_text_chars by (auto simp: pair_text_def)

lemma split_params:
  assumes "ps \<noteq> []"
  shows "filter (\<lambda>p. p \<noteq> []) (split_on (\<lambda>c. c = CHR ''&'') (params_text ps)) = map pair_text ps"
proof -
  have "split_on (\<lambda>c. c = CHR ''&'') (params_text ps) = map pair_text ps"
    unfolding params_text_pairs using assms pair_text_chars by (intro split_on_join) auto
  then show ?thesis by (simp add: pair_text_def filter_empty_conv)
qed

lemma params_text_Nil [simp]: "params_text [] = []" "params_text ps = [] \<longleftrightarrow> ps = []"
proof -
  show "params_text [] = []" by (simp add: params_text_def)
  show "params_text ps = [] \<longleftrightarrow> ps = []"
    by (cases ps; cases "tl ps") (auto simp: params_text_pairs pair_text_def js_join_Cons)
qed

text \<open>What \<open>toString\<close> writes is read back, by \<open>URLSearchParams\<close> and from a URL.\<close>

lemma query_pairs: "map query_pair (map pair_text ps) = ps"
  by (simp add: query_pair_text map_idI)

lemma params_text_no_question: "c \<in> set (params_text ps) \<Longrightarrow> c \<noteq> CHR ''?''"
proof -
  assume c: "c \<in> set (params_text ps)"
  have j: "set (js_join ''&'' ws) \<subseteq> insert (CHR ''&'') (\<Union> (set (map set ws)))" for ws
    by (induction "''&''" ws rule: js_join.induct) auto
  have "c = CHR ''&'' \<or> (\<exists>p. c \<in> set (pair_text p))"
    using c j [of "map pair_text ps"] unfolding params_text_pairs by auto
  then show ?thesis
  proof
    assume "\<exists>p. c \<in> set (pair_text p)"
    then show ?thesis using pair_text_chars by blast
  qed simp
qed

lemma read_params_text: "read_params (params_text ps) = ps"
proof -
  have t: "(case params_text ps of [] \<Rightarrow> [] | c # r \<Rightarrow> if c = CHR ''?'' then r else params_text ps) = params_text ps"
  proof (cases "params_text ps")
    case (Cons c r)
    then have "c \<noteq> CHR ''?''" using params_text_no_question [of c ps] by simp
    then show ?thesis unfolding Cons by simp
  qed simp
  show ?thesis
  proof (cases "ps = []")
    case True
    then show ?thesis by (simp add: read_params_def)
  next
    case False
    then show ?thesis unfolding read_params_def Let_def t split_params [OF False] by (simp only: query_pairs)
  qed
qed

lemma search_params_none: "\<forall>c\<in>set path. c \<noteq> CHR ''?'' \<Longrightarrow> search_params path = []"
proof -
  assume "\<forall>c\<in>set path. c \<noteq> CHR ''?''"
  then have d: "dropWhile (\<lambda>c. c \<noteq> CHR ''?'') path = []" by simp
  show ?thesis unfolding search_params_def d by simp
qed

lemma search_params_text:
  assumes "\<forall>c\<in>set path. c \<noteq> CHR ''?''" "ps \<noteq> []"
  shows "search_params (path @ CHR ''?'' # params_text ps) = ps"
proof -
  have d: "dropWhile (\<lambda>c. c \<noteq> CHR ''?'') (path @ CHR ''?'' # params_text ps) = CHR ''?'' # params_text ps"
    using assms(1) by (simp add: dropWhile_append2)
  show ?thesis
    unfolding search_params_def d drop_Suc_Cons drop_0 One_nat_def split_params [OF assms(2)] by (simp only: query_pairs)
qed

text \<open>So the URL that a tab goes to carries exactly the changed parameters.\<close>

lemma changeView_params:
  assumes "\<forall>c\<in>set path. c \<noteq> CHR ''?''"
  shows "search_params (changeView path ps v) =
    (if v = ''system'' then al_delete ''view'' ps else al_set ''view'' v ps)"
proof -
  let ?ps = "if v = ''system'' then al_delete ''view'' ps else al_set ''view'' v ps"
  have "changeView path ps v = (if ?ps \<noteq> [] then path @ CHR ''?'' # params_text ?ps else path)"
    by (simp add: changeView_def read_params_text Let_def)
  then show ?thesis
    using search_params_text [OF assms, of ?ps] search_params_none [OF assms] by (cases "?ps = []") simp_all
qed

subsection \<open>Tabs\<close>

lemma tab_offered: "DTab k \<in> offered (DashboardViewTabs v children) \<longleftrightarrow> k \<in> {''system'', ''mine''}"
  by (auto simp: DashboardViewTabs_def offered_map_view)

lemma DashboardPage_view:
  assumes "admin_user c srv w"
  shows "case fst (DashboardPage c srv vw w) of
      AdminPage u result \<Rightarrow> vw \<noteq> Some ''mine'' \<and> u = SystemView
    | PersonalPage u failed d cs es ts \<Rightarrow> vw = Some ''mine'' \<and> u = Some MineView"
  using assms unfolding DashboardPage_def case_prod_beta Let_def getCurrentUser_admin
  by (cases "vw = Some ''mine''") simp_all

text \<open>
  C33. A tab shows what it names: for an administrator, the URL a tab of the dashboard goes to keeps every
  other parameter of the page, and the page the server renders for it is the one of that tab, the
  system-wide dashboard under the tab of the system, the personal one under the other.
\<close>

theorem dashboard_tab_shows_view:
  assumes "\<forall>ch\<in>set path. ch \<noteq> CHR ''?''" "admin_user c srv w" "DTab k \<in> offered (DashboardViewTabs v children)"
  shows "(\<forall>name. name \<noteq> ''view'' \<longrightarrow> al_get name (search_params (changeView path ps k)) = al_get name ps) \<and>
    (case fst (DashboardPage c srv (al_get ''view'' (search_params (changeView path ps k))) w) of
       AdminPage u result \<Rightarrow> k = view_key SystemView \<and> u = SystemView
     | PersonalPage u failed d cs es ts \<Rightarrow> k = view_key MineView \<and> u = Some MineView)"
proof -
  have k: "k = ''system'' \<or> k = ''mine''" using assms(3) by (simp add: tab_offered)
  let ?vw = "al_get ''view'' (search_params (changeView path ps k))"
  have vw: "?vw = (if k = ''system'' then None else Some k)"
    by (simp add: changeView_params [OF assms(1)])
  have "case fst (DashboardPage c srv ?vw w) of
       AdminPage u result \<Rightarrow> k = view_key SystemView \<and> u = SystemView
     | PersonalPage u failed d cs es ts \<Rightarrow> k = view_key MineView \<and> u = Some MineView"
    using DashboardPage_view [OF assms(2), of ?vw] k vw
    by (cases "fst (DashboardPage c srv ?vw w)") (auto simp: view_key_def)
  then show ?thesis by (simp add: changeView_params [OF assms(1)])
qed

text \<open>A server that answers every request alike, with a user who is an administrator.\<close>

definition admin_server :: "unit server" where
  "admin_server = \<lparr>srv_fetch = (\<lambda>r w. (Replied \<lparr>status = 200, body = Some JNull\<rparr>, w)), srv_base = [],
     srv_jar = [], srv_jar_text = []\<rparr>"

definition admin_casts :: casts where
  "admin_casts = \<lparr>as_dashboard = (\<lambda>j. \<lparr>activeCertificates = 0, expiringSoon = 0, runningJobs = 0, failedExecutions = 0\<rparr>),
     as_user = (\<lambda>j. Some \<lparr>user_id = ''u'', user_email = ''a@b.io'', user_role = Admin, user_status = ''active''\<rparr>),
     as_admin_dashboard = (\<lambda>j. \<lparr>admin_metrics_of = \<lparr>activeUsers = 1, newUsers30d = 0, certificatesTotal = 0, certificatesIssued = 0,
        certificatesExpiring7d = 0, certificatesExpiring30d = 0, jobsQueued = 0, jobsRunning = 0, failedExecutions24h = 0,
        executionFailureRate30d = 0, invalidCloudCredentials = 0, invalidDNSAccounts = 0, invalidACMEAccounts = 0, smtpConfigured = True\<rparr>,
        executionTrend = [], expiryDistribution = [], automationHealth = \<lparr>healthy = 0, paused = 0, attention = 0\<rparr>,
        riskCertificates = [], admin_failedExecutions = [], resourceOwners = []\<rparr>),
     as_certificates = (\<lambda>j. []), as_executions = (\<lambda>j. []), as_credentials = (\<lambda>j. []), as_acme = (\<lambda>j. []), as_dns = (\<lambda>j. []),
     as_targets = (\<lambda>j. []), as_deployments = (\<lambda>j. []), as_automations = (\<lambda>j. [])\<rparr>"

lemma dashboard_tab_shows_view_witness:
  "case fst (DashboardPage admin_casts admin_server (al_get ''view'' (search_params (changeView ''/dashboard'' [(''view'', ''x''), (''a'', ''b c'')] ''mine''))) ()) of
     AdminPage u result \<Rightarrow> False
   | PersonalPage u failed d cs es ts \<Rightarrow> u = Some MineView"
proof -
  have p: "\<forall>ch\<in>set ''/dashboard''. ch \<noteq> CHR ''?''" by simp
  have a: "admin_user admin_casts admin_server ()"
    by (simp add: admin_user_def admin_server_def admin_casts_def resp_ok_def)
  have t: "DTab ''mine'' \<in> offered (DashboardViewTabs SystemView [])" by (simp add: tab_offered)
  define url where "url = changeView ''/dashboard'' [(''view'', ''x''), (''a'', ''b c'')] ''mine''"
  from dashboard_tab_shows_view [OF p a t, of "[(''view'', ''x''), (''a'', ''b c'')]"]
  show ?thesis unfolding url_def [symmetric]
    by (cases "fst (DashboardPage admin_casts admin_server (al_get ''view'' (search_params url)) ())") (simp_all add: view_key_def)
qed

subsection \<open>Alarms and links\<close>

text \<open>
  The banner is up exactly when something is about to expire, has failed or is invalid; but its text names
  only the first two, so an alarm for invalid resources alone reports nothing expiring and nothing failed.
\<close>

lemma risk_banner_texts:
  "shown_texts (risk_banner m) =
    (if failedExecutions24h m > 0 \<or> certificatesExpiring7d m > 0 \<or> invalidResources m > 0
     then {Tr ''admin.riskBanner'' [(''expiring'', nat_digits (certificatesExpiring7d m)), (''failed'', nat_digits (failedExecutions24h m))],
       Tr ''admin.viewFailedExecutions'' []} else {})"
  by (auto simp: risk_banner_def hasCriticalRisk_def invalidResources_def)

lemma offered_rows [simp]:
  "offered (risk_row l a) = {}" "offered (failed_row l b) = {}" "offered (owner_row l ow) = {}"
  "offered (personal_certificate_row l c) = {}" "offered (personal_execution_row l e) = {}"
  by (simp_all add: risk_row_def failed_row_def owner_row_def personal_certificate_row_def personal_execution_row_def)

lemma offered_Txt_map: "offered_any (map (\<lambda>c. Txt (f c)) xs) = {}"
  by (induction xs) auto

lemma offered_rows_map: "(\<And>x. offered (row x) = {}) \<Longrightarrow> offered_any (map row xs) = {}"
  by (induction xs) auto

lemma offered_admin_panel: "(\<And>x. offered (row x) = {}) \<Longrightarrow> offered (admin_panel t d href l n cs row xs) = {CGo href}"
  by (simp add: admin_panel_def offered_Txt_map offered_rows_map)

lemma offered_personal_panel:
  "(\<And>x. offered (row x) = {}) \<Longrightarrow> offered none = {} \<Longrightarrow> offered (personal_panel t d href l none cs row xs) = {CGo href}"
  by (simp add: personal_panel_def offered_Txt_map offered_rows_map)

text \<open>Every link of the two dashboards leads to a page the navigation of its user has an item for.\<close>

lemma dashboard_links:
  "offered (AdminDashboardOverview rate l d) \<subseteq> CGo ` {''/settings'', ''/certificates'', ''/executions'', ''/cloud-credentials''}"
  "offered (PersonalDashboard now l dd cs es ts) = CGo ` {''/certificates'', ''/automations'', ''/executions''}"
proof -
  have "offered (risk_banner m) \<subseteq> {CGo ''/executions''}" "offered (health_strip m) = {}"
    "offered (metric_card rate m md) = {CGo (md_href md)}" for m md
    by (simp_all add: risk_banner_def health_strip_def HealthTag_def metric_card_def)
  then show "offered (AdminDashboardOverview rate l d) \<subseteq> CGo ` {''/settings'', ''/certificates'', ''/executions'', ''/cloud-credentials''}"
    by (auto simp: AdminDashboardOverview_def Let_def offered_admin_panel metricDefinitions_def AdminDashboardCharts_def)
  show "offered (PersonalDashboard now l dd cs es ts) = CGo ` {''/certificates'', ''/automations'', ''/executions''}"
    by (auto simp: PersonalDashboard_def Let_def offered_personal_panel DashboardEmptyState_def personal_metrics_def
        DashboardCharts_def ChartPanel_def)
qed

lemma dashboard_links_known:
  assumes "CGo href \<in> offered (PersonalDashboard now l dd cs es ts) \<or>
      CGo href \<in> offered (AdminDashboardOverview rate l d) \<and> Shell.isAdmin s"
  shows "href \<in> nav_href ` set (shell_items s)"
proof -
  have items: "nav_href ` set (shell_items s) =
      {''/certificates'', ''/automations'', ''/executions'', ''/cloud-credentials'', ''/acme-accounts'', ''/dns-accounts'',
       ''/dashboard'', ''/profile''} \<union> (if Shell.isAdmin s then {''/settings''} else {})"
    by (auto simp: shell_items_def navigation_def nav_resources_def dashboardItem_def profileItem_def settingsItem_def)
  from assms show ?thesis
  proof
    assume "CGo href \<in> offered (PersonalDashboard now l dd cs es ts)"
    then have "href \<in> {''/certificates'', ''/automations'', ''/executions''}" unfolding dashboard_links(2) by auto
    then show ?thesis unfolding items by auto
  next
    assume "CGo href \<in> offered (AdminDashboardOverview rate l d) \<and> Shell.isAdmin s"
    then have "href \<in> {''/settings'', ''/certificates'', ''/executions'', ''/cloud-credentials''}" "Shell.isAdmin s"
      using dashboard_links(1) [of rate l d] by auto
    then show ?thesis unfolding items by auto
  qed
qed

end
