(* ===== verification/Profile_Facts.thy ===== *)
theory Profile_Facts
  imports Profile
begin

text \<open>
  What the profile page may send and when, the three busy flags of its forms, and what a load does to an
  unsaved webhook.
\<close>

subsection \<open>What the page offers\<close>

definition pf_guard :: "profile_state \<Rightarrow> profile_event \<Rightarrow> bool" where
  "pf_guard s e =
     (case e of
        PChangePassword \<Rightarrow> \<not> pf_passwordPending s
      | PRevokeOthers \<Rightarrow> \<not> pf_sessionsPending s \<and> otherSessions s \<noteq> []
      | PSaveWebhook \<Rightarrow> \<not> pf_webhookPending s
      | PTestWebhook \<Rightarrow> \<not> pf_webhookPending s \<and> js_trim (wh_url (pf_webhook s)) \<noteq> []
      | PUrl v \<Rightarrow> \<not> pf_webhookPending s
      | PEnabled b \<Rightarrow> \<not> pf_webhookPending s
      | _ \<Rightarrow> True)"

lemma offered_unless [simp]:
  "offered (field_unless d l v f) = (if d then {} else range f)"
  "offered (check_unless d l b g) = (if d then {} else {g (\<not> b)})"
  by (simp_all add: field_unless_def check_unless_def)

lemma offered_profile_parts [simp]:
  "offered (ProfileHeading t d) = {}" "offered (profile_messages m err) = {}" "offered (profile_account u s) = {}"
  "offered (profile_session_item l x) = {}"
  by (simp_all add: ProfileHeading_def profile_messages_def profile_account_def profile_session_item_def)

lemma guard_profile_forms:
  "e \<in> offered (profile_password s) \<Longrightarrow> pf_guard s e" "e \<in> offered (profile_preferences s) \<Longrightarrow> pf_guard s e"
  by (auto simp: profile_password_def profile_preferences_def pf_guard_def split: if_splits)

lemma guard_profile_lists:
  "e \<in> offered (profile_sessions s) \<Longrightarrow> pf_guard s e" "e \<in> offered (profile_webhook s) \<Longrightarrow> pf_guard s e"
proof -
  have "offered_any (map (profile_session_item l) xs) = {}" for l xs by (induction xs) auto
  then show "e \<in> offered (profile_sessions s) \<Longrightarrow> pf_guard s e"
    by (auto simp: profile_sessions_def pf_guard_def split: if_splits)
  show "e \<in> offered (profile_webhook s) \<Longrightarrow> pf_guard s e"
    by (auto simp: profile_webhook_def Let_def pf_guard_def split: if_splits)
qed

lemma profile_offered:
  assumes "e \<in> offered (ProfilePage s) \<union> app_ambient profile_app s"
  shows "pf_guard s e"
proof (cases "e \<in> app_ambient profile_app s")
  case True
  then show ?thesis by (auto simp: profile_app_def pf_guard_def split: if_splits)
next
  case False
  then have "e \<in> offered (ProfilePage s)" using assms by simp
  then have "e = PRetry \<or> e \<in> offered (profile_password s) \<or> e \<in> offered (profile_sessions s) \<or>
      e \<in> offered (profile_preferences s) \<or> e \<in> offered (profile_webhook s)"
    by (auto simp: ProfilePage_def split: if_splits option.splits)
  then show ?thesis
    using guard_profile_forms [of e s] guard_profile_lists [of e s] by (auto simp: pf_guard_def)
qed

lemmas profile_simps = profile_app_def app.simps

subsection \<open>The three busy flags\<close>

definition is_password :: "profile_call \<Rightarrow> bool" where
  "is_password k = (case k of KPassword a b c d \<Rightarrow> True | _ \<Rightarrow> False)"

definition is_revocation :: "profile_call \<Rightarrow> bool" where
  "is_revocation k = (case k of KRevokeOthers \<Rightarrow> True | KLoadProfile c \<Rightarrow> c = EndSessions | _ \<Rightarrow> False)"

definition is_webhook :: "profile_call \<Rightarrow> bool" where
  "is_webhook k = (case k of KSaveWebhook a b \<Rightarrow> True | KTestWebhook a \<Rightarrow> True | KLoadProfile c \<Rightarrow> c = EndWebhook | _ \<Rightarrow> False)"

lemma call_kinds [simp]:
  "is_password (KPassword a b c d)" "\<not> is_password (KLoadProfile x)" "\<not> is_password KRevokeOthers"
  "\<not> is_password (KSaveWebhook en u)" "\<not> is_password (KTestWebhook u)"
  "is_revocation KRevokeOthers" "is_revocation (KLoadProfile x) = (x = EndSessions)" "\<not> is_revocation (KPassword a b c d)"
  "\<not> is_revocation (KSaveWebhook en u)" "\<not> is_revocation (KTestWebhook u)"
  "is_webhook (KSaveWebhook en u)" "is_webhook (KTestWebhook u)" "is_webhook (KLoadProfile x) = (x = EndWebhook)"
  "\<not> is_webhook (KPassword a b c d)" "\<not> is_webhook KRevokeOthers"
  by (simp_all add: is_password_def is_revocation_def is_webhook_def)

lemma profile_loaded_flags [simp]:
  "pf_passwordPending (profile_loaded r s) = pf_passwordPending s"
  "pf_sessionsPending (profile_loaded r s) = pf_sessionsPending s"
  "pf_webhookPending (profile_loaded r s) = pf_webhookPending s"
  by (simp_all add: profile_loaded_def Let_def split: profile_reply.split fetched.split)

lemmas profile_handlers = changePassword_def clearSecurity_def revokeOtherSessions_def saveWebhook_def testWebhook_def
  webhook_start_def loadProfile_def

lemmas profile_replies = password_changed_def others_revoked_def webhook_saved_def webhook_tested_def load_ended_def loadProfile_def

lemma profile_event_flags:
  assumes "pf_guard s e" "profile_handle e s = (s', ks)"
  shows "filter is_password ks = [] \<and> pf_passwordPending s' = pf_passwordPending s \<or>
      \<not> pf_passwordPending s \<and> pf_passwordPending s' \<and> length (filter is_password ks) = 1"
    and "filter is_revocation ks = [] \<and> pf_sessionsPending s' = pf_sessionsPending s \<or>
      \<not> pf_sessionsPending s \<and> pf_sessionsPending s' \<and> length (filter is_revocation ks) = 1"
    and "filter is_webhook ks = [] \<and> pf_webhookPending s' = pf_webhookPending s \<or>
      \<not> pf_webhookPending s \<and> pf_webhookPending s' \<and> length (filter is_webhook ks) = 1"
  using assms
  by (cases e; auto simp: profile_handle_def profile_handlers pf_guard_def split: if_splits option.splits)+

lemma profile_reply_password:
  assumes "profile_resume k r s = (s', ks)"
  shows "filter is_password ks = [] \<and> pf_passwordPending s' = (pf_passwordPending s \<and> \<not> is_password k)"
  using assms
  by (cases k) (auto simp: profile_resume_def profile_replies Let_def split: sum.splits option.splits load_end.splits if_splits)

lemma profile_reply_sessions:
  assumes "profile_resume k r s = (s', ks)"
  shows "if is_revocation k then (filter is_revocation ks = [] \<and> \<not> pf_sessionsPending s' \<or>
      pf_sessionsPending s' = pf_sessionsPending s \<and> length (filter is_revocation ks) = 1)
    else filter is_revocation ks = [] \<and> pf_sessionsPending s' = pf_sessionsPending s"
  using assms
  by (cases k) (auto simp: profile_resume_def profile_replies Let_def split: sum.splits option.splits load_end.splits if_splits)

lemma profile_reply_webhook:
  assumes "profile_resume k r s = (s', ks)"
  shows "if is_webhook k then (filter is_webhook ks = [] \<and> \<not> pf_webhookPending s' \<or>
      pf_webhookPending s' = pf_webhookPending s \<and> length (filter is_webhook ks) = 1)
    else filter is_webhook ks = [] \<and> pf_webhookPending s' = pf_webhookPending s"
  using assms
  by (cases k) (auto simp: profile_resume_def profile_replies Let_def split: sum.splits option.splits load_end.splits if_splits)

interpretation password_flight: releasing_flight profile_app pf_passwordPending is_password
proof unfold_locales
  fix e s s' ks
  assume "e \<in> offered (app_view profile_app s) \<union> app_ambient profile_app s" "app_handle profile_app e s = (s', ks)"
  then have "pf_guard s e" "profile_handle e s = (s', ks)" by (auto intro!: profile_offered simp: profile_simps)
  from profile_event_flags(1) [OF this]
  show "filter is_password ks = [] \<and> pf_passwordPending s' = pf_passwordPending s \<or>
      \<not> pf_passwordPending s \<and> pf_passwordPending s' \<and> length (filter is_password ks) = 1" .
qed (use profile_reply_password in \<open>fastforce simp: profile_simps\<close>)+

interpretation sessions_flight: releasing_flight profile_app pf_sessionsPending is_revocation
proof unfold_locales
  fix e s s' ks
  assume "e \<in> offered (app_view profile_app s) \<union> app_ambient profile_app s" "app_handle profile_app e s = (s', ks)"
  then have "pf_guard s e" "profile_handle e s = (s', ks)" by (auto intro!: profile_offered simp: profile_simps)
  from profile_event_flags(2) [OF this]
  show "filter is_revocation ks = [] \<and> pf_sessionsPending s' = pf_sessionsPending s \<or>
      \<not> pf_sessionsPending s \<and> pf_sessionsPending s' \<and> length (filter is_revocation ks) = 1" .
qed (use profile_reply_sessions in \<open>fastforce simp: profile_simps split: if_splits\<close>)+

interpretation webhook_flight: releasing_flight profile_app pf_webhookPending is_webhook
proof unfold_locales
  fix e s s' ks
  assume "e \<in> offered (app_view profile_app s) \<union> app_ambient profile_app s" "app_handle profile_app e s = (s', ks)"
  then have "pf_guard s e" "profile_handle e s = (s', ks)" by (auto intro!: profile_offered simp: profile_simps)
  from profile_event_flags(3) [OF this]
  show "filter is_webhook ks = [] \<and> pf_webhookPending s' = pf_webhookPending s \<or>
      \<not> pf_webhookPending s \<and> pf_webhookPending s' \<and> length (filter is_webhook ks) = 1" .
qed (use profile_reply_webhook in \<open>fastforce simp: profile_simps split: if_splits\<close>)+

text \<open>
  C34. The profile page never has two requests of a kind waiting: at most one change of the password, at most
  one ending of sessions (the load after it included) and at most one saving or test of the webhook (the
  load after it included), and each of the three busy flags is up exactly while its request waits, so no form
  of the page is left disabled, whatever the replies, the language changes and the loads in between.
\<close>

theorem profile_mutations_single:
  assumes "ui_reach profile_app (profile_mount l t a) (s, q)"
  shows "length (filter is_password q) \<le> 1 \<and> pf_passwordPending s = (filter is_password q \<noteq> []) \<and>
    length (filter is_revocation q) \<le> 1 \<and> pf_sessionsPending s = (filter is_revocation q \<noteq> []) \<and>
    length (filter is_webhook q) \<le> 1 \<and> pf_webhookPending s = (filter is_webhook q \<noteq> [])"
  using password_flight.reach_flight [OF assms] password_flight.reach_busy [OF assms]
    sessions_flight.reach_flight [OF assms] sessions_flight.reach_busy [OF assms]
    webhook_flight.reach_flight [OF assms] webhook_flight.reach_busy [OF assms]
  by (simp add: profile_mount_def)

subsection \<open>What is sent\<close>

text \<open>
  C35. A profile request is sent only for what the page shows and allows: the password is changed by its
  form alone, to one of at least eight characters that was typed twice alike, with the choice about
  the other sessions as it is shown; the other sessions are ended only when one is listed; the webhook is saved as
  shown, with its URL trimmed, and tested only with a URL that is not blank; and nothing of it while
  a request of the same kind waits.
\<close>

theorem profile_requests_valid:
  assumes "e \<in> offered (app_view profile_app s) \<union> app_ambient profile_app s"
    and "app_handle profile_app e s = (s', ks)" "k \<in> set ks"
  shows "case k of
      KLoadProfile c \<Rightarrow> c = LoadOnly \<and> e \<in> {PLoadTimer, PRetry}
    | KPassword cur new rv u \<Rightarrow> e = PChangePassword \<and> \<not> pf_passwordPending s \<and> cur = pf_currentPassword s \<and>
        new = pf_newPassword s \<and> new = pf_confirmPassword s \<and> 8 \<le> length new \<and> rv = pf_revoke s
    | KRevokeOthers \<Rightarrow> e = PRevokeOthers \<and> \<not> pf_sessionsPending s \<and> list_ex (\<lambda>x. \<not> ps_isCurrent x) (pf_sessions s)
    | KSaveWebhook en u \<Rightarrow> e = PSaveWebhook \<and> \<not> pf_webhookPending s \<and> en = wh_enabled (pf_webhook s) \<and>
        u = js_trim (wh_url (pf_webhook s))
    | KTestWebhook u \<Rightarrow> e = PTestWebhook \<and> \<not> pf_webhookPending s \<and> u = js_trim (wh_url (pf_webhook s)) \<and> u \<noteq> []"
proof -
  have "pf_guard s e" using assms(1) by (intro profile_offered) (simp add: profile_simps)
  moreover have "filter P xs \<noteq> [] \<longleftrightarrow> list_ex P xs" for P and xs :: "profile_session list"
    by (induction xs) auto
  ultimately show ?thesis
    using assms(2,3) by (cases e) (auto simp: profile_simps profile_handle_def profile_handlers pf_guard_def otherSessions_def
        split: if_splits option.splits)
qed

definition profile_sample :: profile_state where
  "profile_sample = (fst (profile_mount En (fst (theme_mount Light True None))
     \<lparr>ac_document = None, ac_works = True, ac_stored = Some ''blue'', ac_cookie = None, ac_frame = False, ac_ready = True\<rparr>))
     \<lparr>pf_loading := False, pf_user := Some \<lparr>pu_email = ''a@b.io'', pu_role = ''user'', pu_status = ''active'',
        pu_mustChangePassword = True, pu_lastLoginAt = None, pu_createdAt = ''2026-01-01T00:00:00Z''\<rparr>,
      pf_newPassword := ''12345678'', pf_confirmPassword := ''12345678''\<rparr>"

lemma profile_requests_valid_witness:
  "snd (app_handle profile_app PChangePassword profile_sample) = [KPassword [] ''12345678'' True (pf_user profile_sample)] \<and>
   \<not> pf_passwordPending profile_sample"
proof
  have o: "PChangePassword \<in> offered (app_view profile_app profile_sample) \<union> app_ambient profile_app profile_sample"
    by (simp add: profile_simps ProfilePage_def profile_sample_def profile_mount_def profile_password_def)
  show k: "snd (app_handle profile_app PChangePassword profile_sample) = [KPassword [] ''12345678'' True (pf_user profile_sample)]"
    by (simp add: profile_simps profile_handle_def changePassword_def profile_sample_def profile_mount_def)
  obtain s' ks where h: "app_handle profile_app PChangePassword profile_sample = (s', ks)"
    by (cases "app_handle profile_app PChangePassword profile_sample")
  have "KPassword [] ''12345678'' True (pf_user profile_sample) \<in> set ks" using k h by simp
  from profile_requests_valid [OF o h this] show "\<not> pf_passwordPending profile_sample" by simp
qed

lemma profile_mutations_single_witness:
  "\<not> pf_webhookPending (fst (profile_mount En (fst (theme_mount Light True None)) (pf_accent profile_sample)))"
proof -
  let ?x = "profile_mount En (fst (theme_mount Light True None)) (pf_accent profile_sample)"
  have "?x = (fst ?x, [])" by (simp add: profile_mount_def)
  then have "ui_reach profile_app ?x (fst ?x, [])" using ui_reach.start by metis
  from profile_mutations_single [OF this] show ?thesis by simp
qed

subsection \<open>Loads and the unsaved webhook\<close>

text \<open>
  A load throws away the webhook that is being edited. Choosing another language makes the page load
  again, although nothing of the profile depends on it, and so does a change of the password that ends the
  other sessions; when the load is answered, the address and the switch of the webhook are those stored on the
  server, whatever was typed.
\<close>

theorem load_discards_webhook:
  assumes "l \<noteq> pf_locale s" "resp_ok a"
  shows "let s1 = fst (profile_handle (PLocale l) s);
        (s2, ks2) = profile_handle PLoadTimer s1;
        (s3, ks3) = password_changed True u (Answered a) s
      in PLoadTimer \<in> app_ambient profile_app s1 \<and> ks2 = [KLoadProfile LoadOnly] \<and> ks3 = [KLoadProfile LoadOnly] \<and>
         pf_webhook s2 = pf_webhook s \<and> pf_webhook s3 = pf_webhook s \<and>
         pf_webhook (fst (profile_resume (KLoadProfile LoadOnly) (LoadReplied (Got v) (Got w) x) s2)) = w \<and>
         pf_webhook (fst (profile_resume (KLoadProfile LoadOnly) (LoadReplied (Got v) (Got w) x) s3)) = w"
proof -
  have w: "pf_webhook (profile_loaded (LoadReplied (Got v) (Got w) x) s) = w" for s
    by (simp add: profile_loaded_def Let_def split: fetched.split)
  show ?thesis
    using assms
    by (simp add: profile_handle_def profile_resume_def profile_simps password_changed_def answer_def loadProfile_def
        load_ended_def w Let_def split: option.split)
qed

lemma load_discards_webhook_witness:
  "let s = profile_sample\<lparr>pf_webhook := no_webhook\<lparr>wh_url := ''https://hooks.example''\<rparr>\<rparr>;
       s2 = fst (profile_handle PLoadTimer (fst (profile_handle (PLocale ZhCN) s)))
   in wh_url (pf_webhook s2) = ''https://hooks.example'' \<and>
      pf_webhook (fst (profile_resume (KLoadProfile LoadOnly) (LoadReplied (Got None) (Got no_webhook) NotOk) s2)) = no_webhook"
proof -
  let ?s = "profile_sample\<lparr>pf_webhook := no_webhook\<lparr>wh_url := ''https://hooks.example''\<rparr>\<rparr>"
  have l: "ZhCN \<noteq> pf_locale ?s" by (simp add: profile_sample_def profile_mount_def)
  have r: "resp_ok \<lparr>status = 200, body = None\<rparr>" by (simp add: resp_ok_def)
  from load_discards_webhook [OF l r, of None None no_webhook NotOk] show ?thesis
    by (simp add: Let_def case_prod_beta)
qed

end
