(* ===== verification/Request_Chains.thy ===== *)
theory Request_Chains
  imports Certificate_List_Facts Certificate_Workflow Deployment_Editor_Facts Credentials Auth_Facts
    Notification_Facts Profile_Facts Shell_Facts
begin

text \<open>
  Every component of the console meets the contract \<open>ending_chains\<close>: its replies send only requests of less
  weight, so whatever is waiting, the replies alone come to an end.
\<close>

subsection \<open>Components whose replies send nothing\<close>

interpretation cloud_chains: ending_chains cloud_app "\<lambda>k. 1"
  by unfold_locales (auto simp: cloud_simps cc_resume_def)

interpretation acme_chains: ending_chains acme_app "\<lambda>k. 1"
  by unfold_locales (auto simp: acme_simps acme_resume_def)

interpretation workflow_chains: ending_chains workflow_app "\<lambda>k. 1"
  by unfold_locales (auto simp: wf_app_simps wf_resume_def split: wf_call.splits)

interpretation manual_chains: ending_chains manual_app "\<lambda>k. 1"
  by unfold_locales (auto simp: manual_app_def manual_resume_def split: manual_call.splits)

interpretation notification_chains: ending_chains notification_app "\<lambda>k. 1"
  by unfold_locales (auto simp: notification_app_def nc_resume_def split: nc_call.splits nc_reply.splits)

interpretation smtp_chains: ending_chains "smtp_app fr" "\<lambda>k. 1" for fr
proof unfold_locales
  fix r k s s' ks
  assume "app_resume (smtp_app fr) k r s = (s', ks)"
  then have "ks = []" using smtp_resume_calls [of k r s] by (simp add: smtp_simps)
  then show "sum_list (map (\<lambda>k. 1) ks) < (1 :: nat)" by simp
qed

subsection \<open>Session checks and forms\<close>

definition auth_weight :: "auth_call \<Rightarrow> nat" where
  "auth_weight k = (case k of KMe \<Rightarrow> 3 | KRefresh \<Rightarrow> 2 | _ \<Rightarrow> 1)"

interpretation login_chains: ending_chains login_app auth_weight
  by unfold_locales
    (auto simp: auth_simps login_resume_def checkSession_def auth_weight_def split: auth_call.splits auth_reply.splits if_splits)

interpretation register_chains: ending_chains register_app auth_weight
  by unfold_locales
    (auto simp: auth_simps register_resume_def checkSession_def auth_weight_def split: auth_call.splits auth_reply.splits if_splits)

definition shell_weight :: "shell_call \<Rightarrow> nat" where
  "shell_weight k = (case k of KCheck \<Rightarrow> 3 | KCheckRefresh \<Rightarrow> 2 | _ \<Rightarrow> 1)"

interpretation shell_chains: ending_chains shell_app shell_weight
  by unfold_locales
    (auto simp: shell_app_def shell_resume_def check_replied_def shell_weight_def split: shell_call.splits shell_reply.splits if_splits)

definition profile_weight :: "profile_call \<Rightarrow> nat" where
  "profile_weight k = (case k of KLoadProfile c \<Rightarrow> 1 | KTestWebhook u \<Rightarrow> 1 | _ \<Rightarrow> 2)"

interpretation profile_chains: ending_chains profile_app profile_weight
  by unfold_locales
    (auto simp: profile_simps profile_resume_def profile_replies profile_weight_def Let_def
      split: profile_call.splits sum.splits if_splits)

subsection \<open>Components with effects\<close>

definition cl_weight :: "cl_call \<Rightarrow> nat" where
  "cl_weight k = (case k of KDetail n i \<Rightarrow> 1 | _ \<Rightarrow> 2)"

interpretation certificate_chains: ending_chains certificate_list cl_weight
proof unfold_locales
  fix r k s s' ks
  assume r: "app_resume certificate_list k r s = (s', ks)"
  have same: "cl_selectedId (detail_loaded n i r s) = cl_selectedId s" for n i
    by (simp add: detail_loaded_def cl_selectedId_def split: cl_reply.split)
  have "ks = [] \<or> (\<exists>n i. ks = [KDetail n i] \<and> cl_selectedId (cl_continue k r s) \<noteq> cl_selectedId s)"
    using r by (auto simp: certificate_list_def cl_resume_def cl_commit_def Let_def split: if_splits option.splits)
  then show "sum_list (map cl_weight ks) < cl_weight k"
    using same by (cases k) (auto simp: cl_weight_def cl_continue_def)
qed

definition dns_weight :: "dns_call \<Rightarrow> nat" where
  "dns_weight k = (case k of LoadZones n c \<Rightarrow> 1 | _ \<Rightarrow> 2)"

interpretation dns_chains: ending_chains dns_app dns_weight
proof unfold_locales
  fix r k s s' ks
  assume r: "app_resume dns_app k r s = (s', ks)"
  have same: "snd (dns_commit s (zones_loaded n r s)) = []" for n
    by (simp add: dns_commit_def zones_loaded_def Let_def split: dns_reply.split)
  have one: "sum_list (map dns_weight (snd (dns_commit b t))) < 2" for b t
    by (simp add: dns_commit_def dns_weight_def Let_def)
  have ks: "ks = snd (dns_resume k r s)" using r by (simp add: dns_simps)
  show "sum_list (map dns_weight ks) < dns_weight k"
  proof (cases k)
    case (Mutation m)
    then have "dns_weight k = 2" by (simp add: dns_weight_def)
    then show ?thesis using ks Mutation one [of s] by (simp add: dns_resume_def)
  next
    case (LoadZones n c)
    then show ?thesis using ks same by (simp add: dns_resume_def dns_weight_def)
  qed
qed

definition dm_weight :: "dm_call \<Rightarrow> nat" where
  "dm_weight k =
     (case k of
        KSaveTask i y \<Rightarrow> 10
      | KReloadAfterSave \<Rightarrow> 5 | KReload \<Rightarrow> 5 | KRun i \<Rightarrow> 5 | KToggle t \<Rightarrow> 5 | KDeleteTask i ps \<Rightarrow> 5
      | _ \<Rightarrow> 1)"

lemma dm_commit_weight:
  "sum_list (map dm_weight (snd (dm_commit f b x))) \<le> sum_list (map dm_weight (snd x)) + 4"
  by (cases x) (simp add: dm_commit_def dm_weight_def Let_def split: option.split)

lemma dm_commit_same_ids:
  assumes "credentialId (dm_alb s) = credentialId (dm_alb b)" "regionId (dm_alb s) = regionId (dm_alb b)"
    "loadBalancerId (dm_alb s) = loadBalancerId (dm_alb b)" "automationDetail s = automationDetail b"
  shows "dm_commit (\<lambda>i. False) b (s, ks) = (s, ks)"
proof -
  have "\<not> detail_changed (\<lambda>i. False) b s"
    using assms(4) by (simp add: detail_changed_def split: option.split)
  then show ?thesis using assms(1-3) by (simp add: dm_commit_def Let_def split: option.split)
qed

lemma dm_effect_quiet:
  "dm_commit (\<lambda>i. False) s (regions_loaded n r s, []) = (regions_loaded n r s, [])"
  "dm_commit (\<lambda>i. False) s (balancers_loaded n r s, []) = (balancers_loaded n r s, [])"
  "dm_commit (\<lambda>i. False) s (listeners_loaded n r s, []) = (listeners_loaded n r s, [])"
  "dm_commit (\<lambda>i. False) s (runs_loaded n i r s, []) = (runs_loaded n i r s, [])"
  by (rule dm_commit_same_ids;
      simp add: dm_reply_defs effect_reply_def alb_failed_def showALBPermissionError_def automationDetail_def
        split: dm_reply.split alb_error.split)+

interpretation deployment_chains: ending_chains "deployment_app rd" dm_weight for rd
proof unfold_locales
  fix r k s s' ks
  assume r: "app_resume (deployment_app rd) k r s = (s', ks)"
  have ks: "ks = snd (dm_commit (replaced_tasks k r) s (dm_continue k r s))"
    using r by (simp add: deployment_app_def dm_resume_def)
  show "sum_list (map dm_weight ks) < dm_weight k"
  proof (cases "dm_weight k = 1")
    case True
    have "dm_commit (replaced_tasks k r) s (dm_continue k r s) = dm_continue k r s \<and> snd (dm_continue k r s) = []"
      using True dm_effect_quiet by (cases k) (simp_all add: dm_weight_def dm_continue_def replaced_tasks_def)
    then show ?thesis using ks True by simp
  next
    case False
    have "sum_list (map dm_weight (snd (dm_continue k r s))) + 5 \<le> dm_weight k"
      using False by (cases k) (auto simp: dm_weight_def dm_continue_def task_saved_def split: dm_reply.split)
    then show ?thesis using ks dm_commit_weight [of "replaced_tasks k r" s "dm_continue k r s"] by simp
  qed
qed

subsection \<open>Replies come to an end\<close>

text \<open>
  C37. Replies on their own never keep a component busy. Whatever requests are waiting and however each
  of them is answered, a run of replies with no action of the user between them ends: on the
  application shell and the forms of login and registration after at most three replies for each request that was waiting (the
  session check, its one refresh, its repetition), on the certificate list, the DNS accounts and the profile
  page after two, on the automation tasks after ten (a save, the reload and the requests of the effects),
  and on the managers of cloud credentials and ACME accounts after one.
\<close>

theorem replies_end:
  "(reply_run shell_app n (sa, qa) ya \<longrightarrow> n \<le> 3 * length qa) \<and>
   (reply_run login_app n (sb, qb) yb \<longrightarrow> n \<le> 3 * length qb) \<and>
   (reply_run register_app n (sc, qc) yc \<longrightarrow> n \<le> 3 * length qc) \<and>
   (reply_run certificate_list n (sd, qd) yd \<longrightarrow> n \<le> 2 * length qd) \<and>
   (reply_run dns_app n (se, qe) ye \<longrightarrow> n \<le> 2 * length qe) \<and>
   (reply_run profile_app n (sf, qf) yf \<longrightarrow> n \<le> 2 * length qf) \<and>
   (reply_run (deployment_app rd) n (sg, qg) yg \<longrightarrow> n \<le> 10 * length qg) \<and>
   (reply_run cloud_app n (sh, qh) yh \<longrightarrow> n \<le> length qh) \<and>
   (reply_run acme_app n (si, qi) yi \<longrightarrow> n \<le> length qi)"
proof (intro conjI impI)
  show "n \<le> 3 * length qa" if "reply_run shell_app n (sa, qa) ya"
    using shell_chains.run_ends [OF that, of 3] by (simp add: shell_weight_def split: shell_call.split)
  show "n \<le> 3 * length qb" if "reply_run login_app n (sb, qb) yb"
    using login_chains.run_ends [OF that, of 3] by (simp add: auth_weight_def split: auth_call.split)
  show "n \<le> 3 * length qc" if "reply_run register_app n (sc, qc) yc"
    using register_chains.run_ends [OF that, of 3] by (simp add: auth_weight_def split: auth_call.split)
  show "n \<le> 2 * length qd" if "reply_run certificate_list n (sd, qd) yd"
    using certificate_chains.run_ends [OF that, of 2] by (simp add: cl_weight_def split: cl_call.split)
  show "n \<le> 2 * length qe" if "reply_run dns_app n (se, qe) ye"
    using dns_chains.run_ends [OF that, of 2] by (simp add: dns_weight_def split: dns_call.split)
  show "n \<le> 2 * length qf" if "reply_run profile_app n (sf, qf) yf"
    using profile_chains.run_ends [OF that, of 2] by (simp add: profile_weight_def split: profile_call.split)
  show "n \<le> 10 * length qg" if "reply_run (deployment_app rd) n (sg, qg) yg"
    using deployment_chains.run_ends [OF that, of 10] by (simp add: dm_weight_def split: dm_call.split)
  show "n \<le> length qh" if "reply_run cloud_app n (sh, qh) yh"
    using cloud_chains.run_ends [OF that, of 1] by simp
  show "n \<le> length qi" if "reply_run acme_app n (si, qi) yi"
    using acme_chains.run_ends [OF that, of 1] by simp
qed

lemma next_reply:
  "reply_run a n x (s, [k]) \<Longrightarrow> r \<in> app_answers a k \<Longrightarrow> app_resume a k r s = (s', ks) \<Longrightarrow> reply_run a (Suc n) x (s', ks)"
  using reply_run.one_reply [of a n x s "[k]" k r s' ks] by simp

text \<open>The bound of the shell is met: an expired token, a refresh, and the check again.\<close>

lemma shell_three_replies: "\<exists>y. reply_run shell_app (Suc (Suc (Suc 0))) (s, [KCheck]) y"
proof -
  note steps = shell_app_def shell_resume_def check_replied_def shell_reply_of_def resp_ok_def
  have 1: "reply_run shell_app (Suc 0) (s, [KCheck]) (s, [KCheckRefresh])"
    by (rule next_reply [OF no_reply, where r = "shell_reply_of 401 None"]) (simp_all add: steps)
  have 2: "reply_run shell_app (Suc (Suc 0)) (s, [KCheck]) (s, [KCheckAgain])"
    by (rule next_reply [OF 1, where r = "shell_reply_of 200 None"]) (simp_all add: steps)
  have "reply_run shell_app (Suc (Suc (Suc 0))) (s, [KCheck]) (user_arrived None s, [])"
    by (rule next_reply [OF 2, where r = "shell_reply_of 200 None"]) (simp_all add: steps)
  then show ?thesis by blast
qed

lemma replies_end_witness:
  "(\<exists>y. reply_run shell_app 3 (fst (shell_mount ''/dashboard'' \<lparr>cur_locale = En, document_cookie = None, locale_refreshes = 0\<rparr>
      (fst (theme_mount Light True None))), [KCheck]) y) \<and>
   \<not> (\<exists>y. reply_run shell_app 4 (fst (shell_mount ''/dashboard'' \<lparr>cur_locale = En, document_cookie = None, locale_refreshes = 0\<rparr>
      (fst (theme_mount Light True None))), [KCheck]) y)"
proof -
  have "\<not> reply_run shell_app 4 (s, [KCheck]) y" for s y
    using replies_end [where n = 4 and sa = s and qa = "[KCheck]" and ya = y] by auto
  then show ?thesis using shell_three_replies by (simp add: numeral_3_eq_3)
qed

end
