(* ===== verification/Messages.thy ===== *)
theory Messages
  imports Texts
begin

text \<open>
  The dictionary of \<^verbatim>\<open>components/providers/locale-provider.tsx\<close>, both languages, in the order of the
  source. A text is written as JavaScript's \<open>unescape\<close> reads it: a character outside ASCII is \<open>%u\<close> with four
  hexadecimal digits, the percent sign is \<open>%25\<close>; the braces of the placeholders stand for themselves, so
  the interpolation is not affected. Then which placeholders each text has, and \<open>text_ok\<close>: a label
  is given every value that its text asks for, in both languages.
\<close>

subsection \<open>The dictionary\<close>

type_synonym message = "string \<times> string \<times> string"

definition messages_frame :: "message list" where
  "messages_frame =
    [(''nav.dashboard'', ''%u6982%u89C8'', ''Overview''),
     (''nav.resources'', ''%u57FA%u7840%u8D44%u6E90'', ''Resources''),
     (''nav.operations'', ''%u8BC1%u4E66%u8FD0%u7EF4'', ''Certificate Operations''),
     (''nav.credentials'', ''%u4E91%u51ED%u8BC1'', ''Cloud Credentials''),
     (''nav.acme'', ''ACME %u8D26%u6237'', ''ACME Accounts''),
     (''nav.dns'', ''DNS %u8D26%u6237'', ''DNS Accounts''),
     (''nav.certificates'', ''%u8BC1%u4E66'', ''Certificates''),
     (''nav.automations'', ''%u81EA%u52A8%u5316'', ''Automations''),
     (''nav.executions'', ''%u6267%u884C%u8BB0%u5F55'', ''Execution History''),
     (''nav.settings'', ''%u7CFB%u7EDF%u8BBE%u7F6E'', ''System Settings''),
     (''account.profile'', ''%u4E2A%u4EBA%u4E2D%u5FC3'', ''Profile''),
     (''account.logout'', ''%u9000%u51FA%u767B%u5F55'', ''Sign out''),
     (''account.admin'', ''%u7BA1%u7406%u5458'', ''Administrator''),
     (''account.user'', ''%u7528%u6237'', ''User''),
     (''language.change'', ''%u5207%u6362%u8BED%u8A00'', ''Change language''),
     (''language.zh-CN'', ''%u7B80%u4F53%u4E2D%u6587'', ''Simplified Chinese''),
     (''language.en'', ''English'', ''English''),
     (''navigation.home'', ''CertFlow %u9996%u9875'', ''CertFlow home''),
     (''navigation.collapseSidebar'', ''%u6536%u8D77%u4FA7%u680F'', ''Collapse sidebar''),
     (''navigation.expandSidebar'', ''%u5C55%u5F00%u4FA7%u680F'', ''Expand sidebar''),
     (''navigation.collapse'', ''%u6536%u8D77%u5BFC%u822A'', ''Collapse navigation''),
     (''navigation.expand'', ''%u5C55%u5F00%u5BFC%u822A'', ''Expand navigation''),
     (''navigation.main'', ''%u4E3B%u5BFC%u822A'', ''Main navigation''),
     (''theme.change'', ''%u5207%u6362%u4E3B%u9898'', ''Change theme''),
     (''theme.light'', ''%u6D45%u8272'', ''Light''),
     (''theme.dark'', ''%u6DF1%u8272'', ''Dark''),
     (''theme.system'', ''%u8DDF%u968F%u7CFB%u7EDF'', ''System'')]"

definition messages_auth :: "message list" where
  "messages_auth =
    [(''auth.loginTitle'', ''%u767B%u5F55%u63A7%u5236%u53F0'', ''Sign in to the console''),
     (''auth.loginSubtitle'', ''%u4F7F%u7528%u4F60%u7684 CertFlow %u8D26%u6237%u7EE7%u7EED%u3002'',
      ''Continue with your CertFlow account.''),
     (''auth.registerTitle'', ''%u521B%u5EFA%u8D26%u6237'', ''Create an account''),
     (''auth.registerSubtitle'', ''%u9A8C%u8BC1%u90AE%u7BB1%u540E%u5373%u53EF%u521B%u5EFA%u666E%u901A%u7528%u6237%u8D26%u6237%u3002'',
      ''Verify your email to create a standard user account.''),
     (''auth.email'', ''%u90AE%u7BB1'', ''Email''),
     (''auth.emailPlaceholder'', ''you@example.com'', ''you@example.com''),
     (''auth.password'', ''%u5BC6%u7801'', ''Password''),
     (''auth.passwordPlaceholder'', ''%u8F93%u5165%u5BC6%u7801'', ''Enter your password''),
     (''auth.confirmPassword'', ''%u786E%u8BA4%u5BC6%u7801'', ''Confirm password''),
     (''auth.code'', ''%u9A8C%u8BC1%u7801'', ''Verification code''),
     (''auth.codePlaceholder'', ''%u8F93%u5165 6 %u4F4D%u9A8C%u8BC1%u7801'', ''Enter the 6-digit code''),
     (''auth.passwordLogin'', ''%u5BC6%u7801%u767B%u5F55'', ''Password''),
     (''auth.codeLogin'', ''%u9A8C%u8BC1%u7801%u767B%u5F55'', ''Email code''),
     (''auth.methodLabel'', ''%u767B%u5F55%u65B9%u5F0F'', ''Sign-in method''),
     (''auth.rememberMe'', ''%u8BB0%u4F4F%u6211'', ''Remember me''),
     (''auth.rememberHint'', ''%u5728%u6B64%u8BBE%u5907%u4FDD%u6301%u767B%u5F55 30 %u5929'',
      ''Stay signed in on this device for 30 days''),
     (''auth.sendCode'', ''%u83B7%u53D6%u9A8C%u8BC1%u7801'', ''Send code''),
     (''auth.retryCode'', ''%u79D2%u540E%u91CD%u8BD5'', ''s to retry''),
     (''auth.login'', ''%u767B%u5F55'', ''Sign in''),
     (''auth.loggingIn'', ''%u6B63%u5728%u767B%u5F55'', ''Signing in''),
     (''auth.register'', ''%u6CE8%u518C%u5E76%u767B%u5F55'', ''Create account''),
     (''auth.registering'', ''%u6B63%u5728%u521B%u5EFA'', ''Creating account''),
     (''auth.showPassword'', ''%u663E%u793A%u5BC6%u7801'', ''Show password''),
     (''auth.hidePassword'', ''%u9690%u85CF%u5BC6%u7801'', ''Hide password''),
     (''auth.codeSent'', ''%u9A8C%u8BC1%u7801%u5DF2%u53D1%u9001%uFF0C%u8BF7%u67E5%u6536%u90AE%u7BB1%u3002'',
      ''The verification code was sent. Check your inbox.''),
     (''auth.invalidEmail'', ''%u8BF7%u8F93%u5165%u6709%u6548%u7684%u90AE%u7BB1%u5730%u5740'',
      ''Enter a valid email address''),
     (''auth.invalidCode'', ''%u8BF7%u8F93%u5165 6 %u4F4D%u9A8C%u8BC1%u7801'',
      ''Enter the 6-digit verification code''),
     (''auth.invalidEmailForCode'', ''%u8BF7%u8F93%u5165%u6709%u6548%u7684%u90AE%u7BB1%u5730%u5740%u540E%u518D%u83B7%u53D6%u9A8C%u8BC1%u7801'',
      ''Enter a valid email address before requesting a code''),
     (''auth.passwordMismatch'', ''%u4E24%u6B21%u8F93%u5165%u7684%u5BC6%u7801%u4E0D%u4E00%u81F4'',
      ''The passwords do not match''),
     (''auth.noAccount'', ''%u6CA1%u6709%u8D26%u6237%uFF1F'', ''No account?''),
     (''auth.registerLink'', ''%u90AE%u7BB1%u6CE8%u518C'', ''Create one''),
     (''auth.hasAccount'', ''%u5DF2%u6709%u8D26%u6237%uFF1F'', ''Already have an account?''),
     (''auth.loginLink'', ''%u767B%u5F55'', ''Sign in''),
     (''auth.requestFailed'', ''%u8BF7%u6C42%u5931%u8D25%uFF0C%u8BF7%u7A0D%u540E%u91CD%u8BD5'',
      ''Request failed. Try again.''),
     (''auth.loginTimeout'', ''%u767B%u5F55%u8BF7%u6C42%u8D85%u65F6%uFF0C%u8BF7%u7A0D%u540E%u91CD%u8BD5'',
      ''Sign-in timed out. Try again.''),
     (''auth.codeTimeout'', ''%u9A8C%u8BC1%u7801%u670D%u52A1%u54CD%u5E94%u8D85%u65F6%uFF0C%u8BF7%u7A0D%u540E%u91CD%u8BD5'',
      ''The code service timed out. Try again.''),
     (''auth.registerTimeout'', ''%u6CE8%u518C%u8BF7%u6C42%u8D85%u65F6%uFF0C%u8BF7%u7A0D%u540E%u91CD%u8BD5'',
      ''Registration timed out. Try again.''),
     (''auth.loginFailed'', ''%u767B%u5F55%u5931%u8D25'', ''Sign-in failed''),
     (''auth.sendFailed'', ''%u53D1%u9001%u5931%u8D25'', ''Unable to send''),
     (''auth.registerFailed'', ''%u6CE8%u518C%u5931%u8D25'', ''Registration failed''),
     (''auth.asideEyebrow'', ''%u8BC1%u4E66%u751F%u547D%u5468%u671F%u7BA1%u7406'',
      ''CERTIFICATE LIFECYCLE MANAGEMENT''),
     (''auth.asideTitle'', ''%u8BA9%u6BCF%u6B21%u8BC1%u4E66%u53D8%u66F4%uFF0C%u90FD%u6709%u8BB0%u5F55%u3002'',
      ''Keep every certificate change accounted for.''),
     (''auth.asideBody'', ''%u7EDF%u4E00%u7BA1%u7406%u7B7E%u53D1%u3001%u9A8C%u8BC1%u3001%u7EED%u671F%u4E0E%u90E8%u7F72%uFF0C%u7ED9%u8FD0%u7EF4%u56E2%u961F%u4E00%u6761%u6E05%u6670%u7684%u5DE5%u4F5C%u8DEF%u5F84%u3002'',
      ''A clear path for issuance, validation, renewal, and deployment.''),
     (''auth.asideFooter'', ''%u5B89%u5168%u8BBF%u95EE %u00B7 %u53EF%u8FFD%u6EAF%u6267%u884C'',
      ''Secure access %u00B7 Auditable execution'')]"

definition messages_profile :: "message list" where
  "messages_profile =
    [(''profile.appearance'', ''%u5916%u89C2%u504F%u597D'', ''Appearance''),
     (''profile.appearanceDescription'', ''%u9009%u62E9%u63A7%u5236%u53F0%u7684%u989C%u8272%u4E3B%u9898%uFF0C%u8BBE%u7F6E%u4F1A%u81EA%u52A8%u4FDD%u5B58%u5230%u5F53%u524D%u6D4F%u89C8%u5668%u3002'',
      ''Choose the console color theme. Your preference is saved in this browser.''),
     (''profile.theme'', ''%u4E3B%u9898'', ''Theme''),
     (''profile.themeColor'', ''%u4E3B%u9898%u8272'', ''Accent color''),
     (''profile.themeColorDescription'', ''%u9009%u62E9%u63A7%u5236%u53F0%u7684%u5F3A%u8C03%u8272%uFF0C%u8BBE%u7F6E%u4F1A%u81EA%u52A8%u4FDD%u5B58%u5230%u5F53%u524D%u6D4F%u89C8%u5668%u3002'',
      ''Choose the console accent color. Your preference is saved in this browser.''),
     (''profile.loading'', ''%u6B63%u5728%u52A0%u8F7D%u8D26%u6237%u4FE1%u606F'', ''Loading account information''),
     (''profile.loadFailed'', ''%u65E0%u6CD5%u52A0%u8F7D%u4E2A%u4EBA%u4E2D%u5FC3'',
      ''Could not load your profile''),
     (''profile.retry'', ''%u91CD%u65B0%u52A0%u8F7D'', ''Try again''),
     (''profile.account'', ''%u8D26%u6237%u6982%u89C8'', ''Account overview''),
     (''profile.accountDescription'', ''%u5F53%u524D%u767B%u5F55%u8EAB%u4EFD%u4E0E%u5B89%u5168%u72B6%u6001'',
      ''Your signed-in identity and security status''),
     (''profile.email'', ''%u767B%u5F55%u90AE%u7BB1'', ''Sign-in email''),
     (''profile.role'', ''%u8D26%u6237%u89D2%u8272'', ''Role''),
     (''profile.accountStatus'', ''%u8D26%u6237%u72B6%u6001'', ''Account status''),
     (''profile.accountActive'', ''%u6B63%u5E38'', ''Active''),
     (''profile.createdAt'', ''%u521B%u5EFA%u65F6%u95F4'', ''Created''),
     (''profile.lastLoginAt'', ''%u6700%u8FD1%u767B%u5F55'', ''Last sign-in''),
     (''profile.never'', ''%u6682%u65E0%u8BB0%u5F55'', ''No record yet''),
     (''profile.password'', ''%u5BC6%u7801%u4E0E%u4F1A%u8BDD'', ''Password and sessions''),
     (''profile.passwordDescription'', ''%u66F4%u65B0%u5BC6%u7801%u540E%uFF0C%u9ED8%u8BA4%u9000%u51FA%u5176%u4ED6%u5DF2%u767B%u5F55%u8BBE%u5907%u3002'',
      ''Changing your password signs out other devices by default.''),
     (''profile.currentPassword'', ''%u5F53%u524D%u5BC6%u7801'', ''Current password''),
     (''profile.newPassword'', ''%u65B0%u5BC6%u7801'', ''New password''),
     (''profile.confirmPassword'', ''%u786E%u8BA4%u65B0%u5BC6%u7801'', ''Confirm new password''),
     (''profile.passwordHint'', ''%u81F3%u5C11 8 %u4E2A%u5B57%u7B26%u3002'', ''Use at least 8 characters.''),
     (''profile.revokeOthers'', ''%u4FEE%u6539%u540E%u9000%u51FA%u5176%u4ED6%u5DF2%u767B%u5F55%u8BBE%u5907'',
      ''Sign out other signed-in devices after changing''),
     (''profile.savePassword'', ''%u4FDD%u5B58%u65B0%u5BC6%u7801'', ''Save new password''),
     (''profile.savingPassword'', ''%u6B63%u5728%u4FDD%u5B58'', ''Saving''),
     (''profile.passwordSaved'', ''%u5BC6%u7801%u5DF2%u4FEE%u6539%u3002'', ''Password updated.''),
     (''profile.passwordSavedWithSessions'', ''%u5BC6%u7801%u5DF2%u4FEE%u6539%uFF0C%u5DF2%u9000%u51FA {count} %u4E2A%u5176%u4ED6%u4F1A%u8BDD%u3002'',
      ''Password updated. Signed out {count} other sessions.''),
     (''profile.sessions'', ''%u5DF2%u767B%u5F55%u8BBE%u5907'', ''Signed-in devices''),
     (''profile.sessionsDescription'', ''%u67E5%u770B%u5F53%u524D%u4ECD%u53EF%u8BBF%u95EE%u6B64%u8D26%u6237%u7684%u6D4F%u89C8%u5668%u4F1A%u8BDD%u3002'',
      ''Review browsers that can still access this account.''),
     (''profile.currentSession'', ''%u5F53%u524D%u8BBE%u5907'', ''Current device''),
     (''profile.lastActive'', ''%u6700%u8FD1%u6D3B%u8DC3'', ''Last active''),
     (''profile.sessionExpires'', ''%u5230%u671F%u65F6%u95F4'', ''Expires''),
     (''profile.revokeOtherSessions'', ''%u9000%u51FA%u5176%u4ED6%u8BBE%u5907'', ''Sign out other devices''),
     (''profile.noOtherSessions'', ''%u6CA1%u6709%u5176%u4ED6%u5DF2%u767B%u5F55%u8BBE%u5907%u3002'',
      ''No other signed-in devices.''),
     (''profile.sessionsRevoked'', ''%u5DF2%u9000%u51FA {count} %u4E2A%u5176%u4ED6%u4F1A%u8BDD%u3002'',
      ''Signed out {count} other sessions.''),
     (''profile.notifications'', ''%u901A%u77E5%u6295%u9012'', ''Notification delivery''),
     (''profile.notificationsDescription'', ''%u7AD9%u5185%u901A%u77E5%u59CB%u7EC8%u4FDD%u7559%u3002%u90AE%u4EF6%u4E0E Webhook %u53EF%u540C%u6B65%u63A5%u6536%u6267%u884C%u7ED3%u679C%u3002'',
      ''In-app messages are always retained. Email and webhooks can receive execution results too.''),
     (''profile.webhookURL'', ''Webhook %u5730%u5740'', ''Webhook URL''),
     (''profile.webhookHint'', ''%u4EC5%u5141%u8BB8%u89E3%u6790%u5230%u516C%u7F51%u5730%u5740%u7684 HTTPS %u57DF%u540D%uFF0C%u4E14%u4F7F%u7528 443 %u7AEF%u53E3%u3002'',
      ''Only public HTTPS hostnames on port 443 are allowed.''),
     (''profile.enableWebhook'', ''%u542F%u7528 Webhook %u901A%u77E5'', ''Enable webhook notifications''),
     (''profile.testWebhook'', ''%u6D4B%u8BD5%u5F53%u524D%u5730%u5740'', ''Test current address''),
     (''profile.saveNotifications'', ''%u4FDD%u5B58%u901A%u77E5%u8BBE%u7F6E'', ''Save notification settings''),
     (''profile.savingNotifications'', ''%u6B63%u5728%u4FDD%u5B58'', ''Saving''),
     (''profile.webhookEnabled'', ''Webhook %u901A%u77E5%u5DF2%u542F%u7528%u3002'',
      ''Webhook notifications enabled.''),
     (''profile.webhookPaused'', ''Webhook %u901A%u77E5%u5DF2%u6682%u505C%u3002'',
      ''Webhook notifications paused.''),
     (''profile.webhookTestSent'', ''%u6D4B%u8BD5%u901A%u77E5%u5DF2%u53D1%u9001%u3002'',
      ''Test notification sent.''),
     (''profile.emailDelivery'', ''%u90AE%u4EF6%u6295%u9012'', ''Email delivery''),
     (''profile.emailAvailable'', ''%u7CFB%u7EDF%u90AE%u4EF6%u5DF2%u914D%u7F6E'', ''System email is configured''),
     (''profile.emailUnavailable'', ''%u7CFB%u7EDF%u90AE%u4EF6%u5C1A%u672A%u914D%u7F6E'',
      ''System email is not configured''),
     (''profile.webhookDelivery'', ''Webhook %u6295%u9012'', ''Webhook delivery''),
     (''profile.webhookNeverDelivered'', ''%u5C1A%u65E0%u6295%u9012%u8BB0%u5F55'', ''No delivery recorded yet''),
     (''profile.deliverySucceeded'', ''%u6700%u8FD1%u6295%u9012%u6210%u529F'', ''Last delivery succeeded''),
     (''profile.deliveryPending'', ''%u6B63%u5728%u91CD%u8BD5%u6295%u9012'', ''Delivery is being retried''),
     (''profile.deliveryFailed'', ''%u6700%u8FD1%u6295%u9012%u5931%u8D25'', ''Last delivery failed''),
     (''profile.saveFailed'', ''%u4FDD%u5B58%u5931%u8D25%uFF0C%u8BF7%u7A0D%u540E%u91CD%u8BD5%u3002'',
      ''Could not save. Try again.''),
     (''themeColor.teal'', ''%u9752%u7EFF%u8272'', ''Teal''),
     (''themeColor.blue'', ''%u79D1%u6280%u84DD'', ''Cobalt''),
     (''themeColor.violet'', ''%u6DF1%u7D2B%u8272'', ''Violet''),
     (''themeColor.orange'', ''%u5DE5%u7A0B%u6A59'', ''Orange'')]"

definition messages_common :: "message list" where
  "messages_common =
    [(''section.dashboard'', ''%u67E5%u770B%u8BC1%u4E66%u72B6%u6001%u3001%u90E8%u7F72%u60C5%u51B5%u4E0E%u8FD1%u671F%u4EFB%u52A1'',
      ''Monitor certificate status, deployments, and recent tasks''),
     (''section.credentials'', ''%u7BA1%u7406%u4E91%u670D%u52A1%u8BBF%u95EE%u51ED%u8BC1%u4E0E%u6743%u9650'',
      ''Manage cloud access credentials and permissions''),
     (''section.acme'', ''%u7BA1%u7406 ACME %u7B7E%u53D1%u8D26%u6237%u4E0E%u5BC6%u94A5'',
      ''Manage ACME issuer accounts and keys''),
     (''section.dns'', ''%u7BA1%u7406 DNS %u9A8C%u8BC1%u8D26%u6237%u4E0E%u53EF%u7528 Zone'',
      ''Manage DNS validation accounts and available zones''),
     (''section.certificates'', ''%u521B%u5EFA%u3001%u7B7E%u53D1%u3001%u7EED%u671F%u548C%u9A8C%u8BC1 TLS %u8BC1%u4E66'',
      ''Create, issue, renew, and validate TLS certificates''),
     (''section.automations'', ''%u914D%u7F6E%u7EED%u671F%u3001SSL %u4E0A%u4F20%u548C ALB %u66F4%u65B0%u4EFB%u52A1'',
      ''Configure renewal, SSL upload, and ALB update tasks''),
     (''section.executions'', ''%u8FFD%u8E2A%u7B7E%u53D1%u3001%u90E8%u7F72%u548C%u901A%u77E5%u4EFB%u52A1%u7684%u8FD0%u884C%u7ED3%u679C'',
      ''Track issuance, deployment, and notification runs''),
     (''section.settings'', ''%u914D%u7F6E%u7CFB%u7EDF%u90AE%u4EF6%u670D%u52A1%u4E0E%u7BA1%u7406%u9009%u9879'',
      ''Configure system email and administration options''),
     (''section.profile'', ''%u67E5%u770B%u8D26%u6237%u4FE1%u606F%u5E76%u7EF4%u62A4%u767B%u5F55%u5B89%u5168'',
      ''Review account details and sign-in security''),
     (''common.name'', ''%u540D%u79F0'', ''Name''),
     (''common.description'', ''%u63CF%u8FF0'', ''Description''),
     (''common.status'', ''%u72B6%u6001'', ''Status''),
     (''common.createdAt'', ''%u521B%u5EFA%u65F6%u95F4'', ''Created''),
     (''common.actions'', ''%u64CD%u4F5C'', ''Actions''),
     (''common.details'', ''%u8BE6%u60C5'', ''Details''),
     (''common.close'', ''%u5173%u95ED'', ''Close''),
     (''common.cancel'', ''%u53D6%u6D88'', ''Cancel''),
     (''common.moreActions'', ''%u66F4%u591A%u64CD%u4F5C'', ''More actions''),
     (''common.search'', ''%u641C%u7D22'', ''Search''),
     (''common.noResults'', ''%u6CA1%u6709%u5339%u914D%u7684%u7ED3%u679C%u3002'', ''No matching results.''),
     (''common.verify'', ''%u9A8C%u8BC1'', ''Verify''),
     (''common.enable'', ''%u542F%u7528'', ''Enable''),
     (''common.disable'', ''%u7981%u7528'', ''Disable''),
     (''common.refresh'', ''%u5237%u65B0'', ''Refresh''),
     (''common.retry'', ''%u91CD%u8BD5'', ''Retry''),
     (''common.showing'', ''%u663E%u793A {start}-{end} / %u5171 {total} %u6761'',
      ''Showing {start}-{end} of {total}''),
     (''common.perPage'', ''%u6BCF%u9875'', ''Per page''),
     (''common.pageSize'', ''%u6BCF%u9875%u663E%u793A%u6570%u91CF'', ''Items per page''),
     (''common.items'', ''{count} %u6761'', ''{count} items''),
     (''common.previousPage'', ''%u4E0A%u4E00%u9875'', ''Previous page''),
     (''common.nextPage'', ''%u4E0B%u4E00%u9875'', ''Next page''),
     (''common.apiUnavailable'', ''CertFlow API %u5F53%u524D%u4E0D%u53EF%u7528%uFF0C%u8BF7%u542F%u52A8%u540E%u7AEF%u540E%u91CD%u8BD5%u3002'',
      ''The CertFlow API is unavailable. Start the backend and try again.''),
     (''status.draft'', ''%u8349%u7A3F'', ''Draft''),
     (''status.pending'', ''%u5F85%u7B7E%u53D1'', ''Pending''),
     (''status.issuing'', ''%u7B7E%u53D1%u4E2D'', ''Issuing''),
     (''status.issued'', ''%u5DF2%u7B7E%u53D1'', ''Issued''),
     (''status.renewing'', ''%u7EED%u671F%u4E2D'', ''Renewing''),
     (''status.failed'', ''%u5931%u8D25'', ''Failed''),
     (''status.partial_failed'', ''%u90E8%u5206%u5931%u8D25'', ''Partially failed''),
     (''status.expiring'', ''%u5373%u5C06%u5230%u671F'', ''Expiring''),
     (''status.expired'', ''%u5DF2%u8FC7%u671F'', ''Expired''),
     (''status.revoked'', ''%u5DF2%u64A4%u9500'', ''Revoked''),
     (''status.disabled'', ''%u5DF2%u7981%u7528'', ''Disabled''),
     (''status.queued'', ''%u6392%u961F%u4E2D'', ''Queued''),
     (''status.running'', ''%u6267%u884C%u4E2D'', ''Running''),
     (''status.waiting_user'', ''%u7B49%u5F85%u786E%u8BA4'', ''Waiting for confirmation''),
     (''status.succeeded'', ''%u6210%u529F'', ''Succeeded''),
     (''status.cancelled'', ''%u5DF2%u53D6%u6D88'', ''Cancelled''),
     (''status.active'', ''%u6B63%u5E38'', ''Active''),
     (''status.invalid'', ''%u9A8C%u8BC1%u5931%u8D25'', ''Invalid''),
     (''status.unknown'', ''%u672A%u77E5%u72B6%u6001'', ''Unknown''),
     (''error.workerLeaseExpired'', ''%u5DE5%u4F5C%u4EFB%u52A1%u79DF%u7EA6%u5DF2%u8FC7%u671F'',
      ''The worker lease expired before the task completed''),
     (''error.certificateIssueFailed'', ''%u8BC1%u4E66%u7B7E%u53D1%u5931%u8D25'', ''Certificate issuance failed''),
     (''error.certificateRenewFailed'', ''%u8BC1%u4E66%u7EED%u671F%u5931%u8D25'', ''Certificate renewal failed''),
     (''error.automationRunInProgress'', ''%u8BE5%u81EA%u52A8%u5316%u4EFB%u52A1%u5DF2%u6709%u6267%u884C%u6B63%u5728%u8FDB%u884C'',
      ''This automation already has an execution in progress''),
     (''error.cloudCredentialInvalid'', ''%u4E91%u51ED%u8BC1%u9A8C%u8BC1%u5931%u8D25%uFF0C%u8BF7%u68C0%u67E5 AccessKey %u548C%u6743%u9650'',
      ''Cloud credential verification failed. Check the AccessKey and permissions.''),
     (''error.cloudCredentialUnavailable'', ''%u4E91%u51ED%u8BC1%u4E0D%u53EF%u7528%uFF0C%u8BF7%u5148%u9A8C%u8BC1%u6216%u542F%u7528'',
      ''The cloud credential is unavailable. Verify or enable it first.''),
     (''error.dnsProviderUnavailable'', ''DNS %u670D%u52A1%u5546%u64CD%u4F5C%u5931%u8D25'',
      ''The DNS provider operation failed''),
     (''error.aliyunUnavailable'', ''%u963F%u91CC%u4E91 API %u6682%u65F6%u4E0D%u53EF%u7528'',
      ''The Alibaba Cloud API is temporarily unavailable''),
     (''error.aliyunNameDuplicate'', ''%u963F%u91CC%u4E91%u8BC1%u4E66%u540D%u79F0%u5DF2%u5B58%u5728%uFF0C%u7CFB%u7EDF%u4F1A%u6309%u8BC1%u4E66%u7248%u672C%u751F%u6210%u65B0%u7684%u8D44%u6E90%u540D%u79F0'',
      ''The Alibaba Cloud certificate name already exists. A version-specific resource name will be used.'')]"

definition messages_execution :: "message list" where
  "messages_execution =
    [(''execution.issue'', ''%u7B7E%u53D1%u8BC1%u4E66'', ''Issue certificate''),
     (''execution.renew'', ''%u7EED%u671F%u8BC1%u4E66'', ''Renew certificate''),
     (''execution.upload'', ''%u4E0A%u4F20 SSL %u8BC1%u4E66%u7BA1%u7406'', ''Upload to Certificate Management''),
     (''execution.deploy'', ''%u66F4%u65B0 ALB'', ''Update ALB''),
     (''execution.cleanup'', ''%u6E05%u7406%u4EFB%u52A1'', ''Cleanup task''),
     (''execution.manual'', ''%u624B%u52A8%u89E6%u53D1'', ''Manually triggered''),
     (''execution.scheduler'', ''%u5B9A%u65F6%u89E6%u53D1'', ''Scheduled''),
     (''execution.automation'', ''%u81EA%u52A8%u5316%u4EFB%u52A1'', ''Automation''),
     (''execution.certificateIssued'', ''%u8BC1%u4E66%u66F4%u65B0'', ''Certificate updated''),
     (''execution.searchPlaceholder'', ''%u641C%u7D22%u4EFB%u52A1%u3001%u8BC1%u4E66%u3001%u76EE%u6807%u6216%u72B6%u6001'',
      ''Search task, certificate, target, or status''),
     (''execution.filterAll'', ''%u5168%u90E8 ({count})'', ''All ({count})''),
     (''execution.filterActive'', ''%u8FDB%u884C%u4E2D ({count})'', ''In progress ({count})''),
     (''execution.filterFailed'', ''%u5931%u8D25 ({count})'', ''Failed ({count})''),
     (''execution.filterCompleted'', ''%u5DF2%u5B8C%u6210 ({count})'', ''Completed ({count})''),
     (''execution.empty'', ''%u6682%u65E0%u6267%u884C%u8BB0%u5F55'', ''No execution history yet''),
     (''execution.emptyDescription'', ''%u7B7E%u53D1%u3001%u7EED%u671F%u3001%u4E0A%u4F20%u6216%u90E8%u7F72%u4EFB%u52A1%u8FD0%u884C%u540E%uFF0C%u5C06%u5728%u8FD9%u91CC%u67E5%u770B%u8FC7%u7A0B%u4E0E%u7ED3%u679C%u3002'',
      ''Results appear here after issuance, renewal, upload, or deployment runs.''),
     (''execution.noResults'', ''%u6CA1%u6709%u5339%u914D%u7684%u6267%u884C%u8BB0%u5F55'',
      ''No matching execution history''),
     (''execution.noResultsDescription'', ''%u8BD5%u8BD5%u8C03%u6574%u5173%u952E%u8BCD%u6216%u72B6%u6001%u7B5B%u9009%u3002'',
      ''Try changing the keywords or status filter.''),
     (''execution.clearFilters'', ''%u6E05%u9664%u7B5B%u9009'', ''Clear filters''),
     (''execution.certificate'', ''%u8BC1%u4E66'', ''Certificate''),
     (''execution.target'', ''%u90E8%u7F72%u76EE%u6807'', ''Deployment target''),
     (''execution.trigger'', ''%u89E6%u53D1%u65B9%u5F0F'', ''Trigger''),
     (''execution.startedAt'', ''%u5F00%u59CB%u65F6%u95F4'', ''Started''),
     (''execution.finishedAt'', ''%u7ED3%u675F%u65F6%u95F4'', ''Finished''),
     (''execution.details'', ''%u6267%u884C%u8BE6%u60C5'', ''Execution details''),
     (''execution.detailsDescription'', ''%u67E5%u770B%u8BE5%u4EFB%u52A1%u7684%u8FD0%u884C%u8303%u56F4%u3001%u65F6%u95F4%u548C%u7ED3%u679C%u3002'',
      ''Review this task's scope, timing, and result.''),
     (''execution.kind'', ''%u4EFB%u52A1%u7C7B%u578B'', ''Task type''),
     (''execution.error'', ''%u9519%u8BEF%u4FE1%u606F'', ''Error'')]"

definition messages_dashboard :: "message list" where
  "messages_dashboard =
    [(''dashboard.system'', ''%u7CFB%u7EDF%u603B%u89C8'', ''System overview''),
     (''dashboard.mine'', ''%u6211%u7684%u5DE5%u4F5C%u53F0'', ''My workspace''),
     (''dashboard.viewLabel'', ''%u6982%u89C8%u89C6%u56FE'', ''Overview view''),
     (''dashboard.apiUnavailable'', ''%u65E0%u6CD5%u8FDE%u63A5 CertFlow API%u3002%u542F%u52A8 PostgreSQL %u4E0E%u540E%u7AEF%u540E%uFF0C%u6570%u636E%u4F1A%u81EA%u52A8%u663E%u793A%u3002'',
      ''Unable to connect to the CertFlow API. Start PostgreSQL and the control plane to load data.''),
     (''dashboard.activeCertificates'', ''%u6709%u6548%u8BC1%u4E66'', ''Active certificates''),
     (''dashboard.activeCertificatesNote'', ''%u5F53%u524D%u53EF%u7528%u7248%u672C'',
      ''Currently usable versions''),
     (''dashboard.expiringSoon'', ''30 %u5929%u5185%u5230%u671F'', ''Expiring within 30 days''),
     (''dashboard.expiringSoonNote'', ''%u9700%u8981%u5173%u6CE8'', ''Needs attention''),
     (''dashboard.runningJobs'', ''%u6267%u884C%u4E2D%u7684%u4EFB%u52A1'', ''Running jobs''),
     (''dashboard.runningJobsNote'', ''%u7B7E%u53D1%u4E0E%u90E8%u7F72'', ''Issuance and deployment''),
     (''dashboard.failedExecutions'', ''%u8FD1 7 %u5929%u5931%u8D25'', ''Failed in the last 7 days''),
     (''dashboard.failedExecutionsNote'', ''%u9700%u8981%u5904%u7406'', ''Needs attention''),
     (''dashboard.certificateStatus'', ''%u8BC1%u4E66%u72B6%u6001'', ''Certificate status''),
     (''dashboard.recentCertificates'', ''%u6700%u8FD1%u521B%u5EFA%u7684%u8BC1%u4E66'',
      ''Recently created certificates''),
     (''dashboard.recentExecutions'', ''%u6700%u8FD1%u6267%u884C'', ''Recent executions''),
     (''dashboard.recentExecutionsDescription'', ''%u6700%u8FD1 5 %u6761%u4EFB%u52A1%u8BB0%u5F55'',
      ''The latest 5 task records''),
     (''dashboard.viewAll'', ''%u67E5%u770B%u5168%u90E8'', ''View all''),
     (''dashboard.executionHistory'', ''%u6267%u884C%u8BB0%u5F55'', ''Execution history''),
     (''dashboard.noCertificates'', ''%u5C1A%u672A%u521B%u5EFA%u8BC1%u4E66'', ''No certificates yet''),
     (''dashboard.noCertificatesDescription'', ''%u521B%u5EFA%u9996%u5F20%u8BC1%u4E66%u540E%uFF0C%u72B6%u6001%u4E0E%u6709%u6548%u671F%u4F1A%u663E%u793A%u5728%u8FD9%u91CC%u3002'',
      ''Certificate status and expiry will appear here after you create one.''),
     (''dashboard.noExecutions'', ''%u6682%u65E0%u6267%u884C%u8BB0%u5F55'', ''No executions yet''),
     (''dashboard.noExecutionsDescription'', ''%u7B7E%u53D1%u3001%u7EED%u671F%u6216%u90E8%u7F72%u4EFB%u52A1%u8FD0%u884C%u540E%uFF0C%u5C06%u5728%u8FD9%u91CC%u5C55%u793A%u7ED3%u679C%u3002'',
      ''Results appear here after issuance, renewal, or deployment runs.''),
     (''dashboard.name'', ''%u540D%u79F0'', ''Name''),
     (''dashboard.validity'', ''%u6709%u6548%u671F'', ''Validity''),
     (''dashboard.task'', ''%u4EFB%u52A1'', ''Task''),
     (''dashboard.startedAt'', ''%u5F00%u59CB%u65F6%u95F4'', ''Started''),
     (''dashboard.pendingIssuance'', ''%u5F85%u7B7E%u53D1'', ''Pending issuance''),
     (''dashboard.notStarted'', ''%u5C1A%u672A%u5F00%u59CB'', ''Not started''),
     (''dashboard.execution.issue'', ''%u7B7E%u53D1%u8BC1%u4E66'', ''Issue certificate''),
     (''dashboard.execution.renew'', ''%u7EED%u671F%u8BC1%u4E66'', ''Renew certificate''),
     (''dashboard.execution.upload'', ''%u4E0A%u4F20 SSL %u8BC1%u4E66%u7BA1%u7406'',
      ''Upload to Certificate Management''),
     (''dashboard.execution.deploy'', ''%u66F4%u65B0 ALB'', ''Update ALB''),
     (''dashboard.execution.cleanup'', ''%u6E05%u7406%u4EFB%u52A1'', ''Cleanup task''),
     (''dashboard.expiryDistribution'', ''%u8BC1%u4E66%u5230%u671F%u5206%u5E03'',
      ''Certificate expiry distribution''),
     (''dashboard.expiry7d'', ''7 %u5929%u5185'', ''Within 7 days''),
     (''dashboard.expiry30d'', ''8-30 %u5929'', ''8-30 days''),
     (''dashboard.expiry60d'', ''31-60 %u5929'', ''31-60 days''),
     (''dashboard.expiry90d'', ''61-90 %u5929'', ''61-90 days''),
     (''dashboard.certificatesUnit'', ''{count} %u5F20%u8BC1%u4E66'', ''{count} certificates''),
     (''dashboard.tasksUnit'', ''{count} %u4E2A%u4EFB%u52A1'', ''{count} tasks''),
     (''dashboard.expiryDescription'', ''%u672A%u6765 90 %u5929%u5185%u5171%u6709 {count} %u5F20%u8BC1%u4E66%u5230%u671F%u3002'',
      ''{count} certificates expire within the next 90 days.''),
     (''dashboard.automationHealth'', ''%u81EA%u52A8%u5316%u5065%u5EB7%u5EA6'', ''Automation health''),
     (''dashboard.automationDescription'', ''{attention} %u4E2A%u4EFB%u52A1%u9700%u8981%u5904%u7406%uFF0C{paused} %u4E2A%u4EFB%u52A1%u5DF2%u6682%u505C%u3002'',
      ''{attention} tasks need attention and {paused} are paused.''),
     (''dashboard.executionTrend'', ''%u8FD1 14 %u5929%u6267%u884C%u7ED3%u679C'',
      ''Execution results over 14 days''),
     (''dashboard.executionTrendDescription'', ''%u6309%u6267%u884C%u5F00%u59CB%u65E5%u671F%u6C47%u603B%u6210%u529F%u3001%u5931%u8D25%u4E0E%u8FDB%u884C%u4E2D%u4EFB%u52A1%u3002'',
      ''Succeeded, failed, and running tasks grouped by start date.''),
     (''dashboard.expiryEmpty'', ''%u672A%u6765 90 %u5929%u6CA1%u6709%u5373%u5C06%u5230%u671F%u7684%u5DF2%u7B7E%u53D1%u8BC1%u4E66'',
      ''No issued certificates expire in the next 90 days''),
     (''dashboard.automationEmpty'', ''%u5C1A%u672A%u914D%u7F6E%u81EA%u52A8%u5316%u4EFB%u52A1'',
      ''No automation tasks configured''),
     (''dashboard.executionEmpty'', ''%u8FD1 14 %u5929%u6682%u65E0%u6267%u884C%u8BB0%u5F55'',
      ''No executions in the last 14 days''),
     (''dashboard.certificatesAutomationOverview'', ''%u8BC1%u4E66%u4E0E%u81EA%u52A8%u5316%u6982%u51B5'',
      ''Certificates and automation overview''),
     (''dashboard.expiryChartLabel'', ''%u672A%u6765 90 %u5929%u8BC1%u4E66%u5230%u671F%u5206%u5E03%u56FE'',
      ''Certificate expiry distribution for the next 90 days''),
     (''dashboard.automationChartLabel'', ''%u81EA%u52A8%u5316%u4EFB%u52A1%u5065%u5EB7%u5EA6%u5806%u53E0%u6761%u5F62%u56FE'',
      ''Stacked bar chart of automation health''),
     (''dashboard.executionChartLabel'', ''%u8FD1 14 %u5929%u6267%u884C%u7ED3%u679C%u8D8B%u52BF%u56FE'',
      ''Execution result trend for the last 14 days''),
     (''dashboard.viewCertificates'', ''%u67E5%u770B%u8BC1%u4E66'', ''View certificates''),
     (''dashboard.viewAutomations'', ''%u67E5%u770B%u81EA%u52A8%u5316'', ''View automations''),
     (''dashboard.chart.succeeded'', ''%u6210%u529F'', ''Succeeded''),
     (''dashboard.chart.failed'', ''%u5931%u8D25'', ''Failed''),
     (''dashboard.chart.running'', ''%u8FDB%u884C%u4E2D'', ''Running''),
     (''dashboard.chart.healthy'', ''%u6B63%u5E38'', ''Healthy''),
     (''dashboard.chart.paused'', ''%u5DF2%u6682%u505C'', ''Paused''),
     (''dashboard.chart.attention'', ''%u9700%u5904%u7406'', ''Needs attention'')]"

definition messages_admin :: "message list" where
  "messages_admin =
    [(''admin.riskBanner'', ''%u7CFB%u7EDF%u5B58%u5728%u9700%u8981%u5904%u7406%u7684%u98CE%u9669%uFF1A{expiring} %u5F20%u8BC1%u4E66%u5373%u5C06%u5230%u671F%uFF0C%u8FD1 24 %u5C0F%u65F6 {failed} %u6B21%u6267%u884C%u5931%u8D25%u3002'',
      ''The system needs attention: {expiring} certificates expire soon and {failed} executions failed in the last 24 hours.''),
     (''admin.viewFailedExecutions'', ''%u67E5%u770B%u5931%u8D25%u6267%u884C'', ''View failed executions''),
     (''admin.systemHealth'', ''%u7CFB%u7EDF%u5065%u5EB7'', ''System health''),
     (''admin.databaseReady'', ''%u6570%u636E%u5E93%u5C31%u7EEA'', ''Database ready''),
     (''admin.queueState'', ''%u961F%u5217%uFF1A{queued} %u6392%u961F / {running} %u6267%u884C%u4E2D'',
      ''Queue: {queued} queued / {running} running''),
     (''admin.smtpConfigured'', ''SMTP %u5DF2%u914D%u7F6E'', ''SMTP configured''),
     (''admin.smtpUnconfigured'', ''SMTP %u672A%u914D%u7F6E'', ''SMTP not configured''),
     (''admin.resourceHealthy'', ''%u57FA%u7840%u8D44%u6E90%uFF1A%u6B63%u5E38'', ''Resources: healthy''),
     (''admin.resourceIssues'', ''%u57FA%u7840%u8D44%u6E90%uFF1A{count} %u4E2A%u5F02%u5E38'',
      ''Resources: {count} issues''),
     (''admin.kpiLabel'', ''%u7CFB%u7EDF%u5173%u952E%u6307%u6807'', ''System key metrics''),
     (''admin.activeUsers'', ''%u6D3B%u8DC3%u7528%u6237'', ''Active users''),
     (''admin.activeUsersNote'', ''%u8FD1 30 %u5929%u65B0%u589E {count} %u4F4D'', ''{count} new in 30 days''),
     (''admin.managedCertificates'', ''%u53D7%u7BA1%u8BC1%u4E66'', ''Managed certificates''),
     (''admin.issuedCertificatesNote'', ''%u5DF2%u7B7E%u53D1 {count} %u5F20'', ''{count} issued''),
     (''admin.expiringSevenDays'', ''7 %u5929%u5185%u5230%u671F'', ''Expiring in 7 days''),
     (''admin.expiringThirtyDaysNote'', ''30 %u5929%u5185%u5171 {count} %u5F20'', ''{count} in 30 days''),
     (''admin.queuedJobs'', ''%u961F%u5217%u4EFB%u52A1'', ''Queued jobs''),
     (''admin.runningJobsNote'', ''{count} %u4E2A%u6B63%u5728%u6267%u884C'', ''{count} running''),
     (''admin.failedTwentyFourHours'', ''24 %u5C0F%u65F6%u5931%u8D25'', ''Failed in 24 hours''),
     (''admin.failureRateNote'', ''30 %u5929%u5931%u8D25%u7387 {rate}%25'', ''30-day failure rate {rate}%25''),
     (''admin.invalidCloudCredentials'', ''%u5931%u6548%u4E91%u51ED%u8BC1'', ''Invalid cloud credentials''),
     (''admin.invalidResourcesNote'', ''DNS {dns} / ACME {acme}'', ''DNS {dns} / ACME {acme}''),
     (''admin.executionTrend'', ''%u8FD1 30 %u5929%u6267%u884C%u8D8B%u52BF'', ''Execution trend over 30 days''),
     (''admin.executionTrendDescription'', ''%u6309%u4EFB%u52A1%u5F00%u59CB%u65E5%u671F%u6C47%u603B%u7CFB%u7EDF%u6267%u884C%u7ED3%u679C'',
      ''System execution results grouped by task start date''),
     (''admin.expiryDistributionDescription'', ''%u5DF2%u7B7E%u53D1%u8BC1%u4E66%u6309%u6709%u6548%u671F%u5F52%u7C7B'',
      ''Issued certificates grouped by validity''),
     (''admin.automationHealthDescription'', ''%u6B63%u5E38%u3001%u6682%u505C%u53CA%u9700%u8981%u5904%u7406%u7684%u4EFB%u52A1'',
      ''Healthy, paused, and attention-required tasks''),
     (''admin.noIssuedCertificates'', ''%u6682%u65E0%u5DF2%u7B7E%u53D1%u8BC1%u4E66'', ''No issued certificates''),
     (''admin.expiry.expired'', ''%u5DF2%u8FC7%u671F'', ''Expired''),
     (''admin.expiry.expiring7d'', ''7 %u5929%u5185'', ''Within 7 days''),
     (''admin.expiry.expiring30d'', ''8-30 %u5929'', ''8-30 days''),
     (''admin.expiry.healthy'', ''%u6B63%u5E38'', ''Healthy''),
     (''admin.systemTrendHealth'', ''%u7CFB%u7EDF%u8D8B%u52BF%u4E0E%u5065%u5EB7%u5EA6'',
      ''System trend and health''),
     (''admin.executionTrendChart'', ''%u8FD1 30 %u5929%u6267%u884C%u8D8B%u52BF'',
      ''Execution trend over 30 days''),
     (''admin.riskCertificates'', ''%u4F18%u5148%u5904%u7406%u7684%u8BC1%u4E66%u98CE%u9669'',
      ''Priority certificate risks''),
     (''admin.riskCertificatesDescription'', ''%u5DF2%u5931%u8D25%u3001%u5DF2%u8FC7%u671F%u6216 7 %u5929%u5185%u5230%u671F%u7684%u8BC1%u4E66'',
      ''Certificates that failed, expired, or expire within 7 days''),
     (''admin.viewCertificates'', ''%u67E5%u770B%u8BC1%u4E66'', ''View certificates''),
     (''admin.noCertificateRisks'', ''%u5F53%u524D%u6CA1%u6709%u9700%u8981%u5904%u7406%u7684%u8BC1%u4E66%u98CE%u9669%u3002'',
      ''There are no certificate risks requiring action.''),
     (''admin.owner'', ''%u6240%u5C5E%u7528%u6237'', ''Owner''),
     (''admin.unassigned'', ''%u672A%u5F52%u5C5E'', ''Unassigned''),
     (''admin.recentFailedExecutions'', ''%u6700%u8FD1%u5931%u8D25%u6267%u884C'', ''Recent failed executions''),
     (''admin.recentFailedExecutionsDescription'', ''%u4F18%u5148%u5B9A%u4F4D%u81EA%u52A8%u5316%u4E0E%u4E91%u7AEF%u64CD%u4F5C%u5F02%u5E38'',
      ''Prioritize automation and cloud operation failures''),
     (''admin.noFailedExecutions'', ''%u8FD1%u671F%u6CA1%u6709%u5931%u8D25%u7684%u6267%u884C%u8BB0%u5F55%u3002'',
      ''There are no recent failed executions.''),
     (''admin.noErrorDetail'', ''%u672A%u8FD4%u56DE%u9519%u8BEF%u8BE6%u60C5'', ''No error detail returned''),
     (''admin.time'', ''%u65F6%u95F4'', ''Time''),
     (''admin.userDistribution'', ''%u7528%u6237%u8D44%u6E90%u5206%u5E03'', ''User resource distribution''),
     (''admin.userDistributionDescription'', ''%u6309%u53D7%u7BA1%u8BC1%u4E66%u6570%u91CF%u5C55%u793A%u524D 5 %u4F4D%u7528%u6237'',
      ''Top 5 users by managed certificate count''),
     (''admin.userManagement'', ''%u7528%u6237%u7BA1%u7406'', ''User management''),
     (''admin.noUserResources'', ''%u6682%u65E0%u7528%u6237%u8D44%u6E90%u6570%u636E%u3002'',
      ''No user resource data yet.''),
     (''admin.certificates'', ''%u8BC1%u4E66'', ''Certificates''),
     (''admin.automations'', ''%u81EA%u52A8%u5316'', ''Automations''),
     (''admin.failedThirtyDays'', ''30 %u5929%u5931%u8D25'', ''30-day failures''),
     (''admin.lastActive'', ''%u6700%u8FD1%u6D3B%u8DC3'', ''Last active'')]"

definition messages_events :: "message list" where
  "messages_events =
    [(''realtime.issue'', ''%u8BC1%u4E66%u7B7E%u53D1'', ''Certificate issuance''),
     (''realtime.renew'', ''%u8BC1%u4E66%u7EED%u671F'', ''Certificate renewal''),
     (''realtime.upload'', ''SSL %u8BC1%u4E66%u4E0A%u4F20'', ''SSL certificate upload''),
     (''realtime.deploy'', ''%u8BC1%u4E66%u90E8%u7F72'', ''Certificate deployment''),
     (''realtime.cloudCredentialVerify'', ''%u4E91%u51ED%u8BC1%u9A8C%u8BC1'', ''Cloud credential verification''),
     (''realtime.acmeVerify'', ''ACME %u8D26%u6237%u9A8C%u8BC1'', ''ACME account verification''),
     (''realtime.dnsVerify'', ''DNS %u8D26%u6237%u9A8C%u8BC1'', ''DNS account verification''),
     (''realtime.succeeded'', ''{operation}%u5DF2%u5B8C%u6210'', ''{operation} completed''),
     (''realtime.failed'', ''{operation}%u5931%u8D25'', ''{operation} failed''),
     (''realtime.waiting'', ''{operation}%u7B49%u5F85%u4F60%u7684%u786E%u8BA4'',
      ''{operation} is waiting for your confirmation''),
     (''realtime.running'', ''{operation}%u6B63%u5728%u6267%u884C'', ''{operation} is running''),
     (''notification.title'', ''%u7AD9%u5185%u4FE1'', ''Notifications''),
     (''notification.unread'', ''{count} %u6761%u672A%u8BFB'', ''{count} unread''),
     (''notification.allRead'', ''%u5168%u90E8%u5DF2%u8BFB'', ''All caught up''),
     (''notification.markAllRead'', ''%u5168%u90E8%u6807%u8BB0%u5DF2%u8BFB'', ''Mark all read''),
     (''notification.loading'', ''%u6B63%u5728%u52A0%u8F7D%u7AD9%u5185%u4FE1'', ''Loading notifications''),
     (''notification.empty'', ''%u6682%u65F6%u6CA1%u6709%u65B0%u901A%u77E5'', ''No notifications yet''),
     (''notification.certificateUpdate'', ''%u8BC1%u4E66%u72B6%u6001%u5DF2%u66F4%u65B0'',
      ''Certificate status updated''),
     (''notification.executionUpdate'', ''{operation}%u72B6%u6001%u5DF2%u66F4%u65B0'',
      ''{operation} status updated''),
     (''notification.verificationUpdate'', ''{operation}%u72B6%u6001%u5DF2%u66F4%u65B0'',
      ''{operation} status updated''),
     (''notification.detail'', ''%u901A%u77E5%u8BE6%u60C5'', ''Notification details''),
     (''notification.openCertificate'', ''%u524D%u5F80%u8BC1%u4E66%u8BE6%u60C5'', ''Open certificate''),
     (''notification.openResource'', ''%u67E5%u770B%u5173%u8054%u8D44%u6E90'', ''Open related resource''),
     (''notification.openExecutions'', ''%u67E5%u770B%u6267%u884C%u8BB0%u5F55'', ''View executions''),
     (''notification.resource'', ''%u5173%u8054%u8D44%u6E90'', ''Related resource''),
     (''notification.executionResource'', ''%u6267%u884C%u8BB0%u5F55'', ''Execution record''),
     (''notification.status.pending'', ''%u7B49%u5F85%u7B7E%u53D1'', ''Pending issuance''),
     (''notification.status.issuing'', ''%u6B63%u5728%u7B7E%u53D1'', ''Issuing''),
     (''notification.status.renewing'', ''%u6B63%u5728%u7EED%u671F'', ''Renewing''),
     (''notification.status.issued'', ''%u5DF2%u7B7E%u53D1'', ''Issued''),
     (''notification.status.succeeded'', ''%u6267%u884C%u6210%u529F'', ''Succeeded''),
     (''notification.status.failed'', ''%u6267%u884C%u5931%u8D25'', ''Failed''),
     (''notification.status.waiting'', ''%u7B49%u5F85%u4F60%u7684%u786E%u8BA4'', ''Waiting for your confirmation''),
     (''notification.status.running'', ''%u6B63%u5728%u9A8C%u8BC1'', ''Verifying'')]"

definition messages_dns :: "message list" where
  "messages_dns =
    [(''dns.create'', ''%u65B0%u5EFA DNS %u8D26%u6237'', ''Create DNS account''),
     (''dns.edit'', ''%u7F16%u8F91 DNS %u8D26%u6237'', ''Edit DNS account''),
     (''dns.tableLabel'', ''DNS %u8D26%u6237'', ''DNS accounts''),
     (''dns.credential'', ''%u4E91%u51ED%u8BC1'', ''Cloud credential''),
     (''dns.allowedZones'', ''%u6388%u6743 Zone'', ''Allowed zones''),
     (''dns.lastVerified'', ''%u6700%u8FD1%u9A8C%u8BC1'', ''Last verified''),
     (''dns.notVerified'', ''%u672A%u9A8C%u8BC1'', ''Not verified''),
     (''dns.empty'', ''%u5C1A%u672A%u914D%u7F6E DNS %u8D26%u6237%u3002'', ''No DNS accounts configured.''),
     (''dns.searchPlaceholder'', ''%u641C%u7D22%u540D%u79F0%u3001Zone %u6216%u51ED%u8BC1'',
      ''Search name, zone, or credential''),
     (''dns.formDescription'', ''DNS %u8D26%u6237%u4F7F%u7528%u5DF2%u6709%u4E91%u51ED%u8BC1%u8BBF%u95EE DNS API%uFF0C%u53EA%u5141%u8BB8%u5728%u9009%u4E2D%u7684 Zone %u4E2D%u521B%u5EFA%u9A8C%u8BC1%u8BB0%u5F55%u3002%u4FDD%u5B58%u524D%u4F1A%u6267%u884C%u4E00%u6B21%u4E34%u65F6 TXT %u5199%u5165%u4E0E%u5220%u9664%u68C0%u67E5%u3002'',
      ''A DNS account uses an existing cloud credential and is restricted to the selected zones. Saving performs a temporary TXT write/delete check.''),
     (''dns.descriptionPlaceholder'', ''%u53EF%u9009%uFF0C%u4F8B%u5982%uFF1A%u751F%u4EA7%u73AF%u5883 DNS %u9A8C%u8BC1'',
      ''Optional, for example: production DNS validation''),
     (''dns.noCredential'', ''%u8BF7%u5148%u914D%u7F6E%u5E76%u9A8C%u8BC1%u53EF%u7528%u7684%u4E91%u51ED%u8BC1%u3002'',
      ''Configure and verify an available cloud credential first.''),
     (''dns.loadingZones'', ''%u6B63%u5728%u4ECE%u4E91%u5E73%u53F0%u83B7%u53D6 Zone...'',
      ''Loading zones from the provider...''),
     (''dns.loadZonesFailed'', ''%u65E0%u6CD5%u83B7%u53D6%u53EF%u7BA1%u7406%u7684 Zone'',
      ''Unable to load managed zones''),
     (''dns.selectCredential'', ''%u4E91%u51ED%u8BC1'', ''Cloud credential''),
     (''dns.selectCredentialHint'', ''%u5148%u9009%u62E9%u4E91%u51ED%u8BC1%uFF0C%u518D%u52A0%u8F7D%u8BE5%u51ED%u8BC1%u53EF%u7BA1%u7406%u7684 Zone%u3002'',
      ''Select a cloud credential to load its managed zones.''),
     (''dns.noZones'', ''%u6CA1%u6709%u53EF%u9009 Zone%uFF0C%u8BF7%u786E%u8BA4%u51ED%u8BC1%u62E5%u6709%u57DF%u540D%u8BFB%u53D6%u6743%u9650%u3002'',
      ''No zones are available. Check the credential's DNS read permission.''),
     (''dns.searchZone'', ''%u641C%u7D22 Zone'', ''Search zones''),
     (''dns.selectAll'', ''%u5168%u9009'', ''Select all''),
     (''dns.clearSelection'', ''%u6E05%u9664%u9009%u62E9'', ''Clear''),
     (''dns.zoneHint'', ''%u4EC5%u5728%u9009%u4E2D%u7684 Zone %u4E2D%u521B%u5EFA DNS-01 TXT %u8BB0%u5F55'',
      ''DNS-01 TXT records are created only in selected zones''),
     (''dns.zoneOverlap'', ''%u68C0%u6D4B%u5230 Zone %u6709%u5305%u542B%u5173%u7CFB%uFF0C%u7B7E%u53D1%u65F6%u4F1A%u4F18%u5148%u4F7F%u7528%u66F4%u5177%u4F53%u7684 Zone%u3002'',
      ''Some zones overlap; issuance will use the most specific zone.''),
     (''dns.selectedCount'', ''%u5DF2%u9009 {count} %u4E2A'', ''{count} selected''),
     (''dns.verifying'', ''%u9A8C%u8BC1%u4E2D'', ''Verifying''),
     (''dns.verifyFailed'', ''DNS %u8D26%u6237%u9A8C%u8BC1%u5931%u8D25'', ''DNS account verification failed''),
     (''dns.statusUpdateFailed'', ''%u65E0%u6CD5%u66F4%u65B0 DNS %u8D26%u6237%u72B6%u6001'',
      ''Unable to update DNS account status''),
     (''dns.saveFailed'', ''%u65E0%u6CD5%u4FDD%u5B58 DNS %u8D26%u6237'', ''Unable to save DNS account''),
     (''dns.namePlaceholder'', ''%u4F8B%u5982%uFF1A%u751F%u4EA7 DNS %u9A8C%u8BC1%u8D26%u6237'',
      ''For example: production DNS validation''),
     (''dns.unconfigured'', ''%u672A%u914D%u7F6E'', ''Not configured''),
     (''dns.details'', ''%u8BE6%u60C5'', ''Details''),
     (''dns.editAction'', ''%u7F16%u8F91'', ''Edit''),
     (''dns.deleteAction'', ''%u5220%u9664'', ''Delete''),
     (''dns.nameRequired'', ''%u8BF7%u8F93%u5165 DNS %u8D26%u6237%u540D%u79F0'', ''Enter a DNS account name''),
     (''dns.credentialRequired'', ''%u8BF7%u9009%u62E9%u4E91%u51ED%u8BC1'', ''Select a cloud credential''),
     (''dns.zoneRequired'', ''%u8BF7%u9009%u62E9%u81F3%u5C11%u4E00%u4E2A%u53EF%u7BA1%u7406%u7684 Zone'',
      ''Select at least one managed zone''),
     (''dns.deleteFailed'', ''%u65E0%u6CD5%u5220%u9664 DNS %u8D26%u6237'', ''Unable to delete DNS account''),
     (''dns.deleteTitle'', ''%u5220%u9664 DNS %u8D26%u6237'', ''Delete DNS account''),
     (''dns.deleteDescription'', ''%u5C06%u5220%u9664%u201C{name}%u201D%u3002%u6B64%u64CD%u4F5C%u65E0%u6CD5%u64A4%u9500%u3002'',
      ''%u201C{name}%u201D will be deleted. This action cannot be undone.''),
     (''dns.deleteHint'', ''%u82E5%u8D26%u6237%u4ECD%u88AB%u8BC1%u4E66%u3001%u57DF%u540D%u9A8C%u8BC1%u6216%u8FD0%u884C%u4E2D%u7684%u4EFB%u52A1%u5F15%u7528%uFF0C%u7CFB%u7EDF%u4F1A%u963B%u6B62%u5220%u9664%u3002'',
      ''Deletion is blocked while certificates, domain validations, or running jobs reference this account.''),
     (''dns.detailTitle'', ''DNS %u8D26%u6237%u8BE6%u60C5'', ''DNS account details''),
     (''dns.detailDescription'', ''%u67E5%u770B DNS %u8D26%u6237%u7684%u4E91%u51ED%u8BC1%u548C Zone %u6388%u6743%u8303%u56F4%u3002'',
      ''Review the cloud credential and zone access for this DNS account.''),
     (''dns.provider'', ''%u4E91%u5E73%u53F0'', ''Provider''),
     (''dns.lastError'', ''%u6700%u8FD1%u9519%u8BEF'', ''Last error''),
     (''dns.save'', ''%u4FDD%u5B58'', ''Save''),
     (''dns.saving'', ''%u6B63%u5728%u4FDD%u5B58'', ''Saving''),
     (''dns.cancel'', ''%u53D6%u6D88'', ''Cancel''),
     (''dns.close'', ''%u5173%u95ED'', ''Close''),
     (''dns.confirmDelete'', ''%u786E%u8BA4%u5220%u9664'', ''Delete''),
     (''dns.deleting'', ''%u6B63%u5728%u5220%u9664'', ''Deleting'')]"

definition messages_cloud :: "message list" where
  "messages_cloud =
    [(''cloud.create'', ''%u65B0%u5EFA%u4E91%u51ED%u8BC1'', ''Create cloud credential''),
     (''cloud.edit'', ''%u7F16%u8F91%u4E91%u51ED%u8BC1'', ''Edit cloud credential''),
     (''cloud.details'', ''%u4E91%u51ED%u8BC1%u8BE6%u60C5'', ''Cloud credential details''),
     (''cloud.tableLabel'', ''%u4E91%u51ED%u8BC1'', ''Cloud credentials''),
     (''cloud.provider'', ''%u4E91%u5E73%u53F0'', ''Cloud provider''),
     (''cloud.accessKeyId'', ''AccessKey ID'', ''AccessKey ID''),
     (''cloud.accessKeySecret'', ''AccessKey Secret'', ''AccessKey Secret''),
     (''cloud.credentialHint'', ''%u51ED%u8BC1%u6458%u8981'', ''Credential hint''),
     (''cloud.lastVerified'', ''%u6700%u8FD1%u9A8C%u8BC1'', ''Last verified''),
     (''cloud.lastError'', ''%u6700%u8FD1%u9519%u8BEF'', ''Last error''),
     (''cloud.searchPlaceholder'', ''%u641C%u7D22%u540D%u79F0%u3001%u63CF%u8FF0%u6216 AccessKey ID'',
      ''Search name, description, or AccessKey ID''),
     (''cloud.nameRequired'', ''%u8BF7%u8F93%u5165%u4E91%u51ED%u8BC1%u540D%u79F0'',
      ''Enter a cloud credential name''),
     (''cloud.providerRequired'', ''%u8BF7%u9009%u62E9%u4E91%u5E73%u53F0'', ''Select a cloud provider''),
     (''cloud.keysRequired'', ''%u8BF7%u8F93%u5165 AccessKey ID %u548C AccessKey Secret'',
      ''Enter the AccessKey ID and AccessKey Secret''),
     (''cloud.saveFailed'', ''%u65E0%u6CD5%u4FDD%u5B58%u4E91%u51ED%u8BC1'', ''Unable to save cloud credential''),
     (''cloud.deleteFailed'', ''%u65E0%u6CD5%u5220%u9664%u4E91%u51ED%u8BC1'',
      ''Unable to delete cloud credential''),
     (''cloud.deleteBlocked'', ''%u8BE5%u4E91%u51ED%u8BC1%u4ECD%u88AB DNS %u8D26%u6237%u3001%u81EA%u52A8%u5316%u6216%u90E8%u7F72%u76EE%u6807%u5F15%u7528%uFF0C%u65E0%u6CD5%u5220%u9664%u3002'',
      ''This cloud credential is still used by a DNS account, automation, or deployment target.''),
     (''cloud.verifyFailed'', ''%u51ED%u8BC1%u9A8C%u8BC1%u5931%u8D25'', ''Credential verification failed''),
     (''cloud.verifyPending'', ''%u9A8C%u8BC1%u4E2D'', ''Verifying''),
     (''cloud.statusUpdateFailed'', ''%u65E0%u6CD5%u66F4%u65B0%u51ED%u8BC1%u72B6%u6001'',
      ''Unable to update credential status''),
     (''cloud.empty'', ''%u5C1A%u672A%u914D%u7F6E%u4E91%u51ED%u8BC1'', ''No cloud credentials configured''),
     (''cloud.emptyDescription'', ''%u6DFB%u52A0%u5E76%u9A8C%u8BC1%u4E91%u51ED%u8BC1%u540E%uFF0C%u624D%u80FD%u7BA1%u7406 DNS%u3001SSL %u8BC1%u4E66%u548C ALB %u8D44%u6E90%u3002'',
      ''Add and verify a cloud credential before managing DNS, SSL certificates, or ALB resources.''),
     (''cloud.noResults'', ''%u6CA1%u6709%u5339%u914D%u7684%u4E91%u51ED%u8BC1'', ''No matching cloud credentials''),
     (''cloud.noResultsDescription'', ''%u8BD5%u8BD5%u8C03%u6574%u540D%u79F0%u3001%u63CF%u8FF0%u6216 AccessKey ID %u5173%u952E%u8BCD%u3002'',
      ''Try changing the name, description, or AccessKey ID keywords.''),
     (''cloud.clearSearch'', ''%u6E05%u9664%u641C%u7D22'', ''Clear search''),
     (''cloud.formCreateDescription'', ''%u51ED%u8BC1%u4F1A%u5728%u4FDD%u5B58%u524D%u52A0%u5BC6%uFF0C%u4E4B%u540E%u4E0D%u4F1A%u518D%u4EE5%u660E%u6587%u663E%u793A%u3002'',
      ''Credentials are encrypted before saving and are never displayed in plain text.''),
     (''cloud.formEditDescription'', ''AccessKey %u521B%u5EFA%u540E%u4E0D%u53EF%u4FEE%u6539%uFF1B%u5982%u9700%u66F4%u6362%uFF0C%u8BF7%u5148%u5220%u9664%u6240%u6709%u5173%u8054%u8D44%u6E90%uFF0C%u518D%u5220%u9664%u5E76%u91CD%u65B0%u521B%u5EFA%u51ED%u8BC1%u3002'',
      ''AccessKey values cannot be changed after creation. Remove related resources, then recreate the credential to rotate them.''),
     (''cloud.namePlaceholder'', ''%u4F8B%u5982%uFF1A%u751F%u4EA7%u73AF%u5883%u963F%u91CC%u4E91'',
      ''For example: Production Alibaba Cloud''),
     (''cloud.descriptionPlaceholder'', ''%u53EF%u9009%uFF0C%u4F8B%u5982%uFF1A%u7528%u4E8E%u751F%u4EA7%u73AF%u5883 DNS %u4E0E ALB'',
      ''Optional, for example: production DNS and ALB''),
     (''cloud.selectProvider'', ''%u9009%u62E9%u4E91%u5E73%u53F0'', ''Select cloud provider''),
     (''cloud.providerImmutable'', ''%u521B%u5EFA%u540E%u4E0D%u53EF%u4FEE%u6539%u4E91%u5E73%u53F0%u7C7B%u578B%u3002'',
      ''The cloud provider cannot be changed after creation.''),
     (''cloud.secretImmutable'', ''AccessKey Secret %u4E0D%u56DE%u663E%uFF0C%u4E5F%u4E0D%u80FD%u5728%u7F16%u8F91%u65F6%u4FEE%u6539%u3002'',
      ''AccessKey Secret is never shown and cannot be changed while editing.''),
     (''cloud.secretPlaceholder'', ''%u8F93%u5165 AccessKey Secret'', ''Enter AccessKey Secret''),
     (''cloud.notRecorded'', ''%u672A%u8BB0%u5F55'', ''Not recorded''),
     (''cloud.notRecordedRotate'', ''%u672A%u8BB0%u5F55%uFF08%u8BF7%u8F6E%u6362%u51ED%u8BC1%uFF09'',
      ''Not recorded (rotate the credential)''),
     (''cloud.notProvided'', ''%u672A%u586B%u5199'', ''Not provided''),
     (''cloud.detailDescription'', ''%u67E5%u770B%u4E91%u5E73%u53F0%u3001%u51ED%u8BC1%u6458%u8981%u548C%u5F53%u524D%u72B6%u6001%u3002'',
      ''Review the cloud provider, credential hint, and current status.''),
     (''cloud.deleteTitle'', ''%u5220%u9664%u4E91%u51ED%u8BC1'', ''Delete cloud credential''),
     (''cloud.deleteDescription'', ''%u5C06%u5220%u9664%u201C{name}%u201D%u3002%u6B64%u64CD%u4F5C%u65E0%u6CD5%u64A4%u9500%u3002'',
      ''%u201C{name}%u201D will be deleted. This action cannot be undone.''),
     (''cloud.deleteHint'', ''%u82E5%u8BE5%u51ED%u8BC1%u4ECD%u88AB DNS %u8D26%u6237%u3001%u81EA%u52A8%u5316%u6216%u90E8%u7F72%u76EE%u6807%u5F15%u7528%uFF0C%u7CFB%u7EDF%u4F1A%u963B%u6B62%u5220%u9664%u3002'',
      ''Deletion is blocked while DNS accounts, automations, or deployment targets use this credential.''),
     (''cloud.aliyun'', ''%u963F%u91CC%u4E91'', ''Alibaba Cloud''),
     (''cloud.status.rotating'', ''%u5904%u7406%u4E2D'', ''Processing'')]"

definition messages_acme :: "message list" where
  "messages_acme =
    [(''acme.create'', ''%u65B0%u5EFA ACME %u8D26%u6237'', ''Create ACME account''),
     (''acme.edit'', ''%u7F16%u8F91 ACME %u8D26%u6237'', ''Edit ACME account''),
     (''acme.details'', ''ACME %u8D26%u6237%u8BE6%u60C5'', ''ACME account details''),
     (''acme.tableLabel'', ''ACME %u8D26%u6237'', ''ACME accounts''),
     (''acme.email'', ''%u8054%u7CFB%u90AE%u7BB1'', ''Contact email''),
     (''acme.keyAlgorithm'', ''%u8D26%u6237%u5BC6%u94A5%u7B97%u6CD5'', ''Account key algorithm''),
     (''acme.lastVerified'', ''%u6700%u8FD1%u9A8C%u8BC1'', ''Last verified''),
     (''acme.searchPlaceholder'', ''%u641C%u7D22%u540D%u79F0%u3001%u90AE%u7BB1%u6216 Directory'',
      ''Search name, email, or directory''),
     (''acme.nameRequired'', ''%u8BF7%u8F93%u5165 ACME %u8D26%u6237%u540D%u79F0'', ''Enter an ACME account name''),
     (''acme.directoryRequired'', ''%u8BF7%u8F93%u5165 ACME Directory URL'', ''Enter an ACME Directory URL''),
     (''acme.emailRequired'', ''%u8BF7%u8F93%u5165%u8054%u7CFB%u90AE%u7BB1'', ''Enter a contact email''),
     (''acme.saveFailed'', ''%u65E0%u6CD5%u4FDD%u5B58 ACME %u8D26%u6237'', ''Unable to save ACME account''),
     (''acme.deleteFailed'', ''%u65E0%u6CD5%u5220%u9664 ACME %u8D26%u6237'', ''Unable to delete ACME account''),
     (''acme.deleteBlocked'', ''%u8BE5 ACME %u8D26%u6237%u4ECD%u88AB%u8BC1%u4E66%u5F15%u7528%uFF0C%u8BF7%u5148%u89E3%u9664%u5173%u8054%u540E%u518D%u5220%u9664%u3002'',
      ''This ACME account is still used by certificates. Remove those references first.''),
     (''acme.verifyFailed'', ''ACME %u8D26%u6237%u9A8C%u8BC1%u5931%u8D25'', ''ACME account verification failed''),
     (''acme.verifyPending'', ''%u9A8C%u8BC1%u4E2D'', ''Verifying''),
     (''acme.empty'', ''%u5C1A%u672A%u914D%u7F6E ACME %u8D26%u6237'', ''No ACME accounts configured''),
     (''acme.emptyDescription'', ''%u6DFB%u52A0%u8D26%u6237%u540E%uFF0C%u5373%u53EF%u901A%u8FC7 ACME %u670D%u52A1%u7B7E%u53D1%u548C%u7EED%u671F%u8BC1%u4E66%u3002'',
      ''Add an account to issue and renew certificates through ACME.''),
     (''acme.noResults'', ''%u6CA1%u6709%u5339%u914D%u7684 ACME %u8D26%u6237'', ''No matching ACME accounts''),
     (''acme.noResultsDescription'', ''%u8BD5%u8BD5%u8C03%u6574%u540D%u79F0%u3001%u90AE%u7BB1%u6216 Directory URL %u5173%u952E%u8BCD%u3002'',
      ''Try changing the name, email, or Directory URL keywords.''),
     (''acme.formCreateDescription'', ''%u9ED8%u8BA4%u7531 CertFlow %u751F%u6210%u5E76%u52A0%u5BC6%u4FDD%u5B58%u8D26%u6237%u79C1%u94A5%uFF1B%u5982%u9700%u5BFC%u5165%u5DF2%u6709 ACME %u8D26%u6237%uFF0C%u53EF%u7C98%u8D34%u5176 PEM%u3002'',
      ''CertFlow generates and encrypts the account key by default. Paste a PEM to import an existing ACME account.''),
     (''acme.formEditDescription'', ''%u8D26%u6237%u79C1%u94A5%u4E0D%u4F1A%u56DE%u663E%uFF1B%u586B%u5199%u65B0%u7684 PEM %u53EF%u8F6E%u6362%u8D26%u6237%u5BC6%u94A5%u3002'',
      ''The account key is never displayed. Provide a new PEM to rotate it.''),
     (''acme.namePlaceholder'', ''%u4F8B%u5982%uFF1ALet's Encrypt %u751F%u4EA7%u8D26%u6237'',
      ''For example: Let's Encrypt production''),
     (''acme.emailPlaceholder'', ''%u7528%u4E8E ACME %u8D26%u6237%u901A%u77E5'',
      ''Used for ACME account notifications''),
     (''acme.privateKey'', ''%u8D26%u6237%u79C1%u94A5 PEM%uFF08%u53EF%u9009%uFF09'',
      ''Account private key PEM (optional)''),
     (''acme.privateKeyCreatePlaceholder'', ''%u7559%u7A7A%u7531 CertFlow %u81EA%u52A8%u751F%u6210%uFF1B%u6216%u7C98%u8D34%u5DF2%u6709 ACME %u8D26%u6237%u79C1%u94A5 PEM'',
      ''Leave empty for CertFlow to generate one, or paste an existing ACME account private key PEM''),
     (''acme.privateKeyEditPlaceholder'', ''%u7559%u7A7A%u8868%u793A%u4FDD%u7559%u5F53%u524D%u8D26%u6237%u79C1%u94A5'',
      ''Leave empty to retain the current account key''),
     (''acme.privateKeyHint'', ''%u79C1%u94A5%u53EA%u7528%u4E8E ACME %u8D26%u6237%u8BA4%u8BC1%uFF0C%u521B%u5EFA%u6216%u8F6E%u6362%u540E%u4E0D%u4F1A%u56DE%u663E%u3002%u65B0%u5EFA%u65F6%u7559%u7A7A%u4F1A%u6309%u6240%u9009%u7B97%u6CD5%u81EA%u52A8%u751F%u6210%uFF1B%u7F16%u8F91%u65F6%u7559%u7A7A%u4F1A%u4FDD%u7559%u73B0%u6709%u79C1%u94A5%u3002'',
      ''The private key is only used for ACME account authentication and is never shown after creation or rotation. Empty values generate a new key on create and retain the key on edit.''),
     (''acme.deleteTitle'', ''%u5220%u9664 ACME %u8D26%u6237'', ''Delete ACME account''),
     (''acme.deleteDescription'', ''%u5C06%u5220%u9664%u201C{name}%u201D%u3002%u6B64%u64CD%u4F5C%u65E0%u6CD5%u64A4%u9500%u3002'',
      ''%u201C{name}%u201D will be deleted. This action cannot be undone.''),
     (''acme.deleteHint'', ''%u82E5%u8D26%u6237%u4ECD%u88AB%u8BC1%u4E66%u5F15%u7528%uFF0C%u7CFB%u7EDF%u4F1A%u963B%u6B62%u5220%u9664%uFF0C%u8BF7%u5148%u89E3%u9664%u5173%u8054%u3002'',
      ''Deletion is blocked while certificates reference this account. Remove those references first.''),
     (''acme.relationships'', ''%u5F53%u524D%u5173%u8054 {certificates} %u4E2A%u8BC1%u4E66%u3001{automations} %u4E2A%u81EA%u52A8%u5316%u4EFB%u52A1%u3002'',
      ''Currently linked to {certificates} certificates and {automations} automations.''),
     (''acme.noRelationships'', ''%u5F53%u524D%u6CA1%u6709%u68C0%u6D4B%u5230%u8BC1%u4E66%u6216%u81EA%u52A8%u5316%u4EFB%u52A1%u5173%u8054%u3002'',
      ''No certificate or automation references were found.''),
     (''acme.detailDescription'', ''%u67E5%u770B%u8D26%u6237%u8FDE%u63A5%u4FE1%u606F%u548C%u5F53%u524D%u72B6%u6001%u3002'',
      ''Review account connection details and current status.''),
     (''acme.notRegistered'', ''%u672A%u6CE8%u518C'', ''Not registered''),
     (''acme.accountUrl'', ''ACME %u8D26%u6237 URL'', ''ACME account URL''),
     (''acme.certificateCount'', ''%u5173%u8054%u8BC1%u4E66'', ''Linked certificates''),
     (''acme.automationCount'', ''%u5173%u8054%u81EA%u52A8%u5316%u4EFB%u52A1'', ''Linked automations''),
     (''acme.lastVerificationFailed'', ''%u6700%u8FD1%u9A8C%u8BC1%u5931%u8D25%uFF1A{error}'',
      ''Last verification failed: {error}''),
     (''acme.privateKeyProtected'', ''%u8D26%u6237%u79C1%u94A5%u5DF2%u52A0%u5BC6%u4FDD%u5B58%uFF0C%u4E0D%u4F1A%u5728%u8BE6%u60C5%u6216 API %u4E2D%u56DE%u663E%u3002'',
      ''The account key is encrypted and is never returned by the details view or API.''),
     (''acme.status.error'', ''%u9519%u8BEF'', ''Error'')]"

definition messages_certificate :: "message list" where
  "messages_certificate =
    [(''certificate.create'', ''%u65B0%u5EFA%u8BC1%u4E66'', ''Create certificate''),
     (''certificate.createDescription'', ''%u521B%u5EFA%u540E%u4F1A%u81EA%u52A8%u6392%u961F%u7B7E%u53D1%uFF1B%u81EA%u52A8%u7EED%u671F%u3001SSL %u4E0A%u4F20%u548C ALB %u66F4%u65B0%u5728%u81EA%u52A8%u5316%u4E2D%u914D%u7F6E%u3002'',
      ''The certificate is queued for issuance after creation. Configure renewal, SSL upload, and ALB updates in Automations.''),
     (''certificate.stepIdentity'', ''%u8BC1%u4E66%u8EAB%u4EFD'', ''Certificate identity''),
     (''certificate.stepValidation'', ''%u7B7E%u53D1%u9A8C%u8BC1'', ''Issuance validation''),
     (''certificate.stepRenewal'', ''%u7EED%u671F%u7B56%u7565'', ''Renewal policy''),
     (''certificate.nameRequired'', ''%u8BF7%u8F93%u5165%u8BC1%u4E66%u540D%u79F0'', ''Enter a certificate name''),
     (''certificate.domainRequired'', ''%u81F3%u5C11%u586B%u5199%u4E00%u4E2A%u57DF%u540D'',
      ''Enter at least one domain''),
     (''certificate.acmeRequired'', ''%u8BF7%u9009%u62E9 ACME %u8D26%u6237'', ''Select an ACME account''),
     (''certificate.dnsRequired'', ''%u81EA%u52A8 DNS %u6A21%u5F0F%u9700%u8981%u9009%u62E9 DNS %u8D26%u6237'',
      ''Automatic DNS mode requires a DNS account''),
     (''certificate.requirementsMissing'', ''%u521B%u5EFA%u8BC1%u4E66%u524D%uFF0C%u9700%u8981 ACME %u8D26%u6237%uFF1B%u81EA%u52A8%u6A21%u5F0F%u8FD8%u9700%u8981 DNS %u8D26%u6237%u3002'',
      ''An ACME account is required before creating a certificate. Automatic mode also requires a DNS account.''),
     (''certificate.createFailed'', ''%u65E0%u6CD5%u521B%u5EFA%u8BC1%u4E66%u914D%u7F6E'',
      ''Unable to create certificate configuration''),
     (''certificate.previous'', ''%u4E0A%u4E00%u6B65'', ''Previous''),
     (''certificate.next'', ''%u4E0B%u4E00%u6B65'', ''Next''),
     (''certificate.creating'', ''%u6B63%u5728%u521B%u5EFA'', ''Creating''),
     (''certificate.createAndQueue'', ''%u521B%u5EFA%u5E76%u6392%u961F%u7B7E%u53D1'',
      ''Create and queue issuance''),
     (''certificate.creationSteps'', ''%u8BC1%u4E66%u521B%u5EFA%u6B65%u9AA4'', ''Certificate creation steps''),
     (''certificate.keyAlgorithm'', ''%u5BC6%u94A5%u7B97%u6CD5'', ''Key algorithm''),
     (''certificate.domains'', ''%u57DF%u540D%u4E0E SAN'', ''Domains and SANs''),
     (''certificate.domainHint'', ''%u6BCF%u884C%u4E00%u4E2A%u57DF%u540D%u3002%u901A%u914D%u7B26%u53EA%u8986%u76D6%u4E00%u5C42%u5B50%u57DF%uFF1B%u4E09%u7EA7%u57DF%u540D%u8BF7%u660E%u786E%u6DFB%u52A0%u5BF9%u5E94%u7684 `*.api.example.com`%u3002'',
      ''Use one domain per line. A wildcard covers only one subdomain level; add `*.api.example.com` explicitly for third-level domains.''),
     (''certificate.noAcme'', ''%u8BF7%u5148%u914D%u7F6E ACME %u8D26%u6237'', ''Configure an ACME account first''),
     (''certificate.noDns'', ''%u8BF7%u5148%u914D%u7F6E DNS %u8D26%u6237'', ''Configure a DNS account first''),
     (''certificate.manualNoDns'', ''%u624B%u52A8 TXT %u6A21%u5F0F%u65E0%u9700 DNS %u8D26%u6237'',
      ''Manual TXT mode does not require a DNS account''),
     (''certificate.validationMode'', ''DNS-01 %u9A8C%u8BC1%u65B9%u5F0F'', ''DNS-01 validation mode''),
     (''certificate.validationAuto'', ''%u81EA%u52A8%u66F4%u65B0 DNS TXT'', ''Automatically update DNS TXT''),
     (''certificate.validationManual'', ''%u624B%u52A8%u6DFB%u52A0 DNS TXT'', ''Manually add DNS TXT''),
     (''certificate.validationHint'', ''%u624B%u52A8%u6A21%u5F0F%u4F1A%u6682%u505C%u7B7E%u53D1%u5E76%u663E%u793A TXT %u8BB0%u5F55%uFF0C%u786E%u8BA4%u540E%u7EE7%u7EED%u6821%u9A8C%u3002'',
      ''Manual mode pauses issuance and displays the TXT record until you confirm validation.''),
     (''certificate.renewBeforeDays'', ''%u63D0%u524D%u7EED%u671F%u5929%u6570'', ''Renew before (days)''),
     (''certificate.renewalHint'', ''%u8BC1%u4E66%u672C%u8EAB%u4E0D%u518D%u5355%u72EC%u914D%u7F6E%u81EA%u52A8%u7EED%u671F%u3002%u8BF7%u5728%u201C%u81EA%u52A8%u5316%u201D%u4E2D%u521B%u5EFA%u5B9A%u671F%u7EED%u671F%u3001SSL %u4E0A%u4F20%u6216 ALB %u66F4%u65B0%u4EFB%u52A1%u3002'',
      ''Certificates do not configure automatic renewal directly. Create scheduled renewal, SSL upload, or ALB update tasks in Automations.''),
     (''certificate.domainDuplicate'', ''%u57DF%u540D%u91CD%u590D%uFF1A{domain}'', ''Duplicate domain: {domain}''),
     (''certificate.domainInvalid'', ''%u57DF%u540D%u683C%u5F0F%u65E0%u6548%uFF1A{domain}'',
      ''Invalid domain format: {domain}''),
     (''certificate.domainCovered'', ''%u57DF%u540D {domain} %u5DF2%u88AB {wildcard} %u8986%u76D6%uFF0C%u8BF7%u79FB%u9664%u7CBE%u786E%u57DF%u540D'',
      ''Domain {domain} is already covered by {wildcard}; remove the exact domain''),
     (''certificate.searchPlaceholder'', ''%u641C%u7D22%u540D%u79F0%u3001%u57DF%u540D%u6216%u72B6%u6001'',
      ''Search name, domain, or status''),
     (''certificate.filters'', ''%u8BC1%u4E66%u7B5B%u9009'', ''Certificate filters''),
     (''certificate.statusFilter'', ''%u6309%u72B6%u6001%u7B5B%u9009'', ''Filter by status''),
     (''certificate.allStatuses'', ''%u5168%u90E8%u72B6%u6001'', ''All statuses''),
     (''certificate.expiryFilter'', ''%u6309%u6709%u6548%u671F%u7B5B%u9009'', ''Filter by validity''),
     (''certificate.allValidity'', ''%u5168%u90E8%u6709%u6548%u671F'', ''All validity''),
     (''certificate.expiring7'', ''7 %u5929%u5185%u5230%u671F'', ''Expiring within 7 days''),
     (''certificate.expiring30'', ''30 %u5929%u5185%u5230%u671F'', ''Expiring within 30 days''),
     (''certificate.unissued'', ''%u5C1A%u672A%u7B7E%u53D1'', ''Not issued''),
     (''certificate.validation'', ''%u9A8C%u8BC1%u65B9%u5F0F'', ''Validation method''),
     (''certificate.expiresAt'', ''%u5230%u671F%u65F6%u95F4'', ''Expires''),
     (''certificate.lastIssued'', ''%u6700%u8FD1%u7B7E%u53D1'', ''Last issued''),
     (''certificate.validationAutoShort'', ''%u81EA%u52A8 DNS'', ''Automatic DNS''),
     (''certificate.validationManualShort'', ''%u624B%u52A8 TXT'', ''Manual TXT''),
     (''certificate.noLastIssued'', ''%u6682%u65E0'', ''None''),
     (''certificate.manualValidation'', ''%u9A8C%u8BC1%u8BB0%u5F55'', ''Validation records''),
     (''certificate.reissue'', ''%u91CD%u65B0%u7B7E%u53D1'', ''Reissue''),
     (''certificate.empty'', ''%u5C1A%u672A%u521B%u5EFA%u8BC1%u4E66'', ''No certificates yet''),
     (''certificate.emptyDescription'', ''%u521B%u5EFA%u9996%u5F20%u8BC1%u4E66%u540E%uFF0C%u53EF%u5728%u8FD9%u91CC%u8FFD%u8E2A%u7B7E%u53D1%u3001%u7EED%u671F%u4E0E%u90E8%u7F72%u72B6%u6001%u3002'',
      ''Create your first certificate to track issuance, renewal, and deployment status here.''),
     (''certificate.noResults'', ''%u6CA1%u6709%u5339%u914D%u7684%u8BC1%u4E66'', ''No matching certificates''),
     (''certificate.noResultsDescription'', ''%u8BD5%u8BD5%u8C03%u6574%u5173%u952E%u8BCD%u3001%u72B6%u6001%u6216%u6709%u6548%u671F%u7B5B%u9009%u6761%u4EF6%u3002'',
      ''Try changing the keywords, status, or validity filters.''),
     (''certificate.expiredDays'', ''%u5DF2%u8FC7%u671F {days} %u5929'', ''Expired {days} days ago''),
     (''certificate.expiresToday'', ''%u4ECA%u5929%u5230%u671F'', ''Expires today''),
     (''certificate.daysRemaining'', ''%u5269%u4F59 {days} %u5929'', ''{days} days remaining'')]"

definition dictionary :: "message list" where
  "dictionary = messages_frame @ messages_auth @ messages_profile @ messages_common @ messages_execution @
     messages_dashboard @ messages_admin @ messages_events @ messages_dns @ messages_cloud @ messages_acme @
     messages_certificate"

definition message_text :: "string \<Rightarrow> locale_id \<Rightarrow> string" where
  "message_text key loc =
     (case al_get key dictionary of
        None \<Rightarrow> []
      | Some (zh, en) \<Rightarrow> (case loc of ZhCN \<Rightarrow> zh | En \<Rightarrow> en))"

subsection \<open>Placeholders\<close>

text \<open>A text as characters and the names of its placeholders, in the sense of the regular expression of \<open>t\<close>.\<close>

function parse_message :: "string \<Rightarrow> (char + string) list" where
  "parse_message [] = []"
| "parse_message (c # s) =
     (let name = takeWhile is_word_char s; rest = dropWhile is_word_char s
      in if c = CHR ''{'' \<and> name \<noteq> [] \<and> rest \<noteq> [] \<and> hd rest = CHR ''}''
         then Inr name # parse_message (tl rest)
         else Inl c # parse_message s)"
  by pat_completeness auto
termination
  by (relation "measure length")
    (auto simp: less_Suc_eq_le intro: order_trans [OF diff_le_self length_dropWhile_le])

function placeholders :: "string \<Rightarrow> string list" where
  "placeholders [] = []"
| "placeholders (c # s) =
     (if c = CHR ''{'' then
        (let name = takeWhile is_word_char s; rest = dropWhile is_word_char s
         in if name \<noteq> [] \<and> rest \<noteq> [] \<and> hd rest = CHR ''}'' then name # placeholders (tl rest) else placeholders s)
      else placeholders s)"
  by pat_completeness auto
termination
  by (relation "measure length")
    (auto simp: less_Suc_eq_le intro: order_trans [OF diff_le_self length_dropWhile_le])

definition piece :: "(string \<times> string) list \<Rightarrow> char + string \<Rightarrow> string" where
  "piece vs x =
     (case x of
        Inl c \<Rightarrow> [c]
      | Inr name \<Rightarrow> (case al_get name vs of None \<Rightarrow> CHR ''{'' # name @ ''}'' | Some v \<Rightarrow> v))"

lemma interpolate_pieces: "interpolate vs s = concat (map (piece vs) (parse_message s))"
  by (induction vs s rule: interpolate.induct) (auto simp: piece_def Let_def split: option.split)

lemma placeholders_parsed: "name \<in> set (placeholders s) \<longleftrightarrow> Inr name \<in> set (parse_message s)"
  by (induction s rule: placeholders.induct) (auto simp: Let_def)

subsection \<open>Reading the dictionary\<close>

text \<open>Rules that evaluate the placeholders of a literal text and tell literal keys apart in one pass each.\<close>

lemma placeholders_steps:
  "placeholders [] = []"
  "c \<noteq> CHR ''{'' \<Longrightarrow> placeholders (c # s) = placeholders s"
  "is_word_char c \<Longrightarrow> dropWhile is_word_char s = CHR ''}'' # rest \<Longrightarrow>
    placeholders (CHR ''{'' # c # s) = (c # takeWhile is_word_char s) # placeholders rest"
  by (simp_all add: Let_def)

lemma word_steps:
  "is_word_char c \<Longrightarrow> takeWhile is_word_char (c # s) = c # takeWhile is_word_char s"
  "is_word_char c \<Longrightarrow> dropWhile is_word_char (c # s) = dropWhile is_word_char s"
  "\<not> is_word_char c \<Longrightarrow> takeWhile is_word_char (c # s) = []"
  "\<not> is_word_char c \<Longrightarrow> dropWhile is_word_char (c # s) = c # s"
  by simp_all

lemma placeholder_chars:
  "is_word_char (CHR ''a'')" "is_word_char (CHR ''c'')" "is_word_char (CHR ''d'')" "is_word_char (CHR ''e'')"
  "is_word_char (CHR ''f'')" "is_word_char (CHR ''g'')" "is_word_char (CHR ''i'')" "is_word_char (CHR ''l'')"
  "is_word_char (CHR ''m'')" "is_word_char (CHR ''n'')" "is_word_char (CHR ''o'')" "is_word_char (CHR ''p'')"
  "is_word_char (CHR ''q'')" "is_word_char (CHR ''r'')" "is_word_char (CHR ''s'')" "is_word_char (CHR ''t'')"
  "is_word_char (CHR ''u'')" "is_word_char (CHR ''w'')" "is_word_char (CHR ''x'')" "is_word_char (CHR ''y'')"
  "\<not> is_word_char (CHR ''}'')"
  by (simp_all add: is_word_char_def code_def)

lemma string_steps:
  "(c # s = []) = False" "([] = c # s) = False" "c \<noteq> d \<Longrightarrow> (c # s = d # t) = False" "(c # s = c # t) = (s = t)"
  for c d :: char
  by simp_all

lemmas read_texts = placeholders_steps word_steps placeholder_chars char.inject simp_thms list.pred_inject
  case_prod_conv
lemmas read_keys = distinct.simps simp_thms list.map prod.sel char.inject string_steps list.set insert_iff empty_iff

text \<open>No key occurs twice: within a group by comparison, between groups because of the part before the dot.\<close>

definition key_group :: "string \<Rightarrow> string" where
  "key_group key = takeWhile (\<lambda>c. c \<noteq> CHR ''.'') key"

lemma key_group_steps:
  "key_group [] = []" "key_group (CHR ''.'' # s) = []" "c \<noteq> CHR ''.'' \<Longrightarrow> key_group (c # s) = c # key_group s"
  by (simp_all add: key_group_def)

lemma distinct_keys:
  "distinct (map fst messages_frame)"
  "distinct (map fst messages_auth)"
  "distinct (map fst messages_profile)"
  "distinct (map fst messages_common)"
  "distinct (map fst messages_execution)"
  "distinct (map fst messages_dashboard)"
  "distinct (map fst messages_admin)"
  "distinct (map fst messages_events)"
  "distinct (map fst messages_dns)"
  "distinct (map fst messages_cloud)"
  "distinct (map fst messages_acme)"
  "distinct (map fst messages_certificate)"
  by (simp_all only: read_keys messages_frame_def messages_auth_def messages_profile_def messages_common_def
      messages_execution_def messages_dashboard_def messages_admin_def messages_events_def messages_dns_def
      messages_cloud_def messages_acme_def messages_certificate_def)

lemma key_groups:
  "list_all (\<lambda>m. key_group (fst m) \<in> {''nav'', ''account'', ''language'', ''navigation'', ''theme''}) messages_frame"
  "list_all (\<lambda>m. key_group (fst m) \<in> {''auth''}) messages_auth"
  "list_all (\<lambda>m. key_group (fst m) \<in> {''profile'', ''themeColor''}) messages_profile"
  "list_all (\<lambda>m. key_group (fst m) \<in> {''section'', ''common'', ''status'', ''error''}) messages_common"
  "list_all (\<lambda>m. key_group (fst m) \<in> {''execution''}) messages_execution"
  "list_all (\<lambda>m. key_group (fst m) \<in> {''dashboard''}) messages_dashboard"
  "list_all (\<lambda>m. key_group (fst m) \<in> {''admin''}) messages_admin"
  "list_all (\<lambda>m. key_group (fst m) \<in> {''realtime'', ''notification''}) messages_events"
  "list_all (\<lambda>m. key_group (fst m) \<in> {''dns''}) messages_dns"
  "list_all (\<lambda>m. key_group (fst m) \<in> {''cloud''}) messages_cloud"
  "list_all (\<lambda>m. key_group (fst m) \<in> {''acme''}) messages_acme"
  "list_all (\<lambda>m. key_group (fst m) \<in> {''certificate''}) messages_certificate"
  by (simp_all only: read_keys key_group_steps list.pred_inject messages_frame_def messages_auth_def messages_profile_def
      messages_common_def messages_execution_def messages_dashboard_def messages_admin_def messages_events_def
      messages_dns_def messages_cloud_def messages_acme_def messages_certificate_def)

lemma keys_apart:
  assumes "list_all (\<lambda>m. key_group (fst m) \<in> A) xs" "list_all (\<lambda>m. key_group (fst m) \<in> B) ys" "A \<inter> B = {}"
  shows "set (map fst xs) \<inter> set (map fst ys) = {}"
  using assms by (fastforce simp: list_all_iff)

lemma Int_Un_empty: "A \<inter> B = {} \<Longrightarrow> A \<inter> C = {} \<Longrightarrow> A \<inter> (B \<union> C) = {}"
  by auto

lemma distinct_dictionary: "distinct (map fst dictionary)"
  unfolding dictionary_def map_append distinct_append set_append
  by (intro conjI distinct_keys Int_Un_empty; rule keys_apart, rule key_groups, rule key_groups, simp)

text \<open>The placeholders of a key, and whether there is such a key at all.\<close>

definition known :: "string \<Rightarrow> bool" where
  "known key \<longleftrightarrow> al_get key dictionary \<noteq> None"

definition fields_of :: "string \<Rightarrow> string list" where
  "fields_of key = (case al_get key dictionary of None \<Rightarrow> [] | Some (zh, en) \<Rightarrow> placeholders en)"

lemma known_fields:
  assumes "set ms \<subseteq> set dictionary"
  shows "list_all (\<lambda>(key, zh, en). known key \<and> fields_of key = placeholders en) ms"
proof -
  have "al_get key dictionary = Some (zh, en)" if "(key, zh, en) \<in> set ms" for key zh en
    using that assms distinct_dictionary map_of_eq_Some_iff [of dictionary key "(zh, en)"]
    by (auto simp: al_get_map_of)
  then show ?thesis by (force simp: list_all_iff known_def fields_of_def)
qed

lemma groups_of_dictionary:
  "set messages_frame \<subseteq> set dictionary"
  "set messages_auth \<subseteq> set dictionary"
  "set messages_profile \<subseteq> set dictionary"
  "set messages_common \<subseteq> set dictionary"
  "set messages_execution \<subseteq> set dictionary"
  "set messages_dashboard \<subseteq> set dictionary"
  "set messages_admin \<subseteq> set dictionary"
  "set messages_events \<subseteq> set dictionary"
  "set messages_dns \<subseteq> set dictionary"
  "set messages_cloud \<subseteq> set dictionary"
  "set messages_acme \<subseteq> set dictionary"
  "set messages_certificate \<subseteq> set dictionary"
  by (auto simp only: dictionary_def set_append)

text \<open>One rule for each key: it is known, and these are its placeholders.\<close>

lemmas keys_frame = known_fields [OF groups_of_dictionary(1), unfolded messages_frame_def, simplified read_texts]
lemmas keys_auth = known_fields [OF groups_of_dictionary(2), unfolded messages_auth_def, simplified read_texts]
lemmas keys_profile = known_fields [OF groups_of_dictionary(3), unfolded messages_profile_def, simplified read_texts]
lemmas keys_common = known_fields [OF groups_of_dictionary(4), unfolded messages_common_def, simplified read_texts]
lemmas keys_execution = known_fields [OF groups_of_dictionary(5), unfolded messages_execution_def, simplified read_texts]
lemmas keys_dashboard = known_fields [OF groups_of_dictionary(6), unfolded messages_dashboard_def, simplified read_texts]
lemmas keys_admin = known_fields [OF groups_of_dictionary(7), unfolded messages_admin_def, simplified read_texts]
lemmas keys_events = known_fields [OF groups_of_dictionary(8), unfolded messages_events_def, simplified read_texts]
lemmas keys_dns = known_fields [OF groups_of_dictionary(9), unfolded messages_dns_def, simplified read_texts]
lemmas keys_cloud = known_fields [OF groups_of_dictionary(10), unfolded messages_cloud_def, simplified read_texts]
lemmas keys_acme = known_fields [OF groups_of_dictionary(11), unfolded messages_acme_def, simplified read_texts]
lemmas keys_certificate = known_fields [OF groups_of_dictionary(12), unfolded messages_certificate_def, simplified read_texts]

lemmas keys = keys_frame keys_auth keys_profile keys_common keys_execution keys_dashboard keys_admin
  keys_events keys_dns keys_cloud keys_acme keys_certificate

lemma same_placeholders:
  "list_all (\<lambda>(key, zh, en). set (placeholders zh) = set (placeholders en) \<and> length (placeholders zh) = length (placeholders en)) messages_frame"
  "list_all (\<lambda>(key, zh, en). set (placeholders zh) = set (placeholders en) \<and> length (placeholders zh) = length (placeholders en)) messages_auth"
  "list_all (\<lambda>(key, zh, en). set (placeholders zh) = set (placeholders en) \<and> length (placeholders zh) = length (placeholders en)) messages_profile"
  "list_all (\<lambda>(key, zh, en). set (placeholders zh) = set (placeholders en) \<and> length (placeholders zh) = length (placeholders en)) messages_common"
  "list_all (\<lambda>(key, zh, en). set (placeholders zh) = set (placeholders en) \<and> length (placeholders zh) = length (placeholders en)) messages_execution"
  "list_all (\<lambda>(key, zh, en). set (placeholders zh) = set (placeholders en) \<and> length (placeholders zh) = length (placeholders en)) messages_dashboard"
  "list_all (\<lambda>(key, zh, en). set (placeholders zh) = set (placeholders en) \<and> length (placeholders zh) = length (placeholders en)) messages_admin"
  "list_all (\<lambda>(key, zh, en). set (placeholders zh) = set (placeholders en) \<and> length (placeholders zh) = length (placeholders en)) messages_events"
  "list_all (\<lambda>(key, zh, en). set (placeholders zh) = set (placeholders en) \<and> length (placeholders zh) = length (placeholders en)) messages_dns"
  "list_all (\<lambda>(key, zh, en). set (placeholders zh) = set (placeholders en) \<and> length (placeholders zh) = length (placeholders en)) messages_cloud"
  "list_all (\<lambda>(key, zh, en). set (placeholders zh) = set (placeholders en) \<and> length (placeholders zh) = length (placeholders en)) messages_acme"
  "list_all (\<lambda>(key, zh, en). set (placeholders zh) = set (placeholders en) \<and> length (placeholders zh) = length (placeholders en)) messages_certificate"
  by (simp_all only: read_texts read_keys messages_frame_def messages_auth_def messages_profile_def
      messages_common_def messages_execution_def messages_dashboard_def messages_admin_def messages_events_def
      messages_dns_def messages_cloud_def messages_acme_def messages_certificate_def)

lemma dictionary_placeholders:
  assumes "al_get key dictionary = Some (zh, en)"
  shows "set (placeholders zh) = set (fields_of key) \<and> length (placeholders zh) = length (fields_of key) \<and> placeholders en = fields_of key"
proof -
  have "(key, zh, en) \<in> set dictionary" using assms by (simp add: al_get_map_of map_of_SomeD)
  then have "set (placeholders zh) = set (placeholders en) \<and> length (placeholders zh) = length (placeholders en)"
    using same_placeholders unfolding dictionary_def set_append by (auto simp only: list_all_iff Un_iff split: prod.splits)
  then show ?thesis using assms by (simp add: fields_of_def)
qed

subsection \<open>Labels that are filled\<close>

text \<open>
  \<open>text_ok hard\<close>: the key of every translated text of the label is in the dictionary and every placeholder of the text, in
  either language, is given a value; a text whose placeholder is replaced afterwards has this one only. Chinese
  literals are allowed when \<open>hard\<close> says so: \<open>text_ok True\<close> is a text that can be shown, \<open>text_ok False\<close> one
  that is translated as well.
\<close>

fun text_ok :: "bool \<Rightarrow> label \<Rightarrow> bool" where
  "text_ok h (Tr key vs) =
     (case al_get key dictionary of
        None \<Rightarrow> False
      | Some (zh, en) \<Rightarrow> list_all (\<lambda>name. al_get name vs \<noteq> None) (placeholders zh @ placeholders en))"
| "text_ok h (Cat xs) = list_all (text_ok h) xs"
| "text_ok h (Fill (Tr key vs) place x) =
     (text_ok h x \<and> vs = [] \<and>
      (case al_get key dictionary of
         None \<Rightarrow> False
       | Some (zh, en) \<Rightarrow> list_all (\<lambda>s. list_all (\<lambda>name. place = CHR ''{'' # name @ ''}'') (placeholders s) \<and> length (placeholders s) \<le> 1) [zh, en]))"
| "text_ok h (Fill t place x) = False"
| "text_ok h (Zh g) = h"
| "text_ok h x = True"

lemma text_ok_hard: "text_ok False l \<Longrightarrow> text_ok h l"
  by (induction False l rule: text_ok.induct) (auto simp: list_all_iff split: option.splits)

lemma filled_Tr [simp]: "text_ok h (Tr key vs) \<longleftrightarrow> known key \<and> list_all (\<lambda>name. al_get name vs \<noteq> None) (fields_of key)"
proof (cases "al_get key dictionary")
  case (Some m)
  then show ?thesis using dictionary_placeholders [of key "fst m" "snd m"]
    by (cases m) (auto simp: known_def list_all_iff)
qed (simp add: known_def)

lemma filled_Fill [simp]:
  "text_ok h (Fill (Tr key []) place x) \<longleftrightarrow>
    text_ok h x \<and> known key \<and> list_all (\<lambda>name. place = CHR ''{'' # name @ ''}'') (fields_of key) \<and> length (fields_of key) \<le> 1"
proof (cases "al_get key dictionary")
  case (Some m)
  then show ?thesis using dictionary_placeholders [of key "fst m" "snd m"]
    by (cases m) (auto simp: known_def list_all_iff)
qed (simp add: known_def)

declare text_ok.simps(1,3) [simp del]

text \<open>What the user reads of such a text: each placeholder has become its value.\<close>

lemma filled_reads:
  assumes "text_ok h (Tr key vs)" "messages rd = message_text"
  shows "show_text rd loc (Tr key vs) = concat (map (\<lambda>x. case x of Inl c \<Rightarrow> [c] | Inr name \<Rightarrow> the (al_get name vs)) (parse_message (message_text key loc)))"
proof -
  have "al_get name vs \<noteq> None" if "Inr name \<in> set (parse_message (message_text key loc))" for name
  proof -
    obtain zh en where m: "al_get key dictionary = Some (zh, en)" using assms(1) by (auto simp: known_def)
    have "name \<in> set (placeholders (message_text key loc))" using that by (simp add: placeholders_parsed)
    then have "name \<in> set (fields_of key)" using dictionary_placeholders [OF m] m by (cases loc) (simp_all add: message_text_def)
    then show ?thesis using assms(1) by (simp add: list_all_iff)
  qed
  then have "piece vs x = (case x of Inl c \<Rightarrow> [c] | Inr name \<Rightarrow> the (al_get name vs))"
    if "x \<in> set (parse_message (message_text key loc))" for x
    using that by (cases x) (force simp: piece_def)+
  then have "map (piece vs) (parse_message (message_text key loc)) =
      map (\<lambda>x. case x of Inl c \<Rightarrow> [c] | Inr name \<Rightarrow> the (al_get name vs)) (parse_message (message_text key loc))"
    by simp
  then have "interpolate vs (message_text key loc) =
      concat (map (\<lambda>x. case x of Inl c \<Rightarrow> [c] | Inr name \<Rightarrow> the (al_get name vs)) (parse_message (message_text key loc)))"
    by (simp only: interpolate_pieces)
  moreover have "show_text rd loc (Tr key vs) = interpolate vs (message_text key loc)"
    using assms(2) by (simp add: translate_def Let_def interpolate_no_values)
  ultimately show ?thesis by simp
qed

end
