(* ===== verification/Text_Contract.thy ===== *)
theory Text_Contract
  imports Messages Pagination Runtime
begin

text \<open>
  The contract of the texts. \<open>texts_all P v\<close>: every label of the view \<open>v\<close> that can be seen, the items of its
  choices and menus included, satisfies \<open>P\<close>. A component meets \<open>filled_texts\<close> when some predicate of its state is kept
  by every step, and in every state that has it all texts shown are good in the sense of \<open>text_ok\<close>.
\<close>

primrec texts_all :: "(label \<Rightarrow> bool) \<Rightarrow> 'e view \<Rightarrow> bool" where
  "texts_all P (Txt t) \<longleftrightarrow> P t"
| "texts_all P (El tag vs) \<longleftrightarrow> list_all id (map (texts_all P) vs)"
| "texts_all P (Button l disabled e) \<longleftrightarrow> P l"
| "texts_all P (Field l v f) \<longleftrightarrow> P l"
| "texts_all P (Choice l sel disabled items f) \<longleftrightarrow> P l \<and> list_all (\<lambda>it. P (fst (snd it))) items"
| "texts_all P (Check l v f) \<longleftrightarrow> P l"
| "texts_all P (Menu l items f) \<longleftrightarrow> P l \<and> list_all (\<lambda>it. P (fst (snd it))) items"
| "texts_all P (Dialog isOpen title desc close vs footer) \<longleftrightarrow>
     (isOpen \<longrightarrow> P title \<and> P desc \<and> list_all id (map (texts_all P) vs) \<and> list_all id (map (texts_all P) footer))"

lemma texts_all_lists [simp]:
  "list_all id (map f vs) \<longleftrightarrow> list_all f vs"
  "list_all P (map g xs) \<longleftrightarrow> list_all (\<lambda>x. P (g x)) xs"
  "list_all (\<lambda>x. True) ys"
  by (simp_all add: list_all_iff)

lemma texts_all_map_view [simp]: "texts_all P (map_view f v) \<longleftrightarrow> texts_all P v"
  by (induction v) (auto simp: list_all_iff)

lemma texts_all_shown: "texts_all P v \<Longrightarrow> t \<in> shown_texts v \<Longrightarrow> (\<And>s. P (Raw s)) \<Longrightarrow> P t"
  by (induction v) (auto simp: list_all_iff split: if_splits)

subsection \<open>Conditional texts\<close>

named_theorems text_cases \<open>conditional rendering under the contract of the texts\<close>

lemma text_if [text_cases]:
  "texts_all P (if c then x else y) \<longleftrightarrow> (c \<longrightarrow> texts_all P x) \<and> (\<not> c \<longrightarrow> texts_all P y)"
  "text_ok h (if c then l else m) \<longleftrightarrow> (c \<longrightarrow> text_ok h l) \<and> (\<not> c \<longrightarrow> text_ok h m)"
  "list_all Q (if c then xs else ys) \<longleftrightarrow> (c \<longrightarrow> list_all Q xs) \<and> (\<not> c \<longrightarrow> list_all Q ys)"
  by simp_all

lemma text_option [text_cases]:
  "texts_all P (case z of None \<Rightarrow> x | Some v \<Rightarrow> f v) \<longleftrightarrow> (z = None \<longrightarrow> texts_all P x) \<and> (\<forall>v. z = Some v \<longrightarrow> texts_all P (f v))"
  "text_ok h (case z of None \<Rightarrow> l | Some v \<Rightarrow> g v) \<longleftrightarrow> (z = None \<longrightarrow> text_ok h l) \<and> (\<forall>v. z = Some v \<longrightarrow> text_ok h (g v))"
  "list_all Q (case z of None \<Rightarrow> xs | Some v \<Rightarrow> k v) \<longleftrightarrow> (z = None \<longrightarrow> list_all Q xs) \<and> (\<forall>v. z = Some v \<longrightarrow> list_all Q (k v))"
  by (auto split: option.split)

lemma text_key [text_cases]:
  "known (if c then j else k) \<longleftrightarrow> (c \<longrightarrow> known j) \<and> (\<not> c \<longrightarrow> known k)"
  "fields_of (if c then j else k) = (if c then fields_of j else fields_of k)"
  by simp_all

subsection \<open>Shared views\<close>

lemma al_get_values: "al_get k m = Some v \<Longrightarrow> list_all (\<lambda>p. Q (snd p)) m \<Longrightarrow> Q v"
  by (induction k m rule: al_get.induct) (auto split: if_splits)

text \<open>A text looked up in a table of keys.\<close>

lemma table_texts:
  assumes "list_all (\<lambda>p. text_ok h (Tr (snd p) [])) table"
  shows "text_ok h l \<Longrightarrow> text_ok h (case al_get k table of Some key \<Rightarrow> Tr key [] | None \<Rightarrow> l)"
    and "text_ok h l \<Longrightarrow> text_ok h (case al_get k table of None \<Rightarrow> l | Some key \<Rightarrow> Tr key [])"
    and "text_ok h (Tr d []) \<Longrightarrow> text_ok h (Tr (case al_get k table of Some key \<Rightarrow> key | None \<Rightarrow> d) [])"
  using al_get_values [where Q = "\<lambda>v. text_ok h (Tr v [])", OF _ assms, of k] by (auto split: option.split)

lemma filled_status [simp]: "text_ok h (status_label st)"
  unfolding status_label_def by (rule table_texts) (simp_all add: labelKeys_def keys)

lemma filled_error_code [simp]: "text_ok h (translateErrorCode c fallback)"
  unfolding translateErrorCode_def by (rule table_texts) (simp_all add: errorCodeKeys_def keys)

lemma filled_dates [simp]:
  "text_ok h (formatDate v l)"
  "text_ok h (formatDateTime_or v l x) \<longleftrightarrow> v \<notin> {None, Some []} \<or> text_ok h x"
  "text_ok h (formatDateTime v l) \<longleftrightarrow> v \<notin> {None, Some []} \<or> h"
  by (auto simp: formatDate_def formatDateTime_or_def formatDateTime_def split: option.split)

lemma filled_messages [simp]:
  "text_ok h x \<Longrightarrow> text_ok h (body_message r x)" "text_ok h x \<Longrightarrow> text_ok h (failure_message f x)"
  by (simp_all add: body_message_def failure_message_def split: option.split json.split failure.split)

lemma texts_shared [simp]:
  "texts_all (text_ok h) (StatusTag st) \<longleftrightarrow> h"
  "texts_all (text_ok h) (ModalCancelButton e)"
  "texts_all (text_ok h) ApiUnavailableWarning"
  "texts_all (text_ok h) (FormError t) \<longleftrightarrow> text_ok h t"
  by (simp_all add: StatusTag_def ModalCancelButton_def ApiUnavailableWarning_def FormError_def keys)

lemma texts_modal [simp]:
  "texts_all P (ResourceModal isOpen title description close footer vs) \<longleftrightarrow>
     (isOpen \<longrightarrow> P title \<and> P description \<and> list_all (texts_all P) vs \<and> list_all (texts_all P) footer)"
  by (simp add: ResourceModal_def)

lemma texts_empty_state [simp]:
  "texts_all P (ResourceEmptyState title description pa sa) \<longleftrightarrow>
     P title \<and> pred_option (\<lambda>d. shown d \<longrightarrow> P d) description \<and> pred_option (\<lambda>a. P (fst a)) pa \<and> pred_option (\<lambda>a. P (fst a)) sa"
  by (auto simp: ResourceEmptyState_def EmptyStateAction_def split: option.split)

lemma texts_actions [simp]:
  assumes "list_all (\<lambda>a. text_ok h (ta_label a) \<and>
    (ta_pending a \<longrightarrow> (case ta_pendingLabel a of None \<Rightarrow> h | Some l \<Rightarrow> text_ok h l))) actions"
  shows "texts_all (text_ok h) (TableActions actions)"
proof -
  have "text_ok h (action_text a)" if "a \<in> set actions" for a
    using that assms by (auto simp: list_all_iff action_text_def split: option.splits)
  then show ?thesis
    using assms set_take_subset [of 3 actions] set_drop_subset [of 3 actions]
    by (auto simp: TableActions_def Let_def list_all_iff keys)
qed

lemma action_simps [simp]: "ta_label (action i l e d) = l" "\<not> ta_pending (action i l e d)"
  by (simp_all add: action_def)

lemma texts_pagination [simp]: "texts_all (text_ok h) (ResourcePagination page pageCount total_n pageSize onPage onSize)"
  by (simp add: ResourcePagination_def Let_def keys list_all_iff split: prod.split page_item.split)

subsection \<open>The contract\<close>

locale filled_texts =
  fixes a :: "('s, 'e, 'k, 'r) app"
    and h :: bool
    and ok :: "'s \<Rightarrow> bool"
  assumes view_law: "ok s \<Longrightarrow> texts_all (text_ok h) (app_view a s)"
    and event_law: "ok s \<Longrightarrow> e \<in> offered (app_view a s) \<union> app_ambient a s \<Longrightarrow> ok (fst (app_handle a e s))"
    and reply_law: "ok s \<Longrightarrow> r \<in> app_answers a k \<Longrightarrow> ok (fst (app_resume a k r s))"
    and outside_law: "ok s \<Longrightarrow> s' \<in> app_outside a s \<Longrightarrow> ok s'"
begin

lemma reach_filled:
  assumes "ui_reach a x0 (s, q)" "ok (fst x0)"
  shows "texts_all (text_ok h) (app_view a s)"
proof -
  have "ok (fst (s, q))"
    using assms by (rule ui_reach_inv) (fact event_law reply_law outside_law)+
  then show ?thesis by (simp add: view_law)
qed

end

end
