(* ===== verification/Certificate_Texts.thy ===== *)
theory Certificate_Texts
  imports Text_Contract Certificate_List_Facts Certificate_Workflow
begin

text \<open>
  The texts of the certificate pages: the list with its dialogs, the manual validation and the creation
  wizard show only texts that are filled; those of the wizard are translated throughout.
\<close>

lemma domain_texts [simp]: "text_ok h (validateDomains ds)" "text_ok h (edit_validateDomains ds) \<longleftrightarrow> edit_validateDomains ds = no_text \<or> h"
  by (auto simp: validateDomains_text edit_validateDomains_text wizard_text_def edit_text_def keys split: option.split domain_error.split)

subsection \<open>The list\<close>

definition cl_texts_ok :: "cl_state \<Rightarrow> bool" where
  "cl_texts_ok s \<longleftrightarrow> text_ok True (cl_error s) \<and> (\<forall>p. cl_edit s = Some p \<longrightarrow> text_ok True (edit_validationError p))"

lemma expiry_texts [simp]: "text_ok h (expiryLabel now v)"
  by (simp add: expiryLabel_def Let_def keys text_cases)

lemma edit_texts [simp]:
  "edit_validationError (mount_edit_panel d) = no_text"
  "edit_validationError (edit_field e p) = edit_validationError p"
  "text_ok True (edit_validationError (fst (submit_edit p)))"
  by (simp_all add: mount_edit_panel_def edit_field_def submit_edit_def Let_def text_cases split: edit_event.split)

lemma cl_view_texts: "cl_texts_ok s \<Longrightarrow> texts_all (text_ok True) (cl_view s)"
  by (auto simp: cl_texts_ok_def cl_view_def cl_toolbar_def cl_table_def cl_row_def cl_actions_def cl_list_foot_def cl_dialog_def
    cl_dialog_title_def cl_dialog_description_def cl_dialog_panels_def cl_issue_dialog_def cl_delete_dialog_def
    edit_panel_view_def key_algorithm_items_def keys text_cases Let_def)

lemma cl_sync_texts: "cl_texts_ok s \<Longrightarrow> cl_texts_ok (cl_sync_edit s)"
  by (auto simp: cl_texts_ok_def cl_sync_edit_def split: option.splits if_splits)

lemma cl_commit_texts: "cl_texts_ok (fst x) \<Longrightarrow> cl_texts_ok (fst (cl_commit b x))"
  using cl_sync_texts [of "fst x"] by (cases x) (simp add: cl_commit_def Let_def cl_texts_ok_def)

lemma submitEdit_texts: "cl_texts_ok s \<Longrightarrow> cl_texts_ok (fst (submitEdit s))"
proof (cases "cl_edit s")
  case (Some p)
  obtain p' r where p: "submit_edit p = (p', r)" by (cases "submit_edit p")
  then have "text_ok True (edit_validationError p')" using edit_texts(3) [of p] by simp
  moreover assume "cl_texts_ok s"
  ultimately show ?thesis
    by (simp add: submitEdit_def Some p cl_texts_ok_def saveEdit_def split: option.split)
qed (simp add: submitEdit_def)

lemma cl_act_texts: "cl_texts_ok s \<Longrightarrow> cl_texts_ok (fst (cl_act e s))"
  by (cases e) (auto simp: cl_act_def submitEdit_texts, auto simp: cl_texts_ok_def cl_refresh_def openCreate_def open_view_def
      openMode_def close_detail_def issueCertificate_def deleteCertificate_def split: option.splits)

lemma cl_continue_texts: "cl_texts_ok s \<Longrightarrow> cl_texts_ok (cl_continue k r s)"
  by (simp add: cl_continue_def cl_texts_ok_def detail_loaded_def saved_def certificate_deleted_def issued_def cl_refresh_def
      close_detail_def Let_def text_cases split: cl_call.split cl_reply.split)

interpretation cl_texts: filled_texts certificate_list True cl_texts_ok
  by unfold_locales (auto simp: certificate_list_def cl_view_texts cl_handle_def cl_resume_def cl_outside_def
      intro!: cl_commit_texts cl_act_texts cl_continue_texts cl_sync_texts, simp_all add: cl_texts_ok_def)

subsection \<open>The wizard and the manual validation\<close>

lemma wf_view_texts: "text_ok False (wf_error s) \<Longrightarrow> texts_all (text_ok False) (wf_view s)"
  by (auto simp: wf_view_def wf_footer_def IdentityStep_def ValidationStep_def RenewalStep_def step_mark_def stepKeys_def
    key_algorithm_items_def wf_domainError_def keys text_cases upt_rec)

interpretation wf_texts: filled_texts workflow_app False "\<lambda>s. text_ok False (wf_error s)"
proof unfold_locales
  show "text_ok False (wf_error (fst (app_handle workflow_app e s)))" if "text_ok False (wf_error s)" for e s
    using that by (cases e) (simp_all add: wf_app_simps wf_handler_defs wf_domainError_def keys)
qed (auto simp: wf_app_simps wf_view_texts wf_resume_def created_def close_workflow_def Let_def wf_outside_def keys
    split: wf_call.split sum.split)

lemma manual_view_texts: "text_ok True (mv_error s) \<Longrightarrow> texts_all (text_ok True) (manual_view s)"
  by (auto simp: manual_view_def check_row_def text_cases)

interpretation manual_texts: filled_texts manual_app True "\<lambda>s. text_ok True (mv_error s)"
  by unfold_locales (auto simp: manual_defs manual_view_texts text_cases
    split: manual_event.split manual_call.split manual_reply.split option.split)

end
