(* ===== verification/Manager_Texts.thy ===== *)
theory Manager_Texts
  imports Text_Contract Credentials Auth_Facts
begin

text \<open>
  The texts of the credential managers and of the forms of login and registration. Those of the ACME
  accounts and of the two forms are translated throughout.
\<close>

subsection \<open>What the managers share\<close>

lemma mg_views_texts:
  "text_ok h l \<Longrightarrow> texts_all (text_ok h) (mg_toolbar l s)"
  "text_ok h (mg_error s) \<Longrightarrow> texts_all (text_ok h) (mg_error_line s)"
  "list_all (text_ok h) hs \<Longrightarrow> (\<And>r. texts_all (text_ok h) (row r)) \<Longrightarrow> texts_all (text_ok h) (mg_table hs row rs)"
  "list_all (text_ok h) [empty_title e, empty_description e, empty_action e, none_title e, none_description e, none_action e] \<Longrightarrow>
    texts_all (text_ok h) (mg_foot e texts s)"
  "text_ok h (mg_error s) \<Longrightarrow> text_ok h t \<Longrightarrow> text_ok h d \<Longrightarrow> list_all (texts_all (text_ok h)) inputs \<Longrightarrow>
    texts_all (text_ok h) (mg_form_dialog t d blocked inputs s)"
  "text_ok h (mg_error s) \<Longrightarrow> text_ok h t \<Longrightarrow> text_ok h d \<Longrightarrow> list_all (text_ok h) notes \<Longrightarrow> texts_all (text_ok h) (mg_delete_dialog t d notes s)"
  "text_ok h t \<Longrightarrow> text_ok h d \<Longrightarrow> (\<And>r. list_all (text_ok h) (rows r)) \<Longrightarrow> texts_all (text_ok h) (mg_details_dialog t d rows s)"
  by (auto simp: mg_toolbar_def mg_error_line_def mg_table_def mg_foot_def mg_form_dialog_def mg_delete_dialog_def
      mg_details_dialog_def Let_def keys text_cases list_all_iff split: option.split)

lemma mg_texts [simp]:
  "mg_error (router_refresh s) = mg_error s"
  "text_ok h (name_or f r l) \<longleftrightarrow> (r = None \<longrightarrow> text_ok h l)" "text_ok h (value_or v l) \<longleftrightarrow> (v = [] \<longrightarrow> text_ok h l)"
  "text_ok h (verified_at z l')"
  by (auto simp: router_refresh_def name_or_def value_or_def verified_at_def keys split: option.split)

lemma mg_error_texts:
  "text_ok h (mg_error s) \<Longrightarrow> text_ok h (mg_error (mg_act e s))"
  "text_ok h (mg_error s) \<Longrightarrow> (\<And>l. c = Inl l \<Longrightarrow> text_ok h l) \<Longrightarrow> text_ok h (mg_error (fst (mg_save c s)))"
  "text_ok h (mg_error s) \<Longrightarrow> text_ok h (mg_error (fst (mg_delete s)))"
  "text_ok h (mg_error (fst (mg_verify i r s)))"
  "text_ok h (mg_error (fst (mg_toggle b r s)))"
  "text_ok h l \<Longrightarrow> text_ok h (mg_error s) \<Longrightarrow> text_ok h (mg_error (mg_saved l x s))"
  "(\<And>f. text_ok h (g f)) \<Longrightarrow> text_ok h (mg_error s) \<Longrightarrow> text_ok h (mg_error (mg_deleted g x s))"
  "text_ok h l \<Longrightarrow> text_ok h (mg_error s) \<Longrightarrow> text_ok h (mg_error (mg_verified l x s))"
  "text_ok h l \<Longrightarrow> text_ok h (mg_error s) \<Longrightarrow> text_ok h (mg_error (mg_toggled l x s))"
  by (auto simp: mg_act_def mg_save_def mg_delete_def mg_verify_def mg_toggle_def mg_start_def mg_saved_def mg_deleted_def
    mg_verified_def mg_toggled_def closeForm_def openCreate_form_def split: mg_event.split option.split sum.split)

subsection \<open>Cloud credentials\<close>

lemma cc_view_texts: "text_ok True (mg_error s) \<Longrightarrow> texts_all (text_ok True) (cc_view s)"
  by (auto simp: cc_view_def cc_row_def cc_actions_def cc_form_fields_def CloudCredentialFormModal_def DeleteCredentialModal_def
      CredentialDetailsModal_def providerLabel_def credential_status_label_def availableProviders_def Let_def keys text_cases
      intro!: mg_views_texts)

interpretation cc_texts: filled_texts cloud_app True "\<lambda>s. text_ok True (mg_error s)"
proof unfold_locales
  have remount: "mg_error (cc_remount b s) = mg_error s" for b s by (simp add: cc_remount_def)
  have check: "check_credential e d = Inl l \<Longrightarrow> text_ok True l" for e d l
    by (auto simp: check_credential_def Let_def keys split: if_splits)
  have delete: "text_ok True (credential_delete_error f)" for f by (simp add: credential_delete_error_def keys text_cases)
  show "text_ok True (mg_error (fst (app_handle cloud_app e s)))" if "text_ok True (mg_error s)" for e s
    using that by (cases e) (auto simp: cloud_simps cc_handle_def cc_act_def remount saveCredential_def deleteCredential_def
      verifyCredential_def toggleCredential_def split_beta intro!: mg_error_texts dest: check)
  show "text_ok True (mg_error (fst (app_resume cloud_app k r s)))" if "text_ok True (mg_error s)" for k r s
    using that by (cases k) (auto simp: cloud_simps cc_resume_def cc_continue_def remount delete keys intro!: mg_error_texts)
qed (auto simp: cloud_simps cc_view_texts)

subsection \<open>ACME accounts\<close>

lemma acme_view_texts: "text_ok True (mg_error s) \<Longrightarrow> texts_all (text_ok True) (acme_view s)"
  by (auto simp: acme_view_def acme_row_def acme_actions_def acme_form_fields_def ACMEAccountFormModal_def DeleteACMEAccountModal_def
      ACMEAccountDetailsModal_def algorithmLabel_def acme_status_label_def acme_keyAlgorithms_def Let_def keys text_cases
      intro!: mg_views_texts)

interpretation acme_texts: filled_texts acme_app True "\<lambda>s. text_ok True (mg_error s)"
proof unfold_locales
  have remount: "mg_error (acme_remount b s) = mg_error s" for b s by (simp add: acme_remount_def)
  have check: "check_acme d = Inl l \<Longrightarrow> text_ok True l" for d l
    by (auto simp: check_acme_def keys split: if_splits)
  have delete: "text_ok True (acme_delete_error f)" for f by (simp add: acme_delete_error_def keys text_cases)
  show "text_ok True (mg_error (fst (app_handle acme_app e s)))" if "text_ok True (mg_error s)" for e s
    using that by (cases e) (auto simp: acme_simps acme_handle_def acme_act_def remount acme_saveAccount_def acme_deleteAccount_def
      acme_verifyAccount_def split_beta intro!: mg_error_texts dest: check)
  show "text_ok True (mg_error (fst (app_resume acme_app k r s)))" if "text_ok True (mg_error s)" for k r s
    using that by (cases k) (auto simp: acme_simps acme_resume_def acme_continue_def remount delete keys intro!: mg_error_texts)
qed (auto simp: acme_simps acme_view_texts)

subsection \<open>DNS accounts\<close>

definition dns_texts_ok :: "dns_state \<Rightarrow> bool" where
  "dns_texts_ok s \<longleftrightarrow> text_ok True (mg_error s) \<and> text_ok True (df_zoneError (dns_inputs s))"

lemma dns_line_texts [simp]:
  "text_ok h (credential_line c)" "text_ok h (zones_line a)" "text_ok True (dns_status_label st)"
  by (simp_all add: credential_line_def zones_line_def dns_status_label_def keys)

lemma dns_form_texts: "dns_texts_ok s \<Longrightarrow> list_all (texts_all (text_ok True)) (dns_form_fields s)"
  by (simp add: dns_texts_ok_def dns_form_fields_def zone_picker_def zone_toolbar_def zone_help_def Let_def keys text_cases)

lemma dns_row_texts: "texts_all (text_ok True) (dns_row s a)"
  by (simp add: dns_row_def dns_actions_def keys text_cases)

lemma dns_view_texts: "dns_texts_ok s \<Longrightarrow> texts_all (text_ok True) (dns_view s)"
  using dns_form_texts [of s] dns_row_texts [of s]
  by (simp add: dns_texts_ok_def dns_view_def DNSAccountFormModal_def DeleteDNSAccountModal_def DNSAccountDetailsModal_def keys text_cases
      mg_views_texts)

lemma mg_keeps_inputs:
  "dns_inputs (mg_act x s) = dns_inputs s" "dns_inputs (fst (mg_save c s)) = dns_inputs s" "dns_inputs (fst (mg_delete s)) = dns_inputs s"
  "dns_inputs (fst (mg_verify i r s)) = dns_inputs s" "dns_inputs (fst (mg_toggle b r s)) = dns_inputs s"
  "dns_inputs (mg_saved l y s) = dns_inputs s" "dns_inputs (mg_deleted g y s) = dns_inputs s"
  "dns_inputs (mg_verified l y s) = dns_inputs s" "dns_inputs (mg_toggled l y s) = dns_inputs s"
  by (auto simp: mg_act_def mg_save_def mg_delete_def mg_verify_def mg_toggle_def mg_start_def mg_saved_def mg_deleted_def mg_verified_def
    mg_toggled_def closeForm_def openCreate_form_def router_refresh_def split: mg_event.split option.split sum.split)

lemma dns_commit_texts: "dns_texts_ok s \<Longrightarrow> dns_texts_ok (fst (dns_commit b s))"
  by (auto simp: dns_texts_ok_def dns_commit_def mount_dns_form_def Let_def split: option.split)

lemma dns_act_texts: "dns_texts_ok s \<Longrightarrow> dns_texts_ok (fst (dns_act e s))"
proof (cases e)
  case (MForm x)
  moreover assume "dns_texts_ok s"
  ultimately show ?thesis
    by (simp add: dns_act_def dns_texts_ok_def edit_dns_form_def changeCredential_def selectAllZones_def clearVisibleZones_def
        toggleZone_def split: dns_field.split)
next
  case MSubmit
  have "check_dns d = Inl l \<Longrightarrow> text_ok True l" for d l by (auto simp: check_dns_def keys split: if_splits)
  moreover assume "dns_texts_ok s"
  ultimately show ?thesis
    using MSubmit by (auto simp: dns_act_def dns_texts_ok_def mg_keeps_inputs dns_saveAccount_def intro!: mg_error_texts)
qed (auto simp: dns_act_def dns_texts_ok_def mg_keeps_inputs dns_deleteAccount_def dns_verifyAccount_def dns_toggleAccount_def
    intro!: mg_error_texts)

interpretation dns_texts: filled_texts dns_app True dns_texts_ok
proof unfold_locales
  have delete: "text_ok True (dns_delete_error f)" for f
    by (auto simp: dns_delete_error_def deleteImpactMessage_def keys split: failure.split option.split json.split)
  show "dns_texts_ok (fst (app_handle dns_app e s))" if "dns_texts_ok s" for e s
    using dns_commit_texts [OF dns_act_texts [OF that, of e]] by (simp add: dns_simps dns_handle_def split_beta Let_def)
  have mutated: "dns_texts_ok (dns_mutated m d s)" if "dns_texts_ok s" for m d s
    using that delete by (cases m) (auto simp: dns_mutated_def dns_texts_ok_def mg_keeps_inputs keys intro!: mg_error_texts)
  have zones: "dns_texts_ok (zones_loaded n r s)" if "dns_texts_ok s" "r \<in> dns_answers (LoadZones n c)" for n r s c
    using that by (auto simp: dns_texts_ok_def zones_loaded_def dns_answers_def keys)
  show "dns_texts_ok (fst (app_resume dns_app k r s))" if "dns_texts_ok s" "r \<in> app_answers dns_app k" for k r s
    using that by (cases k) (auto simp: dns_simps dns_resume_def mutated zones split: dns_reply.split intro!: dns_commit_texts)
qed (auto simp: dns_simps dns_view_texts, auto simp: dns_texts_ok_def)

subsection \<open>Login and registration\<close>

definition auth_texts_ok :: "('x) auth_form_scheme \<Rightarrow> bool" where
  "auth_texts_ok s \<longleftrightarrow> text_ok False (au_message s) \<and> text_ok False (au_error s)"

lemma auth_views_texts:
  "auth_texts_ok s \<Longrightarrow> texts_all (text_ok False) (LoginForm s)" "auth_texts_ok r \<Longrightarrow> texts_all (text_ok False) (RegisterForm r)"
  by (auto simp: auth_texts_ok_def LoginForm_def RegisterForm_def AuthFeedback_def PasswordField_def VerificationField_def RememberMe_def
    Let_def keys text_cases split: auth_mode.split locale_id.split)

lemma auth_steps_texts [simp]:
  "auth_texts_ok s \<Longrightarrow> auth_texts_ok (auth_act e s)"
  "auth_texts_ok s \<Longrightarrow> auth_texts_ok (fst (sendCode p s))"
  "auth_texts_ok s \<Longrightarrow> auth_texts_ok (code_sent r s)"
  "auth_texts_ok s \<Longrightarrow> text_ok False l \<Longrightarrow> auth_texts_ok (submitted l p b r s)"
  "auth_texts_ok s \<Longrightarrow> auth_texts_ok (fst (checkSession k r s))"
  by (auto simp: auth_texts_ok_def auth_act_def sendCode_def code_sent_def submitted_def checkSession_def auth_result_def
    startCooldown_def cooldown_tick_def clearFeedback_def router_replace_def remember_def Let_def keys
    split: auth_event.split option.split auth_reply.split)

interpretation login_texts: filled_texts login_app False auth_texts_ok
proof unfold_locales
  show "auth_texts_ok (fst (app_handle login_app e s))" if "auth_texts_ok s" for e s
    using that by (cases e) (auto simp: auth_simps login_handle_def, auto simp: auth_texts_ok_def login_def clearFeedback_def Let_def keys)
  show "auth_texts_ok (fst (app_resume login_app k r s))" if "auth_texts_ok s" for k r s
    using that by (cases k) (auto simp: auth_simps login_resume_def keys)
qed (auto simp: auth_simps auth_views_texts, simp_all add: auth_texts_ok_def)

interpretation register_texts: filled_texts register_app False auth_texts_ok
proof unfold_locales
  show "auth_texts_ok (fst (app_handle register_app e s))" if "auth_texts_ok s" for e s
    using that by (cases e) (auto simp: auth_simps register_handle_def, auto simp: auth_texts_ok_def register_def clearFeedback_def Let_def keys)
  show "auth_texts_ok (fst (app_resume register_app k r s))" if "auth_texts_ok s" for k r s
    using that by (cases k) (auto simp: auth_simps register_resume_def keys)
qed (auto simp: auth_simps auth_views_texts, simp_all add: auth_texts_ok_def)

end
