(* ===== verification/Page_Texts.thy ===== *)
theory Page_Texts
  imports Text_Contract Deployment_Facts Notification_Facts Shell_Facts Profile_Facts Smtp_Settings
begin

text \<open>
  The texts of the automation tasks, the notification center, the frame, the profile and the settings. Those
  of the notifications are translated throughout; in the others some literals are Chinese in both languages.
\<close>

subsection \<open>Automation tasks\<close>

lemma task_labels_text [simp]: "text_ok h (interval_label m) \<longleftrightarrow> h"
  by (simp add: interval_label_def split: prod.split)

lemma task_row_texts [simp]: "texts_all (text_ok True) (task_row p t)"
  by (simp add: task_row_def task_actions_def text_cases)

lemma detail_texts [simp]: "texts_all (text_ok True) (run_item r)" "texts_all (text_ok True) (detail_view s t)"
  by (simp_all add: run_item_def detail_view_def text_cases Let_def list_all_iff)

lemma dm_parts_texts [simp]:
  "texts_all (text_ok True) (dm_toolbar s)" "texts_all (text_ok True) (AutomationTable ts p)"
  "texts_all (text_ok True) (dm_detail_dialog s)" "texts_all (text_ok True) (dm_permission_dialog s)"
  "texts_all (text_ok True) (dm_delete_dialog s)"
  by (simp_all add: dm_toolbar_def AutomationTable_def list_all_iff)
    (auto simp: dm_detail_dialog_def dm_permission_dialog_def dm_delete_dialog_def text_cases split: option.split)

lemma dm_list_texts [simp]: "texts_all (text_ok True) (dm_list rd s)"
  by (simp add: dm_list_def)

lemma dm_editor_texts: "text_ok True (dm_error s) \<Longrightarrow> texts_all (text_ok True) (dm_editor s)"
  by (auto simp: dm_editor_def editor_fields_def alb_fields_def inline_fields_def target_picker_def credential_items_def
    interval_items_def list_all_iff text_cases Let_def)

lemma dm_run_texts: "text_ok True (dm_error s) \<Longrightarrow> texts_all (text_ok True) (dm_run_dialog s)"
  by (auto simp: dm_run_dialog_def run_effects_def text_cases)

lemma dm_view_texts: "text_ok True (dm_error s) \<Longrightarrow> texts_all (text_ok True) (dm_view rd s)"
  by (simp add: dm_view_def dm_editor_texts dm_run_texts)

lemma dm_commit_error [simp]: "dm_error (fst (dm_commit f b x)) = dm_error (fst x)"
  by (cases x) (simp add: dm_commit_def Let_def)

lemma dm_act_texts: "text_ok True (dm_error s) \<Longrightarrow> text_ok True (dm_error (fst (dm_act e s)))"
  by (cases e) (auto simp: dm_act_def dm_handler_defs createAutomation_def toggleAutomation_def confirmRun_def deleteResource_def
    Let_def split: option.splits)

lemma message_or_text [simp]: "text_ok True (message_or r m)"
  by (simp add: message_or_def)

lemma dm_continue_texts:
  assumes "text_ok True (dm_error s)" "r \<in> dm_answers k"
  shows "text_ok True (dm_error (fst (dm_continue k r s)))"
proof -
  have "text_ok True m" if "r = NoReply m" for m using assms(2) that by (cases k) (auto simp: dm_answers_def)
  then show ?thesis using assms(1)
    by (cases k; cases r) (auto simp: dm_continue_def dm_reply_defs readALBError_def readError_def Let_def dm_handler_defs
      split: alb_error.split)
qed

interpretation dm_texts: filled_texts "deployment_app rd" True "\<lambda>s. text_ok True (dm_error s)"
  by unfold_locales (auto simp: dm_app dm_view_texts dm_handle_def dm_resume_def dm_act_texts dm_continue_texts dm_outside_def)

subsection \<open>Notifications\<close>



lemma status_word_texts [simp]: "text_ok h (notification_status st)"
  unfolding notification_status_def by (rule table_texts) (simp_all add: statusLabels_def keys)

lemma notification_texts [simp]: "text_ok h (notificationTitle n)" "text_ok h (open_label n)"
  by (simp_all add: notificationTitle_def open_label_def operation_text_def verification_operation_def execution_operation_def keys text_cases)

lemma nc_view_texts: "texts_all (text_ok True) (nc_view s)"
  by (simp add: nc_view_def nc_popover_def notification_line_def notificationTime_def notification_detail_def keys text_cases Let_def)

interpretation nc_texts: filled_texts notification_app True "\<lambda>s. True"
  by unfold_locales (simp_all add: notification_app_def nc_view_texts)

subsection \<open>The frame\<close>

lemma navigation_texts:
  "list_all (\<lambda>i. text_ok h (Tr (labelKey i) []) \<and> text_ok h (Tr (descriptionKey i) []))
    (navigation @ nav_resources @ [dashboardItem, profileItem, settingsItem])"
  by (simp add: navigation_def nav_resources_def dashboardItem_def profileItem_def settingsItem_def keys)

lemma shell_parts_texts:
  "texts_all (text_ok True) (shell_sidebar s)" "texts_all (text_ok True) (account_menu u s)"
  using navigation_texts [of True]
  by (auto simp: shell_sidebar_def account_menu_def NavigationLink_def CollapsedNavigationGroup_def nav_accordion_def list_all_iff keys text_cases)

lemma shell_header_texts: "texts_all (text_ok True) (shell_header s)"
proof -
  have "text_ok True (Tr (labelKey i) []) \<and> text_ok True (Tr (descriptionKey i) [])" if "activeItem s = Some i" for i
  proof -
    have "i \<in> set (shell_items s)" using that by (auto simp: activeItem_def find_Some_iff)
    then have "i \<in> set (navigation @ nav_resources @ [dashboardItem, profileItem, settingsItem])"
      by (auto simp: shell_items_def split: if_splits)
    then show ?thesis using navigation_texts [of True] by (force simp: list_all_iff)
  qed
  then show ?thesis
    using shell_parts_texts by (auto simp: shell_header_def keys text_cases split: option.split locale_id.split)
qed

interpretation shell_texts: filled_texts shell_app True "\<lambda>s. True"
  by unfold_locales (simp_all add: shell_app_def shell_view_def shell_parts_texts shell_header_texts)

subsection \<open>The profile\<close>

definition profile_texts_ok :: "profile_state \<Rightarrow> bool" where
  "profile_texts_ok s \<longleftrightarrow> list_all (\<lambda>f. text_ok True (f s))
    [pf_loadError, pf_securityMessage, pf_securityError, pf_webhookMessage, pf_webhookError]"

lemma profile_date_text [simp]: "text_ok h (profile_date v l)"
  by (simp add: profile_date_def keys text_cases)

lemma profile_parts_texts:
  "texts_all (text_ok True) (profile_account u s)"
  "profile_texts_ok s \<Longrightarrow> texts_all (text_ok True) (profile_password s)"
  "texts_all (text_ok True) (profile_sessions s)"
  "texts_all (text_ok True) (profile_preferences s)"
  "profile_texts_ok s \<Longrightarrow> texts_all (text_ok True) (profile_webhook s)"
  by (simp_all add: profile_texts_ok_def profile_account_def profile_password_def profile_sessions_def profile_preferences_def
    profile_webhook_def profile_session_item_def profile_messages_def ProfileHeading_def field_unless_def check_unless_def
    deliveryKey_def keys text_cases Let_def)

lemma profile_view_texts: "profile_texts_ok s \<Longrightarrow> texts_all (text_ok True) (ProfilePage s)"
  by (simp add: ProfilePage_def profile_parts_texts keys text_cases) (simp add: profile_texts_ok_def)

lemma answer_texts: "answer r f = Inl m \<Longrightarrow> text_ok h f \<Longrightarrow> text_ok h m"
  by (auto simp: answer_def split: profile_reply.splits if_splits)

lemma profile_act_texts: "profile_texts_ok s \<Longrightarrow> profile_texts_ok (fst (profile_handle e s))"
  by (cases e) (auto simp: profile_texts_ok_def profile_handle_def profile_handlers keys split: option.splits)

lemma profile_reply_texts: "profile_texts_ok s \<Longrightarrow> profile_texts_ok (fst (profile_resume k r s))"
  by (cases k) (auto simp: profile_texts_ok_def profile_resume_def profile_replies profile_loaded_def withCount_def Let_def keys
    dest: answer_texts split: load_end.split sum.split option.split profile_reply.split fetched.split)

interpretation profile_texts: filled_texts profile_app True profile_texts_ok
  by unfold_locales (auto simp: profile_simps profile_view_texts profile_act_texts profile_reply_texts,
    auto simp: profile_texts_ok_def)

subsection \<open>The settings\<close>

definition smtp_texts_ok :: "smtp_state \<Rightarrow> bool" where
  "smtp_texts_ok s \<longleftrightarrow> text_ok True (st_message s) \<and> text_ok True (st_error s)"

interpretation smtp_texts: filled_texts "smtp_app fr" True smtp_texts_ok
proof unfold_locales
  show "texts_all (text_ok True) (app_view (smtp_app fr) s)" if "smtp_texts_ok s" for s
    using that by (simp add: smtp_simps smtp_texts_ok_def SettingsPage_def Let_def text_cases)
  show "smtp_texts_ok (fst (app_handle (smtp_app fr) e s))" if "smtp_texts_ok s" for e s
    using that by (cases e) (simp_all add: smtp_simps smtp_texts_ok_def smtp_handle_def smtp_start_def)
  show "smtp_texts_ok (fst (app_resume (smtp_app fr) k r s))" if "smtp_texts_ok s" for k r s
    using that by (cases k; cases r) (auto simp: smtp_simps smtp_texts_ok_def smtp_resume_def smtp_loaded_def smtp_saved_def smtp_tested_def
      smtp_answer_def split: option.split)
qed (simp add: smtp_simps)

end
