(* ===== verification/Dashboard_Texts.thy ===== *)
theory Dashboard_Texts
  imports Text_Contract Dashboard_Facts Executions Realtime
begin

text \<open>
  The texts of the execution history, of both dashboards with the options of their charts, and of the toasts.
\<close>

subsection \<open>Executions\<close>

lemma execution_words_texts [simp]: "text_ok h (executionLabel k)" "text_ok h (triggerLabel t)" "text_ok h (errorLabel x)"
  unfolding executionLabel_def triggerLabel_def errorLabel_def
  by (rule table_texts | simp add: executionLabels_def triggerLabels_def keys)+

lemma ex_row_texts [simp]: "texts_all (text_ok True) (ex_row s x)"
  by (simp add: ex_row_def or_dash_def keys)

lemma ex_view_texts: "texts_all (text_ok True) (ex_view env s)"
  by (simp add: ex_view_def ex_toolbar_def ex_list_def ex_table_def ex_detail_def sortable_columns_def or_dash_def keys text_cases Let_def)

subsection \<open>Dashboards\<close>

lemma dashboard_words_texts [simp]:
  "text_ok h (admin_executionLabel k)" "text_ok h (personal_executionLabel k)" "text_ok h (expiryBucketLabel b)"
  unfolding admin_executionLabel_def personal_executionLabel_def expiryBucketLabel_def
  by (rule table_texts | simp add: admin_executionLabels_def personal_executionLabels_def keys)+

lemma row_words_texts [simp]: "text_ok h (or_label v l) \<longleftrightarrow> v \<noteq> [] \<or> text_ok h l" "text_ok h (failed_error y)"
  by (simp_all add: or_label_def failed_error_def Let_def keys text_cases)

lemma charts_texts [simp]: "texts_all (text_ok h) (DashboardCharts now certs autos)" "texts_all (text_ok h) AdminDashboardCharts"
  by (simp_all add: DashboardCharts_def ChartPanel_def expiryDescription_def automationDescription_def AdminDashboardCharts_def keys)

lemma personal_panel_texts:
  "list_all (\<lambda>c. text_ok h (Tr c [])) ([title, description, link] @ columns) \<Longrightarrow> texts_all (text_ok h) none \<Longrightarrow>
    (\<And>r. texts_all (text_ok h) (row r)) \<Longrightarrow> texts_all (text_ok h) (personal_panel title description href link none columns row items)"
  by (simp add: personal_panel_def text_cases)

lemma admin_panel_texts:
  "list_all (\<lambda>c. text_ok h (Tr c [])) ([title, description, link, none] @ columns) \<Longrightarrow>
    (\<And>r. texts_all (text_ok h) (row r)) \<Longrightarrow> texts_all (text_ok h) (admin_panel title description href link none columns row items)"
  by (simp add: admin_panel_def text_cases)

lemma dashboard_rows_texts [simp]:
  "texts_all (text_ok True) (personal_certificate_row l c)" "texts_all (text_ok True) (personal_execution_row l e)"
  "texts_all (text_ok True) (risk_row l r)" "texts_all (text_ok True) (failed_row l x)" "texts_all (text_ok True) (owner_row l w)"
  by (simp_all add: personal_certificate_row_def personal_execution_row_def risk_row_def failed_row_def owner_row_def keys text_cases)

lemma admin_parts_texts [simp]:
  "texts_all (text_ok h) (risk_banner m)" "texts_all (text_ok h) (health_strip m)"
  "list_all (\<lambda>md. texts_all (text_ok h) (metric_card rate m md)) metricDefinitions"
  by (simp_all add: risk_banner_def health_strip_def HealthTag_def metric_card_def metricDefinitions_def keys text_cases)

lemma AdminDashboard_texts: "texts_all (text_ok True) (AdminDashboardOverview rate l d)"
  by (simp add: AdminDashboardOverview_def Let_def admin_panel_texts keys)

lemma PersonalDashboard_texts: "texts_all (text_ok True) (PersonalDashboard now l d cs es as)"
  by (simp add: PersonalDashboard_def personal_metrics_def DashboardEmptyState_def Let_def personal_panel_texts keys)

lemma dashboard_texts: "texts_all (text_ok True) (dashboard_content rate now l p)"
  by (auto simp: dashboard_content_def DashboardViewTabs_def DashboardAPIWarning_def AdminDashboard_texts PersonalDashboard_texts
    Let_def keys text_cases split: dashboard_page.split option.split)

subsection \<open>Charts\<close>

fun option_texts :: "(label \<Rightarrow> bool) \<Rightarrow> js_value \<Rightarrow> bool" where
  "option_texts P (JsText t) = P t"
| "option_texts P (JsObject fs) = list_all (\<lambda>p. option_texts P (snd p)) fs"
| "option_texts P (JsArray xs) = list_all (option_texts P) xs"
| "option_texts P (JsFormat f) = (\<forall>n. P (f n))"
| "option_texts P v = True"

lemma option_if [simp]: "option_texts P (if c then x else y) \<longleftrightarrow> (c \<longrightarrow> option_texts P x) \<and> (\<not> c \<longrightarrow> option_texts P y)"
  by simp

lemma option_parts_texts [simp]:
  "text_ok h (Tr key []) \<Longrightarrow> option_texts (text_ok h) (empty_graphic key p)"
  "(\<And>x. text_ok h (Tr key [(''count'', x)])) \<Longrightarrow> option_texts (text_ok h) (count_format key)"
  "text_ok h (Tr key []) \<Longrightarrow> option_texts (text_ok h) (trend_series key xs n)"
  "text_ok h (Tr key []) \<Longrightarrow> option_texts (text_ok h) (health_series p key m)"
  "text_ok h (Tr key []) \<Longrightarrow> option_texts (text_ok h) (admin_health_series key m)"
  "list_all (\<lambda>r. text_ok h (Tr (fst r) [])) expiryRanges"
  by (simp_all add: empty_graphic_def count_format_def trend_series_def health_series_def admin_health_series_def expiryRanges_def keys)

lemma chart_options_texts:
  "option_texts (text_ok False) (expiryOption p counts)"
  "option_texts (text_ok False) (trendOption p tr)"
  "option_texts (text_ok False) (automationOption p hs n)"
  "option_texts (text_ok False) (admin_trendOption q ts)"
  "option_texts (text_ok False) (admin_expiryOption q bs)"
  "option_texts (text_ok False) (admin_automationOption q hs)"
  using option_parts_texts(6) [of False]
  by (simp_all add: expiryOption_def trendOption_def automationOption_def admin_trendOption_def
    admin_expiryOption_def admin_automationOption_def Let_def keys split_beta)

subsection \<open>Toasts\<close>

lemma toast_label_texts [simp]:
  "text_ok h (snd (rt_executionLabel k st))" "text_ok h (snd (verificationLabel t st))"
  by (simp_all add: rt_executionLabel_def verificationLabel_def operation_text_def execution_operation_def verification_operation_def
    Let_def keys text_cases)


lemma toasts_texts: "list_all (\<lambda>x. text_ok False (snd x)) (rt_toasts s) \<Longrightarrow>
    list_all (\<lambda>x. text_ok False (snd x)) (rt_toasts (fst (rt_handle e s)))"
  by (cases e) (auto simp: rt_handle_def update_listener_def refresh_due_def navigate_def open_stream_def close_stream_def
    schedule_def toast_def Let_def split: option.split json.split)

lemma rt_texts:
  assumes "ui_reach rt_app (rt_mount path works cursor) (s, q)"
  shows "list_all (\<lambda>x. text_ok False (snd x)) (rt_toasts s)"
proof -
  have "(\<lambda>s. list_all (\<lambda>x. text_ok False (snd x)) (rt_toasts s)) (fst (s, q))"
    using assms by (rule ui_reach_inv) (auto simp: rt_app_def rt_mount_def open_stream_def toasts_texts)
  then show ?thesis by simp
qed

end
