(* ===== verification/Configuration.thy ===== *)
theory Configuration
  imports Runtime Certificate_Edit
begin

text \<open>
  \<open>ConfigurationManager\<close> of \<^verbatim>\<open>features/settings/components/configuration-manager.tsx\<close>, the predecessor of the
  three credential managers; no page imports it any more. What is open is read from the URL: a form for
  \<open>modal=create\<close> or \<open>mode=edit\<close>, else the details of the selected row. The inputs of the form live in the
  browser while the form is open (\<open>config_form\<close>). The cloud and ACME inputs have no key, so they
  survive when another row is selected under the open form. Rows of the three kinds are one record with the
  fields of all, of which a kind uses its own.
\<close>

subsection \<open>State and requests\<close>

datatype config_resource = ResCloud | ResAcme | ResDns

record config_row =
  row_id :: string
  row_name :: string
  row_provider :: string
  row_credentialHint :: string
  row_directoryUrl :: string
  row_email :: string
  row_cloudCredentialId :: string
  row_allowedZones :: "string list"
  row_status :: string

definition resource_path :: "config_resource \<Rightarrow> string" where
  "resource_path r = (case r of ResCloud \<Rightarrow> ''cloud-credentials'' | ResAcme \<Rightarrow> ''acme-accounts'' | ResDns \<Rightarrow> ''dns-accounts'')"

definition resourceLabels :: "config_resource \<Rightarrow> label \<times> label" where
  "resourceLabels r =
     (case r of
        ResCloud \<Rightarrow> (Zh ''cloud credential'', Zh ''no cloud credential configured'')
      | ResAcme \<Rightarrow> (Zh ''ACME account'', Zh ''no ACME account configured'')
      | ResDns \<Rightarrow> (Zh ''DNS account'', Zh ''no DNS account configured''))"

record config_form =
  fm_name :: string
  fm_provider :: string
  fm_credentials :: "(string \<times> string) list"
  fm_directoryUrl :: string
  fm_email :: string
  fm_algorithm :: string
  fm_privateKey :: string
  fm_credentialId :: string
  fm_zones :: "string list"
  fm_selected :: "string list"
  fm_loading :: bool
  fm_zoneError :: label

record config_state =
  cf_resource :: config_resource
  cf_rows :: "config_row list"
  cf_credentials :: "config_row list"
  cf_params :: "(string \<times> string) list"
  cf_refreshes :: nat
  cf_pending :: bool
  cf_error :: label
  cf_deleteTarget :: "(string \<times> string) option"
  cf_form :: config_form
  cf_run :: nat

datatype config_payload =
    CloudPayload string string "(string \<times> string) list"
  | AcmePayload string string string string string
  | DnsPayload string string "string list"

datatype config_event =
    CfNew | CfSelect string | CfEdit string | CfAskDelete string
  | CfClose | CfSubmit | CfDetailEdit | CfDetailDelete | CfCancelDelete | CfConfirmDelete
  | CfName string | CfProvider string | CfSecret string string
  | CfDirectory string | CfEmail string | CfAlgorithm string | CfPrivateKey string
  | CfCredential string | CfZone string bool
  | CfProps "config_row list" "config_row list" | CfNavigated "(string \<times> string) list"

datatype config_call =
    KConfigSave config_resource "string option" config_payload "(string \<times> string) list"
  | KConfigDelete config_resource string "(string \<times> string) list"
  | KConfigZones nat string

datatype config_reply =
    ConfigDone "failure + unit"
  | ZonesReplied response "string list"
  | ZonesRejected string

definition config_request :: "config_call \<Rightarrow> string \<times> string" where
  "config_request k =
     (case k of
        KConfigSave r i y ps \<Rightarrow>
          (case i of
             Some x \<Rightarrow> (''PATCH'', ''/api/'' @ resource_path r @ ''/'' @ x)
           | None \<Rightarrow> (''POST'', ''/api/'' @ resource_path r))
      | KConfigDelete r i ps \<Rightarrow> (''DELETE'', ''/api/'' @ resource_path r @ ''/'' @ i)
      | KConfigZones n c \<Rightarrow> (''GET'', ''/api/cloud-credentials/'' @ c @ ''/dns/zones''))"

subsection \<open>What the URL says\<close>

definition cf_selected :: "config_state \<Rightarrow> config_row option" where
  "cf_selected s = List.find (\<lambda>r. Some (row_id r) = al_get ''selected'' (cf_params s)) (cf_rows s)"

definition cf_creating :: "config_state \<Rightarrow> bool" where
  "cf_creating s \<longleftrightarrow> al_get ''modal'' (cf_params s) = Some ''create''"

definition cf_editing :: "config_state \<Rightarrow> bool" where
  "cf_editing s \<longleftrightarrow> cf_selected s \<noteq> None \<and> al_get ''mode'' (cf_params s) = Some ''edit''"

definition formOpen :: "config_state \<Rightarrow> bool" where
  "formOpen s \<longleftrightarrow> cf_creating s \<or> cf_editing s"

definition detailOpen :: "config_state \<Rightarrow> bool" where
  "detailOpen s \<longleftrightarrow> cf_selected s \<noteq> None \<and> \<not> cf_creating s \<and> al_get ''mode'' (cf_params s) \<noteq> Some ''edit''"

text \<open>\<open>setModal\<close>: \<open>ps\<close> are the search parameters its closure sees, \<open>next\<close> what it sets, but no empty text.\<close>

definition modal_params :: "(string \<times> string) list \<Rightarrow> (string \<times> string) list \<Rightarrow> (string \<times> string) list" where
  "modal_params next ps =
     fold (\<lambda>(k, v) qs. if v \<noteq> [] then al_set k v qs else qs) next
       (al_delete ''mode'' (al_delete ''selected'' (al_delete ''modal'' ps)))"

definition setModal :: "(string \<times> string) list \<Rightarrow> (string \<times> string) list \<Rightarrow> config_state \<Rightarrow> config_state" where
  "setModal next ps s = s\<lparr>cf_params := modal_params next ps\<rparr>"

definition closeAll :: "(string \<times> string) list \<Rightarrow> config_state \<Rightarrow> config_state" where
  "closeAll ps s = setModal [] ps (s\<lparr>cf_error := no_text, cf_deleteTarget := None\<rparr>)"

definition requestDelete :: "string \<Rightarrow> config_state \<Rightarrow> config_state" where
  "requestDelete i s =
     (case List.find (\<lambda>r. row_id r = i) (cf_rows s) of
        None \<Rightarrow> s
      | Some r \<Rightarrow> s\<lparr>cf_deleteTarget := Some (row_id r, row_name r)\<rparr>)"

subsection \<open>The form\<close>

record credential_field =
  fd_key :: string
  fd_label :: label
  fd_help :: "label option"

definition secret_field :: "string \<Rightarrow> label \<Rightarrow> label \<Rightarrow> credential_field" where
  "secret_field key l help = \<lparr>fd_key = key, fd_label = l, fd_help = Some help\<rparr>"

definition providerConfig :: "(string \<times> label \<times> credential_field list) list" where
  "providerConfig =
    [(''aliyun'', Zh ''Alibaba Cloud'',
       [secret_field ''access_key_id'' (Raw ''AccessKey ID'') (Zh ''Alibaba Cloud access key id''),
        secret_field ''access_key_secret'' (Raw ''AccessKey Secret'') (Zh ''Alibaba Cloud access key secret'')]),
     (''aws'', Raw ''AWS (Amazon Web Services)'',
       [secret_field ''access_key_id'' (Raw ''Access Key ID'') (Zh ''AWS access key id''),
        secret_field ''secret_access_key'' (Raw ''Secret Access Key'') (Zh ''AWS secret access key'')]),
     (''tencentcloud'', Zh ''Tencent Cloud'',
       [secret_field ''secret_id'' (Raw ''SecretId'') (Zh ''Tencent Cloud secret id''),
        secret_field ''secret_key'' (Raw ''SecretKey'') (Zh ''Tencent Cloud secret key'')]),
     (''huaweicloud'', Zh ''Huawei Cloud'',
       [secret_field ''access_key'' (Raw ''Access Key'') (Zh ''Huawei Cloud access key''),
        secret_field ''secret_key'' (Raw ''Secret Key'') (Zh ''Huawei Cloud secret key'')])]"

text \<open>The inputs of a provider; \<open>None\<close> is an unknown one, on which the rendering throws.\<close>

definition provider_fields :: "string \<Rightarrow> credential_field list option" where
  "provider_fields p = map_option snd (al_get p providerConfig)"

definition field_keys :: "string \<Rightarrow> string list" where
  "field_keys p = (case provider_fields p of None \<Rightarrow> [] | Some fs \<Rightarrow> map fd_key fs)"

definition field_text :: "string \<Rightarrow> config_form \<Rightarrow> string" where
  "field_text key f = (case al_get key (fm_credentials f) of None \<Rightarrow> [] | Some v \<Rightarrow> v)"

definition mount_config_form :: "config_row option \<Rightarrow> config_form" where
  "mount_config_form r =
     \<lparr>fm_name = (case r of None \<Rightarrow> [] | Some x \<Rightarrow> row_name x),
      fm_provider = (case r of None \<Rightarrow> ''aliyun'' | Some x \<Rightarrow> row_provider x),
      fm_credentials = [],
      fm_directoryUrl = (case r of None \<Rightarrow> ''https://acme-v02.api.letsencrypt.org/directory'' | Some x \<Rightarrow> row_directoryUrl x),
      fm_email = (case r of None \<Rightarrow> [] | Some x \<Rightarrow> row_email x),
      fm_algorithm = ''ecdsa_p256'', fm_privateKey = [],
      fm_credentialId = (case r of None \<Rightarrow> [] | Some x \<Rightarrow> row_cloudCredentialId x),
      fm_zones = [], fm_selected = (case r of None \<Rightarrow> [] | Some x \<Rightarrow> row_allowedZones x),
      fm_loading = (case r of None \<Rightarrow> False | Some x \<Rightarrow> row_cloudCredentialId x \<noteq> []),
      fm_zoneError = no_text\<rparr>"

text \<open>What is mounted anew when another row is selected under the open form: the name and the DNS inputs.\<close>

definition rekey_config_form :: "config_row option \<Rightarrow> config_form \<Rightarrow> config_form" where
  "rekey_config_form r f =
     (let g = mount_config_form r
      in f\<lparr>fm_name := fm_name g, fm_credentialId := fm_credentialId g, fm_zones := fm_zones g,
           fm_selected := fm_selected g, fm_loading := fm_loading g, fm_zoneError := fm_zoneError g\<rparr>)"

text \<open>Another provider: an input whose key it has as well keeps its text.\<close>

definition setProvider :: "string \<Rightarrow> config_form \<Rightarrow> config_form" where
  "setProvider p f = f\<lparr>fm_provider := p, fm_credentials := filter (\<lambda>x. fst x \<in> set (field_keys p)) (fm_credentials f)\<rparr>"

definition cf_handleCredentialChange :: "string \<Rightarrow> config_form \<Rightarrow> config_form" where
  "cf_handleCredentialChange next f =
     f\<lparr>fm_credentialId := next, fm_zones := [], fm_selected := [], fm_zoneError := no_text, fm_loading := (next \<noteq> [])\<rparr>"

definition cf_toggleZone :: "string \<Rightarrow> bool \<Rightarrow> config_form \<Rightarrow> config_form" where
  "cf_toggleZone zone checked f =
     f\<lparr>fm_selected := (if checked then fm_selected f @ [zone] else filter (\<lambda>z. z \<noteq> zone) (fm_selected f))\<rparr>"

definition edit_config_form :: "config_event \<Rightarrow> config_form \<Rightarrow> config_form" where
  "edit_config_form e f =
     (case e of
        CfName v \<Rightarrow> f\<lparr>fm_name := v\<rparr>
      | CfProvider p \<Rightarrow> setProvider p f
      | CfSecret key v \<Rightarrow> f\<lparr>fm_credentials := al_set key v (fm_credentials f)\<rparr>
      | CfDirectory v \<Rightarrow> f\<lparr>fm_directoryUrl := v\<rparr>
      | CfEmail v \<Rightarrow> f\<lparr>fm_email := v\<rparr>
      | CfAlgorithm k \<Rightarrow> f\<lparr>fm_algorithm := k\<rparr>
      | CfPrivateKey v \<Rightarrow> f\<lparr>fm_privateKey := v\<rparr>
      | CfCredential k \<Rightarrow> cf_handleCredentialChange k f
      | CfZone z b \<Rightarrow> cf_toggleZone z b f
      | _ \<Rightarrow> f)"

subsection \<open>Saving and deleting\<close>

text \<open>
  What the form data say. The provider of an existing row cannot be changed: its select is disabled, and
  whether the component library still puts its value into the form data is the parameter \<open>dv\<close>. A zone is in the form data when its
  checkbox is rendered, so when it is among the loaded ones.
\<close>

definition form_provider :: "bool \<Rightarrow> config_state \<Rightarrow> string" where
  "form_provider dv s = (if cf_selected s = None \<or> dv then fm_provider (cf_form s) else ''aliyun'')"

definition form_zones :: "config_form \<Rightarrow> string list" where
  "form_zones f = filter (\<lambda>z. z \<in> set (fm_selected f) \<and> z \<noteq> []) (fm_zones f)"

definition config_payload_of :: "bool \<Rightarrow> config_state \<Rightarrow> config_payload option" where
  "config_payload_of dv s =
     (let f = cf_form s
      in case cf_resource s of
           ResCloud \<Rightarrow>
             Some (CloudPayload (fm_name f) (form_provider dv s) (map (\<lambda>k. (k, field_text k f)) (field_keys (fm_provider f))))
         | ResAcme \<Rightarrow>
             Some (AcmePayload (fm_name f) (fm_directoryUrl f) (fm_email f) (fm_privateKey f) (fm_algorithm f))
         | ResDns \<Rightarrow>
             if length (form_zones f) = 0 then None else Some (DnsPayload (fm_name f) (fm_credentialId f) (form_zones f)))"

definition submit_config :: "bool \<Rightarrow> config_state \<Rightarrow> config_state \<times> config_call list" where
  "submit_config dv s =
     (let s0 = s\<lparr>cf_error := no_text, cf_pending := True\<rparr>
      in case config_payload_of dv s of
           None \<Rightarrow> (s0\<lparr>cf_error := Zh ''select at least one zone'', cf_pending := False\<rparr>, [])
         | Some y \<Rightarrow>
             (s0, [KConfigSave (cf_resource s) (if cf_editing s then map_option row_id (cf_selected s) else None) y (cf_params s)]))"

definition cf_refresh :: "config_state \<Rightarrow> config_state" where
  "cf_refresh s = s\<lparr>cf_refreshes := cf_refreshes s + 1\<rparr>"

definition config_saved :: "(string \<times> string) list \<Rightarrow> failure + unit \<Rightarrow> config_state \<Rightarrow> config_state" where
  "config_saved ps r s =
     (case r of
        Inr _ \<Rightarrow> cf_refresh (closeAll ps (s\<lparr>cf_pending := False\<rparr>))
      | Inl f \<Rightarrow> s\<lparr>cf_error := failure_message f (Cat [Zh ''cannot save '', fst (resourceLabels (cf_resource s))]), cf_pending := False\<rparr>)"

definition config_deleteResource :: "config_state \<Rightarrow> config_state \<times> config_call list" where
  "config_deleteResource s =
     (case cf_deleteTarget s of
        None \<Rightarrow> (s, [])
      | Some (i, name) \<Rightarrow> (s\<lparr>cf_pending := True, cf_error := no_text\<rparr>, [KConfigDelete (cf_resource s) i (cf_params s)]))"

definition config_deleted :: "(string \<times> string) list \<Rightarrow> failure + unit \<Rightarrow> config_state \<Rightarrow> config_state" where
  "config_deleted ps r s =
     (case r of
        Inr _ \<Rightarrow> cf_refresh (closeAll ps (s\<lparr>cf_pending := False\<rparr>))
      | Inl f \<Rightarrow> s\<lparr>cf_pending := False, cf_deleteTarget := None,
          cf_error := (if failure_is_conflict f then Zh ''still referenced, cannot be deleted''
            else failure_message f (Cat [Zh ''cannot delete '', fst (resourceLabels (cf_resource s))]))\<rparr>)"

subsection \<open>Events and replies\<close>

text \<open>
  After a change the form is mounted, mounted in part or unmounted as the URL says; the effect of the zones runs
  when the DNS inputs are mounted or their credential has changed, and is cancelled when they are unmounted.
\<close>

definition selected_id :: "config_state \<Rightarrow> string" where
  "selected_id s = (case cf_selected s of None \<Rightarrow> ''new'' | Some r \<Rightarrow> row_id r)"

definition cf_mount_inputs :: "config_state \<Rightarrow> config_state \<Rightarrow> config_state" where
  "cf_mount_inputs before s =
     (if \<not> formOpen s then s
      else if \<not> formOpen before then s\<lparr>cf_form := mount_config_form (cf_selected s)\<rparr>
      else if selected_id s \<noteq> selected_id before then s\<lparr>cf_form := rekey_config_form (cf_selected s) (cf_form s)\<rparr>
      else s)"

definition cf_commit :: "config_state \<Rightarrow> config_state \<times> config_call list \<Rightarrow> config_state \<times> config_call list" where
  "cf_commit before after =
     (let s = cf_mount_inputs before (fst after); c = fm_credentialId (cf_form s);
          mounted = (formOpen s \<and> (\<not> formOpen before \<or> selected_id s \<noteq> selected_id before));
          run = (cf_resource s = ResDns \<and> (mounted \<or> formOpen s \<and> c \<noteq> fm_credentialId (cf_form before)));
          gone = (cf_resource s = ResDns \<and> \<not> formOpen s \<and> formOpen before);
          n = (if run \<or> gone then cf_run s + 1 else cf_run s)
      in (s\<lparr>cf_run := n\<rparr>, snd after @ (if run \<and> c \<noteq> [] then [KConfigZones n c] else [])))"

definition config_act :: "bool \<Rightarrow> config_event \<Rightarrow> config_state \<Rightarrow> config_state \<times> config_call list" where
  "config_act dv e s =
     (case e of
        CfNew \<Rightarrow> (setModal [(''modal'', ''create'')] (cf_params s) s, [])
      | CfSelect i \<Rightarrow> (setModal [(''selected'', i), (''mode'', ''view'')] (cf_params s) s, [])
      | CfEdit i \<Rightarrow> (setModal [(''selected'', i), (''mode'', ''edit'')] (cf_params s) s, [])
      | CfAskDelete i \<Rightarrow> (requestDelete i s, [])
      | CfClose \<Rightarrow> (closeAll (cf_params s) s, [])
      | CfSubmit \<Rightarrow> submit_config dv s
      | CfDetailEdit \<Rightarrow>
          (case cf_selected s of
             None \<Rightarrow> s
           | Some r \<Rightarrow> setModal [(''selected'', row_id r), (''mode'', ''edit'')] (cf_params s) s, [])
      | CfDetailDelete \<Rightarrow> (case cf_selected s of None \<Rightarrow> s | Some r \<Rightarrow> requestDelete (row_id r) s, [])
      | CfCancelDelete \<Rightarrow> (s\<lparr>cf_deleteTarget := None\<rparr>, [])
      | CfConfirmDelete \<Rightarrow> config_deleteResource s
      | CfProps rows cs \<Rightarrow> (s\<lparr>cf_rows := rows, cf_credentials := cs\<rparr>, [])
      | CfNavigated ps \<Rightarrow> (s\<lparr>cf_params := ps\<rparr>, [])
      | _ \<Rightarrow> (s\<lparr>cf_form := edit_config_form e (cf_form s)\<rparr>, []))"

definition config_handle :: "bool \<Rightarrow> config_event \<Rightarrow> config_state \<Rightarrow> config_state \<times> config_call list" where
  "config_handle dv e s = cf_commit s (config_act dv e s)"

definition cf_zones_loaded :: "nat \<Rightarrow> config_reply \<Rightarrow> config_state \<Rightarrow> config_state" where
  "cf_zones_loaded n r s =
     (if n \<noteq> cf_run s then s
      else let f = cf_form s
        in case r of
             ZonesReplied a names \<Rightarrow>
               if resp_ok a then s\<lparr>cf_form := f\<lparr>fm_zones := names, fm_loading := False\<rparr>\<rparr>
               else s\<lparr>cf_form := f\<lparr>fm_zoneError := body_message a (Zh ''cannot get the zones''), fm_loading := False\<rparr>\<rparr>
           | ZonesRejected m \<Rightarrow> s\<lparr>cf_form := f\<lparr>fm_zoneError := Raw m, fm_loading := False\<rparr>\<rparr>
           | ConfigDone x \<Rightarrow> s)"

definition config_continue :: "config_call \<Rightarrow> config_reply \<Rightarrow> config_state \<Rightarrow> config_state" where
  "config_continue k r s =
     (case k of
        KConfigSave res i y ps \<Rightarrow> (case r of ConfigDone x \<Rightarrow> config_saved ps x s | _ \<Rightarrow> s)
      | KConfigDelete res i ps \<Rightarrow> (case r of ConfigDone x \<Rightarrow> config_deleted ps x s | _ \<Rightarrow> s)
      | KConfigZones n c \<Rightarrow> cf_zones_loaded n r s)"

definition config_resume :: "config_call \<Rightarrow> config_reply \<Rightarrow> config_state \<Rightarrow> config_state \<times> config_call list" where
  "config_resume k r s = cf_commit s (config_continue k r s, [])"

definition config_answers :: "config_call \<Rightarrow> config_reply set" where
  "config_answers k =
     (case k of KConfigZones n c \<Rightarrow> {ZonesReplied a names | a names. True} \<union> range ZonesRejected | _ \<Rightarrow> range ConfigDone)"

subsection \<open>Views\<close>

definition ResourceRowActions :: "config_row \<Rightarrow> config_event view" where
  "ResourceRowActions r =
     Menu (Cat [Zh ''actions for '', Raw (row_name r)]) [(''edit'', Zh ''edit'', False), (''delete'', Zh ''delete'', False)]
       (\<lambda>k. if k = ''edit'' then Some (CfEdit (row_id r)) else if k = ''delete'' then Some (CfAskDelete (row_id r)) else None)"

definition config_columns :: "config_resource \<Rightarrow> label list" where
  "config_columns res =
     (case res of
        ResCloud \<Rightarrow> [Zh ''name'', Zh ''provider'', Zh ''credential hint'', Zh ''status'', Zh ''actions'']
      | ResAcme \<Rightarrow> [Zh ''name'', Zh ''contact e-mail'', Raw ''Directory'', Zh ''status'', Zh ''actions'']
      | ResDns \<Rightarrow> [Zh ''name'', Raw ''Zone'', Zh ''provider'', Zh ''status'', Zh ''actions''])"

definition config_cells :: "config_resource \<Rightarrow> config_row \<Rightarrow> string list" where
  "config_cells res r =
     (case res of
        ResCloud \<Rightarrow> [row_provider r, row_credentialHint r]
      | ResAcme \<Rightarrow> [row_email r, row_directoryUrl r]
      | ResDns \<Rightarrow> [js_join '', '' (row_allowedZones r), row_provider r])"

text \<open>A click anywhere in a row but on its menu opens the details; here the name is the place to click.\<close>

definition config_table_row :: "config_resource \<Rightarrow> config_row \<Rightarrow> config_event view" where
  "config_table_row res r =
     El ''tr'' ([Button (Raw (row_name r)) False (CfSelect (row_id r))] @ map (\<lambda>c. Txt (Raw c)) (config_cells res r) @
       [StatusTag (row_status r), ResourceRowActions r])"

definition ConfigurationTable :: "config_state \<Rightarrow> config_event view" where
  "ConfigurationTable s =
     (if length (cf_rows s) = 0 then ResourceEmptyState (snd (resourceLabels (cf_resource s))) None None None
      else El ''table''
        [El ''thead'' (map Txt (config_columns (cf_resource s))),
         El ''tbody'' (map (config_table_row (cf_resource s)) (cf_rows s))])"

definition ResourceDetails :: "config_resource \<Rightarrow> config_row \<Rightarrow> config_event view" where
  "ResourceDetails res r =
     El ''dl'' (concat (map (\<lambda>(l, v). [Txt l, Txt (Raw v)])
       (case res of
          ResCloud \<Rightarrow> [(Zh ''provider'', row_provider r), (Zh ''credential hint'', row_credentialHint r), (Zh ''status'', row_status r)]
        | ResAcme \<Rightarrow> [(Zh ''contact e-mail'', row_email r), (Raw ''Directory'', row_directoryUrl r), (Zh ''status'', row_status r)]
        | ResDns \<Rightarrow> [(Zh ''provider'', row_provider r), (Zh ''allowed zones'', js_join '', '' (row_allowedZones r)),
            (Zh ''status'', row_status r)])))"

definition CloudCredentialFields :: "config_row option \<Rightarrow> config_form \<Rightarrow> config_event view list" where
  "CloudCredentialFields initial f =
     [Choice (Zh ''cloud platform'') (Some (fm_provider f)) (initial \<noteq> None)
        (map (\<lambda>(p, l, fs). (p, l, False)) providerConfig) CfProvider,
      show_if (initial \<noteq> None) (Txt (Zh ''the platform cannot be changed''))] @
     concat (map (\<lambda>x. [Field (fd_label x) (field_text (fd_key x) f) (CfSecret (fd_key x)),
         (case fd_help x of None \<Rightarrow> El [] [] | Some h \<Rightarrow> Txt h)])
       (case provider_fields (fm_provider f) of None \<Rightarrow> [] | Some fs \<Rightarrow> fs))"

definition ACMEAccountFields :: "config_form \<Rightarrow> config_event view list" where
  "ACMEAccountFields f =
     [Field (Raw ''ACME Directory URL'') (fm_directoryUrl f) CfDirectory,
      Field (Zh ''contact e-mail'') (fm_email f) CfEmail,
      Choice (Zh ''account key algorithm'') (Some (fm_algorithm f)) False key_algorithm_items CfAlgorithm,
      Field (Zh ''account private key PEM (optional)'') (fm_privateKey f) CfPrivateKey,
      Txt (Zh ''left empty, a key is generated; the key is stored encrypted and not shown again'')]"

definition DNSAccountFields :: "config_row list \<Rightarrow> config_form \<Rightarrow> config_event view list" where
  "DNSAccountFields cs f =
     [Choice (Zh ''cloud credential'') (if fm_credentialId f \<noteq> [] then Some (fm_credentialId f) else None) False
        (map (\<lambda>c. (row_id c, Raw (row_name c @ '' ('' @ row_credentialHint c @ '')''), False)) cs) CfCredential,
      Txt (Zh ''zones that may be managed''),
      show_if (fm_loading f) (Txt (Zh ''getting the zones'')),
      show_if (\<not> fm_loading f \<and> \<not> shown (fm_zoneError f) \<and> fm_credentialId f = [])
        (Txt (Zh ''choose a credential first'')),
      show_if (\<not> fm_loading f \<and> \<not> shown (fm_zoneError f) \<and> fm_credentialId f \<noteq> [] \<and> length (fm_zones f) = 0)
        (Txt (Zh ''no zone to choose'')),
      El ''div role=group'' (map (\<lambda>z. Check (Raw z) (z \<in> set (fm_selected f)) (CfZone z)) (fm_zones f)),
      (if shown (fm_zoneError f) then FormError (fm_zoneError f) else Txt (Zh ''choose several zones; challenges are created in these only''))]"

definition config_inputs :: "config_state \<Rightarrow> config_event view list" where
  "config_inputs s =
     [Field (Zh ''name'') (fm_name (cf_form s)) CfName] @
     (case cf_resource s of
        ResCloud \<Rightarrow> CloudCredentialFields (cf_selected s) (cf_form s)
      | ResAcme \<Rightarrow> ACMEAccountFields (cf_form s)
      | ResDns \<Rightarrow> DNSAccountFields (cf_credentials s) (cf_form s)) @
     [show_if (shown (cf_error s)) (FormError (cf_error s))]"

definition config_form_dialog :: "config_state \<Rightarrow> config_event view" where
  "config_form_dialog s =
     ResourceModal (formOpen s)
       (Cat [if cf_selected s \<noteq> None then Zh ''edit '' else Zh ''new '', fst (resourceLabels (cf_resource s))])
       (if cf_selected s \<noteq> None then Zh ''secrets left empty keep their value'' else Zh ''the status is shown in the list after saving'')
       CfClose
       [ModalCancelButton CfClose, Button (if cf_pending s then Zh ''saving'' else Zh ''save'') (cf_pending s) CfSubmit]
       [El ''form'' (config_inputs s)]"

definition config_detail_dialog :: "config_state \<Rightarrow> config_event view" where
  "config_detail_dialog s =
     ResourceModal (detailOpen s)
       (case cf_selected s of Some r \<Rightarrow> Raw (row_name r) | None \<Rightarrow> fst (resourceLabels (cf_resource s)))
       (Zh ''resource details'') CfClose []
       [(case cf_selected s of None \<Rightarrow> El [] [] | Some r \<Rightarrow> ResourceDetails (cf_resource s) r),
        Button (Zh ''edit'') False CfDetailEdit, Button (Zh ''delete'') False CfDetailDelete]"

definition config_delete_dialog :: "config_state \<Rightarrow> config_event view" where
  "config_delete_dialog s =
     ResourceModal (cf_deleteTarget s \<noteq> None) (Cat [Zh ''delete '', fst (resourceLabels (cf_resource s))])
       (Cat [Zh ''will delete '', Raw (case cf_deleteTarget s of Some (i, name) \<Rightarrow> name | None \<Rightarrow> []), Zh '', cannot be undone''])
       CfCancelDelete
       [ModalCancelButton CfCancelDelete,
        Button (if cf_pending s then Zh ''deleting'' else Zh ''confirm the deletion'') (cf_pending s) CfConfirmDelete]
       [Txt (Zh ''a resource in use is not deleted'')]"

text \<open>An unknown provider in the open form makes the rendering throw; nothing of the component is left then.\<close>

definition config_throws :: "config_state \<Rightarrow> bool" where
  "config_throws s \<longleftrightarrow> formOpen s \<and> cf_resource s = ResCloud \<and> provider_fields (fm_provider (cf_form s)) = None"

definition config_view :: "config_state \<Rightarrow> config_event view" where
  "config_view s =
     (if config_throws s then El ''error'' []
      else El ''div''
       [Txt (fst (resourceLabels (cf_resource s))), Txt (Cat [Raw (nat_digits (length (cf_rows s))), Zh '' configured resources'']),
        Button (Cat [Zh ''new '', fst (resourceLabels (cf_resource s))]) False CfNew,
        ConfigurationTable s, config_form_dialog s, config_detail_dialog s, config_delete_dialog s])"

definition configuration_app :: "bool \<Rightarrow> (config_state, config_event, config_call, config_reply) app" where
  "configuration_app dv = \<lparr>app_view = config_view,
     app_ambient = (\<lambda>s. {CfProps rows cs | rows cs. True} \<union> range CfNavigated),
     app_handle = config_handle dv, app_resume = config_resume, app_answers = config_answers, app_outside = (\<lambda>s. {})\<rparr>"

definition config_mount :: "config_resource \<Rightarrow> config_row list \<Rightarrow> config_row list \<Rightarrow> (string \<times> string) list \<Rightarrow>
    config_state \<times> config_call list" where
  "config_mount res rows cs ps =
     (let s = \<lparr>cf_resource = res, cf_rows = rows, cf_credentials = cs, cf_params = ps, cf_refreshes = 0,
        cf_pending = False, cf_error = no_text, cf_deleteTarget = None, cf_form = mount_config_form None, cf_run = 0\<rparr>
      in cf_commit (s\<lparr>cf_params := []\<rparr>) (s, []))"

end
