(* ===== verification/Configuration_Facts.thy ===== *)
theory Configuration_Facts
  imports Configuration Text_Contract Credentials
begin

text \<open>
  The configuration manager: one change at a time that always ends, what a saved DNS account says, the texts,
  and what goes wrong in it.
\<close>

lemmas configuration_simps = configuration_app_def app.simps
lemmas config_url_defs = setModal_def closeAll_def requestDelete_def

definition is_config_change :: "config_call \<Rightarrow> bool" where
  "is_config_change k = (case k of KConfigZones n c \<Rightarrow> False | _ \<Rightarrow> True)"

lemma commit_keeps [simp]:
  "cf_pending (fst (cf_commit b x)) = cf_pending (fst x)" "cf_error (fst (cf_commit b x)) = cf_error (fst x)"
  "cf_deleteTarget (fst (cf_commit b x)) = cf_deleteTarget (fst x)" "cf_rows (fst (cf_commit b x)) = cf_rows (fst x)"
  "cf_params (fst (cf_commit b x)) = cf_params (fst x)" "cf_resource (fst (cf_commit b x)) = cf_resource (fst x)"
  "filter is_config_change (snd (cf_commit b x)) = filter is_config_change (snd x)"
  by (simp_all add: cf_commit_def cf_mount_inputs_def Let_def is_config_change_def)

subsection \<open>One change at a time\<close>

lemma inputs_no_submit:
  assumes "e = CfSubmit \<or> e = CfConfirmDelete"
  shows "e \<notin> offered_any (config_inputs s)"
proof -
  have "e \<notin> offered_any (CloudCredentialFields i f)" for i f
    using assms by (auto simp: CloudCredentialFields_def split: option.split)
  moreover have "e \<notin> offered_any (ACMEAccountFields f)" for f
    using assms by (auto simp: ACMEAccountFields_def)
  moreover have "e \<notin> offered_any (DNSAccountFields cs f)" for cs f
    using assms by (auto simp: DNSAccountFields_def)
  ultimately show ?thesis
    using assms by (cases "cf_resource s") (auto simp: config_inputs_def)
qed

lemma config_offered_changes:
  assumes "e \<in> offered (config_view s)" "e = CfSubmit \<or> e = CfConfirmDelete"
  shows "\<not> cf_pending s"
proof -
  have "e \<notin> offered (ConfigurationTable s)" "e \<notin> offered (config_detail_dialog s)"
    using assms(2) by (auto simp: ConfigurationTable_def config_table_row_def ResourceRowActions_def config_detail_dialog_def
      ResourceDetails_def split: option.splits if_splits config_resource.splits)
  then have "e \<in> offered (config_form_dialog s) \<or> e \<in> offered (config_delete_dialog s)"
    using assms by (auto simp: config_view_def split: if_splits)
  then show ?thesis using inputs_no_submit [OF assms(2), of s] assms(2)
    by (auto simp: config_form_dialog_def config_delete_dialog_def split: if_splits)
qed

lemma config_act_flight:
  assumes "e = CfSubmit \<or> e = CfConfirmDelete \<Longrightarrow> \<not> cf_pending s"
  shows "filter is_config_change (snd (config_act dv e s)) = [] \<and> cf_pending (fst (config_act dv e s)) = cf_pending s \<or>
    \<not> cf_pending s \<and> cf_pending (fst (config_act dv e s)) \<and> length (filter is_config_change (snd (config_act dv e s))) = 1"
  using assms by (cases e) (auto simp: config_act_def submit_config_def config_deleteResource_def config_url_defs is_config_change_def
    Let_def split: option.split)

lemma answered_change [simp]: "\<not> cf_pending (config_saved ps x s)" "\<not> cf_pending (config_deleted ps x s)"
  by (auto simp: config_saved_def config_deleted_def cf_refresh_def config_url_defs split: sum.split)

interpretation config_flight: releasing_flight "configuration_app dv" cf_pending is_config_change for dv
proof unfold_locales
  fix e s s' ks
  assume e: "e \<in> offered (app_view (configuration_app dv) s) \<union> app_ambient (configuration_app dv) s"
    and "app_handle (configuration_app dv) e s = (s', ks)"
  then have h: "s' = fst (cf_commit s (config_act dv e s))" "ks = snd (cf_commit s (config_act dv e s))"
    by (simp_all add: configuration_simps config_handle_def)
  have "e = CfSubmit \<or> e = CfConfirmDelete \<Longrightarrow> \<not> cf_pending s"
    using e config_offered_changes [of e s] by (auto simp: configuration_simps)
  from config_act_flight [OF this, where dv = dv]
  show "filter is_config_change ks = [] \<and> cf_pending s' = cf_pending s \<or>
      \<not> cf_pending s \<and> cf_pending s' \<and> length (filter is_config_change ks) = 1"
    by (simp add: h)
next
  fix k r s s' ks
  assume "\<not> is_config_change k" "app_resume (configuration_app dv) k r s = (s', ks)"
  then have h: "s' = fst (cf_commit s (config_continue k r s, []))" "ks = snd (cf_commit s (config_continue k r s, []))" "\<not> is_config_change k"
    by (simp_all add: configuration_simps config_resume_def)
  then show "filter is_config_change ks = [] \<and> cf_pending s' = cf_pending s"
    by (cases k; cases r) (simp_all add: is_config_change_def config_continue_def cf_zones_loaded_def Let_def)
next
  fix k r s s' ks
  assume "is_config_change k" "r \<in> app_answers (configuration_app dv) k" "app_resume (configuration_app dv) k r s = (s', ks)"
  then have h: "s' = fst (cf_commit s (config_continue k r s, []))" "ks = snd (cf_commit s (config_continue k r s, []))"
      "is_config_change k" "r \<in> range ConfigDone"
    by (simp_all add: configuration_simps config_resume_def is_config_change_def config_answers_def split: config_call.splits)
  then have "\<not> cf_pending s'"
    by (cases k) (auto simp: is_config_change_def config_continue_def)
  then show "filter is_config_change ks = [] \<or> cf_pending s' \<and> length (filter is_config_change ks) = 1"
    and "cf_pending s' = (filter is_config_change ks \<noteq> [])"
    using h by simp_all
qed (simp add: configuration_simps)

subsection \<open>Saving\<close>

text \<open>
  A DNS account is saved with at least one zone, and only with zones that were loaded for the chosen
  credential and are marked; a change goes to the row that is edited.
\<close>

lemma config_save_valid:
  assumes "KConfigSave res i y ps \<in> set (snd (config_handle dv e s))"
  shows "e = CfSubmit \<and> res = cf_resource s \<and> i = (if cf_editing s then map_option row_id (cf_selected s) else None) \<and>
    (\<forall>name c zs. y = DnsPayload name c zs \<longrightarrow> zs \<noteq> [] \<and> set zs \<subseteq> set (fm_zones (cf_form s)) \<inter> set (fm_selected (cf_form s)))"
proof -
  have "KConfigSave res i y ps \<in> set (snd (config_act dv e s))"
    using assms by (auto simp: config_handle_def cf_commit_def Let_def split: if_splits)
  then have e: "e = CfSubmit" and p: "config_payload_of dv s = Some y" "res = cf_resource s"
      "i = (if cf_editing s then map_option row_id (cf_selected s) else None)"
    by (cases e; auto simp: config_act_def submit_config_def config_deleteResource_def Let_def split: option.splits)+
  then show ?thesis
    by (auto simp: config_payload_of_def form_zones_def Let_def split: config_resource.splits if_splits)
qed

text \<open>An account whose zones are not loaded, or could not be, is not saved, whatever zones it had.\<close>

lemma zones_needed:
  "cf_resource s = ResDns \<Longrightarrow> fm_zones (cf_form s) = [] \<Longrightarrow>
    submit_config dv s = (s\<lparr>cf_error := Zh ''select at least one zone'', cf_pending := False\<rparr>, [])"
  by (simp add: submit_config_def config_payload_of_def form_zones_def Let_def)

text \<open>Choosing the credential that is chosen already empties the zones, sends nothing, and says for ever that they are loading.\<close>

lemma reselected_credential_hangs:
  assumes "formOpen s" "cf_resource s = ResDns" "fm_credentialId (cf_form s) = c" "c \<noteq> []"
  shows "snd (config_handle dv (CfCredential c) s) = [] \<and> fm_zones (cf_form (fst (config_handle dv (CfCredential c) s))) = [] \<and>
    fm_loading (cf_form (fst (config_handle dv (CfCredential c) s)))"
proof -
  let ?s = "s\<lparr>cf_form := cf_handleCredentialChange c (cf_form s)\<rparr>"
  have "formOpen ?s" "selected_id ?s = selected_id s"
    using assms(1) by (simp_all add: formOpen_def cf_creating_def cf_editing_def cf_selected_def selected_id_def)
  then show ?thesis
    using assms by (simp add: config_handle_def config_act_def edit_config_form_def cf_commit_def cf_mount_inputs_def
      cf_handleCredentialChange_def Let_def)
qed

text \<open>With form data that leave out a disabled select, every edited credential is saved as one of Aliyun.\<close>

lemma edited_provider_lost:
  "cf_resource s = ResCloud \<Longrightarrow> cf_selected s = Some r \<Longrightarrow>
    \<exists>name secrets. config_payload_of False s = Some (CloudPayload name ''aliyun'' secrets)"
  by (simp add: config_payload_of_def form_provider_def Let_def)

subsection \<open>Requests\<close>

definition config_call_id :: "config_call \<Rightarrow> string option" where
  "config_call_id k = (case k of KConfigSave r i y ps \<Rightarrow> i | KConfigDelete r i ps \<Rightarrow> Some i | KConfigZones n c \<Rightarrow> Some c)"

text \<open>Each request, for a resource whose identifier is one path segment, is forwarded to the control plane.\<close>

lemma config_requests_reach_api:
  assumes "path_segment i" "config_call_id k \<in> {None, Some i}" "config_request k = (method_name (in_method r), u)"
  shows "reaches_api r u"
  using reaches_cloud [OF assms(1), of r] reaches_acme [OF assms(1), of r] reaches_dns [OF assms(1), of r] assms(2,3)
  by (auto simp: config_call_id_def config_request_def resource_path_def eq_commute [of _ "method_name _"]
    split: config_call.splits config_resource.splits option.splits)

subsection \<open>Errors\<close>

text \<open>
  The error is shown in the form only: while the form is closed the page shows the same texts whatever the error is, so
  a refused deletion says nothing, and its message waits for the next form that is opened.
\<close>

lemma closed_form_hides_error:
  assumes "\<not> formOpen s"
  shows "shown_texts (config_view (s\<lparr>cf_error := m\<rparr>)) = shown_texts (config_view s)"
proof -
  have u: "formOpen (s\<lparr>cf_error := m\<rparr>) = formOpen s" "detailOpen (s\<lparr>cf_error := m\<rparr>) = detailOpen s"
      "cf_selected (s\<lparr>cf_error := m\<rparr>) = cf_selected s"
    by (simp_all add: formOpen_def cf_creating_def cf_editing_def cf_selected_def detailOpen_def)
  show ?thesis
    using assms by (simp add: config_view_def config_throws_def u config_form_dialog_def config_detail_dialog_def
      config_delete_dialog_def ConfigurationTable_def ResourceModal_def cong: option.case_cong)
qed

lemma modal_params_new [simp]: "al_get ''modal'' (modal_params [(''modal'', ''create'')] ps) = Some ''create''"
  by (simp add: modal_params_def al_get_set)

lemma next_form_shows_error:
  assumes "shown (cf_error s)" "\<not> formOpen s" "cf_resource s \<noteq> ResCloud"
  shows "cf_error s \<in> shown_texts (config_view (fst (config_handle dv CfNew s)))"
proof -
  let ?s = "fst (config_handle dv CfNew s)"
  have p: "cf_params ?s = modal_params [(''modal'', ''create'')] (cf_params s)" "cf_error ?s = cf_error s" "cf_resource ?s = cf_resource s"
    by (simp_all add: config_handle_def config_act_def setModal_def)
  then have "formOpen ?s" by (simp add: formOpen_def cf_creating_def)
  moreover have "cf_error s \<in> \<Union> (set (map shown_texts (config_inputs ?s)))"
    using assms(1) by (simp add: config_inputs_def p FormError_def)
  ultimately show ?thesis
    using assms(3) by (simp add: config_view_def config_throws_def p(3) config_form_dialog_def ResourceModal_def)
qed

subsection \<open>Texts\<close>

definition config_texts_ok :: "config_state \<Rightarrow> bool" where
  "config_texts_ok s \<longleftrightarrow> text_ok True (cf_error s) \<and> text_ok True (fm_zoneError (cf_form s))"

lemma resource_label_texts [simp]: "text_ok True (fst (resourceLabels r))" "text_ok True (snd (resourceLabels r))"
  by (cases r; simp add: resourceLabels_def)+

lemma config_table_texts [simp]: "texts_all (text_ok True) (ConfigurationTable s)"
  by (cases "cf_resource s") (simp_all add: ConfigurationTable_def config_columns_def config_table_row_def config_cells_def ResourceRowActions_def)

lemma config_inputs_texts: "config_texts_ok s \<Longrightarrow> list_all (texts_all (text_ok True)) (config_inputs s)"
  by (cases "cf_resource s") (auto simp: config_inputs_def CloudCredentialFields_def ACMEAccountFields_def DNSAccountFields_def
    providerConfig_def provider_fields_def secret_field_def key_algorithm_items_def config_texts_ok_def text_cases list_all_iff
    split: if_splits option.splits)

lemma config_view_texts: "config_texts_ok s \<Longrightarrow> texts_all (text_ok True) (config_view s)"
  using config_inputs_texts [of s]
  by (cases "cf_resource s") (auto simp: config_view_def config_form_dialog_def config_detail_dialog_def config_delete_dialog_def
    ResourceDetails_def text_cases split: option.splits)

lemma config_commit_texts: "config_texts_ok (fst x) \<Longrightarrow> config_texts_ok (fst (cf_commit b x))"
  by (auto simp: config_texts_ok_def cf_commit_def cf_mount_inputs_def mount_config_form_def rekey_config_form_def Let_def)

lemma config_act_texts: "config_texts_ok s \<Longrightarrow> config_texts_ok (fst (config_act dv e s))"
  by (cases e) (auto simp: config_texts_ok_def config_act_def submit_config_def config_deleteResource_def config_url_defs edit_config_form_def
    setProvider_def cf_handleCredentialChange_def cf_toggleZone_def Let_def split: option.split)

lemma config_continue_texts: "config_texts_ok s \<Longrightarrow> config_texts_ok (config_continue k r s)"
  by (cases k; cases r) (auto simp: config_texts_ok_def config_continue_def config_saved_def config_deleted_def cf_zones_loaded_def
    cf_refresh_def config_url_defs Let_def split: sum.split)

interpretation config_texts: filled_texts "configuration_app dv" True config_texts_ok for dv
  by unfold_locales (simp_all add: configuration_simps config_view_texts config_handle_def config_resume_def config_commit_texts
      config_act_texts config_continue_texts)

end
