(* ===== verification/Text_Facts.thy ===== *)
theory Text_Facts
  imports Certificate_Texts Manager_Texts Page_Texts Dashboard_Texts Configuration_Facts
begin

text \<open>What holds of the texts of the whole console, from the interpretations of \<open>filled_texts\<close>.\<close>

definition fills_texts :: "bool \<Rightarrow> ('s, 'e, 'k, 'r) app \<Rightarrow> ('s, 'k) system \<Rightarrow> bool" where
  "fills_texts h a x0 \<longleftrightarrow> (\<forall>s q. ui_reach a x0 (s, q) \<longrightarrow> texts_all (text_ok h) (app_view a s))"

lemma fills_textsI: "(\<And>s q. ui_reach a x0 (s, q) \<Longrightarrow> texts_all (text_ok h) (app_view a s)) \<Longrightarrow> fills_texts h a x0"
  by (simp add: fills_texts_def)

text \<open>A translated text says the same whatever the Chinese literals are.\<close>

lemma translated_reading: "text_ok False t \<Longrightarrow> show_text (rd\<lparr>zh_literal := z\<rparr>) loc t = show_text rd loc t"
  by (induction False t rule: text_ok.induct)
    (auto simp: translate_def list_all_iff Let_def text_ok.simps(3) intro!: arg_cong [where f = concat] map_cong)

lemma list_mount_fills: "cl_texts_ok (fst (cl_mount cs as ds l t ps))"
  unfolding cl_mount_def Let_def by (rule cl_commit_texts) (simp add: cl_texts_ok_def)

lemma config_mount_fills: "config_texts_ok (fst (config_mount res rows cred ps))"
  unfolding config_mount_def Let_def by (rule config_commit_texts) (simp add: config_texts_ok_def mount_config_form_def)

lemma mounts_fill:
  "text_ok False (wf_error (fst (wf_mount as ds ps')))"
  "text_ok True (mv_error (fst (mount_manual i)))" "text_ok True (mg_error (fst (cc_mount cc l)))"
  "text_ok True (mg_error (fst (acme_mount as l)))" "dns_texts_ok (fst (dns_mount ds cc u l))"
  "auth_texts_ok (fst (login_mount l ps' t st))" "auth_texts_ok (fst (register_mount l ps' t st))"
  "text_ok True (dm_error (fst (dm_mount cc cs ts xs ps')))" "profile_texts_ok (fst (profile_mount l th ac))"
  "smtp_texts_ok (fst smtp_mount)"
  by (simp_all add: wf_mount_def mount_manual_def cc_mount_def acme_mount_def
    dns_mount_def mount_dns_form_def dns_texts_ok_def login_mount_def register_mount_def auth_texts_ok_def dm_mount_def Let_def
    profile_mount_def profile_texts_ok_def smtp_mount_def smtp_texts_ok_def)

text \<open>
  C16. No broken text is shown by the creation wizard, the login and registration forms, the ACME accounts, the
  notifications, the certificate list, the manual validation, the cloud credentials, the DNS accounts, the automation
  tasks, the shell, the profile, the SMTP settings and the configuration page in any state they reach from
  their mount, nor by the execution history and the dashboard in any state: each label is a text of the
  server or the user, a date, a Chinese literal of the source, or a text whose key is in the dictionary and whose placeholders,
  in Chinese and in English, are all given values. The wizard and the login and registration forms hold no Chinese
  literal, so their labels are all translated.
\<close>

theorem console_texts_filled:
  "fills_texts False workflow_app (wf_mount as ds ps') \<and>
   fills_texts False login_app (login_mount l ps' t st) \<and>
   fills_texts False register_app (register_mount l ps' t st) \<and>
   fills_texts True acme_app (acme_mount as l) \<and>
   fills_texts True notification_app (nc_mount l) \<and>
   fills_texts True certificate_list (cl_mount cs as ds l t ps) \<and>
   fills_texts True manual_app (mount_manual i) \<and>
   fills_texts True cloud_app (cc_mount cc l) \<and>
   fills_texts True dns_app (dns_mount ds cc u l) \<and>
   fills_texts True (deployment_app rd) (dm_mount cc cs ts xs ps') \<and>
   fills_texts True shell_app (shell_mount path ls th) \<and>
   fills_texts True profile_app (profile_mount l th ac) \<and>
   fills_texts True (smtp_app fr) smtp_mount \<and>
   fills_texts True (configuration_app dv) (config_mount res rows cred ps') \<and>
   texts_all (text_ok True) (ex_view env xst) \<and>
   texts_all (text_ok True) (dashboard_content rate now l page)"
  by (intro conjI fills_textsI ex_view_texts dashboard_texts; (rule wf_texts.reach_filled acme_texts.reach_filled
      login_texts.reach_filled register_texts.reach_filled nc_texts.reach_filled cl_texts.reach_filled manual_texts.reach_filled
      cc_texts.reach_filled dns_texts.reach_filled dm_texts.reach_filled shell_texts.reach_filled profile_texts.reach_filled
      smtp_texts.reach_filled config_texts.reach_filled), assumption, simp add: mounts_fill list_mount_fills config_mount_fills)


text \<open>At its mount, for one; and a text without the value of its placeholder is no filled text.\<close>

lemma console_texts_filled_witness:
  "texts_all (text_ok False) (app_view workflow_app (fst (wf_mount [] [] []))) \<and>
   text_ok False (Tr ''certificate.daysRemaining'' [(''days'', ''5'')]) \<and> \<not> text_ok True (Tr ''certificate.daysRemaining'' [])"
proof (intro conjI)
  have "fills_texts False workflow_app (wf_mount [] [] [])"
    by (rule console_texts_filled [THEN conjunct1])
  moreover have "ui_reach workflow_app (wf_mount [] [] []) (fst (wf_mount [] [] []), snd (wf_mount [] [] []))"
    by (simp add: ui_reach.start)
  ultimately show "texts_all (text_ok False) (app_view workflow_app (fst (wf_mount [] [] [])))"
    unfolding fills_texts_def by blast
qed (simp_all add: keys)

end
