(* ===== verification/Marketing.thy ===== *)
theory Marketing
  imports Runtime Texts
begin

text \<open>
  The public home page: the texts of \<^verbatim>\<open>lib/marketing-copy.ts\<close> in both languages and the views of
  \<^verbatim>\<open>components/marketing\<close>, without their animations and icons. The texts are written as JavaScript's \<open>unescape\<close> reads them,
  like those of \<open>Messages\<close>; an apostrophe is \<open>%27\<close>. An element with an identifier has it in its tag, as in
  \<open>section#workflow\<close>.
\<close>

subsection \<open>The texts\<close>

record marketing_nav =
  nv_capabilities :: string
  nv_workflow :: string
  nv_deployment :: string
  nv_login :: string
  nv_console :: string

record marketing_hero =
  he_eyebrow :: string
  he_title :: string
  he_description :: string
  he_workflow :: string

record marketing_preview =
  pv_area :: string
  pv_title :: string
  pv_create :: string
  pv_overview :: string
  pv_automation :: string
  pv_certificates :: string
  pv_metrics :: "(string \<times> string) list"
  pv_headers :: "string list"
  pv_statuses :: "string list"
  pv_expiry :: "string list"

record marketing_capabilities =
  ca_eyebrow :: string
  ca_title :: string
  ca_description :: string
  ca_items :: "(string \<times> string) list"

record marketing_workflow =
  wk_eyebrow :: string
  wk_title :: string
  wk_description :: string
  wk_deployment :: string
  wk_items :: "(string \<times> string) list"

record marketing_operations =
  op_title :: string
  op_description :: string
  op_items :: "string list"

record marketing_open_source =
  os_eyebrow :: string
  os_title :: string
  os_description :: string
  os_github :: string
  os_quickStart :: string

record marketing_footer =
  ft_description :: string
  ft_docs :: string
  ft_license :: string

record marketing_copy =
  mc_nav :: marketing_nav
  mc_mobileMenu :: string
  mc_hero :: marketing_hero
  mc_preview :: marketing_preview
  mc_coverage_label :: string
  mc_coverage_items :: "string list"
  mc_capabilities :: marketing_capabilities
  mc_workflow :: marketing_workflow
  mc_operations :: marketing_operations
  mc_openSource :: marketing_open_source
  mc_footer :: marketing_footer

definition nav_zh :: "marketing_nav" where
  "nav_zh =
     \<lparr>nv_capabilities = ''%u4EA7%u54C1%u80FD%u529B'',
      nv_workflow = ''%u5DE5%u4F5C%u6D41'',
      nv_deployment = ''%u90E8%u7F72'',
      nv_login = ''%u767B%u5F55'',
      nv_console = ''%u8FDB%u5165%u63A7%u5236%u53F0''\<rparr>"

definition hero_zh :: "marketing_hero" where
  "hero_zh =
     \<lparr>he_eyebrow = ''CERTIFICATE OPERATIONS'',
      he_title = ''%u4ECE%u7B7E%u53D1%u5230%u90E8%u7F72%uFF0C<br />%u8BC1%u4E66%u5168%u7A0B%u53EF%u63A7'',
      he_description = ''%u7EDF%u4E00%u7BA1%u7406 ACME%u3001DNS %u4E0E%u4E91%u51ED%u8BC1%uFF0C%u81EA%u52A8%u7B7E%u53D1%u3001%u7EED%u671F%u5E76%u66F4%u65B0%u963F%u91CC%u4E91 SSL %u548C ALB%u3002'',
      he_workflow = ''%u67E5%u770B%u5DE5%u4F5C%u6D41''\<rparr>"

definition preview_zh :: "marketing_preview" where
  "preview_zh =
     \<lparr>pv_area = ''%u8BC1%u4E66%u8FD0%u7EF4'',
      pv_title = ''%u8BC1%u4E66'',
      pv_create = ''%u65B0%u5EFA%u8BC1%u4E66'',
      pv_overview = ''%u6982%u89C8'',
      pv_automation = ''%u81EA%u52A8%u5316'',
      pv_certificates = ''%u8BC1%u4E66%u8FD0%u7EF4'',
      pv_metrics = [(''%u6709%u6548%u8BC1%u4E66'', ''%u5F53%u524D%u53EF%u7528%u7248%u672C''),
        (''30 %u5929%u5185%u5230%u671F'', ''%u9700%u8981%u5173%u6CE8''),
        (''%u6267%u884C%u4E2D%u7684%u4EFB%u52A1'', ''%u7B7E%u53D1%u4E0E%u90E8%u7F72'')],
      pv_headers = [''%u8BC1%u4E66'',
        ''%u72B6%u6001'',
        ''%u6709%u6548%u671F''],
      pv_statuses = [''%u6709%u6548'',
        ''%u7B7E%u53D1%u4E2D''],
      pv_expiry = [''2027%u5E74 01%u6708 18%u65E5'',
        ''DNS %u9A8C%u8BC1%u4E2D'']\<rparr>"

definition capabilities_zh :: "marketing_capabilities" where
  "capabilities_zh =
     \<lparr>ca_eyebrow = ''%u4E00%u5957%u6E05%u6670%u7684%u63A7%u5236%u9762'',
      ca_title = ''%u51CF%u5C11%u8BC1%u4E66%u94FE%u8DEF%u4E2D%u7684%u4EBA%u5DE5%u65AD%u70B9'',
      ca_description = ''%u5C06%u51ED%u8BC1%u3001%u7B7E%u53D1%u3001%u9A8C%u8BC1%u548C%u4E91%u4E0A%u90E8%u7F72%u6536%u62E2%u5230%u540C%u4E00%u5904%uFF0C%u56E2%u961F%u4E0D%u518D%u4F9D%u8D56%u4E34%u65F6%u811A%u672C%u548C%u4EBA%u5DE5%u4EA4%u63A5%u3002'',
      ca_items = [(''%u51ED%u8BC1%u4E0D%u518D%u6563%u843D'',
         ''%u96C6%u4E2D%u7EF4%u62A4 ACME%u3001DNS %u4E0E%u4E91%u5E73%u53F0%u51ED%u8BC1%uFF0C%u660E%u786E%u6743%u9650%u8FB9%u754C%u5E76%u6301%u7EED%u9A8C%u8BC1%u53EF%u7528%u6027%u3002''),
        (''%u5230%u671F%u524D%u4E3B%u52A8%u5B8C%u6210%u7EED%u671F'',
         ''%u652F%u6301%u591A%u57DF%u540D%u548C%u901A%u914D%u7B26%u8BC1%u4E66%u3002%u6BCF%u6B21%u7B7E%u53D1%u3001%u9A8C%u8BC1%u4E0E%u7EED%u671F%u90FD%u4FDD%u7559%u53EF%u8FFD%u6EAF%u8BB0%u5F55%u3002''),
        (''%u65B0%u7248%u672C%u81EA%u52A8%u4EA4%u4ED8%u81F3%u5165%u53E3'',
         ''%u8BC1%u4E66%u7248%u672C%u53EF%u4E0A%u4F20%u963F%u91CC%u4E91 SSL %u8BC1%u4E66%u7BA1%u7406%uFF0C%u5E76%u66F4%u65B0%u5173%u8054 ALB %u7684%u76D1%u542C%u5668%u3002'')]\<rparr>"

definition workflow_zh :: "marketing_workflow" where
  "workflow_zh =
     \<lparr>wk_eyebrow = ''%u53EF%u8FD0%u884C%u7684%u5DE5%u4F5C%u6D41'',
      wk_title = ''%u914D%u7F6E%u4E00%u6B21%uFF0C%u540E%u7EED%u6BCF%u6B21%u53D8%u66F4%u90FD%u6709%u8BB0%u5F55'',
      wk_description = ''%u7EED%u671F%u3001%u4E91%u8BC1%u4E66%u4E0A%u4F20%u548C ALB %u66F4%u65B0%u53EF%u4EE5%u72EC%u7ACB%u542F%u7528%uFF0C%u4E5F%u53EF%u4EE5%u6309%u987A%u5E8F%u7EC4%u5408%u4E3A%u4E00%u6761%u4EA4%u4ED8%u94FE%u8DEF%u3002'',
      wk_deployment = ''%u4E86%u89E3%u90E8%u7F72%u65B9%u5F0F'',
      wk_items = [(''%u63A5%u5165%u8D26%u6237'',
         ''%u5F55%u5165 ACME%u3001DNS %u4E0E%u4E91%u5E73%u53F0%u51ED%u8BC1%uFF0C%u5E76%u5B8C%u6210%u53EF%u7528%u6027%u9A8C%u8BC1%u3002''),
        (''%u5B9A%u4E49%u8BC1%u4E66'',
         ''%u9009%u62E9%u57DF%u540D%u3001%u7B97%u6CD5%u4E0E%u9A8C%u8BC1%u65B9%u5F0F%uFF0C%u7EDF%u4E00%u7BA1%u7406%u8BC1%u4E66%u7248%u672C%u3002''),
        (''%u7F16%u6392%u81EA%u52A8%u5316'',
         ''%u6309%u9700%u7EED%u671F%u3001%u4E0A%u4F20%u4E91%u8BC1%u4E66%u5E73%u53F0%u6216%u66F4%u65B0 ALB %u914D%u7F6E%u3002''),
        (''%u6301%u7EED%u53EF%u8FFD%u6EAF'',
         ''%u6267%u884C%u7ED3%u679C%u5B9E%u65F6%u56DE%u4F20%uFF0C%u5931%u8D25%u53EF%u901A%u8FC7%u7AD9%u5185%u4FE1%u3001%u90AE%u4EF6%u6216 Webhook %u901A%u77E5%u3002'')]\<rparr>"

definition operations_zh :: "marketing_operations" where
  "operations_zh =
     \<lparr>op_title = ''%u628A%u5F02%u5E38%u7559%u5728%u544A%u8B66%u91CC%uFF0C%u800C%u4E0D%u662F%u7559%u5230%u751F%u4EA7%u4E8B%u6545'',
      op_description = ''%u8BC1%u4E66%u72B6%u6001%u3001%u5230%u671F%u7A97%u53E3%u3001%u81EA%u52A8%u5316%u5065%u5EB7%u5EA6%u548C%u5931%u8D25%u8BE6%u60C5%u96C6%u4E2D%u5C55%u793A%uFF0C%u56E2%u961F%u53EF%u4EE5%u5728%u5F71%u54CD%u4E1A%u52A1%u524D%u5904%u7406%u95EE%u9898%u3002'',
      op_items = [''%u624B%u52A8%u9A8C%u8BC1%u6A21%u5F0F%uFF0C%u652F%u6301%u4EBA%u5DE5%u63A5%u7BA1 DNS Challenge'',
        ''%u8BC1%u4E66%u7248%u672C%u7559%u5B58%uFF0C%u907F%u514D%u91CD%u590D%u521B%u5EFA%u4E91%u7AEF%u8D44%u6E90'',
        ''%u7AD9%u5185%u4FE1%u3001Webhook %u4E0E%u90AE%u4EF6%u7EDF%u4E00%u5206%u53D1%u6267%u884C%u7ED3%u679C'']\<rparr>"

definition open_source_zh :: "marketing_open_source" where
  "open_source_zh =
     \<lparr>os_eyebrow = ''%u5F00%u6E90%u90E8%u7F72'',
      os_title = ''%u7528 Docker %u5728%u81EA%u5DF1%u7684%u73AF%u5883%u90E8%u7F72'',
      os_description = ''CertFlow %u57FA%u4E8E Go%u3001PostgreSQL %u4E0E Next.js %u6784%u5EFA%u3002%u6570%u636E%u3001%u51ED%u8BC1%u548C%u6267%u884C%u8BB0%u5F55%u59CB%u7EC8%u7531%u4F60%u7684%u56E2%u961F%u638C%u63A7%u3002'',
      os_github = ''%u67E5%u770B GitHub'',
      os_quickStart = ''Docker %u5FEB%u901F%u5F00%u59CB''\<rparr>"

definition footer_zh :: "marketing_footer" where
  "footer_zh =
     \<lparr>ft_description = ''%u8BC1%u4E66%u751F%u547D%u5468%u671F%u8FD0%u8425%u5E73%u53F0'',
      ft_docs = ''%u6587%u6863'',
      ft_license = ''%u8BB8%u53EF%u8BC1''\<rparr>"

definition marketing_zh :: marketing_copy where
  "marketing_zh =
     \<lparr>mc_nav = nav_zh, mc_mobileMenu = ''%u6253%u5F00%u5B98%u7F51%u5BFC%u822A'', mc_hero = hero_zh, mc_preview = preview_zh,
      mc_coverage_label = ''%u8986%u76D6%u8BC1%u4E66%u4EA4%u4ED8%u7684%u5173%u952E%u94FE%u8DEF'',
      mc_coverage_items = [''ACME %u7B7E%u53D1'',
        ''DNS-01 %u9A8C%u8BC1'',
        ''%u963F%u91CC%u4E91 SSL'',
        ''ALB %u66F4%u65B0''],
      mc_capabilities = capabilities_zh, mc_workflow = workflow_zh, mc_operations = operations_zh,
      mc_openSource = open_source_zh, mc_footer = footer_zh\<rparr>"

definition nav_en :: "marketing_nav" where
  "nav_en =
     \<lparr>nv_capabilities = ''Capabilities'',
      nv_workflow = ''Workflow'',
      nv_deployment = ''Deploy'',
      nv_login = ''Sign in'',
      nv_console = ''Open console''\<rparr>"

definition hero_en :: "marketing_hero" where
  "hero_en =
     \<lparr>he_eyebrow = ''CERTIFICATE OPERATIONS'',
      he_title = ''Certificates from<br />issuance to ALB'',
      he_description = ''Manage ACME, DNS, and cloud credentials. Automate issuance, renewal, Aliyun SSL uploads, and ALB updates.'',
      he_workflow = ''View workflow''\<rparr>"

definition preview_en :: "marketing_preview" where
  "preview_en =
     \<lparr>pv_area = ''Certificate operations'',
      pv_title = ''Certificates'',
      pv_create = ''New certificate'',
      pv_overview = ''Overview'',
      pv_automation = ''Automation'',
      pv_certificates = ''Certificates'',
      pv_metrics = [(''Active'', ''Current version''),
        (''Expires in 30 days'', ''Needs attention''),
        (''Running'', ''Issuance and delivery'')],
      pv_headers = [''Certificate'',
        ''Status'',
        ''Expiry''],
      pv_statuses = [''Active'',
        ''Issuing''],
      pv_expiry = [''Jan 18, 2027'',
        ''DNS validation'']\<rparr>"

definition capabilities_en :: "marketing_capabilities" where
  "capabilities_en =
     \<lparr>ca_eyebrow = ''One clear control plane'',
      ca_title = ''Remove manual breaks from certificate delivery'',
      ca_description = ''Keep credentials, issuance, validation, and cloud deployment together instead of relying on short-lived scripts and handoffs.'',
      ca_items = [(''Credentials stay governed'',
         ''Maintain ACME, DNS, and cloud credentials in one place with clear access boundaries and live verification.''),
        (''Renew before expiry becomes a task'',
         ''Manage multi-domain and wildcard certificates with a traceable record for every issuance, validation, and renewal.''),
        (''New versions reach the edge'',
         ''Upload certificate versions to Aliyun SSL Certificate Management and update linked ALB listeners.'')]\<rparr>"

definition workflow_en :: "marketing_workflow" where
  "workflow_en =
     \<lparr>wk_eyebrow = ''A workflow that runs'',
      wk_title = ''Configure once. Keep every change traceable.'',
      wk_description = ''Renewal, cloud certificate upload, and ALB updates can run alone or become a connected delivery chain.'',
      wk_deployment = ''Explore deployment'',
      wk_items = [(''Connect accounts'',
         ''Add ACME, DNS, and cloud credentials, then verify that each one is usable.''),
        (''Define certificates'',
         ''Choose domains, algorithms, and validation methods while retaining certificate versions.''),
        (''Compose automation'',
         ''Renew certificates, upload them to cloud certificate platforms, or update ALB configuration.''),
        (''Keep an audit trail'',
         ''Execution outcomes are reported in real time through in-app messages, email, or webhooks.'')]\<rparr>"

definition operations_en :: "marketing_operations" where
  "operations_en =
     \<lparr>op_title = ''Keep exceptions in alerts, not production incidents'',
      op_description = ''Certificate status, expiry windows, automation health, and failure details stay visible before they affect the business.'',
      op_items = [''Manual validation lets operators take over a DNS Challenge'',
        ''Certificate versions prevent duplicate cloud resources'',
        ''In-app, webhook, and email notifications share one execution result'']\<rparr>"

definition open_source_en :: "marketing_open_source" where
  "open_source_en =
     \<lparr>os_eyebrow = ''Open source deployment'',
      os_title = ''Deploy with Docker in your own environment'',
      os_description = ''CertFlow is built with Go, PostgreSQL, and Next.js. Your data, credentials, and execution history stay under your team%27s control.'',
      os_github = ''View GitHub'',
      os_quickStart = ''Docker quick start''\<rparr>"

definition footer_en :: "marketing_footer" where
  "footer_en =
     \<lparr>ft_description = ''Certificate lifecycle operations'',
      ft_docs = ''Documentation'',
      ft_license = ''License''\<rparr>"

definition marketing_en :: marketing_copy where
  "marketing_en =
     \<lparr>mc_nav = nav_en, mc_mobileMenu = ''Open site navigation'', mc_hero = hero_en, mc_preview = preview_en,
      mc_coverage_label = ''The critical path for certificate delivery'',
      mc_coverage_items = [''ACME issuance'',
        ''DNS-01 validation'',
        ''Aliyun SSL'',
        ''ALB updates''],
      mc_capabilities = capabilities_en, mc_workflow = workflow_en, mc_operations = operations_en,
      mc_openSource = open_source_en, mc_footer = footer_en\<rparr>"

definition marketingCopy :: "locale_id \<Rightarrow> marketing_copy" where
  "marketingCopy l = (case l of ZhCN \<Rightarrow> marketing_zh | En \<Rightarrow> marketing_en)"

definition repositoryUrl :: string where
  "repositoryUrl = ''https://github.com/jaysonwu524/certflow''"

definition quickStartUrl :: string where
  "quickStartUrl = ''https://github.com/jaysonwu524/certflow#readme''"

definition documentationUrl :: string where
  "documentationUrl = ''https://github.com/jaysonwu524/certflow/tree/main/docs''"

definition licenseUrl :: string where
  "licenseUrl = ''https://github.com/jaysonwu524/certflow/blob/main/LICENSE''"

text \<open>\<open>s.split(sep)\<close> for a separator that is not empty; \<open>acc\<close> is the part being read, reversed.\<close>

function split_text :: "string \<Rightarrow> string \<Rightarrow> string \<Rightarrow> string list" where
  "split_text sep acc [] = [rev acc]"
| "split_text sep acc (c # s) =
     (if sep \<noteq> [] \<and> prefix sep (c # s) then rev acc # split_text sep [] (drop (length sep) (c # s))
      else split_text sep (c # acc) s)"
  by pat_completeness auto
termination
  by (relation "measure (\<lambda>(sep, acc, s). length s)") auto

text \<open>An element of an array by its index; past the end it is \<open>undefined\<close>.\<close>

definition item_at :: "'a list \<Rightarrow> nat \<Rightarrow> 'a option" where
  "item_at xs n = (if n < length xs then Some (xs ! n) else None)"

subsection \<open>The page\<close>

record marketing_state =
  mk_locale :: locale_state
  mk_pushed :: "string list"
  mk_opened :: "string list"
  mk_scrolled :: "string list"

datatype marketing_event = MkLocale locale_id | MkGo string | MkOpen string | MkScroll string

text \<open>A text that may be undefined: the child of an element is then left out.\<close>

definition text_at :: "string option \<Rightarrow> marketing_event view" where
  "text_at t = (case t of None \<Rightarrow> El [] [] | Some s \<Rightarrow> Txt (Raw s))"

definition marketing_sections :: "marketing_nav \<Rightarrow> (string \<times> string) list" where
  "marketing_sections n =
     [(''#capabilities'', nv_capabilities n), (''#workflow'', nv_workflow n), (''#open-source'', nv_deployment n)]"

definition MarketingHeader :: "locale_id \<Rightarrow> marketing_event view" where
  "MarketingHeader l =
     (let copy = marketingCopy l; n = mc_nav copy
      in El ''header''
       [Button (Raw ''CertFlow home'') False (MkGo ''/''),
        El ''nav'' (map (\<lambda>(i, t). Button (Raw t) False (MkScroll i)) (marketing_sections n)),
        Menu (case l of ZhCN \<Rightarrow> Zh ''zh'' | En \<Rightarrow> Raw ''EN'')
          [(''zh-CN'', Zh ''Simplified Chinese'', False), (''en'', Raw ''English'', False)]
          (\<lambda>k. Some (MkLocale (if k = ''en'' then En else ZhCN))),
        Button (Raw (nv_login n)) False (MkGo ''/login''),
        Button (Raw (nv_console n)) False (MkGo ''/login''),
        Menu (Raw (mc_mobileMenu copy)) (map (\<lambda>(i, t). (i, Raw t, False)) (marketing_sections n)) (\<lambda>k. Some (MkScroll k))])"

definition preview_rows :: "marketing_preview \<Rightarrow> (string \<times> string \<times> string option \<times> string option) list" where
  "preview_rows copy =
     [(''example.com'', ''*.example.com, example.com'', item_at (pv_statuses copy) 0, item_at (pv_expiry copy) 0),
      (''api.example.com'', ''api.example.com'', item_at (pv_statuses copy) 1, item_at (pv_expiry copy) 1)]"

definition preview_metric :: "marketing_preview \<Rightarrow> nat \<Rightarrow> string \<Rightarrow> marketing_event view" where
  "preview_metric copy n v =
     (case item_at (pv_metrics copy) n of
        None \<Rightarrow> El ''throws'' []
      | Some (title, note) \<Rightarrow> El ''div'' [Txt (Raw title), Txt (Raw v), Txt (Raw note)])"

definition preview_row :: "marketing_preview \<Rightarrow> string \<times> string \<times> string option \<times> string option \<Rightarrow> marketing_event view" where
  "preview_row copy row =
     (let (name, domains, st, expiry) = row
      in El ''Table.Row''
       [Txt (Raw name), Txt (Raw domains),
        El ''TagGroup'' [Txt (Zh ''status''),
          El (if st = item_at (pv_statuses copy) 0 then ''Tag success'' else ''Tag progress'') [text_at st]],
        text_at expiry])"

definition MarketingConsolePreview :: "locale_id \<Rightarrow> marketing_event view" where
  "MarketingConsolePreview l =
     (let copy = mc_preview (marketingCopy l)
      in El ''div''
       [Txt (Raw ''CertFlow''), Txt (Raw ''CF''),
        El ''aside'' [Txt (Raw (pv_overview copy)), Txt (Raw (pv_certificates copy)), Txt (Raw (pv_automation copy))],
        El ''section''
         [Txt (Raw (pv_area copy)), Txt (Raw (pv_title copy)), Txt (Raw (pv_create copy)),
          preview_metric copy 0 ''12'', preview_metric copy 1 ''2'', preview_metric copy 2 ''1'',
          El ''Table''
           [El ''Table.Header'' (map (\<lambda>n. text_at (item_at (pv_headers copy) n)) [0, 1, 2]),
            El ''Table.Body'' (map (preview_row copy) (preview_rows copy))]]])"

text \<open>A card of a grid has an icon by its index; without one its rendering throws.\<close>

definition icon_card :: "nat \<Rightarrow> (nat \<times> string \<times> string) \<Rightarrow> marketing_event view" where
  "icon_card icons x =
     (let (n, title, detail) = x
      in if n < icons then El ''article'' [Txt (Raw title), Txt (Raw detail)] else El ''throws'' [])"

definition MarketingCapabilities :: "locale_id \<Rightarrow> marketing_event view" where
  "MarketingCapabilities l =
     (let items = ca_items (mc_capabilities (marketingCopy l))
      in El ''div'' (map (icon_card 3) (zip [0..<length items] items)))"

definition MarketingWorkflow :: "locale_id \<Rightarrow> marketing_event view" where
  "MarketingWorkflow l =
     (let items = wk_items (mc_workflow (marketingCopy l))
      in El ''ol'' (map (icon_card 4) (zip [0..<length items] items)))"

definition marketing_hero_view :: "locale_id \<Rightarrow> marketing_event view" where
  "marketing_hero_view l =
     (let copy = marketingCopy l; h = mc_hero copy; ls = split_text ''<br />'' [] (he_title h)
      in El ''section''
       [Txt (Raw (he_eyebrow h)), El ''h1'' [text_at (item_at ls 0), text_at (item_at ls 1)], Txt (Raw (he_description h)),
        Button (Raw (nv_console (mc_nav copy))) False (MkGo ''/login''),
        Button (Raw (he_workflow h)) False (MkScroll ''#workflow''), MarketingConsolePreview l])"

definition marketing_heading :: "string \<Rightarrow> string \<Rightarrow> string \<Rightarrow> marketing_event view" where
  "marketing_heading eyebrow title description = El ''div'' [Txt (Raw eyebrow), Txt (Raw title), Txt (Raw description)]"

definition marketing_footer_view :: "marketing_footer \<Rightarrow> marketing_event view" where
  "marketing_footer_view f =
     El ''footer''
      [Txt (Raw (ft_description f)), Button (Raw ''GitHub'') False (MkOpen repositoryUrl),
       Button (Raw (ft_docs f)) False (MkOpen documentationUrl), Button (Raw (ft_license f)) False (MkOpen licenseUrl)]"

definition MarketingHome :: "locale_id \<Rightarrow> marketing_event view" where
  "MarketingHome l =
     (let copy = marketingCopy l; ca = mc_capabilities copy; wk = mc_workflow copy; op = mc_operations copy; os = mc_openSource copy
      in El ''main''
       [MarketingHeader l, marketing_hero_view l,
        El ''section'' ([Txt (Raw (mc_coverage_label copy))] @ map (\<lambda>x. Txt (Raw x)) (mc_coverage_items copy)),
        El ''section#capabilities'' [marketing_heading (ca_eyebrow ca) (ca_title ca) (ca_description ca), MarketingCapabilities l],
        El ''section#workflow''
         [marketing_heading (wk_eyebrow wk) (wk_title wk) (wk_description wk),
          Button (Raw (wk_deployment wk)) False (MkScroll ''#open-source''), MarketingWorkflow l],
        El ''section'' ([Txt (Raw (op_title op)), Txt (Raw (op_description op))] @ map (\<lambda>x. Txt (Raw x)) (op_items op)),
        El ''section#open-source''
         [marketing_heading (os_eyebrow os) (os_title os) (os_description os),
          Button (Raw (os_github os)) False (MkOpen repositoryUrl), Button (Raw (os_quickStart os)) False (MkOpen quickStartUrl)],
        marketing_footer_view (mc_footer copy)])"

definition marketing_handle :: "marketing_event \<Rightarrow> marketing_state \<Rightarrow> marketing_state \<times> unit list" where
  "marketing_handle e s =
     (case e of
        MkLocale l \<Rightarrow> s\<lparr>mk_locale := setLocale l (mk_locale s)\<rparr>
      | MkGo p \<Rightarrow> s\<lparr>mk_pushed := mk_pushed s @ [p]\<rparr>
      | MkOpen u \<Rightarrow> s\<lparr>mk_opened := mk_opened s @ [u]\<rparr>
      | MkScroll i \<Rightarrow> s\<lparr>mk_scrolled := mk_scrolled s @ [i]\<rparr>, [])"

definition marketing_app :: "(marketing_state, marketing_event, unit, unit) app" where
  "marketing_app = \<lparr>app_view = (\<lambda>s. MarketingHome (cur_locale (mk_locale s))), app_ambient = (\<lambda>s. {}), app_handle = marketing_handle,
     app_resume = (\<lambda>k r s. (s, [])), app_answers = (\<lambda>k. {}), app_outside = (\<lambda>s. {})\<rparr>"

subsection \<open>Properties\<close>

primrec element_tags :: "'e view \<Rightarrow> string set" where
  "element_tags (Txt t) = {}"
| "element_tags (El tag vs) = insert tag (\<Union> (set (map element_tags vs)))"
| "element_tags (Button l disabled e) = {}"
| "element_tags (Field l v f) = {}"
| "element_tags (Choice l sel disabled items f) = {}"
| "element_tags (Check l v f) = {}"
| "element_tags (Menu l items f) = {}"
| "element_tags (Dialog isOpen title desc close vs footer) =
     (if isOpen then \<Union> (set (map element_tags vs)) \<union> \<Union> (set (map element_tags footer)) else {})"

lemmas copy_texts = marketing_zh_def marketing_en_def capabilities_zh_def capabilities_en_def workflow_zh_def workflow_en_def
  preview_zh_def preview_en_def hero_zh_def hero_en_def operations_zh_def operations_en_def

lemma copy_sizes [simp]:
  "length (ca_items (mc_capabilities (marketingCopy l))) = 3" "length (wk_items (mc_workflow (marketingCopy l))) = 4"
  "length (pv_metrics (mc_preview (marketingCopy l))) = 3" "length (pv_headers (mc_preview (marketingCopy l))) = 3"
  "length (pv_statuses (mc_preview (marketingCopy l))) = 2" "length (pv_expiry (mc_preview (marketingCopy l))) = 2"
  by (cases l; simp add: marketingCopy_def copy_texts)+

lemma copy_nonempty [simp]: "pv_metrics (mc_preview (marketingCopy l)) \<noteq> []"
  by (cases l; simp add: marketingCopy_def copy_texts)

lemma hero_title_lines [simp]: "length (split_text ''<br />'' [] (he_title (mc_hero (marketingCopy l)))) = 2"
  by (cases l; simp add: marketingCopy_def copy_texts)

lemma icon_cards:
  "length items \<le> n \<Longrightarrow> ''throws'' \<notin> \<Union> (element_tags ` icon_card n ` set (zip [0..<length items] items))"
  by (auto simp: icon_card_def dest!: set_zip_leftD)

text \<open>
  The home page renders in both languages: no array is read past its end, so nothing throws, no text is left
  out, and the title has its two lines.
\<close>

lemma marketing_renders: "''throws'' \<notin> element_tags (MarketingHome l)"
proof -
  have "''throws'' \<notin> element_tags (MarketingCapabilities l)" "''throws'' \<notin> element_tags (MarketingWorkflow l)"
    using icon_cards [of "ca_items (mc_capabilities (marketingCopy l))" 3] icon_cards [of "wk_items (mc_workflow (marketingCopy l))" 4]
    by (simp_all add: MarketingCapabilities_def MarketingWorkflow_def Let_def image_image)
  moreover have "''throws'' \<notin> element_tags (MarketingConsolePreview l)"
    by (auto simp: MarketingConsolePreview_def preview_metric_def preview_row_def preview_rows_def item_at_def text_at_def Let_def
      split: option.splits prod.splits if_splits)
  ultimately show ?thesis
    by (auto simp: MarketingHome_def marketing_hero_view_def MarketingHeader_def marketing_heading_def marketing_footer_view_def
      item_at_def text_at_def Let_def split: option.splits)
qed

text \<open>Every link within the page leads to a section that the page has.\<close>

lemma marketing_links_resolve:
  assumes "MkScroll i \<in> offered (MarketingHome l)"
  shows "''section'' @ i \<in> element_tags (MarketingHome l)"
proof -
  have none: "MkScroll i \<notin> offered (MarketingConsolePreview l)" "MkScroll i \<notin> offered (MarketingCapabilities l)"
      "MkScroll i \<notin> offered (MarketingWorkflow l)"
    by (auto simp: MarketingConsolePreview_def preview_metric_def preview_row_def preview_rows_def text_at_def MarketingCapabilities_def
      MarketingWorkflow_def icon_card_def Let_def split: option.splits prod.splits if_splits)
  then have "i = ''#capabilities'' \<or> i = ''#workflow'' \<or> i = ''#open-source''"
    using assms by (auto simp: MarketingHome_def MarketingHeader_def marketing_sections_def marketing_hero_view_def marketing_heading_def
      marketing_footer_view_def text_at_def Let_def split: option.splits)
  then show ?thesis by (auto simp: MarketingHome_def Let_def)
qed

end
