(* ===== verification/Spec2Isabelle.thy ===== *)
theory Spec2Isabelle
  imports Routing Session Server_Data Certificate_List_Facts Certificate_Detail Certificate_Workflow
    Deployment_Facts Deployment_Editor_Facts Executions Credentials Auth_Facts Shell_Facts
    Notification_Facts Dashboard_Facts Profile_Facts Smtp_Settings Request_Chains Text_Facts
    Configuration_Facts Marketing
begin

text \<open>
  CertFlow is a service that obtains, renews and deploys TLS certificates. This library models its
  web console, the TypeScript program under \<^verbatim>\<open>src/apps/console\<close>: a Next.js application whose
  pages load data on the server, whose client components keep state and send requests, and whose
  API routes forward those requests to the control plane, a Go service outside the model. Paths
  below are relative to \<^verbatim>\<open>src/apps/console\<close>.

  Parts, and where they are modelled:
  \<^item> Foundations. \<open>Prelude\<close> has the association lists and slices, \<open>Js_Strings\<close> the JavaScript string
    and number functions the code calls, \<open>Texts\<close> the translation function and the locale state
    (\<^verbatim>\<open>components/providers/locale-provider.tsx\<close>, \<^verbatim>\<open>lib/presentation.ts\<close>, \<^verbatim>\<open>lib/error-message.ts\<close>),
    \<open>Messages\<close> its dictionary in both languages,
    \<open>Resources\<close> the types of \<^verbatim>\<open>lib/api.ts\<close>, \<open>Views\<close> the rendered tree with the controls it offers and
    the shared components of \<^verbatim>\<open>components/ui\<close>, \<open>Runtime\<close> the step relation of a component with its
    waiting requests, the restriction of its server's answers and the contract of a busy flag.
  \<^item> Transport. \<open>Http\<close> is \<^verbatim>\<open>lib/api-client.ts\<close> and \<^verbatim>\<open>lib/api-error.ts\<close>; \<open>Bff\<close> is \<^verbatim>\<open>lib/api-proxy.ts\<close> and
    every route file of \<^verbatim>\<open>app/api\<close>; \<open>Routing\<close> the choice of the route file by the URL and the path at which a forwarded request arrives; \<open>Session\<close> the
    middleware \<^verbatim>\<open>proxy.ts\<close>; \<open>Server_Data\<close> the getters of \<^verbatim>\<open>lib/api.ts\<close> and the pages that load data.
  \<^item> Certificates. \<open>Domains\<close> is the domain field with the two validators (wizard and edit form) and the reference both word, \<open>Expiry\<close> the dates and marks,
    \<open>Certificate_Edit\<close> the edit form, \<open>Certificate_Detail\<close> the panels, \<open>Certificate_List\<close> the list with
    its dialogs (\<^verbatim>\<open>features/certificates/components/certificate-list.tsx\<close>) and \<open>Certificate_List_Facts\<close>
    its properties, \<open>Certificate_Workflow\<close> the creation wizard (\<^verbatim>\<open>certificate-workflow.tsx\<close>).
  \<^item> Automation. \<open>Deployments\<close> has the state and the operations of
    \<^verbatim>\<open>features/automations/components/deployment-manager.tsx\<close>, \<open>Deployment_App\<close> its effects, events and
    views, \<open>Deployment_Facts\<close> and \<open>Deployment_Editor_Facts\<close> its properties; \<open>Executions\<close> is
    \<^verbatim>\<open>execution-list.tsx\<close>; \<open>Pagination\<close> the pager that all lists share.

  \<^item> Credentials (\<^verbatim>\<open>features/credentials/components\<close>). \<open>Managers\<close> is the code that the three
    managers repeat word for word; \<open>Cloud_Credentials\<close>, \<open>Acme_Accounts\<close> and \<open>Dns_Accounts\<close> are
    \<^verbatim>\<open>cloud-credential-manager.tsx\<close>, \<^verbatim>\<open>acme-account-manager.tsx\<close> and \<^verbatim>\<open>dns-account-manager.tsx\<close>, the last
    one with the zone picker and its effect; \<open>Credentials\<close> has what holds of all three. \<open>Configuration\<close> is their
    predecessor \<^verbatim>\<open>features/settings/components/configuration-manager.tsx\<close>, which nothing imports any more,
    \<open>Configuration_Facts\<close> its properties.
  \<^item> Sessions and frame. \<open>Auth\<close> is the login and the registration form with their hooks
    (\<^verbatim>\<open>features/auth/components/auth-forms.tsx\<close>), \<open>Auth_Facts\<close> their properties; \<open>Shell\<close> is
    \<^verbatim>\<open>components/layout/app-shell.tsx\<close>, \<open>Theme\<close> the theme provider with the colour accent,
    \<open>Shell_Facts\<close> the properties of the frame; \<open>Realtime\<close> is \<^verbatim>\<open>realtime-events.tsx\<close>, \<open>Notifications\<close> the notification center and
    \<open>Notification_Facts\<close> its properties; \<open>Query_Strings\<close> reads a query back.
  \<^item> Dashboards and account pages. \<open>Calendar\<close> is the local calendar, \<open>Charts\<close>, \<open>Dashboard\<close> and \<open>Admin_Dashboard\<close> the
    dashboards of \<^verbatim>\<open>components/charts\<close> and \<^verbatim>\<open>components/dashboard\<close>, \<open>Chart_Facts\<close> and \<open>Dashboard_Facts\<close> their
    properties; \<open>Profile\<close> and \<open>Smtp_Settings\<close> are \<^verbatim>\<open>app/profile/page.tsx\<close> and \<^verbatim>\<open>app/settings/page.tsx\<close>.
    \<open>Marketing\<close> is the public home page (\<^verbatim>\<open>components/marketing\<close>, \<^verbatim>\<open>lib/marketing-copy.ts\<close>).

  How state corresponds. A component is a record with one field per \<open>useState\<close> and per prop, the
  search parameters of the page and, where effects are cancelled, a run number per effect. A handler
  is a function from the state to the state at its first \<open>await\<close> and the requests sent; the
  rest of it is a continuation of that request with the values its closure captured. Any reply
  may come at any time, in any order, after any further events.

  What the lemmas show. The facts on \<open>offered\<close> tell which events a view can dispatch in a state; the
  locales \<open>paged_view\<close>, \<open>single_flight\<close> and \<open>releasing_flight\<close> hold what the pagers and the busy flags
  share, \<open>ending_chains\<close> that the replies of a component send only requests of less weight, each
  interpreted on every component that promises it (\<open>Request_Chains\<close> has the last one). The properties are marked with a
  claim number; those that follow one component through others (a request through the routing to
  the control plane, the link of a notification to the certificate page) are in \<open>Credentials\<close>,
  \<open>Realtime\<close>, \<open>Notification_Facts\<close> and this theory.

  Bounds and abstractions. Strings are lists of characters below 256. The URL changes at once when
  the router is called. A modal dialog does not hide the page behind it from the events: more
  events are possible than in a browser, so the invariants hold for it too. The HTML constraints
  of inputs are not enforced, but for those of the mail server settings, whose submission depends on them. Chinese literals appear as English glosses under \<open>Zh\<close>, read by a
  parameter; in \<open>Messages\<close> the Chinese texts are the source's own, a character outside ASCII written \<open>%u\<close> with four
  hexadecimal digits. What a view shows is a \<open>label\<close>; \<open>show_text\<close> reads it by a \<open>reading\<close>, whose dictionary is
  \<open>message_text\<close>. Parameters stand for fetch, the readings of JSON bodies as types, the
  date formats, the number texts, the CSS values of the chart colours, the time zone, the collator, \<^verbatim>\<open>JSON.parse\<close>, the clock, the request identifier and the base URL. Recursion is
  structural or has a termination proof; no fuel is used.

  Not modelled: the Go control plane, styles, icons, animations and the painting of the charts. The manifest lists every part.
\<close>

section \<open>Properties that span components\<close>

text \<open>The identifiers a request of a component puts into its URL.\<close>

definition cl_call_id :: "cl_call \<Rightarrow> string" where
  "cl_call_id k =
     (case k of KDetail n i \<Rightarrow> i | KSave c ps y \<Rightarrow> cert_id c | KDelete c sel ps \<Rightarrow> cert_id c | KIssue c \<Rightarrow> cert_id c)"

definition dm_call_ids :: "dm_call \<Rightarrow> string list" where
  "dm_call_ids k =
     (case k of
        KSaveTask i y \<Rightarrow> if i = [] then [] else [i]
      | KRun i \<Rightarrow> [i]
      | KToggle t \<Rightarrow> [task_id t]
      | KDeleteTask i ps \<Rightarrow> [i]
      | KRegions n c \<Rightarrow> [c]
      | KBalancers n c rg \<Rightarrow> [c]
      | KListeners n c rg b \<Rightarrow> [c, b]
      | KRuns n i \<Rightarrow> [i]
      | _ \<Rightarrow> [])"

definition dm_call_query :: "dm_call \<Rightarrow> (string \<times> string) list" where
  "dm_call_query k =
     (case k of
        KBalancers n c rg \<Rightarrow> [(''regionId'', rg)]
      | KListeners n c rg b \<Rightarrow> [(''regionId'', rg)]
      | _ \<Rightarrow> [])"

lemma reaches_certificates:
  assumes "path_segment i"
  shows "in_method r \<in> {GET, PATCH, DELETE} \<Longrightarrow> reaches_api r (''/api/certificates/'' @ i)"
    and "in_method r = POST \<Longrightarrow> reaches_api r (''/api/certificates/'' @ i @ ''/issue'')"
    and "in_method r = GET \<Longrightarrow> reaches_api r (''/api/certificates/'' @ i @ ''/versions'')"
    and "in_method r = GET \<Longrightarrow> reaches_api r (''/api/certificates/'' @ i @ ''/relations'')"
    and "in_method r = GET \<Longrightarrow> reaches_api r (''/api/certificates/'' @ i @ ''/manual-challenge'')"
    and "in_method r = POST \<Longrightarrow> reaches_api r (''/api/certificates/'' @ i @ ''/manual-challenge/continue'')"
    and "in_method r = GET \<Longrightarrow> reaches_api r (''/api/certificates/'' @ i @ ''/manual-challenge/check'')"
    and "in_method r = POST \<Longrightarrow> reaches_api r ''/api/certificates''"
  by (auto simp: reaches_api_def api_segments_urls [OF assms] api_segments_one route_of_def serve_route_def
      route_defs Let_def)

lemma reaches_automations:
  assumes "path_segment i"
  shows "in_method r \<in> {GET, PATCH, DELETE} \<Longrightarrow> reaches_api r (''/api/automations/'' @ i)"
    and "in_method r = POST \<Longrightarrow> reaches_api r (''/api/automations/'' @ i @ ''/run'')"
    and "in_method r = GET \<Longrightarrow> reaches_api r (''/api/automations/'' @ i @ ''/runs'')"
    and "in_method r \<in> {GET, POST} \<Longrightarrow> reaches_api r ''/api/automations''"
  by (auto simp: reaches_api_def api_segments_urls [OF assms] api_segments_one route_of_def serve_route_def
      route_defs Let_def)

lemma reaches_alb:
  assumes "path_segment i" "in_method r = GET"
  shows "reaches_api r (''/api/cloud-credentials/'' @ i @ ''/alb/regions'')"
    and "in_query r = [(''regionId'', rg)] \<Longrightarrow>
      reaches_api r (''/api/cloud-credentials/'' @ i @ ''/alb/load-balancers?regionId='' @ encodeURIComponent rg)"
    and "path_segment b \<Longrightarrow> in_query r = [(''regionId'', rg)] \<Longrightarrow>
      reaches_api r (''/api/cloud-credentials/'' @ i @ ''/alb/load-balancers/'' @ b @ ''/listeners?regionId='' @
        encodeURIComponent rg)"
  using assms(2) by (auto simp: reaches_api_def api_segments_urls [OF assms(1)] api_segments_listeners_url [OF assms(1)] route_of_def serve_route_def
      route_defs query_or_empty_def Let_def)

text \<open>
  C13. Every request about a certificate reaches the control plane: whatever the certificate list, the
  overview, the manual validation panel or the creation wizard sends for a certificate whose
  identifier is one path segment, a route file exports its method and forwards it to the same path
  of the control plane; no request ends in a 404 or a 405 of the console itself.
\<close>

theorem certificate_requests_reach_api:
  assumes "path_segment i"
    and "(\<exists>k. cl_call_id k = i \<and> cl_request k = (method_name (in_method r), u)) \<or>
      (\<exists>k s. mv_certificateId s = i \<and> manual_request k s = (method_name (in_method r), u)) \<or>
      (in_method r = GET \<and> u \<in> set (overview_requests i)) \<or>
      (\<exists>k. wf_request k = (method_name (in_method r), u))"
  shows "reaches_api r u"
  using assms(2)
proof (elim disjE exE conjE)
  fix k
  assume "cl_call_id k = i" "cl_request k = (method_name (in_method r), u)"
  then show ?thesis
    using reaches_certificates(1,2) [OF assms(1), of r]
    by (cases k) (auto simp: cl_call_id_def cl_request_def eq_commute [of _ "method_name _"])
next
  fix k s
  assume "mv_certificateId s = i" "manual_request k s = (method_name (in_method r), u)"
  then show ?thesis
    using reaches_certificates(5,6,7) [OF assms(1), of r]
    by (cases k) (auto simp: manual_request_def Let_def eq_commute [of _ "method_name _"])
next
  assume "in_method r = GET" "u \<in> set (overview_requests i)"
  then show ?thesis
    using reaches_certificates(3,4) [OF assms(1), of r] by (auto simp: overview_requests_def)
next
  fix k
  assume "wf_request k = (method_name (in_method r), u)"
  then show ?thesis
    using reaches_certificates(8) [OF assms(1), of r]
    by (cases k) (auto simp: wf_request_def eq_commute [of _ "method_name _"])
qed

lemma certificate_requests_reach_api_witness:
  "reaches_api \<lparr>in_method = POST, in_segments = [], in_query = [], in_headers = [], in_text = []\<rparr>
     ''/api/certificates/c1/issue''"
proof (rule certificate_requests_reach_api)
  show "path_segment ''c1''" by code_simp
  have "cl_call_id (KIssue sample_certificate) = ''c1'' \<and> cl_request (KIssue sample_certificate) =
      (method_name POST, ''/api/certificates/c1/issue'')"
    by (simp add: cl_call_id_def cl_request_def sample_certificate_def method_name_def)
  then show "(\<exists>k. cl_call_id k = ''c1'' \<and> cl_request k = (method_name (in_method
        \<lparr>in_method = POST, in_segments = [], in_query = [], in_headers = [], in_text = []\<rparr>), ''/api/certificates/c1/issue'')) \<or>
      (\<exists>k s. mv_certificateId s = ''c1'' \<and> manual_request k s = (method_name (in_method
        \<lparr>in_method = POST, in_segments = [], in_query = [], in_headers = [], in_text = []\<rparr>), ''/api/certificates/c1/issue'')) \<or>
      (in_method \<lparr>in_method = POST, in_segments = [], in_query = [], in_headers = [], in_text = []\<rparr> = GET \<and>
        ''/api/certificates/c1/issue'' \<in> set (overview_requests ''c1'')) \<or>
      (\<exists>k. wf_request k = (method_name (in_method
        \<lparr>in_method = POST, in_segments = [], in_query = [], in_headers = [], in_text = []\<rparr>), ''/api/certificates/c1/issue''))"
    by auto
qed

text \<open>
  C14. Every request of the automation page reaches the control plane: with identifiers that are path
  segments, each call of the deployment manager is served by a route file that exports its method
  and forwards it to the same path and the same encoded query, the region included.
\<close>

theorem task_requests_reach_api:
  assumes "list_all path_segment (dm_call_ids k)"
    and "dm_request encodeURIComponent k = (method_name (in_method r), u)"
    and "in_query r = dm_call_query k"
  shows "reaches_api r u"
proof -
  note simps = dm_request_def dm_call_ids_def dm_call_query_def eq_commute [of _ "method_name _"]
  have any: "path_segment ''x''" by code_simp
  show ?thesis
  proof (cases k)
    case (KSaveTask i y)
    then show ?thesis
      using assms reaches_automations [of i r] reaches_automations(4) [OF any, of r]
      by (auto simp: simps split: if_splits)
  next
    case KReloadAfterSave
    then show ?thesis using assms reaches_automations(4) [OF any, of r] by (auto simp: simps)
  next
    case KReload
    then show ?thesis using assms reaches_automations(4) [OF any, of r] by (auto simp: simps)
  next
    case (KRun i)
    then show ?thesis using assms reaches_automations(2) [of i r] by (auto simp: simps)
  next
    case (KToggle t)
    then show ?thesis using assms reaches_automations(1) [of "task_id t" r] by (auto simp: simps)
  next
    case (KDeleteTask i ps)
    then show ?thesis using assms reaches_automations(1) [of i r] by (auto simp: simps)
  next
    case (KRegions n c)
    then show ?thesis using assms reaches_alb(1) [of c r] by (auto simp: simps)
  next
    case (KBalancers n c rg)
    then show ?thesis using assms reaches_alb(2) [of c r rg] by (auto simp: simps)
  next
    case (KListeners n c rg b)
    then show ?thesis using assms reaches_alb(3) [of c r b rg] by (auto simp: simps)
  next
    case (KRuns n i)
    then show ?thesis using assms reaches_automations(3) [of i r] by (auto simp: simps)
  qed
qed

lemma task_requests_reach_api_witness:
  "reaches_api \<lparr>in_method = GET, in_segments = [], in_query = [(''regionId'', ''eu/1'')], in_headers = [], in_text = []\<rparr>
     ''/api/cloud-credentials/k1/alb/load-balancers?regionId=eu%2F1''"
proof (rule task_requests_reach_api [of "KBalancers 1 ''k1'' ''eu/1''"])
  show "list_all path_segment (dm_call_ids (KBalancers 1 ''k1'' ''eu/1''))"
    by (simp add: dm_call_ids_def) code_simp
  have "encodeURIComponent ''eu/1'' = ''eu%2F1''" by code_simp
  then show "dm_request encodeURIComponent (KBalancers 1 ''k1'' ''eu/1'') = (method_name (in_method
      \<lparr>in_method = GET, in_segments = [], in_query = [(''regionId'', ''eu/1'')], in_headers = [], in_text = []\<rparr>),
      ''/api/cloud-credentials/k1/alb/load-balancers?regionId=eu%2F1'')"
    by (simp add: dm_request_def method_name_def)
qed (simp add: dm_call_query_def)

end
